(* ===== verification/Prelude.thy ===== *)
theory Prelude
  imports Main "HOL-Library.State_Monad"
begin

text \<open>
  The Go conventions every component of the module shares, and the interfaces (locales) several
  components implement.

  \<^item> Values: error values with their wrapping chain, several results as tuples, pointers as
    \<open>option\<close> (nil is \<open>None\<close>), opaque SDK structs as \<open>json\<close> trees, and \<open>outcome\<close> for the
    functions that may panic.
  \<^item> Effects: a call that leaves the process (an SDK client, a database, the file system) is a
    parameter of type \<open>('w, 'a) state\<close> of HOL-Library.State_Monad over an arbitrary world \<open>'w\<close>.
  \<^item> Interfaces: functional options (\<open>func_options\<close>) and the once-only global helper
    (\<open>global_helper\<close>), two idioms almost every package repeats; each is verified once here and
    interpreted on the definitions of each package. The loop idioms are in theory \<open>Loops\<close>.
\<close>

section \<open>Values\<close>

datatype json =
    JNull
  | JBool bool
  | JNum int
  | JStr string
  | JArr "json list"
  | JObj "(string \<times> json) list"

text \<open>
  An \<open>error\<close> value: a text made by \<open>errors.New\<close> or \<open>fmt.Errorf\<close> without \<open>%w\<close>, a sentinel (a
  package variable, compared by identity), a typed API error of an SDK, or a text wrapped around
  another error (\<open>fmt.Errorf\<close> with \<open>%w\<close>, \<open>errors.Wrapf\<close>). A nil error is \<open>None\<close>.
\<close>

datatype go_error =
    ErrText string
  | Sentinel string
  | APIError int string
  | Wrapped string go_error

type_synonym 'a res = "'a \<times> go_error option"

fun err_msg :: "go_error \<Rightarrow> string" where
  "err_msg (ErrText s) = s"
| "err_msg (Sentinel s) = s"
| "err_msg (APIError c s) = s"
| "err_msg (Wrapped s e) = s"

text \<open>\<open>errors.Is\<close> against a sentinel and \<open>errors.As\<close> to an API error walk the chain.\<close>

fun errors_Is :: "go_error \<Rightarrow> go_error \<Rightarrow> bool" where
  "errors_Is (Wrapped s e) t = (Wrapped s e = t \<or> errors_Is e t)"
| "errors_Is e t = (e = t)"

fun errors_As_API :: "go_error \<Rightarrow> (int \<times> string) option" where
  "errors_As_API (Wrapped s e) = errors_As_API e"
| "errors_As_API (APIError c s) = Some (c, s)"
| "errors_As_API e = None"

definition errors_Wrapf :: "go_error \<Rightarrow> string \<Rightarrow> go_error" where
  "errors_Wrapf e msg = Wrapped (msg @ '': '' @ err_msg e) e"

text \<open>A panic ends the call; the code of this module never recovers from one.\<close>

datatype go_panic = NilDereference | IndexOutOfRange | PanicValue go_error

datatype 'a outcome = Return 'a | Panic go_panic

text \<open>Dereferencing a pointer, and continuing after a call that may have panicked.\<close>

definition deref :: "'p option \<Rightarrow> ('p \<Rightarrow> ('w, 'a outcome) state) \<Rightarrow> ('w, 'a outcome) state" where
  "deref p k = (case p of None \<Rightarrow> State_Monad.return (Panic NilDereference) | Some x \<Rightarrow> k x)"

definition proceed :: "'p outcome \<Rightarrow> ('p \<Rightarrow> ('w, 'a outcome) state) \<Rightarrow> ('w, 'a outcome) state" where
  "proceed r k = (case r of Panic p \<Rightarrow> State_Monad.return (Panic p) | Return x \<Rightarrow> k x)"

lemma deref_simps [simp]:
  "deref None k = State_Monad.return (Panic NilDereference)"
  "deref (Some x) k = k x"
  by (simp_all add: deref_def)

lemma proceed_simps [simp]:
  "proceed (Panic p) k = State_Monad.return (Panic p)"
  "proceed (Return x) k = k x"
  by (simp_all add: proceed_def)

text \<open>
  A method call through an interface or pointer field of a struct: calling through nil panics.
\<close>

definition on_client :: "'c option \<Rightarrow> ('c \<Rightarrow> ('w, 'a) state) \<Rightarrow> ('w, 'a outcome) state" where
  "on_client c call = deref c (\<lambda>x. State_Monad.bind (call x) (\<lambda>r. State_Monad.return (Return r)))"

lemma on_client_simps [simp]:
  "on_client None call = State_Monad.return (Panic NilDereference)"
  "run_state (on_client (Some x) call) w =
     (case run_state (call x) w of (r, w') \<Rightarrow> (Return r, w'))"
  by (simp_all add: on_client_def split: prod.splits)

text \<open>Dropping the value of a call and keeping its error: \<open>_, err := call()\<close>.\<close>

definition only_err :: "('w, 'a res) state \<Rightarrow> ('w, go_error option) state" where
  "only_err call = State_Monad.bind call (\<lambda>(_, err). State_Monad.return err)"

lemma run_only_err [simp]:
  "run_state (only_err call) w = (case run_state call w of ((_, err), w') \<Rightarrow> (err, w'))"
  by (simp add: only_err_def split: prod.splits)

lemma errors_Wrapf_simps [simp]:
  "errors_Is (errors_Wrapf e m) (Sentinel s) = errors_Is e (Sentinel s)"
  "errors_As_API (errors_Wrapf e m) = errors_As_API e"
  "err_msg (errors_Wrapf e m) = m @ '': '' @ err_msg e"
  by (simp_all add: errors_Wrapf_def)

text \<open>
  The slice or value part of a failed call is its type's zero value, so most callers only look
  at the error: \<open>if err != nil { return nil, err }\<close>.
\<close>

definition on_err :: "go_error option \<Rightarrow> ('w, 'a) state \<Rightarrow> (go_error \<Rightarrow> 'a) \<Rightarrow> ('w, 'a) state" where
  "on_err err ok bad = (case err of Some e \<Rightarrow> State_Monad.return (bad e) | None \<Rightarrow> ok)"

lemma on_err_simps [simp]:
  "on_err None ok bad = ok"
  "on_err (Some e) ok bad = State_Monad.return (bad e)"
  by (simp_all add: on_err_def)

lemma run_on_err:
  "run_state (on_err err ok bad) w = (case err of Some e \<Rightarrow> (bad e, w) | None \<Rightarrow> run_state ok w)"
  by (cases err) simp_all

lemma run_state_bind_eq:
  "run_state m w = (x, w') \<Longrightarrow> run_state (State_Monad.bind m f) w = run_state (f x) w'"
  by simp

lemma find_append: "List.find P (xs @ ys) = (case List.find P xs of Some x \<Rightarrow> Some x | None \<Rightarrow> List.find P ys)"
  by (induction xs) simp_all

section \<open>Decoded values\<close>

text \<open>
  Reading a field of a decoded JSON value; a field that is absent or of another kind is the zero
  value of its Go type.
\<close>

definition get_field :: "string \<Rightarrow> json \<Rightarrow> json" where
  "get_field k x = (case x of JObj kvs \<Rightarrow> (case map_of kvs k of Some v \<Rightarrow> v | None \<Rightarrow> JNull) | _ \<Rightarrow> JNull)"

definition get_str :: "string \<Rightarrow> json \<Rightarrow> string" where
  "get_str k x = (case get_field k x of JStr s \<Rightarrow> s | _ \<Rightarrow> [])"

definition get_bool :: "string \<Rightarrow> json \<Rightarrow> bool" where
  "get_bool k x = (case get_field k x of JBool b \<Rightarrow> b | _ \<Rightarrow> False)"

definition get_arr :: "string \<Rightarrow> json \<Rightarrow> json list" where
  "get_arr k x = (case get_field k x of JArr xs \<Rightarrow> xs | _ \<Rightarrow> [])"

section \<open>Functional options\<close>

text \<open>
  Every package has \<open>type Option func(*Options)\<close> and a loop \<open>for _, o := range opts { o(options) }\<close>
  over a fresh \<open>Options\<close> value with the package's defaults.
\<close>

definition apply_options :: "('o \<Rightarrow> 'o) list \<Rightarrow> 'o \<Rightarrow> 'o" where
  "apply_options opts o0 = foldl (\<lambda>o1 opt. opt o1) o0 opts"

lemma apply_options_simps [simp]:
  "apply_options [] o0 = o0"
  "apply_options (opt # opts) o0 = apply_options opts (opt o0)"
  by (simp_all add: apply_options_def)

lemma apply_options_append [simp]:
  "apply_options (xs @ ys) o0 = apply_options ys (apply_options xs o0)"
  by (simp add: apply_options_def)

lemma apply_options_frame:
  "(\<And>opt o1. opt \<in> set opts \<Longrightarrow> get (opt o1) = get o1) \<Longrightarrow> get (apply_options opts o0) = get o0"
  by (induction opts arbitrary: o0) auto

locale func_options =
  fixes init :: "('o \<Rightarrow> 'o) list \<Rightarrow> 'o" and default :: "'o"
  assumes init_nil: "init [] = default"
    and init_snoc: "init (opts @ [opt]) = opt (init opts)"
begin

lemma init_eq: "init opts = apply_options opts default"
  by (induction opts rule: rev_induct) (simp_all add: init_nil init_snoc)

lemma init_append: "init (xs @ ys) = apply_options ys (init xs)"
  by (simp add: init_eq)

text \<open>A field no option writes keeps its default.\<close>

lemma default_kept:
  assumes "\<And>opt o1. opt \<in> set opts \<Longrightarrow> get (opt o1) = get o1"
  shows "get (init opts) = get default"
  unfolding init_eq by (rule apply_options_frame) (rule assms)

text \<open>The last option that writes a field decides its value.\<close>

lemma last_writer:
  assumes "\<And>o1. get (opt o1) = v" and "\<And>opt o1. opt \<in> set ys \<Longrightarrow> get (opt o1) = get o1"
  shows "get (init (xs @ opt # ys)) = v"
proof -
  have "get (apply_options ys o1) = get o1" for o1
    by (rule apply_options_frame) (rule assms(2))
  then show ?thesis by (simp add: init_eq assms(1))
qed

end

section \<open>The once-only global helper\<close>

text \<open>
  The package variables \<open>once sync.Once\<close> and \<open>helper\<close>. \<open>once.Do(f)\<close> runs \<open>f\<close> in the first call
  only; \<open>NewGlobalHelper\<close> returns the error \<open>f\<close> left in a variable of that call.
\<close>

record 'h globals =
  once_done :: bool
  helper :: "'h option"

definition once_init :: "'h globals" where
  "once_init = \<lparr>once_done = False, helper = None\<rparr>"

definition once_Do ::
  "('w, 'h option res) state \<Rightarrow> ('h globals \<times> 'w, go_error option) state" where
  "once_Do new = State (\<lambda>(g, w).
     if once_done g then (None, (g, w))
     else (case run_state new w of ((h, err), w') \<Rightarrow>
             (err, (g\<lparr>once_done := True, helper := h\<rparr>, w'))))"

lemma run_once_Do [simp]:
  "run_state (once_Do new) (g, w) =
     (if once_done g then (None, (g, w))
      else (case run_state new w of ((h, err), w') \<Rightarrow>
              (err, (g\<lparr>once_done := True, helper := h\<rparr>, w'))))"
  by (simp add: once_Do_def)

locale global_helper =
  fixes new_global :: "'o \<Rightarrow> ('h globals \<times> 'w, go_error option) state"
    and new_helper :: "'o \<Rightarrow> ('w, 'h option res) state"
    and get_global :: "'h globals \<Rightarrow> 'h option"
  assumes first_call: "\<not> once_done g \<Longrightarrow> run_state (new_helper opts) w = ((h, err), w') \<Longrightarrow>
      run_state (new_global opts) (g, w) = (err, (g\<lparr>once_done := True, helper := h\<rparr>, w'))"
    and later_call: "once_done g \<Longrightarrow> run_state (new_global opts) (g, w) = (None, (g, w))"
    and get_global: "get_global g = helper g"
begin

text \<open>A second call changes nothing and reports success, whatever its options.\<close>

lemma second_call:
  assumes "run_state (new_global opts) (g, w) = (err, (g', w'))"
  shows "run_state (new_global opts') (g', w') = (None, (g', w'))"
proof -
  have "once_done g'"
  proof (cases "once_done g")
    case True
    with assms later_call [OF True] show ?thesis by simp
  next
    case False
    obtain h e w1 where "run_state (new_helper opts) w = ((h, e), w1)"
      by (metis prod.exhaust)
    from assms first_call [OF False this] show ?thesis by auto
  qed
  then show ?thesis by (rule later_call)
qed

text \<open>
  After a first call that failed with no helper, the global helper stays nil although every
  later call reports success.
\<close>

lemma failed_init_sticks:
  assumes "\<not> once_done g" and "run_state (new_helper opts) w = ((None, Some e), w')"
  shows "\<exists>g'. run_state (new_global opts) (g, w) = (Some e, (g', w'))
    \<and> run_state (new_global opts') (g', v) = (None, (g', v)) \<and> get_global g' = None"
  using first_call [OF assms] later_call [of "g\<lparr>once_done := True, helper := None\<rparr>" opts' v]
  by (simp add: get_global)

lemma good_init:
  assumes "\<not> once_done g" and "run_state (new_helper opts) w = ((Some h, None), w')"
  shows "\<exists>g'. run_state (new_global opts) (g, w) = (None, (g', w')) \<and> get_global g' = Some h"
  using first_call [OF assms] by (simp add: get_global)

end

end
