(* ===== verification/Wait.thy ===== *)
theory Wait
  imports Prelude "HOL-Library.Word"
begin

text \<open>
  Package wait, and the part of packages time and context it uses. A \<open>time.Duration\<close> is a
  64-bit signed number of nanoseconds, so the products below wrap around. A context is known by
  the deadlines that were put on it; \<open>cancel()\<close> releases a finished context and has no effect on
  the calls that were made with it.
\<close>

type_synonym duration = "64 word"

datatype ctx = Background | WithTimeout ctx duration

definition Second :: duration where "Second = 1000000000"

definition Minute :: duration where "Minute = 60000000000"

definition wait_Seconds :: "(duration \<Rightarrow> ('w, unit) state) \<Rightarrow> duration \<Rightarrow> ('w, unit) state" where
  "wait_Seconds sleep s = sleep (s * Second)"

definition CtxSeconds :: "duration \<Rightarrow> ctx \<times> duration" where
  "CtxSeconds s = (Background, s * Second)"

definition CtxMinutes :: "duration \<Rightarrow> ctx \<times> duration" where
  "CtxMinutes m = (Background, m * Minute)"

text \<open>\<open>context.WithTimeout(wait.CtxSeconds(n))\<close> passes both results on.\<close>

definition with_timeout :: "ctx \<times> duration \<Rightarrow> ctx" where
  "with_timeout = (\<lambda>(c, d). WithTimeout c d)"

abbreviation ctx_seconds :: "duration \<Rightarrow> ctx" where
  "ctx_seconds s \<equiv> with_timeout (CtxSeconds s)"

abbreviation ctx_minutes :: "duration \<Rightarrow> ctx" where
  "ctx_minutes m \<equiv> with_timeout (CtxMinutes m)"

text \<open>The deadline of a context in nanoseconds: the earliest of those put on it.\<close>

fun deadline_ns :: "ctx \<Rightarrow> int option" where
  "deadline_ns Background = None"
| "deadline_ns (WithTimeout c d) =
     (case deadline_ns c of None \<Rightarrow> Some (sint d) | Some n \<Rightarrow> Some (min n (sint d)))"

lemma sint_mult_fits:
  fixes a b :: duration
  assumes "- (2 ^ 63) \<le> sint a * sint b" and "sint a * sint b < 2 ^ 63"
  shows "sint (a * b) = sint a * sint b"
  using assms by (simp add: sint_word_ariths signed_take_bit_int_eq_self_iff)

lemma sint_Second [simp]: "sint Second = 1000000000"
  by (simp add: Second_def)

lemma sint_Minute [simp]: "sint Minute = 60000000000"
  by (simp add: Minute_def)

lemma deadline_ctx_seconds:
  assumes "\<bar>sint s\<bar> \<le> 9223372036"
  shows "deadline_ns (ctx_seconds s) = Some (sint s * 1000000000)"
proof -
  have "sint (s * Second) = sint s * sint Second"
    by (rule sint_mult_fits) (use assms in auto)
  then show ?thesis by (simp add: with_timeout_def CtxSeconds_def)
qed

lemma deadline_ctx_minutes:
  assumes "\<bar>sint m\<bar> \<le> 153722867"
  shows "deadline_ns (ctx_minutes m) = Some (sint m * 60000000000)"
proof -
  have "sint (m * Minute) = sint m * sint Minute"
    by (rule sint_mult_fits) (use assms in auto)
  then show ?thesis by (simp add: with_timeout_def CtxMinutes_def)
qed

end
