(* ===== verification/GoStrings.thy ===== *)
theory GoStrings
  imports Prelude
begin

text \<open>
  The functions of Go's standard library on strings that the module uses (packages strings,
  strconv, bufio), with the lemmas the components share. A string is its list of bytes.
  Separators and cutsets are one byte long in every call of the module. White space and letter
  case are those of ASCII; a byte outside ASCII is neither white space nor a letter here.
\<close>

section \<open>Searching\<close>

definition HasPrefix :: "string \<Rightarrow> string \<Rightarrow> bool" where
  "HasPrefix s p \<longleftrightarrow> take (length p) s = p"

definition HasSuffix :: "string \<Rightarrow> string \<Rightarrow> bool" where
  "HasSuffix s p \<longleftrightarrow> length p \<le> length s \<and> drop (length s - length p) s = p"

fun Contains :: "string \<Rightarrow> string \<Rightarrow> bool" where
  "Contains s sub = (HasPrefix s sub \<or> (case s of [] \<Rightarrow> False | c # cs \<Rightarrow> Contains cs sub))"

declare Contains.simps [simp del]

lemma HasPrefix_iff: "HasPrefix s p \<longleftrightarrow> (\<exists>t. s = p @ t)"
  unfolding HasPrefix_def by (metis append_eq_conv_conj append_take_drop_id)

lemma HasPrefix_append [simp]: "HasPrefix (p @ t) p"
  by (simp add: HasPrefix_def)

lemma HasSuffix_iff: "HasSuffix s p \<longleftrightarrow> (\<exists>t. s = t @ p)"
  unfolding HasSuffix_def
  by (metis append_eq_conv_conj append_take_drop_id diff_add_inverse2 length_append le_add2)

lemma HasSuffix_append [simp]: "HasSuffix (t @ p) p"
  by (auto simp: HasSuffix_iff)

lemma Contains_iff: "Contains s sub \<longleftrightarrow> (\<exists>a b. s = a @ sub @ b)"
proof (induction s)
  case Nil
  show ?case by (subst Contains.simps) (auto simp: HasPrefix_iff)
next
  case (Cons c cs)
  have "Contains (c # cs) sub \<longleftrightarrow> HasPrefix (c # cs) sub \<or> Contains cs sub"
    by (subst Contains.simps) simp
  also have "\<dots> \<longleftrightarrow> (\<exists>a b. c # cs = a @ sub @ b)"
    by (metis Cons Cons_eq_append_conv HasPrefix_iff append_Cons append_Nil)
  finally show ?case .
qed

section \<open>Splitting and joining\<close>

fun Split :: "string \<Rightarrow> char \<Rightarrow> string list" where
  "Split [] c = [[]]"
| "Split (x # xs) c =
     (if x = c then [] # Split xs c
      else (case Split xs c of [] \<Rightarrow> [[x]] | p # ps \<Rightarrow> (x # p) # ps))"

definition SplitN2 :: "string \<Rightarrow> char \<Rightarrow> string list" where
  "SplitN2 s c =
     (if c \<in> set s
      then [takeWhile (\<lambda>x. x \<noteq> c) s, tl (dropWhile (\<lambda>x. x \<noteq> c) s)] else [s])"

fun Join :: "string list \<Rightarrow> string \<Rightarrow> string" where
  "Join [] sep = []"
| "Join [p] sep = p"
| "Join (p # q # ps) sep = p @ sep @ Join (q # ps) sep"

lemma Split_not_Nil [simp]: "Split s c \<noteq> []"
  by (induction s c rule: Split.induct) (auto split: list.splits)

lemma Join_Cons: "ps \<noteq> [] \<Longrightarrow> Join (p # ps) sep = p @ sep @ Join ps sep"
  by (cases ps) auto

lemma Join_append: "xs \<noteq> [] \<Longrightarrow> ys \<noteq> [] \<Longrightarrow> Join (xs @ ys) sep = Join xs sep @ sep @ Join ys sep"
  by (induction xs sep rule: Join.induct) (auto simp: Join_Cons)

lemma Join_Split: "Join (Split s c) [c] = s"
proof (induction s)
  case Nil
  show ?case by simp
next
  case (Cons x xs)
  obtain p ps where s: "Split xs c = p # ps" by (metis Split_not_Nil list.exhaust)
  with Cons show ?case by (cases ps) (auto simp: Join_Cons)
qed

lemma Split_free: "c \<notin> set s \<Longrightarrow> Split s c = [s]"
  by (induction s) auto

lemma Split_append_sep: "c \<notin> set p \<Longrightarrow> Split (p @ c # s) c = p # Split s c"
  by (induction p) auto

lemma Split_Join:
  "ps \<noteq> [] \<Longrightarrow> (\<And>p. p \<in> set ps \<Longrightarrow> c \<notin> set p) \<Longrightarrow> Split (Join ps [c]) c = ps"
  by (induction ps "[c]" rule: Join.induct) (auto simp: Split_free Split_append_sep)

lemma Split_pieces_free: "p \<in> set (Split s c) \<Longrightarrow> c \<notin> set p"
  by (induction s c arbitrary: p rule: Split.induct) (auto split: if_splits list.splits)

lemma length_Split: "length (Split s c) = Suc (count_list s c)"
  by (induction s c rule: Split.induct) (auto split: list.splits)

lemma Split_hd: "hd (Split s c) = takeWhile (\<lambda>x. x \<noteq> c) s"
  by (induction s c rule: Split.induct) (auto split: list.splits)

lemma SplitN2_sep: "c \<notin> set k \<Longrightarrow> SplitN2 (k @ c # v) c = [k, v]"
  by (induction k) (auto simp: SplitN2_def split: if_splits)

lemma SplitN2_free: "c \<notin> set s \<Longrightarrow> SplitN2 s c = [s]"
  by (simp add: SplitN2_def)

section \<open>Trimming\<close>

definition trim_by :: "(char \<Rightarrow> bool) \<Rightarrow> string \<Rightarrow> string" where
  "trim_by P s = rev (dropWhile P (rev (dropWhile P s)))"

definition Trim :: "string \<Rightarrow> char \<Rightarrow> string" where
  "Trim s c = trim_by (\<lambda>x. x = c) s"

definition is_space :: "char \<Rightarrow> bool" where
  "is_space c \<longleftrightarrow> c \<in> {CHR 0x09, CHR 0x0A, CHR 0x0B, CHR 0x0C, CHR 0x0D, CHR '' ''}"

definition TrimSpace :: "string \<Rightarrow> string" where
  "TrimSpace s = trim_by is_space s"

definition trimmed_by :: "(char \<Rightarrow> bool) \<Rightarrow> string \<Rightarrow> bool" where
  "trimmed_by P s \<longleftrightarrow> s = [] \<or> (\<not> P (hd s) \<and> \<not> P (last s))"

lemma trim_by_trimmed: "trimmed_by P s \<Longrightarrow> trim_by P s = s"
  unfolding trim_by_def trimmed_by_def
  by (metis dropWhile_eq_self_iff hd_rev last_rev rev_is_Nil_conv rev_rev_ident)

lemma trim_by_pad:
  assumes "trimmed_by P s" and "\<forall>x \<in> set a. P x" and "\<forall>x \<in> set b. P x" and "s \<noteq> []"
  shows "trim_by P (a @ s @ b) = s"
proof -
  have "dropWhile P (a @ s @ b) = s @ b"
    using assms by (cases s) (auto simp: dropWhile_append2 trimmed_by_def)
  moreover have "dropWhile P (rev b @ rev s) = dropWhile P (rev s)"
    by (rule dropWhile_append2) (use assms(3) in auto)
  moreover have "dropWhile P (rev s) = rev s"
    using assms by (cases s rule: rev_cases) (auto simp: trimmed_by_def)
  ultimately show ?thesis by (simp add: trim_by_def)
qed

lemma trim_by_all: "\<forall>x \<in> set s. P x \<Longrightarrow> trim_by P s = []"
  by (auto simp: trim_by_def dest: set_dropWhileD)

lemma trimmed_trim_by: "trimmed_by P (trim_by P s)"
proof (cases "trim_by P s = []")
  case True
  then show ?thesis by (simp add: trimmed_by_def)
next
  case False
  let ?t = "dropWhile P s"
  have ne: "dropWhile P (rev ?t) \<noteq> []" using False by (simp add: trim_by_def)
  then have "\<not> P (hd (dropWhile P (rev ?t)))" by (rule hd_dropWhile)
  then have l: "\<not> P (last (trim_by P s))" by (simp add: trim_by_def last_rev)
  obtain u where u: "rev ?t = u @ dropWhile P (rev ?t)"
    by (metis takeWhile_dropWhile_id)
  then have t: "?t = trim_by P s @ rev u"
    by (metis rev_append rev_rev_ident trim_by_def)
  with False have "hd ?t = hd (trim_by P s)" and "?t \<noteq> []" by auto
  with hd_dropWhile [of P s] have "\<not> P (hd (trim_by P s))" by simp
  with l show ?thesis by (simp add: trimmed_by_def)
qed

section \<open>Letter case\<close>

definition lower_char :: "char \<Rightarrow> char" where
  "lower_char c = (let n = (of_char c :: nat) in if 65 \<le> n \<and> n \<le> 90 then char_of (n + 32) else c)"

definition ToLower :: "string \<Rightarrow> string" where
  "ToLower s = map lower_char s"

definition EqualFold :: "string \<Rightarrow> string \<Rightarrow> bool" where
  "EqualFold s t \<longleftrightarrow> ToLower s = ToLower t"

section \<open>Numbers and quoting\<close>

fun nat_digits :: "nat \<Rightarrow> string" where
  "nat_digits n =
     (if n < 10 then [char_of (48 + n)] else nat_digits (n div 10) @ [char_of (48 + n mod 10)])"

declare nat_digits.simps [simp del]

lemma nat_digits_digit: "c \<in> set (nat_digits n) \<Longrightarrow> \<exists>d < 10. c = char_of (48 + d :: nat)"
proof (induction n rule: nat_digits.induct)
  case (1 n)
  show ?case
  proof (cases "n < 10")
    case True
    with 1(2) nat_digits.simps [of n] show ?thesis by auto
  next
    case False
    with 1(2) nat_digits.simps [of n] consider "c \<in> set (nat_digits (n div 10))" | "c = char_of (48 + n mod 10)"
      by auto
    then show ?thesis
    proof cases
      case 2
      then show ?thesis by (intro exI [of _ "n mod 10"]) simp
    qed (use 1(1) False in blast)
  qed
qed

lemma nat_digits_free: "(of_char c :: nat) < 48 \<Longrightarrow> c \<notin> set (nat_digits n)"
  using nat_digits_digit [of c n] by auto

definition Itoa :: "int \<Rightarrow> string" where
  "Itoa i = (if i < 0 then ''-'' @ nat_digits (nat (- i)) else nat_digits (nat i))"

text \<open>The verb \<open>%q\<close>: double quotes around the string, with the escapes of \<open>strconv.Quote\<close>.\<close>

definition hex_digit :: "nat \<Rightarrow> char" where
  "hex_digit n = (if n < 10 then char_of (48 + n) else char_of (87 + n))"

definition quote_char :: "char \<Rightarrow> string" where
  "quote_char c =
     (if c = CHR 0x22 then [CHR 0x5C, CHR 0x22] else if c = CHR 0x5C then [CHR 0x5C, CHR 0x5C]
      else if c = CHR 0x07 then [CHR 0x5C, CHR ''a''] else if c = CHR 0x08 then [CHR 0x5C, CHR ''b'']
      else if c = CHR 0x0C then [CHR 0x5C, CHR ''f''] else if c = CHR 0x0A then [CHR 0x5C, CHR ''n'']
      else if c = CHR 0x0D then [CHR 0x5C, CHR ''r''] else if c = CHR 0x09 then [CHR 0x5C, CHR ''t'']
      else if c = CHR 0x0B then [CHR 0x5C, CHR ''v'']
      else if (of_char c :: nat) < 32 \<or> c = CHR 0x7F
      then [CHR 0x5C, CHR ''x'', hex_digit (of_char c div 16), hex_digit (of_char c mod 16)]
      else [c])"

definition Quote :: "string \<Rightarrow> string" where
  "Quote s = [CHR 0x22] @ concat (map quote_char s) @ [CHR 0x22]"

section \<open>bufio.Scanner with ScanLines\<close>

text \<open>
  Lines end at a newline byte, a carriage return before it is dropped, and the text after the
  last newline is a line unless it is empty. A line that does not fit the scanner's buffer of
  65536 bytes with its newline ends the scan; the callers never ask for the scanner's error.
\<close>

definition drop_CR :: "string \<Rightarrow> string" where
  "drop_CR l = (if l \<noteq> [] \<and> last l = CHR 0x0D then butlast l else l)"

definition ScanLines :: "string \<Rightarrow> string list" where
  "ScanLines s =
     (let ps = Split s (CHR 0x0A); ls = (if last ps = [] then butlast ps else ps)
      in map drop_CR (takeWhile (\<lambda>l. length l \<le> 65535) ls))"

lemma ScanLines_lines:
  assumes "\<And>l. l \<in> set ls \<Longrightarrow> CHR 0x0A \<notin> set l \<and> length l \<le> 65535 \<and> (l \<noteq> [] \<longrightarrow> last l \<noteq> CHR 0x0D)"
  shows "ScanLines (concat (map (\<lambda>l. l @ [CHR 0x0A]) ls)) = ls"
proof -
  have a: "Split (concat (map (\<lambda>l. l @ [CHR 0x0A]) ls)) (CHR 0x0A) = ls @ [[]]"
    using assms by (induction ls) (auto simp: Split_append_sep)
  have b: "takeWhile (\<lambda>l. length l \<le> 65535) ls = ls"
    using assms by (subst takeWhile_eq_all_conv) blast
  have c: "map drop_CR ls = ls"
    using assms by (intro map_idI) (auto simp: drop_CR_def)
  show ?thesis by (simp add: ScanLines_def a b c)
qed

section \<open>encoding/json\<close>

text \<open>
  \<open>json.Marshal\<close> of the values the module encodes. Go writes the keys of a map in sorted order, so
  an object is given with its keys sorted; \<open><\<close>, \<open>>\<close> and \<open>&\<close> are escaped like control characters.
\<close>

definition json_char :: "char \<Rightarrow> string" where
  "json_char c =
     (if c = CHR 0x22 then [CHR 0x5C, CHR 0x22] else if c = CHR 0x5C then [CHR 0x5C, CHR 0x5C]
      else if c = CHR 0x08 then [CHR 0x5C, CHR ''b''] else if c = CHR 0x0C then [CHR 0x5C, CHR ''f'']
      else if c = CHR 0x0A then [CHR 0x5C, CHR ''n''] else if c = CHR 0x0D then [CHR 0x5C, CHR ''r'']
      else if c = CHR 0x09 then [CHR 0x5C, CHR ''t'']
      else if (of_char c :: nat) < 32 \<or> c \<in> {CHR ''<'', CHR ''>'', CHR ''&''}
      then [CHR 0x5C, CHR ''u'', CHR ''0'', CHR ''0'', hex_digit (of_char c div 16), hex_digit (of_char c mod 16)]
      else [c])"

definition json_string :: "string \<Rightarrow> string" where
  "json_string s = [CHR 0x22] @ concat (map json_char s) @ [CHR 0x22]"

fun json_Marshal :: "json \<Rightarrow> string" where
  "json_Marshal JNull = ''null''"
| "json_Marshal (JBool b) = (if b then ''true'' else ''false'')"
| "json_Marshal (JNum i) = Itoa i"
| "json_Marshal (JStr s) = json_string s"
| "json_Marshal (JArr xs) = ''['' @ Join (map json_Marshal xs) '','' @ '']''"
| "json_Marshal (JObj kvs) = ''{'' @ Join (map (\<lambda>(k, v). json_string k @ '':'' @ json_Marshal v) kvs) '','' @ ''}''"

lemma json_string_plain:
  "(\<And>c. c \<in> set s \<Longrightarrow> json_char c = [c]) \<Longrightarrow> json_string s = [CHR 0x22] @ s @ [CHR 0x22]"
  by (induction s) (simp_all add: json_string_def)

end
