(* ===== verification/GoUrl.thy ===== *)
theory GoUrl
  imports GoStrings
begin

text \<open>
  The part of package net/url the module uses: the \<open>URL\<close> struct and its \<open>String\<close> method with the
  percent encoding of hosts and paths. \<open>url.Parse\<close> is a parameter of the functions that call it:
  their theorems hold for every URL it may return. User information and fragment are kept as the
  text that \<open>String\<close> writes for them.
\<close>

record URL =
  url_Scheme :: string
  url_Opaque :: string
  url_User :: "string option"
  url_Host :: string
  url_Path :: string
  url_RawPath :: string
  url_OmitHost :: bool
  url_ForceQuery :: bool
  url_RawQuery :: string
  url_Fragment :: string

definition empty_URL :: URL where
  "empty_URL = \<lparr>url_Scheme = [], url_Opaque = [], url_User = None, url_Host = [], url_Path = [],
     url_RawPath = [], url_OmitHost = False, url_ForceQuery = False, url_RawQuery = [],
     url_Fragment = []\<rparr>"

datatype encoding = encodePath | encodeHost

definition is_alnum :: "char \<Rightarrow> bool" where
  "is_alnum c \<longleftrightarrow> (let n = (of_char c :: nat) in
     (48 \<le> n \<and> n \<le> 57) \<or> (65 \<le> n \<and> n \<le> 90) \<or> (97 \<le> n \<and> n \<le> 122))"

definition shouldEscape :: "char \<Rightarrow> encoding \<Rightarrow> bool" where
  "shouldEscape c mode =
     (if is_alnum c then False
      else if mode = encodeHost \<and> c \<in> set ''!$&()*+,;=:[]<>'' \<union> {CHR 0x22, CHR 0x27} then False
      else if c \<in> set ''-_.~'' then False
      else if c \<in> set ''$&+,/:;=?@'' then (if mode = encodePath then c = CHR ''?'' else True)
      else True)"

definition upper_hex :: "nat \<Rightarrow> char" where
  "upper_hex n = (if n < 10 then char_of (48 + n) else char_of (55 + n))"

definition escape :: "string \<Rightarrow> encoding \<Rightarrow> string" where
  "escape s mode = concat (map (\<lambda>c. if shouldEscape c mode
     then [CHR ''%'', upper_hex (of_char c div 16), upper_hex (of_char c mod 16)] else [c]) s)"

definition unhex :: "char \<Rightarrow> nat option" where
  "unhex c = (let n = (of_char c :: nat) in
     if 48 \<le> n \<and> n \<le> 57 then Some (n - 48)
     else if 97 \<le> n \<and> n \<le> 102 then Some (n - 87)
     else if 65 \<le> n \<and> n \<le> 70 then Some (n - 55) else None)"

fun unescape_path :: "string \<Rightarrow> string option" where
  "unescape_path [] = Some []"
| "unescape_path (c # s) =
     (if c = CHR ''%'' then
        (case s of
           h # l # t \<Rightarrow> (case (unhex h, unhex l) of
               (Some a, Some b) \<Rightarrow> map_option (\<lambda>r. char_of (16 * a + b) # r) (unescape_path t)
             | _ \<Rightarrow> None)
         | _ \<Rightarrow> None)
      else map_option (\<lambda>r. c # r) (unescape_path s))"

definition validEncoded_path :: "string \<Rightarrow> bool" where
  "validEncoded_path s = list_all (\<lambda>c. c \<in> set ''!$&()*+,;=:@[]%'' \<union> {CHR 0x27}
     \<or> \<not> shouldEscape c encodePath) s"

definition EscapedPath :: "URL \<Rightarrow> string" where
  "EscapedPath u =
     (if url_RawPath u \<noteq> [] \<and> validEncoded_path (url_RawPath u)
         \<and> unescape_path (url_RawPath u) = Some (url_Path u) then url_RawPath u
      else if url_Path u = ''*'' then ''*''
      else escape (url_Path u) encodePath)"

definition URL_String :: "URL \<Rightarrow> string" where
  "URL_String u =
     (let scheme = (if url_Scheme u \<noteq> [] then url_Scheme u @ '':'' else []);
          rest =
            (if url_Opaque u \<noteq> [] then url_Opaque u
             else
               let auth =
                     (if (url_Scheme u \<noteq> [] \<or> url_Host u \<noteq> [] \<or> url_User u \<noteq> None)
                         \<and> \<not> (url_OmitHost u \<and> url_Host u = [] \<and> url_User u = None)
                      then (if url_Host u \<noteq> [] \<or> url_Path u \<noteq> [] \<or> url_User u \<noteq> None then ''//'' else [])
                        @ (case url_User u of None \<Rightarrow> [] | Some ui \<Rightarrow> ui @ ''@'')
                        @ escape (url_Host u) encodeHost
                      else []);
                   path = EscapedPath u;
                   slash = (if path \<noteq> [] \<and> hd path \<noteq> CHR ''/'' \<and> url_Host u \<noteq> [] then ''/'' else []);
                   dot = (if scheme @ auth @ slash = []
                            \<and> Contains (takeWhile (\<lambda>c. c \<noteq> CHR ''/'') path) '':''
                          then ''./'' else [])
               in auth @ slash @ dot @ path)
      in scheme @ rest
         @ (if url_ForceQuery u \<or> url_RawQuery u \<noteq> [] then ''?'' @ url_RawQuery u else [])
         @ (if url_Fragment u \<noteq> [] then ''#'' @ url_Fragment u else []))"

lemma escape_Nil [simp]: "escape [] mode = []"
  by (simp add: escape_def)

lemma escape_append: "escape (s @ t) mode = escape s mode @ escape t mode"
  by (simp add: escape_def)

lemma escape_plain: "(\<And>c. c \<in> set s \<Longrightarrow> \<not> shouldEscape c mode) \<Longrightarrow> escape s mode = s"
  by (induction s) (simp_all add: escape_def)

lemma escape_eq_Nil_iff [simp]: "escape s mode = [] \<longleftrightarrow> s = []"
  by (cases s) (auto simp: escape_def)

text \<open>A path is recovered from its escaped form.\<close>

lemma unhex_upper_hex: "n < 16 \<Longrightarrow> unhex (upper_hex n) = Some n"
  by (auto simp: unhex_def upper_hex_def of_char_of Let_def)

lemma unescape_escape: "unescape_path (escape s encodePath) = Some s"
proof (induction s)
  case Nil
  show ?case by simp
next
  case (Cons c s)
  have pct: "shouldEscape (CHR ''%'') encodePath"
    by (simp add: shouldEscape_def is_alnum_def)
  have lt: "(of_char c :: nat) < 256" by (rule nat_of_char_less_256)
  then have "(of_char c div 16 :: nat) < 16" by (simp add: less_mult_imp_div_less)
  moreover have "char_of (16 * (of_char c div 16) + of_char c mod 16 :: nat) = c"
    by (simp only: mult_div_mod_eq) simp
  moreover have "escape (c # s) encodePath = escape [c] encodePath @ escape s encodePath"
    using escape_append [of "[c]" s] by simp
  ultimately show ?case
    using Cons pct by (auto simp: escape_def unhex_upper_hex)
qed

end
