(* ===== verification/Keycloak.thy ===== *)
theory Keycloak
  imports Wait GoUrl
begin

text \<open>
  Package keycloak without the group tree (theory KeycloakGroups): the options, the \<open>Client\<close>
  interface, the construction of the two helpers, the three logins, and the operations that pass
  one request to the client. gocloak itself is third-party code: the \<open>Client\<close> interface of the
  package is a record of functions over an arbitrary world, and every definition and theorem holds
  for any such record. Pointers inside slices that gocloak returns are taken to be non-nil, and
  structs of gocloak the package passes through unread are \<open>json\<close> trees.
\<close>

section \<open>Options\<close>

record kc_options =
  kc_Scheme :: string
  kc_Ip :: string
  kc_Port :: int
  kc_Path :: string
  kc_TlsInsecureSkipVerify :: bool
  kc_Realm :: string
  kc_Username :: string
  kc_Password :: string
  kc_ClientID :: string
  kc_ClientSecret :: string

definition keycloak_zero :: kc_options where
  "keycloak_zero = \<lparr>kc_Scheme = [], kc_Ip = [], kc_Port = 0, kc_Path = [],
     kc_TlsInsecureSkipVerify = False, kc_Realm = [], kc_Username = [], kc_Password = [],
     kc_ClientID = [], kc_ClientSecret = []\<rparr>"

type_synonym kc_option = "kc_options \<Rightarrow> kc_options"

definition keycloak_Scheme :: "string \<Rightarrow> kc_option" where
  "keycloak_Scheme v = (\<lambda>o1. o1\<lparr>kc_Scheme := v\<rparr>)"

definition keycloak_Ip :: "string \<Rightarrow> kc_option" where
  "keycloak_Ip v = (\<lambda>o1. o1\<lparr>kc_Ip := v\<rparr>)"

definition keycloak_Port :: "int \<Rightarrow> kc_option" where
  "keycloak_Port v = (\<lambda>o1. o1\<lparr>kc_Port := v\<rparr>)"

definition keycloak_Path :: "string \<Rightarrow> kc_option" where
  "keycloak_Path v = (\<lambda>o1. o1\<lparr>kc_Path := v\<rparr>)"

definition keycloak_Insecure :: "bool \<Rightarrow> kc_option" where
  "keycloak_Insecure v = (\<lambda>o1. o1\<lparr>kc_TlsInsecureSkipVerify := v\<rparr>)"

definition keycloak_Username :: "string \<Rightarrow> kc_option" where
  "keycloak_Username v = (\<lambda>o1. o1\<lparr>kc_Username := v\<rparr>)"

definition keycloak_Password :: "string \<Rightarrow> kc_option" where
  "keycloak_Password v = (\<lambda>o1. o1\<lparr>kc_Password := v\<rparr>)"

definition keycloak_Realm :: "string \<Rightarrow> kc_option" where
  "keycloak_Realm v = (\<lambda>o1. o1\<lparr>kc_Realm := v\<rparr>)"

definition keycloak_ClientID :: "string \<Rightarrow> kc_option" where
  "keycloak_ClientID v = (\<lambda>o1. o1\<lparr>kc_ClientID := v\<rparr>)"

definition keycloak_ClientSecret :: "string \<Rightarrow> kc_option" where
  "keycloak_ClientSecret v = (\<lambda>o1. o1\<lparr>kc_ClientSecret := v\<rparr>)"

lemmas keycloak_option_defs = keycloak_Scheme_def keycloak_Ip_def keycloak_Port_def
  keycloak_Path_def keycloak_Insecure_def keycloak_Username_def keycloak_Password_def
  keycloak_Realm_def keycloak_ClientID_def keycloak_ClientSecret_def

fun keycloak_initOptions_loop :: "kc_options \<Rightarrow> kc_option list \<Rightarrow> kc_options" where
  "keycloak_initOptions_loop options [] = options"
| "keycloak_initOptions_loop options (o1 # opts) = keycloak_initOptions_loop (o1 options) opts"

definition keycloak_initOptions :: "kc_option list \<Rightarrow> kc_options" where
  "keycloak_initOptions opts = keycloak_initOptions_loop keycloak_zero opts"

lemma keycloak_initOptions_loop_eq: "keycloak_initOptions_loop o0 opts = apply_options opts o0"
  by (induction opts arbitrary: o0) simp_all

interpretation kc_opts: func_options keycloak_initOptions keycloak_zero
  by unfold_locales (simp_all add: keycloak_initOptions_def keycloak_initOptions_loop_eq)

section \<open>The Client interface and the helper\<close>

record JWT =
  AccessToken :: string
  jwt_rest :: json

record kc_role =
  role_Name :: "string option"
  role_rest :: json

text \<open>
  A group with pointers to its fields, as gocloak has it; \<open>SubGroups\<close> points to a slice.
\<close>

datatype Group = Group
  (group_ID: "string option")
  (group_Name: "string option")
  (group_Path: "string option")
  (group_SubGroups: "Group list option")

record GetGroupsParams =
  gp_First :: "int option"
  gp_Max :: "int option"
  gp_rest :: json

record GetUsersByRoleParams =
  rp_First :: "int option"
  rp_Max :: "int option"

record GetUsersParams =
  up_Username :: "string option"
  up_Email :: "string option"
  up_Exact :: "bool option"

record ExecuteActionsEmailParams =
  ap_UserID :: "string option"
  ap_Actions :: "string list option"
  ap_Lifespan :: "int option"

record 'w KcClient =
  c_SetInsecureTLS :: "('w, unit) state"
  c_Login :: "ctx \<Rightarrow> string \<Rightarrow> string \<Rightarrow> string \<Rightarrow> string \<Rightarrow> string \<Rightarrow> ('w, JWT option res) state"
  c_LoginAdmin :: "ctx \<Rightarrow> string \<Rightarrow> string \<Rightarrow> string \<Rightarrow> ('w, JWT option res) state"
  c_LoginClient :: "ctx \<Rightarrow> string \<Rightarrow> string \<Rightarrow> string \<Rightarrow> ('w, JWT option res) state"
  c_GetUsers :: "ctx \<Rightarrow> string \<Rightarrow> string \<Rightarrow> GetUsersParams \<Rightarrow> ('w, json list res) state"
  c_GetClients :: "ctx \<Rightarrow> string \<Rightarrow> string \<Rightarrow> json \<Rightarrow> ('w, json list res) state"
  c_CreateClient :: "ctx \<Rightarrow> string \<Rightarrow> string \<Rightarrow> json \<Rightarrow> ('w, string res) state"
  c_CreateClientProtocolMapper ::
    "ctx \<Rightarrow> string \<Rightarrow> string \<Rightarrow> string \<Rightarrow> json \<Rightarrow> ('w, string res) state"
  c_GetClientSecret :: "ctx \<Rightarrow> string \<Rightarrow> string \<Rightarrow> string \<Rightarrow> ('w, json option res) state"
  c_CreateUser :: "ctx \<Rightarrow> string \<Rightarrow> string \<Rightarrow> json \<Rightarrow> ('w, string res) state"
  c_SetPassword ::
    "ctx \<Rightarrow> string \<Rightarrow> string \<Rightarrow> string \<Rightarrow> string \<Rightarrow> bool \<Rightarrow> ('w, go_error option) state"
  c_UpdateUser :: "ctx \<Rightarrow> string \<Rightarrow> string \<Rightarrow> json \<Rightarrow> ('w, go_error option) state"
  c_DeleteUser :: "ctx \<Rightarrow> string \<Rightarrow> string \<Rightarrow> string \<Rightarrow> ('w, go_error option) state"
  c_GetClientRole ::
    "ctx \<Rightarrow> string \<Rightarrow> string \<Rightarrow> string \<Rightarrow> string \<Rightarrow> ('w, kc_role option res) state"
  c_AddClientRolesToUser ::
    "ctx \<Rightarrow> string \<Rightarrow> string \<Rightarrow> string \<Rightarrow> string \<Rightarrow> kc_role list \<Rightarrow> ('w, go_error option) state"
  c_DeleteClientRolesFromUser ::
    "ctx \<Rightarrow> string \<Rightarrow> string \<Rightarrow> string \<Rightarrow> string \<Rightarrow> kc_role list \<Rightarrow> ('w, go_error option) state"
  c_ExecuteActionsEmail ::
    "ctx \<Rightarrow> string \<Rightarrow> string \<Rightarrow> ExecuteActionsEmailParams \<Rightarrow> ('w, go_error option) state"
  c_GetGroups :: "ctx \<Rightarrow> string \<Rightarrow> string \<Rightarrow> GetGroupsParams \<Rightarrow> ('w, Group list res) state"
  c_GetGroup :: "ctx \<Rightarrow> string \<Rightarrow> string \<Rightarrow> string \<Rightarrow> ('w, Group option res) state"
  c_GetGroupByPath :: "ctx \<Rightarrow> string \<Rightarrow> string \<Rightarrow> string \<Rightarrow> ('w, Group option res) state"
  c_CreateGroup :: "ctx \<Rightarrow> string \<Rightarrow> string \<Rightarrow> Group \<Rightarrow> ('w, string res) state"
  c_CreateChildGroup :: "ctx \<Rightarrow> string \<Rightarrow> string \<Rightarrow> string \<Rightarrow> Group \<Rightarrow> ('w, string res) state"
  c_DeleteGroup :: "ctx \<Rightarrow> string \<Rightarrow> string \<Rightarrow> string \<Rightarrow> ('w, go_error option) state"
  c_GetUserGroups ::
    "ctx \<Rightarrow> string \<Rightarrow> string \<Rightarrow> string \<Rightarrow> GetGroupsParams \<Rightarrow> ('w, Group list res) state"
  c_GetGroupMembers ::
    "ctx \<Rightarrow> string \<Rightarrow> string \<Rightarrow> string \<Rightarrow> GetGroupsParams \<Rightarrow> ('w, json list res) state"
  c_AddUserToGroup :: "ctx \<Rightarrow> string \<Rightarrow> string \<Rightarrow> string \<Rightarrow> string \<Rightarrow> ('w, go_error option) state"
  c_DeleteUserFromGroup ::
    "ctx \<Rightarrow> string \<Rightarrow> string \<Rightarrow> string \<Rightarrow> string \<Rightarrow> ('w, go_error option) state"
  c_GetClientRolesByUserID ::
    "ctx \<Rightarrow> string \<Rightarrow> string \<Rightarrow> string \<Rightarrow> string \<Rightarrow> ('w, kc_role list res) state"
  c_GetUsersByClientRoleName ::
    "ctx \<Rightarrow> string \<Rightarrow> string \<Rightarrow> string \<Rightarrow> string \<Rightarrow> GetUsersByRoleParams \<Rightarrow> ('w, json list res) state"
  c_GetRealmRole :: "ctx \<Rightarrow> string \<Rightarrow> string \<Rightarrow> string \<Rightarrow> ('w, kc_role option res) state"
  c_AddRealmRoleToUser ::
    "ctx \<Rightarrow> string \<Rightarrow> string \<Rightarrow> string \<Rightarrow> kc_role list \<Rightarrow> ('w, go_error option) state"
  c_LogoutUserSession :: "ctx \<Rightarrow> string \<Rightarrow> string \<Rightarrow> string \<Rightarrow> ('w, go_error option) state"
  c_GetComponent :: "ctx \<Rightarrow> string \<Rightarrow> string \<Rightarrow> string \<Rightarrow> ('w, json option res) state"

record 'w kc_helper =
  kc_client :: "'w KcClient"
  kc_Token :: string
  kc_Options :: kc_options

record 'w kc_helper_nocreds =
  nc_client :: "'w KcClient"
  nc_Options :: kc_options

text \<open>The sentinel \<open>errors.New("user not found")\<close>.\<close>

definition ErrUserNotFound :: go_error where
  "ErrUserNotFound = Sentinel ''user not found''"

section \<open>Construction\<close>

definition keycloak_genKeycloakUrl :: "kc_options \<Rightarrow> string" where
  "keycloak_genKeycloakUrl opts =
     URL_String (empty_URL\<lparr>url_Scheme := kc_Scheme opts,
       url_Host := kc_Ip opts @ '':'' @ Itoa (kc_Port opts), url_Path := kc_Path opts\<rparr>)"

text \<open>The helper without credentials has a method of its own with the same body.\<close>

definition nocreds_genKeycloakUrl :: "kc_options \<Rightarrow> string" where
  "nocreds_genKeycloakUrl opts =
     URL_String (empty_URL\<lparr>url_Scheme := kc_Scheme opts,
       url_Host := kc_Ip opts @ '':'' @ Itoa (kc_Port opts), url_Path := kc_Path opts\<rparr>)"

lemma nocreds_genKeycloakUrl_eq: "nocreds_genKeycloakUrl = keycloak_genKeycloakUrl"
  by (rule ext) (simp add: nocreds_genKeycloakUrl_def keycloak_genKeycloakUrl_def)

definition SetKeycloakClient ::
  "(string \<Rightarrow> 'w KcClient) \<Rightarrow> kc_options \<Rightarrow> 'w KcClient option res" where
  "SetKeycloakClient NewClient opts =
     (if kc_Scheme opts = [] then (None, Some (ErrText ''keycloak scheme is empty''))
      else if kc_Ip opts = [] then (None, Some (ErrText ''keycloak ip is empty''))
      else if kc_Port opts = 0 then (None, Some (ErrText ''keycloak port is empty''))
      else if kc_Path opts = [] then (None, Some (ErrText ''keycloak path is empty''))
      else
        let hasUserCreds = kc_Username opts \<noteq> [] \<and> kc_Password opts \<noteq> [];
            hasServiceAccountCreds = kc_ClientID opts \<noteq> [] \<and> kc_ClientSecret opts \<noteq> []
        in if \<not> hasUserCreds \<and> \<not> hasServiceAccountCreds
           then (None, Some (ErrText (''keycloak credentials are empty: need either ''
                  @ ''username/password or clientId/clientSecret'')))
           else if kc_Realm opts = [] then (None, Some (ErrText ''keycloak realm is empty''))
           else (Some (NewClient (keycloak_genKeycloakUrl opts)), None))"

definition keycloak_NewHelper ::
  "(string \<Rightarrow> 'w KcClient) \<Rightarrow> kc_option list \<Rightarrow> 'w kc_helper option res" where
  "keycloak_NewHelper NewClient opts =
     (let initedOpts = keycloak_initOptions opts
      in case SetKeycloakClient NewClient initedOpts of
           (_, Some err) \<Rightarrow> (None, Some err)
         | (client, None) \<Rightarrow>
             (map_option (\<lambda>c. \<lparr>kc_client = c, kc_Token = [], kc_Options = initedOpts\<rparr>) client, None))"

definition NewHelperWithoutCredentials ::
  "(string \<Rightarrow> 'w KcClient) \<Rightarrow> kc_option list \<Rightarrow> 'w kc_helper_nocreds option res" where
  "NewHelperWithoutCredentials NewClient opts =
     (let o1 = keycloak_initOptions opts
      in if kc_Scheme o1 = [] then (None, Some (ErrText ''keycloak scheme is empty''))
         else if kc_Ip o1 = [] then (None, Some (ErrText ''keycloak ip is empty''))
         else if kc_Port o1 = 0 then (None, Some (ErrText ''keycloak port is empty''))
         else if kc_Path o1 = [] then (None, Some (ErrText ''keycloak path is empty''))
         else if kc_Realm o1 = [] then (None, Some (ErrText ''keycloak realm is empty''))
         else (Some \<lparr>nc_client = NewClient (nocreds_genKeycloakUrl o1), nc_Options = o1\<rparr>, None))"

definition keycloak_NewGlobalHelper ::
  "(string \<Rightarrow> 'v KcClient) \<Rightarrow> kc_option list
    \<Rightarrow> ('v kc_helper globals \<times> 'w, go_error option) state" where
  "keycloak_NewGlobalHelper NewClient opts = do {
     err \<leftarrow> once_Do (State_Monad.return (keycloak_NewHelper NewClient opts));
     on_err err (State_Monad.return None) Some
   }"

definition keycloak_GetGlobalHelper :: "'v kc_helper globals \<Rightarrow> 'v kc_helper option" where
  "keycloak_GetGlobalHelper g = helper g"

interpretation kc_global: global_helper
  "keycloak_NewGlobalHelper NewClient"
  "\<lambda>opts. State_Monad.return (keycloak_NewHelper NewClient opts)"
  keycloak_GetGlobalHelper
  by unfold_locales
    (auto simp: keycloak_NewGlobalHelper_def keycloak_GetGlobalHelper_def on_err_def split: option.splits)

section \<open>Logins\<close>

definition set_tls :: "'w KcClient \<Rightarrow> kc_options \<Rightarrow> ('w, unit) state" where
  "set_tls client opts =
     (if kc_TlsInsecureSkipVerify opts then c_SetInsecureTLS client else State_Monad.return ())"

definition LoginAdmin :: "'w kc_helper \<Rightarrow> ('w, (go_error option \<times> 'w kc_helper) outcome) state" where
  "LoginAdmin h = do {
     _ \<leftarrow> set_tls (kc_client h) (kc_Options h);
     (token, err) \<leftarrow> c_LoginAdmin (kc_client h) (ctx_minutes 2)
        (kc_Username (kc_Options h)) (kc_Password (kc_Options h)) (kc_Realm (kc_Options h));
     case err of
       None \<Rightarrow> deref token (\<lambda>t. State_Monad.return (Return (None, h\<lparr>kc_Token := AccessToken t\<rparr>)))
     | Some e \<Rightarrow> State_Monad.return
         (Return (Some (ErrText (''keycloak login failed: '' @ err_msg e)), h))
   }"

definition LoginServiceAccount ::
  "'w kc_helper \<Rightarrow> ('w, (go_error option \<times> 'w kc_helper) outcome) state" where
  "LoginServiceAccount h = do {
     _ \<leftarrow> set_tls (kc_client h) (kc_Options h);
     (token, err) \<leftarrow> c_LoginClient (kc_client h) (ctx_minutes 2)
        (kc_ClientID (kc_Options h)) (kc_ClientSecret (kc_Options h)) (kc_Realm (kc_Options h));
     case err of
       None \<Rightarrow> deref token (\<lambda>t. State_Monad.return (Return (None, h\<lparr>kc_Token := AccessToken t\<rparr>)))
     | Some e \<Rightarrow> State_Monad.return
         (Return (Some (ErrText (''keycloak service account login failed: '' @ err_msg e)), h))
   }"

record ClientCredentials =
  cred_ID :: string
  cred_Secret :: string

definition DefaultAdmin :: ClientCredentials where
  "DefaultAdmin = \<lparr>cred_ID = ''admin-cli'', cred_Secret = []\<rparr>"

definition CheckLoginUser ::
  "'w kc_helper \<Rightarrow> string \<Rightarrow> string \<Rightarrow> ClientCredentials \<Rightarrow> ('w, JWT option res) state" where
  "CheckLoginUser h username password client = do {
     _ \<leftarrow> set_tls (kc_client h) (kc_Options h);
     (token, err) \<leftarrow> c_Login (kc_client h) (ctx_seconds 10) (cred_ID client) (cred_Secret client)
        (kc_Realm (kc_Options h)) username password;
     case err of
       Some e \<Rightarrow> State_Monad.return
         (None, Some (Wrapped (''keycloak login failed: '' @ err_msg e) e))
     | None \<Rightarrow> State_Monad.return (token, None)
   }"

definition CheckLoginUser_nocreds ::
  "'w kc_helper_nocreds \<Rightarrow> string \<Rightarrow> string \<Rightarrow> ClientCredentials \<Rightarrow> ('w, JWT option res) state" where
  "CheckLoginUser_nocreds h username password client = do {
     _ \<leftarrow> set_tls (nc_client h) (nc_Options h);
     (token, err) \<leftarrow> c_Login (nc_client h) (ctx_seconds 10) (cred_ID client) (cred_Secret client)
        (kc_Realm (nc_Options h)) username password;
     case err of
       Some e \<Rightarrow> State_Monad.return
         (None, Some (Wrapped (''keycloak login failed: '' @ err_msg e) e))
     | None \<Rightarrow> State_Monad.return (token, None)
   }"

section \<open>Users, clients and roles\<close>

definition keycloak_GetUser :: "'w kc_helper \<Rightarrow> string \<Rightarrow> string \<Rightarrow> ('w, json option res) state" where
  "keycloak_GetUser h realm name = do {
     (users, err) \<leftarrow> c_GetUsers (kc_client h) (ctx_seconds 10) (kc_Token h) realm
        \<lparr>up_Username = Some name, up_Email = None, up_Exact = Some True\<rparr>;
     on_err err
       (State_Monad.return (case users of
           [] \<Rightarrow> (None, Some (Wrapped (''user '' @ name @ '': '' @ err_msg ErrUserNotFound) ErrUserNotFound))
         | u # _ \<Rightarrow> (Some u, None)))
       (\<lambda>e. (None, Some e))
   }"

definition GetUserByEmail :: "'w kc_helper \<Rightarrow> string \<Rightarrow> string \<Rightarrow> ('w, json option res) state" where
  "GetUserByEmail h realm email = do {
     (users, err) \<leftarrow> c_GetUsers (kc_client h) (ctx_seconds 10) (kc_Token h) realm
        \<lparr>up_Username = None, up_Email = Some email, up_Exact = Some True\<rparr>;
     on_err err
       (State_Monad.return (case users of
           [] \<Rightarrow> (None, Some (Wrapped (''user '' @ email @ '': '' @ err_msg ErrUserNotFound) ErrUserNotFound))
         | u # _ \<Rightarrow> (Some u, None)))
       (\<lambda>e. (None, Some e))
   }"

definition ExecuteActionsEmail ::
  "'w kc_helper \<Rightarrow> string \<Rightarrow> string \<Rightarrow> string list option \<Rightarrow> int \<Rightarrow> ('w, go_error option) state" where
  "ExecuteActionsEmail h realm userID actions lifespanSeconds =
     (let acts = (case actions of None \<Rightarrow> [] | Some a \<Rightarrow> a);
          params = \<lparr>ap_UserID = Some userID, ap_Actions = Some acts, ap_Lifespan = None\<rparr>;
          params' = (if lifespanSeconds > 0 then params\<lparr>ap_Lifespan := Some lifespanSeconds\<rparr> else params)
      in c_ExecuteActionsEmail (kc_client h) (ctx_seconds 10) (kc_Token h) realm params')"

fun has_role_named :: "string \<Rightarrow> kc_role list \<Rightarrow> bool" where
  "has_role_named roleName [] = False"
| "has_role_named roleName (role # roles) =
     (if role_Name role = Some roleName then True else has_role_named roleName roles)"

definition HasClientRole ::
  "'w kc_helper \<Rightarrow> string \<Rightarrow> string \<Rightarrow> string \<Rightarrow> string \<Rightarrow> ('w, bool res) state" where
  "HasClientRole h realm clientID userID roleName = do {
     (roles, err) \<leftarrow> c_GetClientRolesByUserID (kc_client h) (ctx_seconds 10) (kc_Token h) realm clientID userID;
     on_err err (State_Monad.return (has_role_named roleName roles, None)) (\<lambda>e. (False, Some e))
   }"

definition keycloak_LogoutUserSession ::
  "'w kc_helper \<Rightarrow> string \<Rightarrow> string \<Rightarrow> ('w, go_error option) state" where
  "keycloak_LogoutUserSession h realm sessionID =
     c_LogoutUserSession (kc_client h) (ctx_seconds 10) (kc_Token h) realm sessionID"

definition keycloak_CreateClient :: "'w kc_helper \<Rightarrow> string \<Rightarrow> json \<Rightarrow> ('w, string res) state" where
  "keycloak_CreateClient h realm opts =
     c_CreateClient (kc_client h) (ctx_seconds 10) (kc_Token h) realm opts"

definition keycloak_GetClients :: "'w kc_helper \<Rightarrow> string \<Rightarrow> json \<Rightarrow> ('w, json list res) state" where
  "keycloak_GetClients h realm params =
     c_GetClients (kc_client h) (ctx_seconds 10) (kc_Token h) realm params"

definition keycloak_CreateClientProtocolMapper ::
  "'w kc_helper \<Rightarrow> string \<Rightarrow> string \<Rightarrow> json \<Rightarrow> ('w, string res) state" where
  "keycloak_CreateClientProtocolMapper h realm clientId opts =
     c_CreateClientProtocolMapper (kc_client h) (ctx_seconds 10) (kc_Token h) realm clientId opts"

definition keycloak_GetClientSecret ::
  "'w kc_helper \<Rightarrow> string \<Rightarrow> string \<Rightarrow> ('w, json option res) state" where
  "keycloak_GetClientSecret h realm clientId =
     c_GetClientSecret (kc_client h) (ctx_seconds 10) (kc_Token h) realm clientId"

definition keycloak_CreateUser :: "'w kc_helper \<Rightarrow> string \<Rightarrow> json \<Rightarrow> ('w, string res) state" where
  "keycloak_CreateUser h realm user =
     c_CreateUser (kc_client h) (ctx_seconds 10) (kc_Token h) realm user"

definition keycloak_SetPassword ::
  "'w kc_helper \<Rightarrow> string \<Rightarrow> string \<Rightarrow> string \<Rightarrow> ('w, go_error option) state" where
  "keycloak_SetPassword h realm userID password =
     c_SetPassword (kc_client h) (ctx_seconds 10) (kc_Token h) userID realm password False"

definition keycloak_DeleteUser ::
  "'w kc_helper \<Rightarrow> string \<Rightarrow> string \<Rightarrow> ('w, go_error option) state" where
  "keycloak_DeleteUser h realm userID =
     c_DeleteUser (kc_client h) (ctx_seconds 10) (kc_Token h) realm userID"

definition keycloak_UpdateUser ::
  "'w kc_helper \<Rightarrow> string \<Rightarrow> json \<Rightarrow> ('w, go_error option) state" where
  "keycloak_UpdateUser h realm user =
     c_UpdateUser (kc_client h) (ctx_seconds 10) (kc_Token h) realm user"

definition keycloak_GetClientRole ::
  "'w kc_helper \<Rightarrow> string \<Rightarrow> string \<Rightarrow> string \<Rightarrow> ('w, kc_role option res) state" where
  "keycloak_GetClientRole h realm clientId roleName =
     c_GetClientRole (kc_client h) (ctx_seconds 10) (kc_Token h) realm clientId roleName"

definition keycloak_AddClientRolesToUser ::
  "'w kc_helper \<Rightarrow> string \<Rightarrow> string \<Rightarrow> string \<Rightarrow> kc_role list \<Rightarrow> ('w, go_error option) state" where
  "keycloak_AddClientRolesToUser h realm clientId userID roles =
     c_AddClientRolesToUser (kc_client h) (ctx_seconds 10) (kc_Token h) realm clientId userID roles"

definition keycloak_DeleteClientRolesFromUser ::
  "'w kc_helper \<Rightarrow> string \<Rightarrow> string \<Rightarrow> string \<Rightarrow> kc_role list \<Rightarrow> ('w, go_error option) state" where
  "keycloak_DeleteClientRolesFromUser h realm clientId userID roles =
     c_DeleteClientRolesFromUser (kc_client h) (ctx_seconds 10) (kc_Token h) realm clientId userID roles"

definition keycloak_GetRealmRole ::
  "'w kc_helper \<Rightarrow> string \<Rightarrow> string \<Rightarrow> ('w, kc_role option res) state" where
  "keycloak_GetRealmRole h realm roleName =
     c_GetRealmRole (kc_client h) (ctx_seconds 10) (kc_Token h) realm roleName"

definition keycloak_AddRealmRoleToUser ::
  "'w kc_helper \<Rightarrow> string \<Rightarrow> string \<Rightarrow> kc_role list \<Rightarrow> ('w, go_error option) state" where
  "keycloak_AddRealmRoleToUser h realm userID roles =
     c_AddRealmRoleToUser (kc_client h) (ctx_seconds 10) (kc_Token h) realm userID roles"

definition keycloak_GetComponent ::
  "'w kc_helper \<Rightarrow> string \<Rightarrow> string \<Rightarrow> ('w, json option res) state" where
  "keycloak_GetComponent h realm componentID =
     c_GetComponent (kc_client h) (ctx_seconds 10) (kc_Token h) realm componentID"

section \<open>A client that refuses everything\<close>

text \<open>Used by the witnesses only, as it is or with some of its functions replaced.\<close>

definition refuse :: "'a \<Rightarrow> ('w, 'a res) state" where
  "refuse zero = State_Monad.return (zero, Some (APIError 501 ''not implemented''))"

definition refuse_unit :: "('w, go_error option) state" where
  "refuse_unit = State_Monad.return (Some (APIError 501 ''not implemented''))"

definition refusing_client :: "'w KcClient" where
  "refusing_client =
     \<lparr>c_SetInsecureTLS = State_Monad.return (),
      c_Login = \<lambda>_ _ _ _ _ _. refuse None, c_LoginAdmin = \<lambda>_ _ _ _. refuse None,
      c_LoginClient = \<lambda>_ _ _ _. refuse None, c_GetUsers = \<lambda>_ _ _ _. refuse [],
      c_GetClients = \<lambda>_ _ _ _. refuse [], c_CreateClient = \<lambda>_ _ _ _. refuse [],
      c_CreateClientProtocolMapper = \<lambda>_ _ _ _ _. refuse [],
      c_GetClientSecret = \<lambda>_ _ _ _. refuse None, c_CreateUser = \<lambda>_ _ _ _. refuse [],
      c_SetPassword = \<lambda>_ _ _ _ _ _. refuse_unit, c_UpdateUser = \<lambda>_ _ _ _. refuse_unit,
      c_DeleteUser = \<lambda>_ _ _ _. refuse_unit, c_GetClientRole = \<lambda>_ _ _ _ _. refuse None,
      c_AddClientRolesToUser = \<lambda>_ _ _ _ _ _. refuse_unit,
      c_DeleteClientRolesFromUser = \<lambda>_ _ _ _ _ _. refuse_unit,
      c_ExecuteActionsEmail = \<lambda>_ _ _ _. refuse_unit,
      c_GetGroups = \<lambda>_ _ _ _. refuse [], c_GetGroup = \<lambda>_ _ _ _. refuse None,
      c_GetGroupByPath = \<lambda>_ _ _ _. refuse None, c_CreateGroup = \<lambda>_ _ _ _. refuse [],
      c_CreateChildGroup = \<lambda>_ _ _ _ _. refuse [], c_DeleteGroup = \<lambda>_ _ _ _. refuse_unit,
      c_GetUserGroups = \<lambda>_ _ _ _ _. refuse [], c_GetGroupMembers = \<lambda>_ _ _ _ _. refuse [],
      c_AddUserToGroup = \<lambda>_ _ _ _ _. refuse_unit,
      c_DeleteUserFromGroup = \<lambda>_ _ _ _ _. refuse_unit,
      c_GetClientRolesByUserID = \<lambda>_ _ _ _ _. refuse [],
      c_GetUsersByClientRoleName = \<lambda>_ _ _ _ _ _. refuse [],
      c_GetRealmRole = \<lambda>_ _ _ _. refuse None, c_AddRealmRoleToUser = \<lambda>_ _ _ _ _. refuse_unit,
      c_LogoutUserSession = \<lambda>_ _ _ _. refuse_unit, c_GetComponent = \<lambda>_ _ _ _. refuse None\<rparr>"

section \<open>What construction promises\<close>

text \<open>
  The fields a helper needs, with the error that reports each one missing, in the order in which
  they are looked at; credentials are a pair of user name and password or of client and secret.
\<close>

definition has_credentials :: "kc_options \<Rightarrow> bool" where
  "has_credentials o1 \<longleftrightarrow> (kc_Username o1 \<noteq> [] \<and> kc_Password o1 \<noteq> [])
     \<or> (kc_ClientID o1 \<noteq> [] \<and> kc_ClientSecret o1 \<noteq> [])"

definition kc_complaints :: "bool \<Rightarrow> kc_options \<Rightarrow> string list" where
  "kc_complaints creds o1 =
     map snd (filter fst
       [(kc_Scheme o1 = [], ''keycloak scheme is empty''),
        (kc_Ip o1 = [], ''keycloak ip is empty''),
        (kc_Port o1 = 0, ''keycloak port is empty''),
        (kc_Path o1 = [], ''keycloak path is empty''),
        (creds \<and> \<not> has_credentials o1, ''keycloak credentials are empty: need either ''
           @ ''username/password or clientId/clientSecret''),
        (kc_Realm o1 = [], ''keycloak realm is empty'')])"

lemma keycloak_NewHelper_complaints:
  "keycloak_NewHelper NewClient opts =
     (let o1 = apply_options opts keycloak_zero
      in case kc_complaints True o1 of
          [] \<Rightarrow> (Some \<lparr>kc_client = NewClient (keycloak_genKeycloakUrl o1), kc_Token = [], kc_Options = o1\<rparr>, None)
        | m # _ \<Rightarrow> (None, Some (ErrText m)))"
  by (simp add: Let_def keycloak_NewHelper_def SetKeycloakClient_def
      kc_complaints_def has_credentials_def kc_opts.init_eq)

text \<open>
  \<open>NewHelper\<close> succeeds exactly when nothing is missing from the options, in which each option
  overrides the ones before it, and otherwise reports the first missing field and makes no client;
  the helper without credentials differs only in that it does not ask for them. Both clients talk
  to the URL built from the options.
\<close>

theorem keycloak_helpers_validate:
  "(let o1 = apply_options opts keycloak_zero in
     keycloak_NewHelper NewClient opts =
       (case kc_complaints True o1 of
          [] \<Rightarrow> (Some \<lparr>kc_client = NewClient (keycloak_genKeycloakUrl o1), kc_Token = [], kc_Options = o1\<rparr>, None)
        | m # _ \<Rightarrow> (None, Some (ErrText m)))
     \<and> NewHelperWithoutCredentials NewClient opts =
       (case kc_complaints False o1 of
          [] \<Rightarrow> (Some \<lparr>nc_client = NewClient (keycloak_genKeycloakUrl o1), nc_Options = o1\<rparr>, None)
        | m # _ \<Rightarrow> (None, Some (ErrText m))))"
  by (simp add: Let_def keycloak_NewHelper_complaints NewHelperWithoutCredentials_def
      nocreds_genKeycloakUrl_eq kc_complaints_def kc_opts.init_eq)

text \<open>
  The URL of the client: for a scheme, host and absolute path that need no escaping it is
  \<open>scheme://host:port/path\<close>, and the path of any URL the package builds unescapes to the
  configured one.
\<close>

lemma not_escaped_colon: "\<not> shouldEscape (CHR '':'') encodeHost"
  by (simp add: shouldEscape_def is_alnum_def)

lemma Itoa_plain:
  assumes "c \<in> set (Itoa i)" shows "\<not> shouldEscape c mode"
proof -
  have dig: "\<not> shouldEscape (char_of (48 + n)) mode" if "n < 10" for n :: nat
    using that by (simp add: shouldEscape_def is_alnum_def of_char_of)
  have "c \<in> set (nat_digits n) \<Longrightarrow> \<not> shouldEscape c mode" for n
    by (induction n rule: nat_digits.induct)
      (subst (asm) nat_digits.simps, auto simp: dig split: if_splits)
  moreover have "\<not> shouldEscape (CHR ''-'') mode"
    by (simp add: shouldEscape_def is_alnum_def)
  ultimately show ?thesis using assms by (auto simp: Itoa_def split: if_splits)
qed

theorem keycloak_url_shape:
  assumes "kc_Scheme o1 \<noteq> []" and "HasPrefix (kc_Path o1) ''/''"
    and "\<forall>c \<in> set (kc_Ip o1). \<not> shouldEscape c encodeHost"
  shows "keycloak_genKeycloakUrl o1 = kc_Scheme o1 @ ''://'' @ kc_Ip o1 @ '':'' @ Itoa (kc_Port o1)
      @ escape (kc_Path o1) encodePath
    \<and> unescape_path (escape (kc_Path o1) encodePath) = Some (kc_Path o1)"
proof -
  have host: "escape (kc_Ip o1 @ '':'' @ Itoa (kc_Port o1)) encodeHost
      = kc_Ip o1 @ '':'' @ Itoa (kc_Port o1)"
    using assms(3) Itoa_plain not_escaped_colon by (intro escape_plain) auto
  from assms(2) obtain p where p: "kc_Path o1 = CHR ''/'' # p"
    by (auto simp: HasPrefix_iff)
  have slash: "escape (CHR ''/'' # p) encodePath = CHR ''/'' # escape p encodePath"
    by (simp add: escape_def shouldEscape_def is_alnum_def)
  show ?thesis using assms(1) host p slash
    by (simp add: keycloak_genKeycloakUrl_def URL_String_def empty_URL_def EscapedPath_def
        unescape_escape Let_def)
qed

lemma keycloak_url_shape_witness:
  "keycloak_genKeycloakUrl (keycloak_zero\<lparr>kc_Scheme := ''https'', kc_Ip := ''10.0.0.1'',
     kc_Port := 8443, kc_Path := ''/auth''\<rparr>) = ''https://10.0.0.1:8443/auth''"
proof -
  let ?o = "keycloak_zero\<lparr>kc_Scheme := ''https'', kc_Ip := ''10.0.0.1'',
     kc_Port := 8443, kc_Path := ''/auth''\<rparr>"
  have "Itoa 8443 = ''8443''"
    by (simp add: Itoa_def nat_digits.simps char_of_def bit_0)
  moreover have "escape ''/auth'' encodePath = ''/auth''" and "HasPrefix ''/auth'' ''/''"
    by (simp_all add: escape_def shouldEscape_def is_alnum_def HasPrefix_def)
  moreover have "\<forall>c \<in> set ''10.0.0.1''. \<not> shouldEscape c encodeHost"
    by (simp add: shouldEscape_def is_alnum_def)
  ultimately show ?thesis using keycloak_url_shape [of ?o] by simp
qed

definition api_error_of :: "go_error option \<Rightarrow> (int \<times> string) option" where
  "api_error_of err = Option.bind err errors_As_API"

text \<open>
  The three logins: on success the token of the answer is in the helper; on failure the helper
  is unchanged. \<open>CheckLoginUser\<close> keeps the chain of the error, so \<open>errors.As\<close> still finds the API
  error of the server; the two helper logins keep only its text.
\<close>

theorem keycloak_login_errors:
  assumes "run_state (set_tls (kc_client h) (kc_Options h)) w = ((), w1)"
    and "run_state (c_LoginAdmin (kc_client h) (ctx_minutes 2) (kc_Username (kc_Options h))
      (kc_Password (kc_Options h)) (kc_Realm (kc_Options h))) w1 = ((admin_token, admin_err), w2)"
    and "run_state (c_Login (kc_client h) (ctx_seconds 10) (cred_ID cl) (cred_Secret cl)
      (kc_Realm (kc_Options h)) user pw) w1 = ((user_token, user_err), w3)"
    and "admin_err = None \<Longrightarrow> admin_token \<noteq> None"
  shows "(\<exists>err h'. run_state (LoginAdmin h) w = (Return (err, h'), w2)
      \<and> (err = None \<longleftrightarrow> admin_err = None) \<and> api_error_of err = None
      \<and> (case admin_err of None \<Rightarrow> h' = h\<lparr>kc_Token := AccessToken (the admin_token)\<rparr>
         | Some e \<Rightarrow> h' = h))
    \<and> (\<exists>token err. run_state (CheckLoginUser h user pw cl) w = ((token, err), w3)
      \<and> (err = None \<longleftrightarrow> user_err = None) \<and> api_error_of err = api_error_of user_err
      \<and> token = (if user_err = None then user_token else None))"
  using assms
  by (auto simp: LoginAdmin_def CheckLoginUser_def api_error_of_def split: option.splits)

lemma keycloak_login_errors_witness:
  "(\<exists>err h'. run_state (LoginAdmin \<lparr>kc_client = refusing_client, kc_Token = [],
       kc_Options = keycloak_zero\<rparr>) () = (Return (err, h'), ()) \<and> err \<noteq> None \<and> api_error_of err = None)
   \<and> (\<exists>token err. run_state (CheckLoginUser \<lparr>kc_client = refusing_client, kc_Token = [],
       kc_Options = keycloak_zero\<rparr> ''u'' ''p'' DefaultAdmin) () = ((token, err), ())
      \<and> api_error_of err = Some (501, ''not implemented'') \<and> token = None)"
proof -
  let ?h = "\<lparr>kc_client = refusing_client, kc_Token = [], kc_Options = keycloak_zero\<rparr>"
  let ?e = "Some (APIError 501 ''not implemented'')"
  have a: "run_state (set_tls (kc_client ?h) (kc_Options ?h)) () = ((), ())"
    by (simp add: set_tls_def keycloak_zero_def)
  have b: "run_state (c_LoginAdmin (kc_client ?h) (ctx_minutes 2) (kc_Username (kc_Options ?h))
      (kc_Password (kc_Options ?h)) (kc_Realm (kc_Options ?h))) () = ((None, ?e), ())"
    by (simp add: refusing_client_def refuse_def)
  have c: "run_state (c_Login (kc_client ?h) (ctx_seconds 10) (cred_ID DefaultAdmin)
      (cred_Secret DefaultAdmin) (kc_Realm (kc_Options ?h)) ''u'' ''p'') () = ((None, ?e), ())"
    by (simp add: refusing_client_def refuse_def)
  from keycloak_login_errors [OF a b c] show ?thesis
    by (auto simp: api_error_of_def)
qed

text \<open>
  \<open>NewGlobalHelper\<close> builds the helper once. When the options of the first call are refused it
  reports the error, but every later call reports success whatever its options, and the global
  helper stays nil.
\<close>

theorem keycloak_global_failure_sticks:
  fixes v w :: 'w
  assumes "kc_complaints True (apply_options opts keycloak_zero) = m # ms"
  shows "\<exists>g. run_state (keycloak_NewGlobalHelper NewClient opts) (once_init, w)
      = (Some (ErrText m), (g, w))
    \<and> run_state (keycloak_NewGlobalHelper NewClient opts') (g, v) = (None, (g, v))
    \<and> keycloak_GetGlobalHelper g = None"
proof -
  have "keycloak_NewHelper NewClient opts = (None, Some (ErrText m))"
    using assms by (simp add: keycloak_NewHelper_complaints)
  then have "run_state (State_Monad.return (keycloak_NewHelper NewClient opts)) w
      = ((None, Some (ErrText m)), w)" by simp
  from kc_global.failed_init_sticks [OF _ this, where g = once_init and opts' = opts' and v = v]
  show ?thesis by (simp add: once_init_def)
qed

lemma keycloak_global_failure_sticks_witness:
  "\<exists>g. run_state (keycloak_NewGlobalHelper (\<lambda>_. refusing_client :: unit KcClient) []) (once_init, ())
      = (Some (ErrText ''keycloak scheme is empty''), (g, ()))
    \<and> run_state (keycloak_NewGlobalHelper (\<lambda>_. refusing_client :: unit KcClient) [keycloak_Scheme ''http'']) (g, ()) = (None, (g, ()))
    \<and> keycloak_GetGlobalHelper g = None"
  by (rule keycloak_global_failure_sticks [where ms = "tl (kc_complaints True keycloak_zero)"])
    (simp add: kc_complaints_def keycloak_zero_def)

end
