(* ===== verification/Loops.thy ===== *)
theory Loops
  imports Prelude
begin

text \<open>
  The loop idioms of the module, each as an interface with its laws proved once:
  \<^item> \<open>bounded_retry\<close>: an attempt repeated until it succeeds or a budget of attempts is used up
    (the \<open>trialCount\<close> loops of package kubernetes, the email senders, the polling loops of rancher);
  \<^item> \<open>stop_at_error\<close>: a step for each element of a slice, left at the first error;
  \<^item> \<open>page_loop\<close>: a listing collected page by page until a short page (the three \<open>paginate\<close>
    functions of package keycloak);
  \<^item> \<open>first_match\<close>: a listing searched for the first element with a key (the \<open>Get...ByName\<close>
    functions of package openstack).
\<close>

section \<open>Bounded retry\<close>

text \<open>
  \<open>failing n attempt e w\<close> is the carried value and the world after \<open>n\<close> attempts in a row that
  all ask to go on, and \<open>None\<close> when one of them finishes.
\<close>

fun failing :: "nat \<Rightarrow> ('e \<Rightarrow> ('w, 'e + 'r) state) \<Rightarrow> 'e \<Rightarrow> 'w \<Rightarrow> ('e \<times> 'w) option" where
  "failing 0 attempt e w = Some (e, w)"
| "failing (Suc n) attempt e w =
     (case run_state (attempt e) w of (Inl e', w') \<Rightarrow> failing n attempt e' w' | (Inr r, w') \<Rightarrow> None)"

lemma failing_split:
  "failing (m + n) attempt e w =
     (case failing m attempt e w of None \<Rightarrow> None | Some (e', w') \<Rightarrow> failing n attempt e' w')"
  by (induction m arbitrary: e w) (auto split: prod.splits sum.splits)

lemma failing_prefix:
  "failing n attempt e w = Some s \<Longrightarrow> m \<le> n \<Longrightarrow> \<exists>s'. failing m attempt e w = Some s'"
  using failing_split [of m "n - m" attempt e w] by (auto split: option.splits)

locale bounded_retry =
  fixes loop :: "nat \<Rightarrow> 'e \<Rightarrow> ('w, 'r) state"
    and attempt :: "'e \<Rightarrow> ('w, 'e + 'r) state"
    and exhausted :: "'e \<Rightarrow> 'r"
  assumes loop_zero: "loop 0 e = State_Monad.return (exhausted e)"
    and loop_suc: "loop (Suc n) e =
      State_Monad.bind (attempt e)
        (\<lambda>o1. case o1 of Inl e' \<Rightarrow> loop n e' | Inr r \<Rightarrow> State_Monad.return r)"
begin

lemma loop_all_fail:
  "failing n attempt e w = Some (e', w') \<Longrightarrow> run_state (loop n e) w = (exhausted e', w')"
proof (induction n arbitrary: e w)
  case 0
  then show ?case by (simp add: loop_zero)
next
  case (Suc n)
  obtain o1 v where a: "run_state (attempt e) w = (o1, v)" by (metis prod.exhaust)
  with Suc show ?case by (cases o1) (auto simp: loop_suc)
qed

lemma loop_first_success:
  assumes "failing k attempt e w = Some (e1, w1)" and "run_state (attempt e1) w1 = (Inr r, w2)"
    and "k < n"
  shows "run_state (loop n e) w = (r, w2)"
  using assms
proof (induction k arbitrary: e w n)
  case 0
  then obtain m where "n = Suc m" by (cases n) auto
  with 0 show ?case by (simp add: loop_suc)
next
  case (Suc k)
  then obtain m where n: "n = Suc m" by (cases n) auto
  obtain o1 v where a: "run_state (attempt e) w = (o1, v)" by (metis prod.exhaust)
  with Suc.prems(1) obtain e2 where o1: "o1 = Inl e2" and f: "failing k attempt e2 v = Some (e1, w1)"
    by (auto split: sum.splits)
  from Suc.IH [OF f Suc.prems(2), of m] Suc.prems(3) n have "run_state (loop m e2) v = (r, w2)"
    by simp
  with a o1 n show ?case by (simp add: loop_suc)
qed

text \<open>There is no third way for the loop to end.\<close>

lemma loop_cases:
  obtains (exhausted) e' w' where "failing n attempt e w = Some (e', w')"
      and "run_state (loop n e) w = (exhausted e', w')"
  | (success) k e1 w1 r w2 where "k < n" and "failing k attempt e w = Some (e1, w1)"
      and "run_state (attempt e1) w1 = (Inr r, w2)" and "run_state (loop n e) w = (r, w2)"
proof -
  have "(\<exists>s. failing n attempt e w = Some s)
      \<or> (\<exists>k e1 w1 r w2. k < n \<and> failing k attempt e w = Some (e1, w1)
            \<and> run_state (attempt e1) w1 = (Inr r, w2))"
  proof (induction n arbitrary: e w)
    case 0
    show ?case by simp
  next
    case (Suc n)
    obtain o1 v where a: "run_state (attempt e) w = (o1, v)" by (metis prod.exhaust)
    show ?case
    proof (cases o1)
      case (Inl e2)
      from Suc [of e2 v] show ?thesis
      proof
        assume "\<exists>s. failing n attempt e2 v = Some s"
        with a Inl show ?thesis by simp
      next
        assume "\<exists>k e1 w1 r w2. k < n \<and> failing k attempt e2 v = Some (e1, w1)
            \<and> run_state (attempt e1) w1 = (Inr r, w2)"
        then obtain k e1 w1 r w2 where "k < n" "failing k attempt e2 v = Some (e1, w1)"
          "run_state (attempt e1) w1 = (Inr r, w2)" by blast
        with a Inl have "Suc k < Suc n \<and> failing (Suc k) attempt e w = Some (e1, w1)
            \<and> run_state (attempt e1) w1 = (Inr r, w2)" by simp
        then show ?thesis by blast
      qed
    next
      case (Inr r)
      with a have "0 < Suc n \<and> failing 0 attempt e w = Some (e, w)
          \<and> run_state (attempt e) w = (Inr r, v)" by simp
      then show ?thesis by blast
    qed
  qed
  then show ?thesis
    by (auto intro: exhausted success loop_all_fail loop_first_success)
qed

text \<open>A counter that each attempt increases by one counts the attempts.\<close>

lemma loop_attempts:
  assumes count: "\<And>e w o1 w'. run_state (attempt e) w = (o1, w') \<Longrightarrow> cnt w' = cnt w + (1 :: nat)"
  shows "cnt (snd (run_state (loop n e) w)) \<le> cnt w + n"
proof (induction n arbitrary: e w)
  case 0
  show ?case by (simp add: loop_zero)
next
  case (Suc n)
  obtain o1 v where a: "run_state (attempt e) w = (o1, v)" by (metis prod.exhaust)
  from count [OF a] Suc [of _ v] show ?case
    by (cases o1) (auto simp: loop_suc a intro: order_trans)
qed

end

section \<open>Stopping at the first error\<close>

text \<open>
  \<open>all_ok ok step xs w\<close> is the world after the steps of all elements, when each of them answers
  \<open>ok\<close>: \<open>None\<close> for a step that returns an error value, \<open>Return None\<close> for one that may also panic.
\<close>

fun all_ok :: "'r \<Rightarrow> ('x \<Rightarrow> ('w, 'r) state) \<Rightarrow> 'x list \<Rightarrow> 'w \<Rightarrow> 'w option" where
  "all_ok ok step [] w = Some w"
| "all_ok ok step (x # xs) w =
     (case run_state (step x) w of (r, w') \<Rightarrow> if r = ok then all_ok ok step xs w' else None)"

lemma all_ok_append:
  "all_ok ok step (xs @ ys) w =
     (case all_ok ok step xs w of None \<Rightarrow> None | Some w' \<Rightarrow> all_ok ok step ys w')"
  by (induction xs arbitrary: w) (auto split: prod.splits)

lemma all_ok_cong:
  "(\<And>x. x \<in> set xs \<Longrightarrow> step x = step' x) \<Longrightarrow> all_ok ok step xs w = all_ok ok step' xs w"
  by (induction xs arbitrary: w) (auto split: prod.splits)

lemma all_ok_invariant:
  assumes "all_ok ok step xs w = Some w'" and "keeps w"
    and "\<And>x v v'. x \<in> set xs \<Longrightarrow> keeps v \<Longrightarrow> run_state (step x) v = (ok, v') \<Longrightarrow> keeps v'"
  shows "keeps w'"
  using assms
proof (induction xs arbitrary: w)
  case Nil
  then show ?case by simp
next
  case (Cons x xs)
  then obtain v where "run_state (step x) w = (ok, v)" "all_ok ok step xs v = Some w'"
    by (auto split: prod.splits if_splits)
  with Cons show ?case by (metis list.set_intros)
qed

text \<open>Elements whose step does nothing may be left out.\<close>

lemma all_ok_filter:
  "(\<And>x. \<not> P x \<Longrightarrow> step x = State_Monad.return ok) \<Longrightarrow>
    all_ok ok step xs w = all_ok ok step (filter P xs) w"
  by (induction xs arbitrary: w) (auto split: prod.splits)

text \<open>
  \<open>acts call view w r v\<close>: made in the world \<open>w\<close>, the call answers \<open>r\<close> and leaves what is seen through
  \<open>view\<close> as \<open>v\<close>.
\<close>

definition acts :: "('w, 'r) state \<Rightarrow> ('w \<Rightarrow> 'v) \<Rightarrow> 'w \<Rightarrow> 'r \<Rightarrow> 'v \<Rightarrow> bool" where
  "acts call view w r v \<longleftrightarrow> (\<exists>w'. run_state call w = (r, w') \<and> view w' = v)"

lemma acts_bind:
  assumes "acts call view w r v" and "\<And>w'. view w' = v \<Longrightarrow> acts (f r) view w' r' v'"
  shows "acts (State_Monad.bind call f) view w r' v'"
  using assms unfolding acts_def by (metis run_state_bind_eq)

lemma acts_return: "v = view w \<Longrightarrow> acts (State_Monad.return r) view w r v"
  by (simp add: acts_def)

lemma actsE:
  assumes "acts call view w r v"
  obtains w' where "run_state call w = (r, w')" and "view w' = v"
  using assms unfolding acts_def by blast

text \<open>The two forms in which the code leaves a loop.\<close>

lemma proceed_on_err:
  "(\<lambda>r. proceed r (\<lambda>err. on_err err m (\<lambda>e. Return (Some e)))) =
   (\<lambda>r. if r = Return None then m else State_Monad.return r)"
  by (rule ext) (auto simp: proceed_def on_err_def split: outcome.splits option.splits)

lemma on_err_if: "on_err err m Some = (if err = None then m else State_Monad.return err)"
  by (cases err) simp_all

locale stop_at_error =
  fixes loop :: "'x list \<Rightarrow> ('w, 'r) state" and step :: "'x \<Rightarrow> ('w, 'r) state" and ok :: "'r"
  assumes loop_nil: "loop [] = State_Monad.return ok"
    and loop_cons: "loop (x # xs) =
      State_Monad.bind (step x) (\<lambda>r. if r = ok then loop xs else State_Monad.return r)"
begin

lemma loop_ok_iff: "run_state (loop xs) w = (ok, w') \<longleftrightarrow> all_ok ok step xs w = Some w'"
proof (induction xs arbitrary: w)
  case Nil
  show ?case by (auto simp: loop_nil)
next
  case (Cons x xs)
  obtain r v where "run_state (step x) w = (r, v)" by (metis prod.exhaust)
  with Cons show ?case by (auto simp: loop_cons)
qed

text \<open>
  On failure the answer is that of one element, every element before it succeeded and no element
  after it was touched: the final world is the one its step left.
\<close>

lemma loop_error:
  assumes "run_state (loop xs) w = (r, w')" and "r \<noteq> ok"
  shows "\<exists>ys x zs v. xs = ys @ x # zs \<and> all_ok ok step ys w = Some v \<and> run_state (step x) v = (r, w')"
  using assms(1)
proof (induction xs arbitrary: w)
  case Nil
  with assms(2) show ?case by (simp add: loop_nil)
next
  case (Cons x xs)
  obtain r1 v where a: "run_state (step x) w = (r1, v)" by (metis prod.exhaust)
  show ?case
  proof (cases "r1 = ok")
    case True
    with Cons.prems a have "run_state (loop xs) v = (r, w')" by (simp add: loop_cons)
    from Cons.IH [OF this] obtain ys y zs u where "xs = ys @ y # zs" "all_ok ok step ys v = Some u"
      "run_state (step y) u = (r, w')" by blast
    with a True have "x # xs = (x # ys) @ y # zs \<and> all_ok ok step (x # ys) w = Some u
        \<and> run_state (step y) u = (r, w')" by simp
    then show ?thesis by blast
  next
    case False
    with Cons.prems a have "x # xs = [] @ x # xs \<and> all_ok ok step [] w = Some w
        \<and> run_state (step x) w = (r, w')" by (simp add: loop_cons)
    then show ?thesis by blast
  qed
qed

lemma loop_stops:
  assumes "all_ok ok step ys w = Some v" and "run_state (step x) v = (r, w')" and "r \<noteq> ok"
  shows "run_state (loop (ys @ x # zs)) w = (r, w')"
  using assms
proof (induction ys arbitrary: w)
  case Nil
  then show ?case by (simp add: loop_cons)
next
  case (Cons y ys)
  then show ?case by (auto simp: loop_cons split: prod.splits if_splits)
qed

text \<open>
  The loop seen through a view, with an invariant \<open>I\<close> over the elements that are left: it answers
  \<open>ok\<close> when every element is \<open>good\<close>, and otherwise what the first other one answers, which keeps \<open>J\<close>.
\<close>

lemma loop_acts:
  assumes good: "\<And>x xs w. I (x # xs) (view w) \<Longrightarrow> good x \<Longrightarrow> \<exists>v. acts (step x) view w ok v \<and> I xs v"
    and bad: "\<And>x xs w. I (x # xs) (view w) \<Longrightarrow> \<not> good x \<Longrightarrow> \<exists>r v. bad r \<and> acts (step x) view w r v \<and> J v"
    and not_ok: "\<And>r. bad r \<Longrightarrow> r \<noteq> ok" and "I xs (view w)"
  shows "if \<forall>x \<in> set xs. good x then \<exists>v. acts (loop xs) view w ok v \<and> I [] v
    else \<exists>r v. bad r \<and> acts (loop xs) view w r v \<and> J v"
  using assms(4)
proof (induction xs arbitrary: w)
  case Nil
  then show ?case by (auto simp: loop_nil intro!: acts_return)
next
  case (Cons x xs)
  show ?case
  proof (cases "good x")
    case True
    from good [OF Cons.prems True] obtain u where u: "run_state (step x) w = (ok, u)" "I xs (view u)"
      by (auto elim: actsE)
    have "acts (loop (x # xs)) view w r v \<longleftrightarrow> acts (loop xs) view u r v" for r v
      by (simp add: acts_def loop_cons u(1))
    with Cons.IH [OF u(2)] True show ?thesis by (auto split: if_splits)
  next
    case False
    from bad [OF Cons.prems False] obtain r u where "bad r" "run_state (step x) w = (r, u)" "J (view u)"
      by (auto elim: actsE)
    with not_ok False show ?thesis by (auto simp: acts_def loop_cons)
  qed
qed

end

section \<open>First match\<close>

locale first_match =
  fixes search :: "'k \<Rightarrow> 'a list \<Rightarrow> 'a option res"
    and key :: "'a \<Rightarrow> 'k"
    and missing :: "'k \<Rightarrow> go_error"
  assumes search_nil: "search k [] = (None, Some (missing k))"
    and search_cons: "search k (x # xs) = (if key x = k then (Some x, None) else search k xs)"
begin

lemma search_find: "search k xs = (case find (\<lambda>x. key x = k) xs of
    Some x \<Rightarrow> (Some x, None) | None \<Rightarrow> (None, Some (missing k)))"
  by (induction xs) (simp_all add: search_nil search_cons)

lemma search_sound: "search k xs = (Some x, err) \<Longrightarrow> x \<in> set xs \<and> key x = k \<and> err = None"
  by (auto simp: search_find find_Some_iff split: option.splits)

lemma search_missing_iff: "search k xs = (None, Some (missing k)) \<longleftrightarrow> k \<notin> key ` set xs"
  by (induction xs) (auto simp add: search_nil search_cons image_iff)

lemma search_unique:
  "distinct (map key xs) \<Longrightarrow> x \<in> set xs \<Longrightarrow> search (key x) xs = (Some x, None)"
  by (induction xs) (auto simp: search_cons image_iff split: if_splits)

end

section \<open>Page by page\<close>

text \<open>
  \<open>page_loop\<close> is the contract of a paginating function: when the caller chose a page size the
  request goes through once, unchanged; otherwise the loop asks for windows of \<open>psize\<close> elements
  and ends with the first shorter one. A loop that does not end has the value \<open>None\<close>.
  \<open>serves\<close> says of a request function that, in every state satisfying an invariant, it answers a
  window of the list \<open>xs\<close> and keeps the invariant.
\<close>

definition window :: "int \<Rightarrow> int \<Rightarrow> 'a list \<Rightarrow> 'a list" where
  "window first n xs = take (nat n) (drop (nat first) xs)"

definition serves ::
  "(int \<Rightarrow> ('w, 'a list res) state) \<Rightarrow> int \<Rightarrow> ('w \<Rightarrow> bool) \<Rightarrow> 'a list \<Rightarrow> bool" where
  "serves ask psize steady xs \<longleftrightarrow> (\<forall>first w. 0 \<le> first \<longrightarrow> steady w \<longrightarrow>
     (\<exists>w'. run_state (ask first) w = ((window first psize xs, None), w') \<and> steady w'))"

text \<open>
  \<open>answers\<close> allows the server to fail any request, and only asks that what it lists stands in a
  given relation to the window of \<open>xs\<close>.
\<close>

definition answers ::
  "('a \<Rightarrow> 'b \<Rightarrow> bool) \<Rightarrow> (int \<Rightarrow> ('w, 'a list res) state) \<Rightarrow> int \<Rightarrow> ('w \<Rightarrow> bool) \<Rightarrow> 'b list \<Rightarrow> bool" where
  "answers R ask psize steady xs \<longleftrightarrow> (\<forall>first w. 0 \<le> first \<longrightarrow> steady w \<longrightarrow>
     (\<exists>got err w'. run_state (ask first) w = ((got, err), w') \<and> steady w'
        \<and> (err = None \<longrightarrow> list_all2 R got (window first psize xs))))"

lemma answersD:
  assumes "answers R ask psize steady xs" and "0 \<le> first" and "steady w"
  obtains got err w' where "run_state (ask first) w = ((got, err), w')" and "steady w'"
    and "err = None \<Longrightarrow> list_all2 R got (window first psize xs)"
  using assms unfolding answers_def by blast

lemma servesD:
  "serves ask psize steady xs \<Longrightarrow> 0 \<le> first \<Longrightarrow> steady w \<Longrightarrow>
    \<exists>w'. run_state (ask first) w = ((window first psize xs, None), w') \<and> steady w'"
  by (simp add: serves_def)

lemma window_short:
  "0 \<le> first \<Longrightarrow> 0 < psize \<Longrightarrow>
    int (length (window first psize xs)) < psize \<longleftrightarrow> int (length xs) < first + psize"
  unfolding window_def by (auto simp: min_def nat_le_iff split: if_splits)

lemma window_step:
  "0 \<le> first \<Longrightarrow> 0 \<le> psize \<Longrightarrow>
    take (nat first) xs @ window first psize xs = take (nat (first + psize)) xs"
  by (simp add: window_def take_add nat_add_distrib)

locale page_loop =
  fixes paginate :: "('p \<Rightarrow> ('w, 'a list res) state) \<Rightarrow> 'p \<Rightarrow> 'w \<Rightarrow> ('a list res \<times> 'w) option"
    and loop :: "('p \<Rightarrow> ('w, 'a list res) state) \<Rightarrow> 'p \<Rightarrow> int \<Rightarrow> 'a list \<Rightarrow> 'w
      \<Rightarrow> ('a list res \<times> 'w) option"
    and max_of :: "'p \<Rightarrow> int option"
    and set_page :: "int \<Rightarrow> int \<Rightarrow> 'p \<Rightarrow> 'p"
    and psize :: int
  assumes psize_pos: "0 < psize"
    and paginate_max: "max_of p = Some m \<Longrightarrow> paginate fetch p w = Some (run_state (fetch p) w)"
    and paginate_loop: "max_of p = None \<Longrightarrow> paginate fetch p w = loop fetch p 0 [] w"
    and loop_step: "loop fetch p first all w =
      (case run_state (fetch (set_page first psize p)) w of ((got, err), w') \<Rightarrow>
        (case err of Some e \<Rightarrow> Some (([], Some e), w')
         | None \<Rightarrow> if int (length got) < psize then Some ((all @ got, None), w')
                  else loop fetch p (first + psize) (all @ got) w'))"
begin

lemma loop_collects:
  assumes srv: "serves (\<lambda>first. fetch (set_page first psize p)) psize steady xs"
    and "steady w" and "0 \<le> first"
  shows "\<exists>w'. loop fetch p first (take (nat first) xs) w = Some ((xs, None), w') \<and> steady w'"
  using assms(2,3)
proof (induction "nat (int (length xs) - first)" arbitrary: first w rule: less_induct)
  case less
  from servesD [OF srv less.prems(2,1)] obtain w' where
    f: "run_state (fetch (set_page first psize p)) w = ((window first psize xs, None), w')"
    and steady: "steady w'" by blast
  have app: "take (nat first) xs @ window first psize xs = take (nat (first + psize)) xs"
    by (rule window_step) (use less.prems(2) psize_pos in auto)
  show ?case
  proof (cases "int (length xs) < first + psize")
    case True
    then have "int (length (window first psize xs)) < psize" and "take (nat (first + psize)) xs = xs"
      using window_short [OF less.prems(2) psize_pos, of xs] less.prems(2) psize_pos by auto
    with f app steady show ?thesis by (subst loop_step) simp
  next
    case False
    then have "\<not> int (length (window first psize xs)) < psize"
      and "nat (int (length xs) - (first + psize)) < nat (int (length xs) - first)"
      and "0 \<le> first + psize"
      using window_short [OF less.prems(2) psize_pos, of xs] less.prems(2) psize_pos by auto
    with f app less.hyps steady show ?thesis by (subst loop_step) simp
  qed
qed

text \<open>Against a server that answers windows of \<open>xs\<close>, the whole of \<open>xs\<close> is returned.\<close>

lemma paginate_collects:
  assumes "max_of p = None" and "serves (\<lambda>first. fetch (set_page first psize p)) psize steady xs"
    and "steady w"
  shows "\<exists>w'. paginate fetch p w = Some ((xs, None), w') \<and> steady w'"
  using loop_collects [OF assms(2,3), of 0] by (simp add: paginate_loop assms(1))

text \<open>
  Against a server that may fail, the loop still ends, and a result without an error is the
  whole list.
\<close>

lemma loop_total:
  assumes srv: "answers R (\<lambda>first. fetch (set_page first psize p)) psize steady xs"
    and "steady w" and "0 \<le> first" and "list_all2 R all (take (nat first) xs)"
  shows "\<exists>r w'. loop fetch p first all w = Some (r, w') \<and> steady w'
    \<and> (snd r = None \<longrightarrow> list_all2 R (fst r) xs)"
  using assms(2-4)
proof (induction "nat (int (length xs) - first)" arbitrary: first all w rule: less_induct)
  case less
  from answersD [OF srv less.prems(2,1)] obtain got err v where
    f: "run_state (fetch (set_page first psize p)) w = ((got, err), v)" and v: "steady v"
    and got: "err = None \<Longrightarrow> list_all2 R got (window first psize xs)" by metis
  show ?case
  proof (cases err)
    case (Some e)
    with f v show ?thesis by (subst loop_step) simp
  next
    case None
    have app: "list_all2 R (all @ got) (take (nat (first + psize)) xs)"
      using list_all2_appendI [OF less.prems(3) got [OF None]]
        window_step [OF less.prems(2), of psize xs] psize_pos by simp
    have len: "length got = length (window first psize xs)"
      using got [OF None] by (rule list_all2_lengthD)
    show ?thesis
    proof (cases "int (length xs) < first + psize")
      case True
      then have "int (length got) < psize" and "take (nat (first + psize)) xs = xs"
        using window_short [OF less.prems(2) psize_pos, of xs] len less.prems(2) psize_pos by auto
      with f v app None show ?thesis by (subst loop_step) simp
    next
      case False
      then have "\<not> int (length got) < psize" and "0 \<le> first + psize"
        and "nat (int (length xs) - (first + psize)) < nat (int (length xs) - first)"
        using window_short [OF less.prems(2) psize_pos, of xs] len less.prems(2) psize_pos by auto
      with less.hyps [OF _ v _ app] f None show ?thesis by (subst loop_step) simp
    qed
  qed
qed

lemma paginate_total:
  assumes "max_of p = None" and "answers R (\<lambda>first. fetch (set_page first psize p)) psize steady xs"
    and "steady w"
  shows "\<exists>r w'. paginate fetch p w = Some (r, w') \<and> steady w' \<and> (snd r = None \<longrightarrow> list_all2 R (fst r) xs)"
  using loop_total [OF assms(2,3), of 0 "[]"] by (simp add: paginate_loop assms(1))

text \<open>An error of any page is the result, and what was collected before it is dropped.\<close>

lemma loop_error:
  assumes "run_state (fetch (set_page first psize p)) w = ((got, Some e), w')"
  shows "loop fetch p first all w = Some (([], Some e), w')"
  by (subst loop_step) (simp add: assms)

text \<open>The number of requests for a list of \<open>n\<close> elements is \<open>n div psize + 1\<close>.\<close>

lemma loop_requests:
  assumes srv: "serves (\<lambda>first. fetch (set_page first psize p)) psize steady xs"
    and cnt: "\<And>first w r w'. run_state (fetch (set_page first psize p)) w = (r, w') \<Longrightarrow>
      cnt w' = cnt w + (1 :: int)"
    and "steady w" and "0 \<le> first" and "first \<le> int (length xs)"
    and "loop fetch p first all w = Some (r, w')"
  shows "cnt w' = cnt w + (int (length xs) - first) div psize + 1"
  using assms(3-6)
proof (induction "nat (int (length xs) - first)" arbitrary: first w all rule: less_induct)
  case less
  from servesD [OF srv less.prems(2,1)] obtain v where
    f: "run_state (fetch (set_page first psize p)) w = ((window first psize xs, None), v)"
    and steady: "steady v" by blast
  show ?case
  proof (cases "int (length xs) < first + psize")
    case True
    then have short: "int (length (window first psize xs)) < psize"
      using window_short [OF less.prems(2) psize_pos, of xs] by simp
    from less.prems(4) short f have "w' = v" by (subst (asm) loop_step) simp
    moreover have "(int (length xs) - first) div psize = 0"
      using True less.prems(3) psize_pos by (intro div_pos_pos_trivial) auto
    ultimately show ?thesis using cnt [OF f] by simp
  next
    case False
    then have long: "\<not> int (length (window first psize xs)) < psize"
      using window_short [OF less.prems(2) psize_pos, of xs] by simp
    from less.prems(4) long f
    have l: "loop fetch p (first + psize) (all @ window first psize xs) v = Some (r, w')"
      by (subst (asm) loop_step) simp
    have "cnt w' = cnt v + (int (length xs) - (first + psize)) div psize + 1"
      by (rule less.hyps [OF _ steady _ _ l]) (use False less.prems psize_pos in auto)
    moreover have "(int (length xs) - first) div psize = (int (length xs) - (first + psize)) div psize + 1"
      using psize_pos div_add_self2 [of psize "int (length xs) - (first + psize)"] by simp
    ultimately show ?thesis using cnt [OF f] by simp
  qed
qed

end

end
