(* ===== verification/KeycloakGroups.thy ===== *)
theory KeycloakGroups
  imports Keycloak Loops
begin

text \<open>
  Package keycloak, the group operations: the three paginating loops, the group listing built on
  them, and the walk that finds or creates a path of groups. A loop that never ends has the value
  \<open>None\<close>, so the world is passed explicitly from here on.
\<close>

section \<open>Pagination\<close>

definition groupsPageSize :: int where
  "groupsPageSize = 100"

partial_function (option) paginateGroups_loop ::
  "(GetGroupsParams \<Rightarrow> ('w, Group list res) state) \<Rightarrow> GetGroupsParams \<Rightarrow> int \<Rightarrow> Group list \<Rightarrow> 'w
    \<Rightarrow> (Group list res \<times> 'w) option" where
  "paginateGroups_loop fetch params first all w =
     (case run_state (fetch (params\<lparr>gp_First := Some first, gp_Max := Some groupsPageSize\<rparr>)) w of
        ((got, err), w') \<Rightarrow>
          (case err of Some e \<Rightarrow> Some (([], Some e), w')
           | None \<Rightarrow>
               if int (length got) < groupsPageSize then Some ((all @ got, None), w')
               else paginateGroups_loop fetch params (first + groupsPageSize) (all @ got) w'))"

definition paginateGroups ::
  "(GetGroupsParams \<Rightarrow> ('w, Group list res) state) \<Rightarrow> GetGroupsParams \<Rightarrow> 'w
    \<Rightarrow> (Group list res \<times> 'w) option" where
  "paginateGroups fetch params w =
     (if gp_Max params \<noteq> None then Some (run_state (fetch params) w)
      else paginateGroups_loop fetch params 0 [] w)"

partial_function (option) paginateGroupMembers_loop ::
  "(GetGroupsParams \<Rightarrow> ('w, json list res) state) \<Rightarrow> GetGroupsParams \<Rightarrow> int \<Rightarrow> json list \<Rightarrow> 'w
    \<Rightarrow> (json list res \<times> 'w) option" where
  "paginateGroupMembers_loop fetch params first all w =
     (case run_state (fetch (params\<lparr>gp_First := Some first, gp_Max := Some groupsPageSize\<rparr>)) w of
        ((got, err), w') \<Rightarrow>
          (case err of Some e \<Rightarrow> Some (([], Some e), w')
           | None \<Rightarrow>
               if int (length got) < groupsPageSize then Some ((all @ got, None), w')
               else paginateGroupMembers_loop fetch params (first + groupsPageSize) (all @ got) w'))"

definition paginateGroupMembers ::
  "(GetGroupsParams \<Rightarrow> ('w, json list res) state) \<Rightarrow> GetGroupsParams \<Rightarrow> 'w
    \<Rightarrow> (json list res \<times> 'w) option" where
  "paginateGroupMembers fetch params w =
     (if gp_Max params \<noteq> None then Some (run_state (fetch params) w)
      else paginateGroupMembers_loop fetch params 0 [] w)"

partial_function (option) paginateClientRoleUsers_loop ::
  "(GetUsersByRoleParams \<Rightarrow> ('w, json list res) state) \<Rightarrow> GetUsersByRoleParams \<Rightarrow> int \<Rightarrow> json list \<Rightarrow> 'w
    \<Rightarrow> (json list res \<times> 'w) option" where
  "paginateClientRoleUsers_loop fetch params first all w =
     (case run_state (fetch (params\<lparr>rp_First := Some first, rp_Max := Some groupsPageSize\<rparr>)) w of
        ((got, err), w') \<Rightarrow>
          (case err of Some e \<Rightarrow> Some (([], Some e), w')
           | None \<Rightarrow>
               if int (length got) < groupsPageSize then Some ((all @ got, None), w')
               else paginateClientRoleUsers_loop fetch params (first + groupsPageSize) (all @ got) w'))"

definition paginateClientRoleUsers ::
  "(GetUsersByRoleParams \<Rightarrow> ('w, json list res) state) \<Rightarrow> GetUsersByRoleParams \<Rightarrow> 'w
    \<Rightarrow> (json list res \<times> 'w) option" where
  "paginateClientRoleUsers fetch params w =
     (if rp_Max params \<noteq> None then Some (run_state (fetch params) w)
      else paginateClientRoleUsers_loop fetch params 0 [] w)"

declare paginateGroups_loop.simps [code] paginateGroupMembers_loop.simps [code]
  paginateClientRoleUsers_loop.simps [code]

text \<open>The three loops implement one contract.\<close>

definition set_group_page :: "int \<Rightarrow> int \<Rightarrow> GetGroupsParams \<Rightarrow> GetGroupsParams" where
  "set_group_page first n p = p\<lparr>gp_First := Some first, gp_Max := Some n\<rparr>"

definition set_role_page :: "int \<Rightarrow> int \<Rightarrow> GetUsersByRoleParams \<Rightarrow> GetUsersByRoleParams" where
  "set_role_page first n p = p\<lparr>rp_First := Some first, rp_Max := Some n\<rparr>"

interpretation group_pages: page_loop paginateGroups paginateGroups_loop gp_Max set_group_page groupsPageSize
proof unfold_locales
  show "0 < groupsPageSize" by (simp add: groupsPageSize_def)
qed (simp_all add: paginateGroups_def set_group_page_def paginateGroups_loop.simps [symmetric])

interpretation member_pages: page_loop paginateGroupMembers paginateGroupMembers_loop gp_Max
  set_group_page groupsPageSize
proof unfold_locales
  show "0 < groupsPageSize" by (simp add: groupsPageSize_def)
qed (simp_all add: paginateGroupMembers_def set_group_page_def paginateGroupMembers_loop.simps [symmetric])

interpretation role_pages: page_loop paginateClientRoleUsers paginateClientRoleUsers_loop rp_Max
  set_role_page groupsPageSize
proof unfold_locales
  show "0 < groupsPageSize" by (simp add: groupsPageSize_def)
qed (simp_all add: paginateClientRoleUsers_def set_role_page_def
      paginateClientRoleUsers_loop.simps [symmetric])

section \<open>Listing and membership\<close>

definition empty_group_params :: GetGroupsParams where
  "empty_group_params = \<lparr>gp_First = None, gp_Max = None, gp_rest = JNull\<rparr>"

definition GetGroups ::
  "'w kc_helper \<Rightarrow> string \<Rightarrow> GetGroupsParams \<Rightarrow> 'w \<Rightarrow> (Group list res \<times> 'w) option" where
  "GetGroups h realm params w =
     paginateGroups (\<lambda>p. c_GetGroups (kc_client h) (ctx_seconds 10) (kc_Token h) realm p) params w"

definition keycloak_GetGroupByPath ::
  "'w kc_helper \<Rightarrow> string \<Rightarrow> string \<Rightarrow> ('w, Group option res) state" where
  "keycloak_GetGroupByPath h realm path =
     c_GetGroupByPath (kc_client h) (ctx_seconds 10) (kc_Token h) realm path"

definition keycloak_DeleteGroup :: "'w kc_helper \<Rightarrow> string \<Rightarrow> string \<Rightarrow> ('w, go_error option) state" where
  "keycloak_DeleteGroup h realm groupID =
     c_DeleteGroup (kc_client h) (ctx_seconds 10) (kc_Token h) realm groupID"

definition GetUserGroups ::
  "'w kc_helper \<Rightarrow> string \<Rightarrow> string \<Rightarrow> 'w \<Rightarrow> (Group list res \<times> 'w) option" where
  "GetUserGroups h realm userID w =
     paginateGroups (\<lambda>p. c_GetUserGroups (kc_client h) (ctx_seconds 10) (kc_Token h) realm userID p)
       empty_group_params w"

definition GetGroupMembers ::
  "'w kc_helper \<Rightarrow> string \<Rightarrow> string \<Rightarrow> 'w \<Rightarrow> (json list res \<times> 'w) option" where
  "GetGroupMembers h realm groupID w =
     paginateGroupMembers
       (\<lambda>p. c_GetGroupMembers (kc_client h) (ctx_seconds 10) (kc_Token h) realm groupID p)
       empty_group_params w"

definition keycloak_AddUserToGroup ::
  "'w kc_helper \<Rightarrow> string \<Rightarrow> string \<Rightarrow> string \<Rightarrow> ('w, go_error option) state" where
  "keycloak_AddUserToGroup h realm userID groupID =
     c_AddUserToGroup (kc_client h) (ctx_seconds 10) (kc_Token h) realm userID groupID"

definition keycloak_DeleteUserFromGroup ::
  "'w kc_helper \<Rightarrow> string \<Rightarrow> string \<Rightarrow> string \<Rightarrow> ('w, go_error option) state" where
  "keycloak_DeleteUserFromGroup h realm userID groupID =
     c_DeleteUserFromGroup (kc_client h) (ctx_seconds 10) (kc_Token h) realm userID groupID"

definition GetUsersByClientRoleName ::
  "'w kc_helper \<Rightarrow> string \<Rightarrow> string \<Rightarrow> string \<Rightarrow> 'w \<Rightarrow> (json list res \<times> 'w) option" where
  "GetUsersByClientRoleName h realm clientID roleName w =
     paginateClientRoleUsers
       (\<lambda>p. c_GetUsersByClientRoleName (kc_client h) (ctx_seconds 10) (kc_Token h) realm clientID roleName p)
       \<lparr>rp_First = None, rp_Max = None\<rparr> w"

section \<open>Finding or creating a path of groups\<close>

fun group_named :: "string \<Rightarrow> Group list \<Rightarrow> Group option" where
  "group_named name [] = None"
| "group_named name (g # gs) = (if group_Name g = Some name then Some g else group_named name gs)"

definition findChildGroup ::
  "'w kc_helper \<Rightarrow> string \<Rightarrow> Group option \<Rightarrow> string \<Rightarrow> 'w \<Rightarrow> (Group option res outcome \<times> 'w) option" where
  "findChildGroup h realm parent name w =
     (case parent of
        None \<Rightarrow> do {
          ((groups, err), w1) \<leftarrow> GetGroups h realm empty_group_params w;
          Some (Return (case err of Some e \<Rightarrow> (None, Some e) | None \<Rightarrow> (group_named name groups, None)), w1)
        }
      | Some p \<Rightarrow> Some
          (case group_ID p of
             None \<Rightarrow> (Panic NilDereference, w)
           | Some pid \<Rightarrow>
               (case run_state (c_GetGroup (kc_client h) (ctx_seconds 10) (kc_Token h) realm pid) w of
                  ((fresh, err), w1) \<Rightarrow>
                    (case err of Some e \<Rightarrow> (Return (None, Some e), w1)
                     | None \<Rightarrow>
                         (case fresh of
                            None \<Rightarrow> (Panic NilDereference, w1)
                          | Some g \<Rightarrow>
                              (case group_SubGroups g of
                                 None \<Rightarrow> (Return (None, None), w1)
                               | Some subs \<Rightarrow> (Return (group_named name subs, None), w1)))))))"

definition createChildGroup ::
  "'w kc_helper \<Rightarrow> string \<Rightarrow> Group option \<Rightarrow> string \<Rightarrow> ('w, Group option res outcome) state" where
  "createChildGroup h realm parent name =
     (let group = Group None (Some name) None None;
          finish = (\<lambda>id err path. case err of Some e \<Rightarrow> (None, Some e)
                     | None \<Rightarrow> (Some (Group (Some id) (Some name) (Some path) None), None))
      in case parent of
           None \<Rightarrow> do {
             (id, err) \<leftarrow> c_CreateGroup (kc_client h) (ctx_seconds 10) (kc_Token h) realm group;
             State_Monad.return (Return (finish id err (''/'' @ name)))
           }
         | Some p \<Rightarrow> deref (group_ID p) (\<lambda>pid. do {
             (id, err) \<leftarrow> c_CreateChildGroup (kc_client h) (ctx_seconds 10) (kc_Token h) realm pid group;
             deref (group_Path p) (\<lambda>ppath.
               State_Monad.return (Return (finish id err (ppath @ ''/'' @ name))))
           }))"

fun getOrCreate_walk ::
  "'w kc_helper \<Rightarrow> string \<Rightarrow> Group option \<Rightarrow> string list \<Rightarrow> 'w
    \<Rightarrow> (Group option res outcome \<times> 'w) option" where
  "getOrCreate_walk h realm current [] w = Some (Return (current, None), w)"
| "getOrCreate_walk h realm current (name # segments) w = do {
     (found, w1) \<leftarrow> findChildGroup h realm current name w;
     case found of
       Panic p \<Rightarrow> Some (Panic p, w1)
     | Return (_, Some e) \<Rightarrow> Some (Return (None, Some e), w1)
     | Return (Some child, None) \<Rightarrow> getOrCreate_walk h realm (Some child) segments w1
     | Return (None, None) \<Rightarrow>
         (case run_state (createChildGroup h realm current name) w1 of
            (Panic p, w2) \<Rightarrow> Some (Panic p, w2)
          | (Return (_, Some e), w2) \<Rightarrow> Some (Return (None, Some e), w2)
          | (Return (child, None), w2) \<Rightarrow> getOrCreate_walk h realm child segments w2)
   }"

definition GetOrCreateGroupPathSegments ::
  "'w kc_helper \<Rightarrow> string \<Rightarrow> string list \<Rightarrow> 'w \<Rightarrow> (Group option res outcome \<times> 'w) option" where
  "GetOrCreateGroupPathSegments h realm segments w = getOrCreate_walk h realm None segments w"

definition GetOrCreateGroupPath ::
  "'w kc_helper \<Rightarrow> string \<Rightarrow> string \<Rightarrow> 'w \<Rightarrow> (Group option res outcome \<times> 'w) option" where
  "GetOrCreateGroupPath h realm path w =
     (let segments = Split (Trim path (CHR ''/'')) (CHR ''/'')
      in if [] \<in> set segments
         then Some (Return (None, Some (ErrText (''invalid group path '' @ Quote path))), w)
         else GetOrCreateGroupPathSegments h realm segments w)"

fun find_walk ::
  "'w kc_helper \<Rightarrow> string \<Rightarrow> Group option \<Rightarrow> string list \<Rightarrow> 'w
    \<Rightarrow> (Group option res outcome \<times> 'w) option" where
  "find_walk h realm current [] w = Some (Return (current, None), w)"
| "find_walk h realm current (name # segments) w = do {
     (found, w1) \<leftarrow> findChildGroup h realm current name w;
     case found of
       Panic p \<Rightarrow> Some (Panic p, w1)
     | Return (_, Some e) \<Rightarrow> Some (Return (None, Some e), w1)
     | Return (Some child, None) \<Rightarrow> find_walk h realm (Some child) segments w1
     | Return (None, None) \<Rightarrow> Some (Return (None, None), w1)
   }"

definition FindGroupPathSegments ::
  "'w kc_helper \<Rightarrow> string \<Rightarrow> string list \<Rightarrow> 'w \<Rightarrow> (Group option res outcome \<times> 'w) option" where
  "FindGroupPathSegments h realm segments w = find_walk h realm None segments w"

end
