(* ===== verification/GroupTree.thy ===== *)
theory GroupTree
  imports KeycloakGroups
begin

text \<open>
  What the group operations of package keycloak promise against a Keycloak server. The server is
  seen through \<open>kids\<close>: for every world, the children of a group (of the realm for \<open>None\<close>) as
  pairs of identifier and name, in the server's order. \<open>group_server\<close> states what the walk relies
  on: reads change nothing and return the children, creating a child appends it, and any request
  may fail with an error and no effect. \<open>locate\<close> is the abstract lookup of a path.

  This is the server the code is written for, a legacy Keycloak (17): a group is shown with its
  subgroups. Since version 23 Keycloak leaves \<open>SubGroups\<close> empty; as the comment of
  \<^verbatim>\<open>findChildGroup\<close> says, a subgroup is then never found and creating it is refused. Such a server does
  not satisfy \<open>group_server\<close>, and the properties of the walks say nothing about it. That a new child is
  the last of the listing is a choice of the model; the walks do not depend on it.
\<close>

type_synonym tree = "string option \<Rightarrow> (string \<times> string) list"

definition shows_group :: "Group \<Rightarrow> string \<times> string \<Rightarrow> bool" where
  "shows_group g k \<longleftrightarrow>
     group_ID g = Some (fst k) \<and> group_Name g = Some (snd k) \<and> group_Path g \<noteq> None"

definition subgroups :: "Group \<Rightarrow> Group list" where
  "subgroups g = (case group_SubGroups g of None \<Rightarrow> [] | Some gs \<Rightarrow> gs)"

definition group_server ::
  "'w kc_helper \<Rightarrow> string \<Rightarrow> ('w \<Rightarrow> bool) \<Rightarrow> ('w \<Rightarrow> tree) \<Rightarrow> bool" where
  "group_server h realm good kids \<longleftrightarrow>
     (\<forall>w first. good w \<longrightarrow> 0 \<le> first \<longrightarrow>
        (\<exists>gs err w'. run_state (c_GetGroups (kc_client h) (ctx_seconds 10) (kc_Token h) realm
             (set_group_page first groupsPageSize empty_group_params)) w = ((gs, err), w')
           \<and> good w' \<and> kids w' = kids w
           \<and> (err = None \<longrightarrow> list_all2 shows_group gs (window first groupsPageSize (kids w None)))))
   \<and> (\<forall>w i. good w \<longrightarrow>
        (\<exists>g err w'. run_state (c_GetGroup (kc_client h) (ctx_seconds 10) (kc_Token h) realm i) w
             = ((g, err), w') \<and> good w' \<and> kids w' = kids w
           \<and> (err = None \<longrightarrow> (\<exists>x. g = Some x \<and> list_all2 shows_group (subgroups x) (kids w (Some i))))))
   \<and> (\<forall>w n. good w \<longrightarrow>
        (\<exists>i err w'. run_state (c_CreateGroup (kc_client h) (ctx_seconds 10) (kc_Token h) realm
             (Group None (Some n) None None)) w = ((i, err), w') \<and> good w'
           \<and> kids w' = (if err = None then (kids w)(None := kids w None @ [(i, n)]) else kids w)))
   \<and> (\<forall>w p n. good w \<longrightarrow>
        (\<exists>i err w'. run_state (c_CreateChildGroup (kc_client h) (ctx_seconds 10) (kc_Token h) realm p
             (Group None (Some n) None None)) w = ((i, err), w') \<and> good w'
           \<and> kids w' = (if err = None then (kids w)(Some p := kids w (Some p) @ [(i, n)]) else kids w)))"

section \<open>Paths in a tree\<close>

fun child_named :: "string \<Rightarrow> (string \<times> string) list \<Rightarrow> string option" where
  "child_named n [] = None"
| "child_named n ((i, m) # ks) = (if m = n then Some i else child_named n ks)"

fun locate :: "tree \<Rightarrow> string option \<Rightarrow> string list \<Rightarrow> string option option" where
  "locate t cur [] = Some cur"
| "locate t cur (n # ns) =
     (case child_named n (t cur) of None \<Rightarrow> None | Some i \<Rightarrow> locate t (Some i) ns)"

definition grows :: "tree \<Rightarrow> tree \<Rightarrow> bool" where
  "grows t t' \<longleftrightarrow> (\<forall>p. \<exists>new. t' p = t p @ new)"

lemma grows_refl [simp]: "grows t t"
  by (simp add: grows_def)

lemma grows_trans: "grows t u \<Longrightarrow> grows u v \<Longrightarrow> grows t v"
  unfolding grows_def by (metis append_assoc)

lemma grows_add: "grows t (t(p := t p @ ks))"
  by (simp add: grows_def)

lemma child_named_append:
  "child_named n (ks @ ls) = (case child_named n ks of None \<Rightarrow> child_named n ls | Some i \<Rightarrow> Some i)"
  by (induction n ks rule: child_named.induct) auto

lemma child_named_grows: "grows t t' \<Longrightarrow> child_named n (t p) = Some i \<Longrightarrow> child_named n (t' p) = Some i"
  unfolding grows_def by (metis child_named_append option.simps(5))

lemma locate_grows: "grows t t' \<Longrightarrow> locate t cur ns = Some r \<Longrightarrow> locate t' cur ns = Some r"
  by (induction t cur ns rule: locate.induct)
    (auto split: option.splits dest: child_named_grows)

lemma group_named_shows:
  "list_all2 shows_group gs ks \<Longrightarrow>
    (case group_named n gs of None \<Rightarrow> child_named n ks = None
     | Some g \<Rightarrow> child_named n ks = group_ID g \<and> group_ID g \<noteq> None \<and> group_Path g \<noteq> None)"
  by (induction rule: list_all2_induct) (auto simp: shows_group_def split: option.splits)

section \<open>One level of the walk\<close>

text \<open>A group the walk can continue from: the realm, or a group with identifier and path.\<close>

definition usable :: "Group option \<Rightarrow> bool" where
  "usable g \<longleftrightarrow> (\<forall>x. g = Some x \<longrightarrow> group_ID x \<noteq> None \<and> group_Path x \<noteq> None)"

definition id_of :: "Group option \<Rightarrow> string option" where
  "id_of g = Option.bind g group_ID"

lemma id_of_simps [simp]: "id_of None = None" "id_of (Some x) = group_ID x"
  by (simp_all add: id_of_def)

lemma usable_None [simp]: "usable None"
  by (simp add: usable_def)

lemma GetGroups_lists:
  assumes srv: "group_server h realm good kids" and "good w"
  shows "\<exists>r w'. GetGroups h realm empty_group_params w = Some (r, w') \<and> good w' \<and> kids w' = kids w
    \<and> (snd r = None \<longrightarrow> list_all2 shows_group (fst r) (kids w None))"
proof -
  let ?ask = "\<lambda>first. c_GetGroups (kc_client h) (ctx_seconds 10) (kc_Token h) realm
      (set_group_page first groupsPageSize empty_group_params)"
  have "answers shows_group ?ask groupsPageSize (\<lambda>v. good v \<and> kids v = kids w) (kids w None)"
    unfolding answers_def
  proof (intro allI impI)
    fix first v
    assume "0 \<le> (first :: int)" and "good v \<and> kids v = kids w"
    with srv show "\<exists>got err v'. run_state (?ask first) v = ((got, err), v')
      \<and> (good v' \<and> kids v' = kids w)
      \<and> (err = None \<longrightarrow> list_all2 shows_group got (window first groupsPageSize (kids w None)))"
      unfolding group_server_def by metis
  qed
  then have "answers shows_group
      (\<lambda>first. (\<lambda>p. c_GetGroups (kc_client h) (ctx_seconds 10) (kc_Token h) realm p)
        (set_group_page first groupsPageSize empty_group_params))
      groupsPageSize (\<lambda>v. good v \<and> kids v = kids w) (kids w None)" by simp
  from group_pages.paginate_total [OF _ this, of w] assms(2) show ?thesis
    by (auto simp: GetGroups_def empty_group_params_def)
qed

lemma findChildGroup_spec:
  assumes srv: "group_server h realm good kids" and "good w" and "usable current"
  shows "\<exists>r w'. findChildGroup h realm current n w = Some (Return r, w') \<and> good w' \<and> kids w' = kids w
    \<and> (snd r = None \<longrightarrow> id_of (fst r) = child_named n (kids w (id_of current)) \<and> usable (fst r)
         \<and> (fst r = None \<longleftrightarrow> child_named n (kids w (id_of current)) = None))"
proof (cases current)
  case None
  from GetGroups_lists [OF srv \<open>good w\<close>] obtain gs err w' where
    g: "GetGroups h realm empty_group_params w = Some ((gs, err), w')" "good w'" "kids w' = kids w"
    and l: "err = None \<Longrightarrow> list_all2 shows_group gs (kids w None)" by auto
  show ?thesis
  proof (cases err)
    case (Some e)
    with None g show ?thesis by (simp add: findChildGroup_def)
  next
    case err: None
    from group_named_shows [OF l [OF err], of n] None g err show ?thesis
      by (auto simp: findChildGroup_def usable_def split: option.splits)
  qed
next
  case (Some p)
  with \<open>usable current\<close> obtain i where i: "group_ID p = Some i" by (auto simp: usable_def)
  from srv \<open>good w\<close> obtain g err w' where
    r: "run_state (c_GetGroup (kc_client h) (ctx_seconds 10) (kc_Token h) realm i) w = ((g, err), w')"
    and w': "good w'" "kids w' = kids w"
    and l: "err = None \<Longrightarrow> \<exists>x. g = Some x \<and> list_all2 shows_group (subgroups x) (kids w (Some i))"
    unfolding group_server_def by metis
  show ?thesis
  proof (cases err)
    case (Some e)
    with \<open>current = Some p\<close> i r w' show ?thesis by (simp add: findChildGroup_def)
  next
    case None
    with l obtain x where x: "g = Some x" "list_all2 shows_group (subgroups x) (kids w (Some i))" by auto
    have "run_state (c_GetGroup (kc_client h) (ctx_seconds 10) (kc_Token h) realm i) w
        = ((Some x, None), w')" using r x(1) None by simp
    with group_named_shows [OF x(2), of n] \<open>current = Some p\<close> i w' x(2) show ?thesis
      by (cases "group_SubGroups x")
        (auto simp: findChildGroup_def usable_def subgroups_def split: option.splits)
  qed
qed

lemma createChildGroup_spec:
  assumes srv: "group_server h realm good kids" and "good w" and "usable current"
  shows "\<exists>r w'. run_state (createChildGroup h realm current n) w = (Return r, w') \<and> good w'
    \<and> (snd r = None \<longrightarrow> (\<exists>i. fst r \<noteq> None \<and> usable (fst r) \<and> id_of (fst r) = Some i
         \<and> kids w' = (kids w)(id_of current := kids w (id_of current) @ [(i, n)])))
    \<and> (snd r \<noteq> None \<longrightarrow> fst r = None \<and> kids w' = kids w)"
proof (cases current)
  case None
  from srv \<open>good w\<close> obtain i err w' where
    "run_state (c_CreateGroup (kc_client h) (ctx_seconds 10) (kc_Token h) realm
       (Group None (Some n) None None)) w = ((i, err), w')" "good w'"
    "kids w' = (if err = None then (kids w)(None := kids w None @ [(i, n)]) else kids w)"
    unfolding group_server_def by metis
  with None show ?thesis
    by (cases err) (auto simp: createChildGroup_def usable_def)
next
  case (Some p)
  with \<open>usable current\<close> obtain pid ppath where p: "group_ID p = Some pid" "group_Path p = Some ppath"
    by (auto simp: usable_def)
  from srv \<open>good w\<close> obtain i err w' where
    "run_state (c_CreateChildGroup (kc_client h) (ctx_seconds 10) (kc_Token h) realm pid
       (Group None (Some n) None None)) w = ((i, err), w')" "good w'"
    "kids w' = (if err = None then (kids w)(Some pid := kids w (Some pid) @ [(i, n)]) else kids w)"
    unfolding group_server_def by metis
  with Some p show ?thesis
    by (cases err) (auto simp: createChildGroup_def usable_def)
qed

section \<open>The walk\<close>

lemma getOrCreate_walk_spec:
  assumes srv: "group_server h realm good kids"
  shows "good w \<Longrightarrow> usable current \<Longrightarrow>
    \<exists>r w'. getOrCreate_walk h realm current ns w = Some (Return r, w') \<and> good w'
      \<and> grows (kids w) (kids w')
      \<and> (snd r = None \<longrightarrow> locate (kids w') (id_of current) ns = Some (id_of (fst r))
           \<and> (ns \<noteq> [] \<longrightarrow> fst r \<noteq> None))
      \<and> (locate (kids w) (id_of current) ns \<noteq> None \<longrightarrow> kids w' = kids w)"
proof (induction ns arbitrary: current w)
  case Nil
  then show ?case by simp
next
  case (Cons n ns)
  from findChildGroup_spec [OF srv Cons.prems, of n] obtain c err w1 where
    f: "findChildGroup h realm current n w = Some (Return (c, err), w1)" and w1: "good w1" "kids w1 = kids w"
    and c: "err = None \<Longrightarrow> id_of c = child_named n (kids w (id_of current)) \<and> usable c
      \<and> (c = None \<longleftrightarrow> child_named n (kids w (id_of current)) = None)" by auto
  show ?case
  proof (cases err)
    case (Some e)
    with f w1 show ?thesis by (cases c) simp_all
  next
    case None
    show ?thesis
    proof (cases c)
      case (Some g)
      with c [OF None] have g: "usable (Some g)" "id_of c \<noteq> None"
        "child_named n (kids w (id_of current)) = id_of c" by auto
      from Cons.IH [OF w1(1) g(1)] obtain r w' where
        i: "getOrCreate_walk h realm (Some g) ns w1 = Some (Return r, w')" "good w'"
        "grows (kids w) (kids w')"
        "snd r = None \<Longrightarrow> locate (kids w') (id_of c) ns = Some (id_of (fst r)) \<and> (ns \<noteq> [] \<longrightarrow> fst r \<noteq> None)"
        "locate (kids w) (id_of c) ns \<noteq> None \<Longrightarrow> kids w' = kids w"
        using w1(2) Some by auto
      from g have "child_named n (kids w' (id_of current)) = id_of c"
        using child_named_grows [OF i(3)] by auto
      moreover have "ns = [] \<Longrightarrow> r = (Some g, None)" using i(1) by auto
      moreover have "getOrCreate_walk h realm current (n # ns) w = Some (Return r, w')"
        using f None Some i(1) by simp
      ultimately show ?thesis
        using i(2-5) g(2,3) by (intro exI [of _ r] exI [of _ w']) auto
    next
      case c_None: None
      with c [OF None] have miss: "child_named n (kids w (id_of current)) = None" by simp
      from createChildGroup_spec [OF srv w1(1) Cons.prems(2), of n] obtain d err2 w2 where
        k: "run_state (createChildGroup h realm current n) w1 = (Return (d, err2), w2)" "good w2"
        and ok: "err2 = None \<Longrightarrow> \<exists>i. d \<noteq> None \<and> usable d \<and> id_of d = Some i
          \<and> kids w2 = (kids w)(id_of current := kids w (id_of current) @ [(i, n)])"
        and bad: "err2 \<noteq> None \<Longrightarrow> kids w2 = kids w"
        using w1(2) by auto
      show ?thesis
      proof (cases err2)
        case (Some e)
        with f None c_None k bad miss show ?thesis by simp
      next
        case err2: None
        from ok [OF this] obtain i where d: "d \<noteq> None" "usable d" "id_of d = Some i"
          and k2: "kids w2 = (kids w)(id_of current := kids w (id_of current) @ [(i, n)])" by blast
        from Cons.IH [OF k(2) d(2), unfolded d(3)] obtain r w' where
          r: "getOrCreate_walk h realm d ns w2 = Some (Return r, w')" "good w'"
          "grows (kids w2) (kids w')"
          "snd r = None \<longrightarrow> locate (kids w') (Some i) ns = Some (id_of (fst r)) \<and> (ns \<noteq> [] \<longrightarrow> fst r \<noteq> None)"
          by (elim exE conjE) (rule that)
        have "child_named n (kids w2 (id_of current)) = Some i"
          using miss k2 by (simp add: child_named_append)
        then have "child_named n (kids w' (id_of current)) = Some i"
          by (rule child_named_grows [OF r(3)])
        then have l1: "locate (kids w') (id_of current) (n # ns) = locate (kids w') (Some i) ns" by simp
        have l2: "locate (kids w) (id_of current) (n # ns) = None" using miss by simp
        have "grows (kids w) (kids w2)" unfolding k2 by (rule grows_add)
        then have gr: "grows (kids w) (kids w')" using r(3) by (rule grows_trans)
        have ex: "getOrCreate_walk h realm current (n # ns) w = Some (Return r, w')"
          using f None c_None k(1) err2 r(1) by simp
        have "ns = [] \<Longrightarrow> fst r = d" using r(1) by auto
        then have "snd r = None \<Longrightarrow> fst r \<noteq> None" using r(4) d(1) by (cases "ns = []") blast+
        then show ?thesis using ex r(2,4) gr l1 l2 by metis
      qed
    qed
  qed
qed

lemma find_walk_spec:
  assumes srv: "group_server h realm good kids"
  shows "good w \<Longrightarrow> usable current \<Longrightarrow>
    \<exists>r w'. find_walk h realm current ns w = Some (Return r, w') \<and> good w' \<and> kids w' = kids w
      \<and> (snd r = None \<longrightarrow>
           (case locate (kids w) (id_of current) ns of None \<Rightarrow> fst r = None
            | Some i \<Rightarrow> id_of (fst r) = i \<and> (ns \<noteq> [] \<longrightarrow> fst r \<noteq> None)))"
proof (induction ns arbitrary: current w)
  case Nil
  then show ?case by simp
next
  case (Cons n ns)
  from findChildGroup_spec [OF srv Cons.prems, of n] obtain c err w1 where
    f: "findChildGroup h realm current n w = Some (Return (c, err), w1)" and w1: "good w1" "kids w1 = kids w"
    and c: "err = None \<Longrightarrow> id_of c = child_named n (kids w (id_of current)) \<and> usable c
      \<and> (c = None \<longleftrightarrow> child_named n (kids w (id_of current)) = None)" by auto
  show ?case
  proof (cases err)
    case (Some e)
    with f w1 show ?thesis by (cases c) simp_all
  next
    case None
    show ?thesis
    proof (cases c)
      case c_None: None
      with c [OF None] f None w1 show ?thesis by simp
    next
      case (Some g)
      with c [OF None] have g: "usable (Some g)" "id_of c \<noteq> None"
        "child_named n (kids w (id_of current)) = id_of c" by auto
      from Cons.IH [OF w1(1) g(1)] obtain r w' where
        r: "find_walk h realm (Some g) ns w1 = Some (Return r, w')" "good w'" "kids w' = kids w"
        "snd r = None \<Longrightarrow> (case locate (kids w) (id_of c) ns of None \<Rightarrow> fst r = None
            | Some i \<Rightarrow> id_of (fst r) = i \<and> (ns \<noteq> [] \<longrightarrow> fst r \<noteq> None))"
        using w1(2) Some by auto
      have "ns = [] \<Longrightarrow> r = (Some g, None)" using r(1) by auto
      moreover have "find_walk h realm current (n # ns) w = Some (Return r, w')"
        using f None Some r(1) by simp
      ultimately show ?thesis
        using r(2-4) g(2,3) by (intro exI [of _ r] exI [of _ w']) (auto split: option.splits)
    qed
  qed
qed

section \<open>A server to try the contract on\<close>

text \<open>
  The contract can hold: a server whose state is the list of its groups as identifier, parent and
  name. It is used by the witnesses only.
\<close>

type_synonym demo_world = "(string \<times> string option \<times> string) list"

definition demo_kids :: "demo_world \<Rightarrow> tree" where
  "demo_kids w p = map (\<lambda>(i, q, n). (i, n)) (filter (\<lambda>(i, q, n). q = p) w)"

definition demo_show :: "string \<times> string \<Rightarrow> Group" where
  "demo_show k = Group (Some (fst k)) (Some (snd k)) (Some (''/'' @ snd k)) None"

definition demo_create :: "string option \<Rightarrow> Group \<Rightarrow> (demo_world, string res) state" where
  "demo_create p g = State (\<lambda>w. let i = ''id-'' @ Itoa (int (length w)) in
     ((i, None), w @ [(i, p, case group_Name g of None \<Rightarrow> [] | Some n \<Rightarrow> n)]))"

definition page_of :: "GetGroupsParams \<Rightarrow> 'a list \<Rightarrow> 'a list" where
  "page_of p xs = window (case gp_First p of None \<Rightarrow> 0 | Some f \<Rightarrow> f)
     (case gp_Max p of None \<Rightarrow> 100 | Some m \<Rightarrow> m) xs"

definition demo_client :: "demo_world KcClient" where
  "demo_client = refusing_client
     \<lparr>c_GetGroups := \<lambda>_ _ _ p. State (\<lambda>w. ((map demo_show (page_of p (demo_kids w None)), None), w)),
      c_GetGroup := \<lambda>_ _ _ i. State (\<lambda>w. ((Some (Group (Some i) None None
        (Some (map demo_show (demo_kids w (Some i))))), None), w)),
      c_CreateGroup := \<lambda>_ _ _ g. demo_create None g,
      c_CreateChildGroup := \<lambda>_ _ _ p g. demo_create (Some p) g\<rparr>"

definition demo_helper :: "demo_world kc_helper" where
  "demo_helper = \<lparr>kc_client = demo_client, kc_Token = ''token'', kc_Options = keycloak_zero\<rparr>"

lemma demo_kids_add: "demo_kids (w @ [(i, p, n)]) = (demo_kids w)(p := demo_kids w p @ [(i, n)])"
  by (rule ext) (simp add: demo_kids_def)

lemma demo_shows: "list_all2 shows_group (map demo_show ks) ks"
  by (simp add: list_all2_conv_all_nth shows_group_def demo_show_def)

lemma demo_server: "group_server demo_helper realm (\<lambda>_. True) demo_kids"
  unfolding group_server_def
  by (auto simp: demo_helper_def demo_client_def demo_create_def demo_kids_add demo_shows Let_def
      page_of_def set_group_page_def empty_group_params_def groupsPageSize_def subgroups_def)

section \<open>Properties\<close>

text \<open>
  C1. Against any server that satisfies the contract, and however many of its requests fail,
  \<open>GetOrCreateGroupPathSegments\<close> returns and does not panic; no group of the tree is lost or moved
  (children are only appended); and a result without an error is the group that the given path
  leads to in the tree the call leaves behind.
\<close>

theorem GetOrCreate_reaches_path:
  assumes "group_server h realm good kids" and "good w" and "segments \<noteq> []"
  shows "\<exists>g err w'. GetOrCreateGroupPathSegments h realm segments w = Some (Return (g, err), w')
    \<and> good w' \<and> grows (kids w) (kids w')
    \<and> (err = None \<longrightarrow> g \<noteq> None \<and> locate (kids w') None segments = Some (id_of g))"
  using getOrCreate_walk_spec [OF assms(1,2), of None segments] assms(3)
  unfolding GetOrCreateGroupPathSegments_def by auto

lemma GetOrCreate_reaches_path_witness:
  "group_server demo_helper ''r'' (\<lambda>_. True) demo_kids \<and>
   (\<exists>g err w'. GetOrCreateGroupPathSegments demo_helper ''r'' [''a'', ''b''] [(''x'', None, ''a'')]
      = Some (Return (g, err), w') \<and> True \<and> grows (demo_kids [(''x'', None, ''a'')]) (demo_kids w')
      \<and> (err = None \<longrightarrow> g \<noteq> None \<and> locate (demo_kids w') None [''a'', ''b''] = Some (id_of g)))"
  using GetOrCreate_reaches_path [where w = "[(''x'', None, ''a'')]" and segments = "[''a'', ''b'']",
      OF demo_server [of "''r''"]]
    demo_server [of "''r''"] by simp

text \<open>
  C5. Calling \<open>GetOrCreateGroupPathSegments\<close> again after it succeeded creates nothing: the tree
  stays as it is and a second success returns the group with the same identifier.
\<close>

theorem GetOrCreate_idempotent:
  assumes "group_server h realm good kids" and "good w"
    and "GetOrCreateGroupPathSegments h realm segments w = Some (Return (g, None), w1)"
  shows "\<exists>g' err w2. GetOrCreateGroupPathSegments h realm segments w1 = Some (Return (g', err), w2)
    \<and> kids w2 = kids w1 \<and> (err = None \<longrightarrow> id_of g' = id_of g)"
proof -
  from getOrCreate_walk_spec [OF assms(1,2) usable_None, of segments] assms(3)
  have w1: "good w1" "locate (kids w1) None segments = Some (id_of g)"
    by (simp_all add: GetOrCreateGroupPathSegments_def)
  from getOrCreate_walk_spec [OF assms(1) w1(1) usable_None, of segments] obtain r w2 where
    "getOrCreate_walk h realm None segments w1 = Some (Return r, w2)" "kids w2 = kids w1"
    "snd r = None \<longrightarrow> Some (id_of (fst r)) = Some (id_of g)"
    using w1(2) by (metis id_of_simps(1) option.distinct(1))
  then show ?thesis
    by (intro exI [of _ "fst r"] exI [of _ "snd r"] exI [of _ w2])
      (simp add: GetOrCreateGroupPathSegments_def)
qed

lemma GetOrCreate_idempotent_witness:
  "\<exists>g w1. GetOrCreateGroupPathSegments demo_helper ''r'' [''a''] [] = Some (Return (g, None), w1)
    \<and> (\<exists>g' err w2. GetOrCreateGroupPathSegments demo_helper ''r'' [''a''] w1
         = Some (Return (g', err), w2) \<and> demo_kids w2 = demo_kids w1 \<and> (err = None \<longrightarrow> id_of g' = id_of g))"
proof -
  have c: "GetOrCreateGroupPathSegments demo_helper ''r'' [''a''] [] =
      Some (Return (Some (Group (Some ''id-0'') (Some ''a'') (Some ''/a'') None), None), [(''id-0'', None, ''a'')])"
    by code_simp
  from GetOrCreate_idempotent [OF demo_server _ c] c show ?thesis by blast
qed

text \<open>
  C7. \<open>FindGroupPathSegments\<close> never changes the tree, and without an error it returns exactly what
  the tree holds at the path: the group with that identifier, or nil when the path does not exist.
\<close>

theorem FindGroupPath_exact:
  assumes "group_server h realm good kids" and "good w"
  shows "\<exists>g err w'. FindGroupPathSegments h realm segments w = Some (Return (g, err), w')
    \<and> kids w' = kids w
    \<and> (err = None \<longrightarrow> (case locate (kids w) None segments of None \<Rightarrow> g = None | Some i \<Rightarrow> id_of g = i))"
  using find_walk_spec [OF assms, of None segments]
  unfolding FindGroupPathSegments_def by (auto split: option.splits)

lemma FindGroupPath_exact_witness:
  "\<exists>g err w'. FindGroupPathSegments demo_helper ''r'' [''a'', ''c''] [(''x'', None, ''a'')]
     = Some (Return (g, err), w') \<and> demo_kids w' = demo_kids [(''x'', None, ''a'')]
     \<and> (err = None \<longrightarrow> (case locate (demo_kids [(''x'', None, ''a'')]) None [''a'', ''c''] of
          None \<Rightarrow> g = None | Some i \<Rightarrow> id_of g = i))"
  using FindGroupPath_exact [where w = "[(''x'', None, ''a'')]" and segments = "[''a'', ''c'']",
      OF demo_server [of "''r''"]] by simp

text \<open>
  How a path string names its segments: any number of slashes, the non-empty slash-free segments
  joined by single slashes, any number of slashes.
\<close>

definition path_names :: "string \<Rightarrow> string list \<Rightarrow> bool" where
  "path_names path segs \<longleftrightarrow> segs \<noteq> [] \<and> list_all (\<lambda>s. s \<noteq> [] \<and> CHR ''/'' \<notin> set s) segs
     \<and> (\<exists>a b. path = replicate a (CHR ''/'') @ Join segs ''/'' @ replicate b (CHR ''/''))"

lemma Join_ends:
  assumes "segs \<noteq> []" and "list_all (\<lambda>s. s \<noteq> [] \<and> CHR ''/'' \<notin> set s) segs"
  shows "Join segs ''/'' \<noteq> [] \<and> hd (Join segs ''/'') \<noteq> CHR ''/'' \<and> last (Join segs ''/'') \<noteq> CHR ''/''"
  using assms
  by (induction segs "''/''" rule: Join.induct) (auto dest: hd_in_set last_in_set)

lemma path_names_Split:
  assumes "path_names path segs"
  shows "Split (Trim path (CHR ''/'')) (CHR ''/'') = segs"
proof -
  from assms obtain a b where segs: "segs \<noteq> []" "list_all (\<lambda>s. s \<noteq> [] \<and> CHR ''/'' \<notin> set s) segs"
    and path: "path = replicate a (CHR ''/'') @ Join segs ''/'' @ replicate b (CHR ''/'')"
    unfolding path_names_def by blast
  have "Trim path (CHR ''/'') = Join segs ''/''"
    unfolding Trim_def path using Join_ends [OF segs]
    by (intro trim_by_pad) (auto simp: trimmed_by_def)
  then show ?thesis using segs by (simp add: Split_Join list_all_iff)
qed

lemma trim_by_decomp: "\<exists>a b. s = a @ trim_by P s @ b \<and> list_all P a \<and> list_all P b"
proof -
  let ?d = "dropWhile P s"
  have "rev ?d = takeWhile P (rev ?d) @ dropWhile P (rev ?d)" by simp
  then have "?d = trim_by P s @ rev (takeWhile P (rev ?d))"
    by (metis rev_append rev_rev_ident trim_by_def)
  then have "s = takeWhile P s @ trim_by P s @ rev (takeWhile P (rev ?d))"
    by (metis takeWhile_dropWhile_id)
  then show ?thesis
    by (intro exI [of _ "takeWhile P s"] exI [of _ "rev (takeWhile P (rev ?d))"])
      (auto simp: list_all_iff dest: set_takeWhileD)
qed

lemma Split_path_names:
  assumes "[] \<notin> set (Split (Trim path (CHR ''/'')) (CHR ''/''))"
  shows "path_names path (Split (Trim path (CHR ''/'')) (CHR ''/''))"
proof -
  have rep: "list_all (\<lambda>x. x = CHR ''/'') a \<Longrightarrow> a = replicate (length a) (CHR ''/'')" for a
    by (induction a) auto
  from trim_by_decomp [of path "\<lambda>x. x = CHR ''/''"] obtain a b where
    "path = a @ Trim path (CHR ''/'') @ b" "list_all (\<lambda>x. x = CHR ''/'') a" "list_all (\<lambda>x. x = CHR ''/'') b"
    unfolding Trim_def by blast
  then have "path = replicate (length a) (CHR ''/'') @ Join (Split (Trim path (CHR ''/'')) (CHR ''/'')) ''/''
      @ replicate (length b) (CHR ''/'')"
    using rep Join_Split by metis
  moreover have "list_all (\<lambda>s. s \<noteq> [] \<and> CHR ''/'' \<notin> set s) (Split (Trim path (CHR ''/'')) (CHR ''/''))"
    using assms Split_pieces_free by (force simp: list_all_iff)
  ultimately show ?thesis unfolding path_names_def by (metis Split_not_Nil)
qed

text \<open>
  C25. \<open>GetOrCreateGroupPath\<close> on a path string is \<open>GetOrCreateGroupPathSegments\<close> on the segments
  the string names, whatever slashes lead or trail; a string that names none (empty, only slashes,
  or with a doubled inner slash) is refused before any request is made.
\<close>

theorem GetOrCreateGroupPath_parses:
  "(path_names path segs \<longrightarrow>
      GetOrCreateGroupPath h realm path w = GetOrCreateGroupPathSegments h realm segs w)
   \<and> ((\<nexists>segs. path_names path segs) \<longrightarrow> GetOrCreateGroupPath h realm path w =
      Some (Return (None, Some (ErrText (''invalid group path '' @ Quote path))), w))"
proof (intro conjI impI)
  assume p: "path_names path segs"
  then have "[] \<notin> set segs" by (auto simp: path_names_def list_all_iff)
  with path_names_Split [OF p] show "GetOrCreateGroupPath h realm path w
      = GetOrCreateGroupPathSegments h realm segs w"
    by (simp add: GetOrCreateGroupPath_def)
next
  assume "\<nexists>segs. path_names path segs"
  with Split_path_names have "[] \<in> set (Split (Trim path (CHR ''/'')) (CHR ''/''))" by blast
  then show "GetOrCreateGroupPath h realm path w =
      Some (Return (None, Some (ErrText (''invalid group path '' @ Quote path))), w)"
    by (simp add: GetOrCreateGroupPath_def)
qed

lemma no_names_if_empty_piece:
  "[] \<in> set (Split (Trim path (CHR ''/'')) (CHR ''/'')) \<Longrightarrow> \<nexists>segs. path_names path segs"
  using path_names_Split by (fastforce simp: path_names_def list_all_iff)

lemma GetOrCreateGroupPath_parses_witness:
  "GetOrCreateGroupPath demo_helper ''r'' ''//a/b/'' [] =
     GetOrCreateGroupPathSegments demo_helper ''r'' [''a'', ''b''] []
   \<and> GetOrCreateGroupPath demo_helper ''r'' ''a//b'' [] =
     Some (Return (None, Some (ErrText (''invalid group path '' @ Quote ''a//b''))), [])"
proof
  have "path_names ''//a/b/'' [''a'', ''b'']"
    unfolding path_names_def
    by (intro conjI exI [where x = 2] exI [where x = 1]) (simp_all add: numeral_2_eq_2)
  then show "GetOrCreateGroupPath demo_helper ''r'' ''//a/b/'' [] =
     GetOrCreateGroupPathSegments demo_helper ''r'' [''a'', ''b''] []"
    by (simp add: GetOrCreateGroupPath_parses)
  have "[] \<in> set (Split (Trim ''a//b'' (CHR ''/'')) (CHR ''/''))" by code_simp
  then show "GetOrCreateGroupPath demo_helper ''r'' ''a//b'' [] =
     Some (Return (None, Some (ErrText (''invalid group path '' @ Quote ''a//b''))), [])"
    using no_names_if_empty_piece [of "''a//b''"] by (simp add: GetOrCreateGroupPath_parses)
qed

text \<open>
  C14. Against a server that answers each page of a group's members, and however large the group,
  \<open>GetGroupMembers\<close> returns every member exactly as the server lists them, with one request for
  each full page of 100 and one more.
\<close>

theorem GetGroupMembers_complete:
  assumes "serves (\<lambda>first. c_GetGroupMembers (kc_client h) (ctx_seconds 10) (kc_Token h) realm groupID
      (set_group_page first groupsPageSize empty_group_params)) groupsPageSize steady members"
    and "\<And>first w r w'. run_state (c_GetGroupMembers (kc_client h) (ctx_seconds 10) (kc_Token h) realm
      groupID (set_group_page first groupsPageSize empty_group_params)) w = (r, w') \<Longrightarrow>
      requests w' = requests w + (1 :: int)"
    and "steady w"
  shows "\<exists>w'. GetGroupMembers h realm groupID w = Some ((members, None), w')
    \<and> requests w' = requests w + int (length members) div 100 + 1"
proof -
  let ?f = "\<lambda>p. c_GetGroupMembers (kc_client h) (ctx_seconds 10) (kc_Token h) realm groupID p"
  have max: "gp_Max empty_group_params = None" by (simp add: empty_group_params_def)
  from member_pages.paginate_collects [OF max assms(1,3)] obtain w' where
    w': "paginateGroupMembers ?f empty_group_params w = Some ((members, None), w')" by blast
  then have "paginateGroupMembers_loop ?f empty_group_params 0 [] w = Some ((members, None), w')"
    by (simp add: member_pages.paginate_loop [OF max])
  from member_pages.loop_requests [where fetch = ?f and cnt = requests, OF assms(1,2,3) _ _ this]
  have "requests w' = requests w + int (length members) div 100 + 1"
    by (simp add: groupsPageSize_def)
  with w' show ?thesis by (auto simp: GetGroupMembers_def)
qed

text \<open>A server that counts its requests, and lists the given members and so many groups.\<close>

definition demo_counter :: "json list \<Rightarrow> nat \<Rightarrow> int kc_helper" where
  "demo_counter members n = \<lparr>kc_client = refusing_client
     \<lparr>c_GetGroups := \<lambda>_ _ _ p. State (\<lambda>k. ((page_of p (replicate n (Group None None None None)), None), k + 1)),
      c_GetGroupMembers := \<lambda>_ _ _ _ p. State (\<lambda>k. ((page_of p members, None), k + 1))\<rparr>,
    kc_Token = [], kc_Options = keycloak_zero\<rparr>"

lemma GetGroupMembers_complete_witness:
  "\<exists>w'. GetGroupMembers (demo_counter (replicate 250 JNull) 0) ''r'' ''g'' 7
     = Some ((replicate 250 JNull, None), w') \<and> w' = 7 + int (length (replicate 250 JNull)) div 100 + 1"
  by (rule GetGroupMembers_complete [where steady = "\<lambda>_. True" and requests = "\<lambda>k. k"
      and w = 7 and h = "demo_counter (replicate 250 JNull) 0"])
    (auto simp: serves_def demo_counter_def page_of_def set_group_page_def)

section \<open>When a listing ends\<close>

text \<open>
  \<open>full_pages ask n first w\<close>: what \<open>n\<close> requests in a row list, and the world after them, when
  each of them succeeds with a full page; \<open>None\<close> when one fails or lists less.
\<close>

fun full_pages :: "(int \<Rightarrow> ('w, 'a list res) state) \<Rightarrow> nat \<Rightarrow> int \<Rightarrow> 'w \<Rightarrow> ('a list \<times> 'w) option" where
  "full_pages ask 0 first w = Some ([], w)"
| "full_pages ask (Suc n) first w =
     (case run_state (ask first) w of ((got, err), w') \<Rightarrow>
        if err = None \<and> 100 \<le> length got
        then map_option (\<lambda>(xs, v). (got @ xs, v)) (full_pages ask n (first + 100) w') else None)"

lemma full_pages_Suc:
  "full_pages ask (Suc n) first w =
     (case full_pages ask n first w of None \<Rightarrow> None
      | Some (xs, v) \<Rightarrow> (case run_state (ask (first + 100 * int n)) v of ((got, err), w') \<Rightarrow>
          if err = None \<and> 100 \<le> length got then Some (xs @ got, w') else None))"
proof (induction n arbitrary: first w)
  case 0
  show ?case by (auto split: prod.splits)
next
  case (Suc n)
  obtain got err w1 where ask: "run_state (ask first) w = ((got, err), w1)" by (metis prod.exhaust)
  have next_page: "first + 100 + 100 * int n = first + 100 * int (Suc n)" by simp
  show ?case
  proof (cases "err = None \<and> 100 \<le> length got")
    case True
    have all: "full_pages ask (Suc (Suc n)) first w
        = map_option (\<lambda>(xs, v). (got @ xs, v)) (full_pages ask (Suc n) (first + 100) w1)"
      and one: "full_pages ask (Suc n) first w
        = map_option (\<lambda>(xs, v). (got @ xs, v)) (full_pages ask n (first + 100) w1)"
      using True by (simp_all add: ask)
    show ?thesis
      unfolding all one Suc.IH [of "first + 100" w1] next_page
      by (cases "full_pages ask n (first + 100) w1") (simp_all split: prod.splits)
  next
    case False
    then show ?thesis by (auto simp: ask)
  qed
qed

text \<open>The window the code asks for.\<close>

definition ask_page :: "(GetGroupsParams \<Rightarrow> ('w, Group list res) state) \<Rightarrow> GetGroupsParams \<Rightarrow> int
    \<Rightarrow> ('w, Group list res) state" where
  "ask_page fetch params first = fetch (params\<lparr>gp_First := Some first, gp_Max := Some 100\<rparr>)"

text \<open>A page that ends the listing, after \<open>all\<close> was collected, and the result.\<close>

definition ends_listing :: "Group list \<Rightarrow> Group list res \<Rightarrow> Group list res \<Rightarrow> bool" where
  "ends_listing all page r \<longleftrightarrow> (case page of
       (got, Some e) \<Rightarrow> r = ([], Some e)
     | (got, None) \<Rightarrow> length got < 100 \<and> r = (all @ got, None))"

lemma paginateGroups_loop_step:
  "paginateGroups_loop fetch params first all w =
     (case run_state (ask_page fetch params first) w of ((got, err), w') \<Rightarrow>
        if err = None \<and> 100 \<le> length got then paginateGroups_loop fetch params (first + 100) (all @ got) w'
        else Some ((if err = None then all @ got else [], err), w'))"
  by (subst paginateGroups_loop.simps) (auto simp: ask_page_def groupsPageSize_def split: prod.splits option.splits)

lemma loop_after_full_pages:
  "full_pages (ask_page fetch params) n first w = Some (xs, v) \<Longrightarrow>
    paginateGroups_loop fetch params first all w = paginateGroups_loop fetch params (first + 100 * int n) (all @ xs) v"
proof (induction n arbitrary: first all w xs)
  case (Suc n)
  then obtain got ys w1 where "run_state (ask_page fetch params first) w = ((got, None), w1)" "100 \<le> length got"
    "full_pages (ask_page fetch params) n (first + 100) w1 = Some (ys, v)" "xs = got @ ys"
    by (auto split: prod.splits if_splits)
  with Suc.IH [of "first + 100" w1 ys "all @ got"] show ?case
    by (subst paginateGroups_loop_step) (simp add: algebra_simps)
qed simp

lemma loop_ends:
  assumes "full_pages (ask_page fetch params) n first w = Some (xs, v)"
    and "run_state (ask_page fetch params (first + 100 * int n)) v = (page, w')" and "ends_listing (all @ xs) page r"
  shows "paginateGroups_loop fetch params first all w = Some (r, w')"
  unfolding loop_after_full_pages [OF assms(1)]
  using assms(2,3) by (subst paginateGroups_loop_step) (auto simp: ends_listing_def split: prod.splits option.splits)

lemma loop_ended:
  assumes "paginateGroups_loop fetch params first all w = Some rw"
  shows "\<exists>n xs v page. full_pages (ask_page fetch params) n first w = Some (xs, v)
    \<and> run_state (ask_page fetch params (first + 100 * int n)) v = (page, snd rw) \<and> ends_listing (all @ xs) page (fst rw)"
proof (rule paginateGroups_loop.raw_induct [OF _ assms, where
    P = "\<lambda>fetch params first all w rw. \<exists>n xs v page. full_pages (ask_page fetch params) n first w = Some (xs, v)
      \<and> run_state (ask_page fetch params (first + 100 * int n)) v = (page, snd rw) \<and> ends_listing (all @ xs) page (fst rw)"], goal_cases)
  case (1 loop fetch params first all w rw)
  obtain got err w1 where ask: "run_state (ask_page fetch params first) w = ((got, err), w1)" by (metis prod.exhaust)
  show ?case
  proof (cases "err = None \<and> 100 \<le> length got")
    case True
    with 1(2) ask have "loop fetch params (first + 100) (all @ got) w1 = Some rw"
      by (simp add: groupsPageSize_def ask_page_def)
    from 1(1) [OF this] obtain n xs v page where n: "full_pages (ask_page fetch params) n (first + 100) w1 = Some (xs, v)"
      "run_state (ask_page fetch params (first + 100 + 100 * int n)) v = (page, snd rw)"
      "ends_listing ((all @ got) @ xs) page (fst rw)" by blast
    show ?thesis
      by (cases page, rule exI [of _ "Suc n"]) (use n True ask in \<open>simp add: algebra_simps\<close>)
  next
    case False
    with 1(2) ask have "ends_listing all (got, err) (fst rw) \<and> snd rw = w1"
      by (auto simp: groupsPageSize_def ask_page_def ends_listing_def split: option.splits)
    then show ?thesis by (intro exI [of _ 0]) (simp add: ask)
  qed
qed

text \<open>
  C40. When a listing of groups ends, and with what. Without a limit of the caller's it asks for one window of
  100 groups after the other; it returns exactly when one of the requests fails or lists fewer than 100.
  Then the result is the error alone, or everything listed so far. While every request lists a full page
  it does not return, whatever the server holds: nothing else bounds the loop.
\<close>

theorem GetGroups_returns_iff:
  assumes "gp_Max params = None"
    and "ask = ask_page (c_GetGroups (kc_client h) (ctx_seconds 10) (kc_Token h) realm) params"
  shows "(GetGroups h realm params w = None \<longleftrightarrow> (\<forall>n. full_pages ask n 0 w \<noteq> None))
    \<and> (GetGroups h realm params w = Some (r, w') \<longleftrightarrow>
        (\<exists>n xs v page. full_pages ask n 0 w = Some (xs, v)
          \<and> run_state (ask (100 * int n)) v = (page, w') \<and> ends_listing xs page r))"
proof -
  let ?loop = "paginateGroups_loop (c_GetGroups (kc_client h) (ctx_seconds 10) (kc_Token h) realm) params 0 [] w"
  have run: "GetGroups h realm params w = ?loop"
    using assms(1) by (simp add: GetGroups_def paginateGroups_def)
  have some: "?loop = Some (r, w') \<longleftrightarrow> (\<exists>n xs v page. full_pages ask n 0 w = Some (xs, v)
      \<and> run_state (ask (100 * int n)) v = (page, w') \<and> ends_listing xs page r)" for r w'
    unfolding assms(2) using loop_ended [of _ params 0 "[]" w "(r, w')"] loop_ends [of _ params _ 0 w _ _ _ w' "[]" r]
    by (simp, blast)
  have "full_pages ask n 0 w \<noteq> None" if "?loop = None" for n
  proof (induction n)
    case (Suc n)
    then obtain xs v where n: "full_pages ask n 0 w = Some (xs, v)" by auto
    obtain got err w1 where ask: "run_state (ask (100 * int n)) v = ((got, err), w1)" by (metis prod.exhaust)
    have "err = None \<and> 100 \<le> length got"
    proof (rule ccontr)
      assume "\<not> ?thesis"
      then have "ends_listing xs (got, err) (if err = None then xs @ got else [], err)"
        by (auto simp: ends_listing_def split: option.splits)
      with n ask some [of "(if err = None then xs @ got else [], err)" w1] that show False by auto
    qed
    with n ask show ?case by (simp add: full_pages_Suc del: full_pages.simps)
  qed simp
  moreover have "?loop = None" if full: "\<forall>n. full_pages ask n 0 w \<noteq> None"
  proof (rule ccontr)
    assume "?loop \<noteq> None"
    then obtain r w' where "?loop = Some (r, w')" by auto
    with some obtain n xs v page where n: "full_pages ask n 0 w = Some (xs, v)"
      "run_state (ask (100 * int n)) v = (page, w')" "ends_listing xs page r" by blast
    then have "full_pages ask (Suc n) 0 w = None"
      by (cases page) (auto simp: full_pages_Suc ends_listing_def simp del: full_pages.simps split: option.splits)
    with full show False by blast
  qed
  ultimately show ?thesis using some run by auto
qed

lemma GetGroups_returns_iff_witness:
  "GetGroups (demo_counter [] 250) ''r'' empty_group_params 0 = Some ((replicate 250 (Group None None None None), None), 3)"
proof -
  let ?ask = "ask_page (c_GetGroups (kc_client (demo_counter [] 250)) (ctx_seconds 10) (kc_Token (demo_counter [] 250)) ''r'')
    empty_group_params"
  have page: "run_state (?ask first) k = ((page_of (empty_group_params\<lparr>gp_First := Some first, gp_Max := Some 100\<rparr>)
      (replicate 250 (Group None None None None)), None), k + 1)" for first k
    by (simp add: ask_page_def demo_counter_def)
  have two: "full_pages ?ask 2 0 0 = Some (replicate 200 (Group None None None None), 2)"
    by (simp add: numeral_2_eq_2 page page_of_def window_def replicate_add [symmetric])
  have "\<exists>n xs v page. full_pages ?ask n 0 0 = Some (xs, v) \<and> run_state (?ask (100 * int n)) v = (page, 3)
      \<and> ends_listing xs page (replicate 250 (Group None None None None), None)"
    by (intro exI [of _ 2] exI conjI, rule two, simp add: page)
      (simp add: page_of_def window_def ends_listing_def replicate_add [symmetric])
  then show ?thesis
    by (intro GetGroups_returns_iff [OF _ refl, THEN conjunct2, THEN iffD2]) (simp add: empty_group_params_def)
qed

section \<open>Sequences of walks\<close>

text \<open>
  What every added group keeps, the walk keeps: it creates a group only where no child has its name.
\<close>

lemma getOrCreate_walk_keeps:
  assumes srv: "group_server h realm good kids"
    and add: "\<And>t p n i. P t \<Longrightarrow> child_named n (t p) = None \<Longrightarrow> P (t(p := t p @ [(i, n)]))"
  shows "good w \<Longrightarrow> usable current \<Longrightarrow> P (kids w) \<Longrightarrow>
    \<exists>r w'. getOrCreate_walk h realm current ns w = Some (Return r, w') \<and> good w' \<and> P (kids w')"
proof (induction ns arbitrary: current w)
  case Nil
  then show ?case by simp
next
  case (Cons n ns)
  from findChildGroup_spec [OF srv Cons.prems(1,2), of n] obtain c err w1 where
    f: "findChildGroup h realm current n w = Some (Return (c, err), w1)" and w1: "good w1" "kids w1 = kids w"
    and c: "err = None \<Longrightarrow> usable c \<and> (c = None \<longleftrightarrow> child_named n (kids w (id_of current)) = None)" by auto
  show ?case
  proof (cases err)
    case (Some e)
    with f w1 Cons.prems(3) show ?thesis by (cases c) simp_all
  next
    case None
    show ?thesis
    proof (cases c)
      case (Some g)
      with c [OF None] Cons.IH [OF w1(1), of "Some g"] Cons.prems(3) w1(2) f None show ?thesis by simp
    next
      case c_None: None
      from createChildGroup_spec [OF srv w1(1) Cons.prems(2), of n] obtain d err2 w2 where
        k: "run_state (createChildGroup h realm current n) w1 = (Return (d, err2), w2)" "good w2"
        and ok: "err2 = None \<Longrightarrow> \<exists>i. d \<noteq> None \<and> usable d \<and> id_of d = Some i
          \<and> kids w2 = (kids w)(id_of current := kids w (id_of current) @ [(i, n)])"
        and bad: "err2 \<noteq> None \<Longrightarrow> kids w2 = kids w"
        using w1(2) by auto
      show ?thesis
      proof (cases err2)
        case (Some e)
        with f None c_None k bad Cons.prems(3) show ?thesis by simp
      next
        case err2: None
        from ok [OF this] obtain i where d: "usable d"
          and k2: "kids w2 = (kids w)(id_of current := kids w (id_of current) @ [(i, n)])" by blast
        have "P (kids w2)"
          unfolding k2 by (rule add) (use c [OF None] c_None Cons.prems(3) in auto)
        from Cons.IH [OF k(2) d this] show ?thesis using f None c_None k(1) err2 by simp
      qed
    qed
  qed
qed

definition siblings_distinct :: "tree \<Rightarrow> bool" where
  "siblings_distinct t \<longleftrightarrow> (\<forall>p. distinct (map snd (t p)))"

lemma child_named_None_iff: "child_named n ks = None \<longleftrightarrow> n \<notin> set (map snd ks)"
  by (induction n ks rule: child_named.induct) auto

lemma siblings_distinct_add:
  "siblings_distinct t \<Longrightarrow> child_named n (t p) = None \<Longrightarrow> siblings_distinct (t(p := t p @ [(i, n)]))"
  by (auto simp: siblings_distinct_def child_named_None_iff)

text \<open>Any number of calls, of any paths, one after the other, whatever each of them returns.\<close>

inductive path_calls :: "'w kc_helper \<Rightarrow> string \<Rightarrow> 'w \<Rightarrow> string list list \<Rightarrow> 'w \<Rightarrow> bool"
  for h realm where
  no_call: "path_calls h realm w [] w"
| a_call: "GetOrCreateGroupPathSegments h realm segments w = Some (r, w1) \<Longrightarrow>
    path_calls h realm w1 paths w' \<Longrightarrow> path_calls h realm w (segments # paths) w'"

text \<open>
  C6. Get-or-create never makes two groups of one name under one parent: if the names of siblings are
  distinct, they are after any sequence of calls of \<open>GetOrCreateGroupPathSegments\<close>, also when some
  of them fail half way.
\<close>

theorem siblings_stay_distinct:
  assumes "group_server h realm good kids" and "path_calls h realm w paths w'"
    and "good w" and "siblings_distinct (kids w)"
  shows "good w' \<and> siblings_distinct (kids w')"
  using assms(2-4)
proof (induction rule: path_calls.induct)
  case (a_call segments w r w1 paths w')
  from getOrCreate_walk_keeps [where P = siblings_distinct, OF assms(1) siblings_distinct_add a_call.prems(1)
      usable_None a_call.prems(2), of segments] a_call.hyps(1)
  have "good w1 \<and> siblings_distinct (kids w1)"
    by (auto simp: GetOrCreateGroupPathSegments_def)
  with a_call.IH show ?case by blast
qed simp

lemma siblings_stay_distinct_witness:
  "siblings_distinct (demo_kids [(''id-0'', None, ''a''), (''id-1'', Some ''id-0'', ''b'')])"
proof -
  have "GetOrCreateGroupPathSegments demo_helper ''r'' [''a''] [] =
      Some (Return (Some (Group (Some ''id-0'') (Some ''a'') (Some ''/a'') None), None), [(''id-0'', None, ''a'')])"
    by code_simp
  moreover have "GetOrCreateGroupPathSegments demo_helper ''r'' [''a'', ''b''] [(''id-0'', None, ''a'')] =
      Some (Return (Some (Group (Some ''id-1'') (Some ''b'') (Some ''/a/b'') None), None),
        [(''id-0'', None, ''a''), (''id-1'', Some ''id-0'', ''b'')])"
    by code_simp
  ultimately have "path_calls demo_helper ''r'' [] [[''a''], [''a'', ''b'']]
      [(''id-0'', None, ''a''), (''id-1'', Some ''id-0'', ''b'')]"
    by (rule a_call [OF _ a_call [OF _ no_call]])
  from siblings_stay_distinct [OF demo_server this] show ?thesis
    by (simp add: siblings_distinct_def demo_kids_def)
qed

end
