(* ===== verification/Kubernetes.thy ===== *)
theory Kubernetes
  imports Wait GoStrings Loops
begin

text \<open>
  Package kubernetes. Each client interface of the package is a record of functions over the
  world, the helper holds them as \<open>option\<close> because they are nil until the matching
  \<open>Set...Client\<close> ran, and a call through nil panics. client-go itself is third-party code: the
  clientset is a record that hands out clients, the constructors are parameters. Kubernetes
  objects are \<open>json\<close> trees unless the package reads their fields.
\<close>

section \<open>Options\<close>

record kube_auth =
  au_Type :: string
  au_Token :: string
  au_FilePath :: string
  au_CAFile :: string
  au_RestConf :: "json option"

record kube_options =
  ko_Namespace :: string
  ko_URL :: string
  ko_Auth :: kube_auth
  ko_ListOptions :: json
  ko_Interval :: int
  ko_Retry :: int

definition kubernetes_zero :: kube_options where
  "kubernetes_zero = \<lparr>ko_Namespace = [], ko_URL = [],
     ko_Auth = \<lparr>au_Type = [], au_Token = [], au_FilePath = [], au_CAFile = [], au_RestConf = None\<rparr>,
     ko_ListOptions = JNull, ko_Interval = 0, ko_Retry = 0\<rparr>"

type_synonym kube_option = "kube_options \<Rightarrow> kube_options"

definition kubernetes_Namespace :: "string \<Rightarrow> kube_option" where
  "kubernetes_Namespace name = (\<lambda>o1. o1\<lparr>ko_Namespace := name\<rparr>)"

definition kubernetes_AuthType :: "string \<Rightarrow> kube_option" where
  "kubernetes_AuthType authType = (\<lambda>o1. o1\<lparr>ko_Auth := (ko_Auth o1)\<lparr>au_Type := authType\<rparr>\<rparr>)"

definition kubernetes_AuthFile :: "string \<Rightarrow> kube_option" where
  "kubernetes_AuthFile file = (\<lambda>o1. o1\<lparr>ko_Auth := (ko_Auth o1)\<lparr>au_FilePath := file\<rparr>\<rparr>)"

fun kubernetes_overrideOptions :: "kube_options \<Rightarrow> kube_option list \<Rightarrow> kube_options" where
  "kubernetes_overrideOptions opts [] = opts"
| "kubernetes_overrideOptions opts (opt # options) = kubernetes_overrideOptions (opt opts) options"

definition kubernetes_initOptions :: "kube_option list \<Rightarrow> kube_options" where
  "kubernetes_initOptions opts = kubernetes_overrideOptions kubernetes_zero opts"

lemma kubernetes_overrideOptions_eq: "kubernetes_overrideOptions o0 opts = apply_options opts o0"
  by (induction opts arbitrary: o0) simp_all

interpretation kube_opts: func_options kubernetes_initOptions kubernetes_zero
  by unfold_locales (simp_all add: kubernetes_initOptions_def kubernetes_overrideOptions_eq)

definition genPatchToToggleDefaultStorageClass :: "string \<Rightarrow> string res" where
  "genPatchToToggleDefaultStorageClass toggle =
     (if toggle \<noteq> ''true'' \<and> toggle \<noteq> ''false''
      then ([], Some (ErrText (''invalid toggle value: '' @ toggle)))
      else (json_Marshal (JObj [(''metadata'', JObj [(''annotations'', JObj
             [(''storageclass.kubernetes.io/is-default-class'', JStr toggle)])])]), None))"

section \<open>Objects the package reads\<close>

record Namespace =
  nso_Phase :: string
  nso_rest :: json

record Node =
  no_Addresses :: "(string \<times> string) list"
  no_rest :: json

text \<open>A port of a service: the \<open>IntValue\<close> of its target port, and its node port.\<close>

record ServicePort =
  sp_TargetPort :: int
  sp_NodePort :: int

record Service =
  svo_Ports :: "ServicePort list"
  svo_rest :: json

record Subject =
  sub_Kind :: string
  sub_Name :: string
  sub_Namespace :: string

record RoleBinding =
  rbo_Name :: string
  rbo_Namespace :: string
  rbo_RoleRef :: json
  rbo_Subjects :: "Subject list"

record StorageClass =
  sco_Name :: string
  sco_Annotations :: "string \<rightharpoonup> string"

definition IsBoundServiceAccount :: "Subject \<Rightarrow> string \<Rightarrow> string \<Rightarrow> bool" where
  "IsBoundServiceAccount subject username namespace \<longleftrightarrow>
     sub_Kind subject = ''ServiceAccount'' \<and> sub_Name subject = username
     \<and> sub_Namespace subject = namespace"

definition ErrCpuQuotaExceeded :: go_error where
  "ErrCpuQuotaExceeded = Sentinel ''cpu quota exceeded''"

definition ErrMemoryQuotaExceeded :: go_error where
  "ErrMemoryQuotaExceeded = Sentinel ''memory quota exceeded''"

definition ErrEphemeralStorageStorageQuotaExceeded :: go_error where
  "ErrEphemeralStorageStorageQuotaExceeded = Sentinel ''ephemeral-storage quota exceeded''"

section \<open>Client interfaces\<close>

type_synonym ('w, 'a) reply = "('w, 'a option res) state"

record 'w EventClient =
  ev_List :: "ctx \<Rightarrow> json \<Rightarrow> ('w, json) reply"

record 'w PodClient =
  pod_List :: "ctx \<Rightarrow> json \<Rightarrow> ('w, json) reply"
  pod_GetLogs :: "string \<Rightarrow> json \<Rightarrow> json"

record 'w JobClient =
  job_Create :: "ctx \<Rightarrow> json \<Rightarrow> json \<Rightarrow> ('w, json) reply"
  job_Get :: "ctx \<Rightarrow> string \<Rightarrow> json \<Rightarrow> ('w, json) reply"
  job_List :: "ctx \<Rightarrow> json \<Rightarrow> ('w, json) reply"
  job_Delete :: "ctx \<Rightarrow> string \<Rightarrow> json \<Rightarrow> ('w, go_error option) state"

record 'w DeploymentClient =
  dep_Get :: "ctx \<Rightarrow> string \<Rightarrow> json \<Rightarrow> ('w, json) reply"
  dep_Update :: "ctx \<Rightarrow> json \<Rightarrow> json \<Rightarrow> ('w, json) reply"
  dep_Patch :: "ctx \<Rightarrow> string \<Rightarrow> string \<Rightarrow> string \<Rightarrow> json \<Rightarrow> ('w, json) reply"

record 'w NamespaceClient =
  ns_Get :: "ctx \<Rightarrow> string \<Rightarrow> json \<Rightarrow> ('w, Namespace) reply"
  ns_Create :: "ctx \<Rightarrow> json \<Rightarrow> json \<Rightarrow> ('w, Namespace) reply"
  ns_Patch :: "ctx \<Rightarrow> string \<Rightarrow> string \<Rightarrow> string \<Rightarrow> json \<Rightarrow> ('w, Namespace) reply"
  ns_Delete :: "ctx \<Rightarrow> string \<Rightarrow> json \<Rightarrow> ('w, go_error option) state"
  ns_List :: "ctx \<Rightarrow> json \<Rightarrow> ('w, json) reply"

record LeaseLock =
  lease_Name :: string
  lease_Namespace :: string
  lease_Identity :: string

record 'w NodeClient =
  node_Get :: "ctx \<Rightarrow> string \<Rightarrow> json \<Rightarrow> ('w, Node) reply"
  node_List :: "ctx \<Rightarrow> json \<Rightarrow> ('w, json) reply"
  node_Update :: "ctx \<Rightarrow> Node \<Rightarrow> json \<Rightarrow> ('w, Node) reply"

record 'w SvcClient =
  svc_Get :: "ctx \<Rightarrow> string \<Rightarrow> json \<Rightarrow> ('w, Service) reply"
  svc_Create :: "ctx \<Rightarrow> Service \<Rightarrow> json \<Rightarrow> ('w, Service) reply"

record 'w StorageClassClient =
  scl_List :: "ctx \<Rightarrow> json \<Rightarrow> ('w, StorageClass list) reply"
  scl_Get :: "ctx \<Rightarrow> string \<Rightarrow> json \<Rightarrow> ('w, StorageClass) reply"
  scl_Create :: "ctx \<Rightarrow> StorageClass \<Rightarrow> json \<Rightarrow> ('w, StorageClass) reply"
  scl_Patch :: "ctx \<Rightarrow> string \<Rightarrow> string \<Rightarrow> string \<Rightarrow> json \<Rightarrow> ('w, StorageClass) reply"

record 'w ServiceAccountClient =
  sa_List :: "ctx \<Rightarrow> json \<Rightarrow> ('w, json) reply"
  sa_Create :: "ctx \<Rightarrow> json \<Rightarrow> json \<Rightarrow> ('w, json) reply"
  sa_Get :: "ctx \<Rightarrow> string \<Rightarrow> json \<Rightarrow> ('w, json) reply"
  sa_Delete :: "ctx \<Rightarrow> string \<Rightarrow> json \<Rightarrow> ('w, go_error option) state"
  sa_Apply :: "ctx \<Rightarrow> json \<Rightarrow> json \<Rightarrow> ('w, json) reply"

record 'w SecretClient =
  sec_Get :: "ctx \<Rightarrow> string \<Rightarrow> json \<Rightarrow> ('w, json) reply"
  sec_Create :: "ctx \<Rightarrow> json \<Rightarrow> json \<Rightarrow> ('w, json) reply"
  sec_Delete :: "ctx \<Rightarrow> string \<Rightarrow> json \<Rightarrow> ('w, go_error option) state"
  sec_Apply :: "ctx \<Rightarrow> json \<Rightarrow> json \<Rightarrow> ('w, json) reply"

record 'w ClusterRoleClient =
  cr_Get :: "ctx \<Rightarrow> string \<Rightarrow> json \<Rightarrow> ('w, json) reply"
  cr_Patch :: "ctx \<Rightarrow> string \<Rightarrow> string \<Rightarrow> string \<Rightarrow> json \<Rightarrow> ('w, json) reply"
  cr_Create :: "ctx \<Rightarrow> json \<Rightarrow> json \<Rightarrow> ('w, json) reply"
  cr_Apply :: "ctx \<Rightarrow> json \<Rightarrow> json \<Rightarrow> ('w, json) reply"
  cr_List :: "ctx \<Rightarrow> json \<Rightarrow> ('w, json) reply"

record 'w ClusterRoleBindingClient =
  crb_List :: "ctx \<Rightarrow> json \<Rightarrow> ('w, json) reply"
  crb_Create :: "ctx \<Rightarrow> json \<Rightarrow> json \<Rightarrow> ('w, json) reply"

record 'w RoleClient =
  role_Get :: "ctx \<Rightarrow> string \<Rightarrow> json \<Rightarrow> ('w, json) reply"
  role_Apply :: "ctx \<Rightarrow> json \<Rightarrow> json \<Rightarrow> ('w, json) reply"

record 'w RoleBindingClient =
  rb_List :: "ctx \<Rightarrow> json \<Rightarrow> ('w, RoleBinding list) reply"
  rb_Create :: "ctx \<Rightarrow> RoleBinding \<Rightarrow> json \<Rightarrow> ('w, RoleBinding) reply"
  rb_Delete :: "ctx \<Rightarrow> string \<Rightarrow> json \<Rightarrow> ('w, go_error option) state"
  rb_Apply :: "ctx \<Rightarrow> json \<Rightarrow> json \<Rightarrow> ('w, json) reply"

record 'w ResourceQuotaClient =
  rq_List :: "ctx \<Rightarrow> json \<Rightarrow> ('w, json) reply"
  rq_Create :: "ctx \<Rightarrow> json \<Rightarrow> json \<Rightarrow> ('w, json) reply"
  rq_Patch :: "ctx \<Rightarrow> string \<Rightarrow> string \<Rightarrow> string \<Rightarrow> json \<Rightarrow> ('w, json) reply"

record 'w ConfigMapClient =
  cm_Get :: "ctx \<Rightarrow> string \<Rightarrow> json \<Rightarrow> ('w, json) reply"
  cm_Create :: "ctx \<Rightarrow> json \<Rightarrow> json \<Rightarrow> ('w, json) reply"
  cm_Update :: "ctx \<Rightarrow> json \<Rightarrow> json \<Rightarrow> ('w, json) reply"
  cm_Delete :: "ctx \<Rightarrow> string \<Rightarrow> json \<Rightarrow> ('w, go_error option) state"

record 'w CRDClient =
  crd_List :: "ctx \<Rightarrow> json \<Rightarrow> ('w, json) reply"
  crd_Create :: "ctx \<Rightarrow> json \<Rightarrow> json \<Rightarrow> ('w, json) reply"

text \<open>What a clientset hands out, by namespace where the client is namespaced.\<close>

record 'w Clientset =
  cs_Events :: "string \<Rightarrow> 'w EventClient"
  cs_Pods :: "string \<Rightarrow> 'w PodClient"
  cs_Jobs :: "string \<Rightarrow> 'w JobClient"
  cs_ConfigMaps :: "string \<Rightarrow> 'w ConfigMapClient"
  cs_Deployments :: "string \<Rightarrow> 'w DeploymentClient"
  cs_Services :: "string \<Rightarrow> 'w SvcClient"
  cs_Namespaces :: "'w NamespaceClient"
  cs_Nodes :: "'w NodeClient"
  cs_StorageClasses :: "'w StorageClassClient"
  cs_ServiceAccounts :: "string \<Rightarrow> 'w ServiceAccountClient"
  cs_Secrets :: "string \<Rightarrow> 'w SecretClient"
  cs_Roles :: "string \<Rightarrow> 'w RoleClient"
  cs_RoleBindings :: "string \<Rightarrow> 'w RoleBindingClient"
  cs_ClusterRoles :: "'w ClusterRoleClient"
  cs_ClusterRoleBindings :: "'w ClusterRoleBindingClient"
  cs_ResourceQuotas :: "string \<Rightarrow> 'w ResourceQuotaClient"

text \<open>The dynamic client, the REST mapper and the API extension clientset.\<close>

record 'w DynamicClient =
  dyn_Apply :: "json \<Rightarrow> string \<Rightarrow> ctx \<Rightarrow> string \<Rightarrow> json \<Rightarrow> json \<Rightarrow> ('w, json) reply"

record 'w RESTMapper =
  rm_RESTMapping :: "string \<Rightarrow> string \<Rightarrow> ('w, json) reply"

record 'w ApiExtClientset =
  ax_CustomResourceDefinitions :: "'w CRDClient"

record 'w LeaderCallbacks =
  OnStartedLeading :: "ctx \<Rightarrow> ('w, unit) state"
  OnStoppedLeading :: "('w, unit) state"
  OnNewLeader :: "string \<Rightarrow> ('w, unit) state"

record 'w KubeHelper =
  kh_clientset :: "'w Clientset option"
  kh_dynamicClient :: "'w DynamicClient option"
  kh_discoveryMapper :: "'w RESTMapper option"
  kh_apiExtensionClientset :: "'w ApiExtClientset option"
  kh_LeaseID :: string
  kh_LeaseCallback :: "'w LeaderCallbacks option"
  kh_EventClient :: "'w EventClient option"
  kh_PodClient :: "'w PodClient option"
  kh_JobClient :: "'w JobClient option"
  kh_DeploymentClient :: "'w DeploymentClient option"
  kh_NamespaceClient :: "'w NamespaceClient option"
  kh_NodeClient :: "'w NodeClient option"
  kh_SvcClient :: "'w SvcClient option"
  kh_StorageClassClient :: "'w StorageClassClient option"
  kh_ServiceAccountClient :: "'w ServiceAccountClient option"
  kh_SecretClient :: "'w SecretClient option"
  kh_RoleClient :: "'w RoleClient option"
  kh_RoleBindingClient :: "'w RoleBindingClient option"
  kh_ClusterRoleClient :: "'w ClusterRoleClient option"
  kh_ClusterRoleBindingClient :: "'w ClusterRoleBindingClient option"
  kh_LeaseClient :: "LeaseLock option"
  kh_ResourceQuotaClient :: "'w ResourceQuotaClient option"
  kh_ConfigMapClient :: "'w ConfigMapClient option"
  kh_CRDClient :: "'w CRDClient option"
  kh_Options :: kube_options

definition fresh_helper :: "kube_options \<Rightarrow> 'w KubeHelper" where
  "fresh_helper options = \<lparr>kh_clientset = None, kh_dynamicClient = None, kh_discoveryMapper = None,
     kh_apiExtensionClientset = None, kh_LeaseID = [], kh_LeaseCallback = None, kh_EventClient = None,
     kh_PodClient = None, kh_JobClient = None, kh_DeploymentClient = None, kh_NamespaceClient = None,
     kh_NodeClient = None, kh_SvcClient = None, kh_StorageClassClient = None,
     kh_ServiceAccountClient = None, kh_SecretClient = None, kh_RoleClient = None,
     kh_RoleBindingClient = None, kh_ClusterRoleClient = None, kh_ClusterRoleBindingClient = None,
     kh_LeaseClient = None, kh_ResourceQuotaClient = None, kh_ConfigMapClient = None,
     kh_CRDClient = None, kh_Options = options\<rparr>"

lemma fresh_helper_Options [simp]: "kh_Options (fresh_helper o1) = o1"
  by (simp add: fresh_helper_def)

end
