(* ===== verification/KubernetesOps.thy ===== *)
theory KubernetesOps
  imports Kubernetes
begin

text \<open>
  The operations of package kubernetes: construction and authentication, the setters of the
  clients, the retrying reads, the operations that combine several requests, and those that pass
  one request on. Empty option structs (\<open>metav1.GetOptions{}\<close> and the like) are \<open>JNull\<close>.
\<close>

section \<open>Construction\<close>

text \<open>The constructors of client-go the package calls.\<close>

record 'w KubeSdk =
  InClusterConfig :: "('w, json option res) state"
  BuildConfigFromFlags :: "string \<Rightarrow> string \<Rightarrow> ('w, json option res) state"
  NewClientset :: "json option \<Rightarrow> 'w Clientset option res"
  NewDynamic :: "json option \<Rightarrow> 'w DynamicClient option res"
  NewRESTMapper :: "'w Clientset option \<Rightarrow> 'w RESTMapper"
  NewApiExt :: "json option \<Rightarrow> 'w ApiExtClientset option res"

definition InClusterAuth :: string where "InClusterAuth = ''inCluster''"

definition OutOfClusterAuth :: string where "OutOfClusterAuth = ''outOfCluster''"

definition set_rest_conf :: "json option \<Rightarrow> 'w KubeHelper \<Rightarrow> 'w KubeHelper" where
  "set_rest_conf conf h = h\<lparr>kh_Options := (kh_Options h)\<lparr>ko_Auth :=
     (ko_Auth (kh_Options h))\<lparr>au_RestConf := conf\<rparr>\<rparr>\<rparr>"

text \<open>The three clients of a configuration, assigned one after the other until one fails.\<close>

definition connect_clients :: "'w KubeSdk \<Rightarrow> json option \<Rightarrow> 'w KubeHelper \<Rightarrow> go_error option \<times> 'w KubeHelper" where
  "connect_clients sdk conf h =
     (let (clientset, err) = NewClientset sdk conf; h1 = h\<lparr>kh_clientset := clientset\<rparr>
      in if err \<noteq> None then (err, h1)
         else let (dyn, err) = NewDynamic sdk conf; h2 = h1\<lparr>kh_dynamicClient := dyn\<rparr>
         in if err \<noteq> None then (err, h2)
            else let h3 = h2\<lparr>kh_discoveryMapper := Some (NewRESTMapper sdk clientset)\<rparr>;
                     (ext, err) = NewApiExt sdk conf; h4 = h3\<lparr>kh_apiExtensionClientset := ext\<rparr>
                 in if err \<noteq> None then (err, h4) else (None, h4))"

definition SetAuth :: "'w KubeSdk \<Rightarrow> 'w KubeHelper \<Rightarrow> ('w, go_error option \<times> 'w KubeHelper) state" where
  "SetAuth sdk h =
     (let auth = ko_Auth (kh_Options h);
          load = (if au_Type auth = InClusterAuth then Some (InClusterConfig sdk)
                  else if au_Type auth = OutOfClusterAuth
                  then Some (BuildConfigFromFlags sdk [] (au_FilePath auth)) else None)
      in case load of
           None \<Rightarrow> State_Monad.return (Some (ErrText (''unsupported auth type: '' @ au_Type auth)), h)
         | Some read \<Rightarrow> do {
             (conf, err) \<leftarrow> read;
             let h1 = set_rest_conf conf h;
             case err of Some e \<Rightarrow> State_Monad.return (Some e, h1)
             | None \<Rightarrow> State_Monad.return (connect_clients sdk conf h1)
           })"

definition kubernetes_NewHelper ::
  "'w KubeSdk \<Rightarrow> kube_option list \<Rightarrow> ('w, 'w KubeHelper option res) state" where
  "kubernetes_NewHelper sdk opts = do {
     (err, h) \<leftarrow> SetAuth sdk (fresh_helper (kubernetes_initOptions opts));
     State_Monad.return (case err of
       Some e \<Rightarrow> (None, Some (ErrText (''failed to set auth ('' @ err_msg e @ '')'')))
     | None \<Rightarrow> (Some h, None))
   }"

definition kubernetes_NewGlobalHelper ::
  "'w KubeSdk \<Rightarrow> kube_option list \<Rightarrow> ('w KubeHelper globals \<times> 'w, go_error option) state" where
  "kubernetes_NewGlobalHelper sdk opts = do {
     err \<leftarrow> once_Do (kubernetes_NewHelper sdk opts);
     on_err err (State_Monad.return None) Some
   }"

definition kubernetes_GetGlobalHelper :: "'w KubeHelper globals \<Rightarrow> 'w KubeHelper option" where
  "kubernetes_GetGlobalHelper g = helper g"

interpretation kube_global: global_helper
  "kubernetes_NewGlobalHelper sdk" "kubernetes_NewHelper sdk" kubernetes_GetGlobalHelper
  by unfold_locales
    (auto simp: kubernetes_NewGlobalHelper_def kubernetes_GetGlobalHelper_def on_err_def
      split: option.splits)

section \<open>Choosing clients\<close>

text \<open>The clientset of a helper that was not built by \<open>NewHelper\<close> is nil, and reading it panics.\<close>

definition from_clientset ::
  "'w KubeHelper \<Rightarrow> ('w Clientset \<Rightarrow> 'w KubeHelper) \<Rightarrow> 'w KubeHelper outcome" where
  "from_clientset h f = (case kh_clientset h of None \<Rightarrow> Panic NilDereference | Some cs \<Rightarrow> Return (f cs))"

definition SetEventClient :: "'w KubeHelper \<Rightarrow> 'w KubeHelper outcome" where
  "SetEventClient h = from_clientset h (\<lambda>cs. h\<lparr>kh_EventClient := Some (cs_Events cs (ko_Namespace (kh_Options h)))\<rparr>)"

definition SetPodClient :: "'w KubeHelper \<Rightarrow> string \<Rightarrow> 'w KubeHelper outcome" where
  "SetPodClient h namespace = from_clientset h (\<lambda>cs. h\<lparr>kh_PodClient := Some (cs_Pods cs namespace)\<rparr>)"

definition SetJobClient :: "'w KubeHelper \<Rightarrow> string \<Rightarrow> 'w KubeHelper outcome" where
  "SetJobClient h namespace = from_clientset h (\<lambda>cs. h\<lparr>kh_JobClient := Some (cs_Jobs cs namespace)\<rparr>)"

definition SetConfigMapClient :: "'w KubeHelper \<Rightarrow> string \<Rightarrow> 'w KubeHelper outcome" where
  "SetConfigMapClient h namespace = from_clientset h (\<lambda>cs. h\<lparr>kh_ConfigMapClient := Some (cs_ConfigMaps cs namespace)\<rparr>)"

definition SetDeploymentClient :: "'w KubeHelper \<Rightarrow> string \<Rightarrow> 'w KubeHelper outcome" where
  "SetDeploymentClient h namespace = from_clientset h (\<lambda>cs. h\<lparr>kh_DeploymentClient := Some (cs_Deployments cs namespace)\<rparr>)"

definition SetSvcClient :: "'w KubeHelper \<Rightarrow> string \<Rightarrow> 'w KubeHelper outcome" where
  "SetSvcClient h namespace = from_clientset h (\<lambda>cs. h\<lparr>kh_SvcClient := Some (cs_Services cs namespace)\<rparr>)"

definition SetLeaseClient :: "'w KubeHelper \<Rightarrow> string \<Rightarrow> string \<Rightarrow> string \<Rightarrow> 'w KubeHelper outcome" where
  "SetLeaseClient h lid name namespace =
     (let h1 = h\<lparr>kh_LeaseID := lid\<rparr>
      in from_clientset h1 (\<lambda>cs. h1\<lparr>kh_LeaseClient := Some \<lparr>lease_Name = name,
           lease_Namespace = namespace, lease_Identity = kh_LeaseID h1\<rparr>\<rparr>))"

definition SetNamespaceClient :: "'w KubeHelper \<Rightarrow> 'w KubeHelper outcome" where
  "SetNamespaceClient h = from_clientset h (\<lambda>cs. h\<lparr>kh_NamespaceClient := Some (cs_Namespaces cs)\<rparr>)"

definition SetNodeClient :: "'w KubeHelper \<Rightarrow> 'w KubeHelper outcome" where
  "SetNodeClient h = from_clientset h (\<lambda>cs. h\<lparr>kh_NodeClient := Some (cs_Nodes cs)\<rparr>)"

definition SetStorageClassClient :: "'w KubeHelper \<Rightarrow> 'w KubeHelper outcome" where
  "SetStorageClassClient h = from_clientset h (\<lambda>cs. h\<lparr>kh_StorageClassClient := Some (cs_StorageClasses cs)\<rparr>)"

definition SetServiceAccountClient :: "'w KubeHelper \<Rightarrow> string \<Rightarrow> 'w KubeHelper outcome" where
  "SetServiceAccountClient h namespace = from_clientset h (\<lambda>cs. h\<lparr>kh_ServiceAccountClient := Some (cs_ServiceAccounts cs namespace)\<rparr>)"

definition SetSecretClient :: "'w KubeHelper \<Rightarrow> string \<Rightarrow> 'w KubeHelper outcome" where
  "SetSecretClient h namespace = from_clientset h (\<lambda>cs. h\<lparr>kh_SecretClient := Some (cs_Secrets cs namespace)\<rparr>)"

definition SetRoleClient :: "'w KubeHelper \<Rightarrow> string \<Rightarrow> 'w KubeHelper outcome" where
  "SetRoleClient h namespace = from_clientset h (\<lambda>cs. h\<lparr>kh_RoleClient := Some (cs_Roles cs namespace)\<rparr>)"

definition SetRoleBindingClient :: "'w KubeHelper \<Rightarrow> string \<Rightarrow> 'w KubeHelper outcome" where
  "SetRoleBindingClient h namespace = from_clientset h (\<lambda>cs. h\<lparr>kh_RoleBindingClient := Some (cs_RoleBindings cs namespace)\<rparr>)"

definition SetClusterRoleClient :: "'w KubeHelper \<Rightarrow> 'w KubeHelper outcome" where
  "SetClusterRoleClient h = from_clientset h (\<lambda>cs. h\<lparr>kh_ClusterRoleClient := Some (cs_ClusterRoles cs)\<rparr>)"

definition SetClusterRoleBindingClient :: "'w KubeHelper \<Rightarrow> 'w KubeHelper outcome" where
  "SetClusterRoleBindingClient h = from_clientset h (\<lambda>cs. h\<lparr>kh_ClusterRoleBindingClient := Some (cs_ClusterRoleBindings cs)\<rparr>)"

definition SetResourceQuotaClient :: "'w KubeHelper \<Rightarrow> string \<Rightarrow> 'w KubeHelper outcome" where
  "SetResourceQuotaClient h namespace = from_clientset h (\<lambda>cs. h\<lparr>kh_ResourceQuotaClient := Some (cs_ResourceQuotas cs namespace)\<rparr>)"

definition SetCustomResourceDefinitionClient :: "'w KubeHelper \<Rightarrow> 'w KubeHelper outcome" where
  "SetCustomResourceDefinitionClient h =
     (case kh_apiExtensionClientset h of None \<Rightarrow> Panic NilDereference
      | Some ax \<Rightarrow> Return (h\<lparr>kh_CRDClient := Some (ax_CustomResourceDefinitions ax)\<rparr>))"

section \<open>Reads with retries\<close>

text \<open>
  The loop of \<open>ListEvent\<close>, \<open>GetDeployment\<close>, \<open>GetNode\<close> and \<open>GetSvc\<close>: the error of an attempt is a
  new variable of the loop body (\<open>events, err := ...\<close>), so the \<open>err\<close> that is returned when the
  attempts are used up is the outer one, which no statement sets. \<open>trialCount\<close> does not wrap for
  \<open>Retry\<close> below the largest \<open>int\<close>.
\<close>

function retry_read ::
  "int \<Rightarrow> ('w, 'a option res outcome) state \<Rightarrow> int \<Rightarrow> 'w \<Rightarrow> 'a option res outcome \<times> 'w" where
  "retry_read retry call trialCount w =
     (if trialCount > retry then (Return (None, None), w)
      else (case run_state call w of
              (Panic p, w') \<Rightarrow> (Panic p, w')
            | (Return (value, err), w') \<Rightarrow>
                (case err of Some e \<Rightarrow> retry_read retry call (trialCount + 1) w'
                 | None \<Rightarrow> (Return (value, None), w'))))"
  by pat_completeness auto
termination by (relation "measure (\<lambda>(retry, call, trialCount, w). nat (retry - trialCount + 1))") auto

declare retry_read.simps [simp del]

definition ListEvent :: "'w KubeHelper \<Rightarrow> json \<Rightarrow> ('w, json option res outcome) state" where
  "ListEvent h opt = State (retry_read (ko_Retry (kh_Options h))
     (on_client (kh_EventClient h) (\<lambda>c. ev_List c (ctx_seconds 5) opt)) 0)"

definition GetDeployment :: "'w KubeHelper \<Rightarrow> string \<Rightarrow> ('w, json option res outcome) state" where
  "GetDeployment h name = State (retry_read (ko_Retry (kh_Options h))
     (on_client (kh_DeploymentClient h) (\<lambda>c. dep_Get c (ctx_seconds 5) name JNull)) 0)"

definition GetNode :: "'w KubeHelper \<Rightarrow> string \<Rightarrow> ('w, Node option res outcome) state" where
  "GetNode h name = State (retry_read (ko_Retry (kh_Options h))
     (on_client (kh_NodeClient h) (\<lambda>c. node_Get c (ctx_seconds 5) name JNull)) 0)"

definition GetSvc :: "'w KubeHelper \<Rightarrow> string \<Rightarrow> ('w, Service option res outcome) state" where
  "GetSvc h name = State (retry_read (ko_Retry (kh_Options h))
     (on_client (kh_SvcClient h) (\<lambda>c. svc_Get c (ctx_seconds 5) name JNull)) 0)"

function namespace_active_loop ::
  "int \<Rightarrow> ('w, Namespace option res outcome) state \<Rightarrow> int \<Rightarrow> 'w \<Rightarrow> bool outcome \<times> 'w" where
  "namespace_active_loop retry call trialCount w =
     (if trialCount > retry then (Return False, w)
      else (case run_state call w of
              (Panic p, w') \<Rightarrow> (Panic p, w')
            | (Return (ns, Some e), w') \<Rightarrow> namespace_active_loop retry call (trialCount + 1) w'
            | (Return (None, None), w') \<Rightarrow> (Panic NilDereference, w')
            | (Return (Some n, None), w') \<Rightarrow>
                if nso_Phase n \<noteq> ''Active''
                then namespace_active_loop retry call (trialCount + 1) w'
                else (Return True, w')))"
  by pat_completeness auto
termination by (relation "measure (\<lambda>(retry, call, trialCount, w). nat (retry - trialCount + 1))") auto

declare namespace_active_loop.simps [simp del]

definition IsNamespaceExist :: "'w KubeHelper \<Rightarrow> string \<Rightarrow> ('w, bool outcome) state" where
  "IsNamespaceExist h namespace = State (namespace_active_loop (ko_Retry (kh_Options h))
     (on_client (kh_NamespaceClient h) (\<lambda>c. ns_Get c (ctx_seconds 5) namespace JNull)) 0)"

text \<open>Both loops are bounded retries: an attempt that fails asks for another one.\<close>

definition read_attempt ::
  "('w, 'a option res outcome) state \<Rightarrow> unit \<Rightarrow> ('w, unit + 'a option res outcome) state" where
  "read_attempt call _ = do {
     r \<leftarrow> call;
     State_Monad.return (case r of Panic p \<Rightarrow> Inr (Panic p)
       | Return (v, None) \<Rightarrow> Inr (Return (v, None)) | Return (v, Some e) \<Rightarrow> Inl ())
   }"

definition active_attempt ::
  "('w, Namespace option res outcome) state \<Rightarrow> unit \<Rightarrow> ('w, unit + bool outcome) state" where
  "active_attempt call _ = do {
     r \<leftarrow> call;
     State_Monad.return (case r of Panic p \<Rightarrow> Inr (Panic p) | Return (ns, Some e) \<Rightarrow> Inl ()
       | Return (None, None) \<Rightarrow> Inr (Panic NilDereference)
       | Return (Some n, None) \<Rightarrow> if nso_Phase n \<noteq> ''Active'' then Inl () else Inr (Return True))
   }"

interpretation read_retries: bounded_retry
  "\<lambda>n _. State (retry_read (int n - 1) call 0)" "read_attempt call"
  "\<lambda>_. Return (None, None)" for call :: "('w, 'a option res outcome) state"
proof
  have shift: "retry_read (r + 1) call (t + 1) w = retry_read r call t w" for r t w
    by (induction r call t w rule: retry_read.induct)
      (subst (1 2) retry_read.simps, auto split: prod.splits outcome.splits option.splits)
  fix n and e :: unit
  show "State (retry_read (int 0 - 1) call 0) = State_Monad.return (Return (None, None))"
    by (auto simp: retry_read.simps intro!: state.expand ext)
  have next_try: "retry_read (int n) call 1 w = retry_read (int n - 1) call 0 w" for w
    using shift [of "int n - 1" 0 w] by simp
  show "State (retry_read (int (Suc n) - 1) call 0) =
      State_Monad.bind (read_attempt call e)
        (\<lambda>o1. case o1 of Inl e' \<Rightarrow> State (retry_read (int n - 1) call 0) | Inr r \<Rightarrow> State_Monad.return r)"
    using next_try
    by (intro state.expand ext)
      (simp add: read_attempt_def retry_read.simps [of "int n" call 0]
        split: prod.splits outcome.splits option.splits)
qed

interpretation active_retries: bounded_retry
  "\<lambda>n _. State (namespace_active_loop (int n - 1) call 0)" "active_attempt call"
  "\<lambda>_. Return False" for call :: "('w, Namespace option res outcome) state"
proof
  have shift: "namespace_active_loop (r + 1) call (t + 1) w = namespace_active_loop r call t w" for r t w
    by (induction r call t w rule: namespace_active_loop.induct)
      (subst (1 2) namespace_active_loop.simps, auto split: prod.splits outcome.splits option.splits)
  fix n and e :: unit
  show "State (namespace_active_loop (int 0 - 1) call 0) = State_Monad.return (Return False)"
    by (auto simp: namespace_active_loop.simps intro!: state.expand ext)
  have next_try: "namespace_active_loop (int n) call 1 w = namespace_active_loop (int n - 1) call 0 w" for w
    using shift [of "int n - 1" 0 w] by simp
  show "State (namespace_active_loop (int (Suc n) - 1) call 0) =
      State_Monad.bind (active_attempt call e)
        (\<lambda>o1. case o1 of Inl e' \<Rightarrow> State (namespace_active_loop (int n - 1) call 0)
          | Inr r \<Rightarrow> State_Monad.return r)"
    using next_try
    by (intro state.expand ext)
      (simp add: active_attempt_def namespace_active_loop.simps [of "int n" call 0]
        split: prod.splits outcome.splits option.splits)
qed

section \<open>Requests passed on\<close>

text \<open>The patch types of package types, and \<open>context.WithTimeout(context.Background(), 10 * time.Second)\<close>.\<close>

definition StrategicMergePatchType :: string where
  "StrategicMergePatchType = ''application/strategic-merge-patch+json''"

definition JSONPatchType :: string where
  "JSONPatchType = ''application/json-patch+json''"

definition ctx_10s :: ctx where
  "ctx_10s = WithTimeout Background (Second * 10)"

definition ListPod ::
  "'w KubeHelper \<Rightarrow> json \<Rightarrow> ('w, json option res outcome) state" where
  "ListPod h opt =
     on_client (kh_PodClient h) (\<lambda>c. pod_List c (ctx_seconds 5) opt)"

definition UpdateDeployment ::
  "'w KubeHelper \<Rightarrow> json \<Rightarrow> ('w, json option res outcome) state" where
  "UpdateDeployment h deployment =
     on_client (kh_DeploymentClient h) (\<lambda>c. dep_Update c (ctx_seconds 5) deployment JNull)"

definition PatchDeployment ::
  "'w KubeHelper \<Rightarrow> string \<Rightarrow> string \<Rightarrow> ('w, json option res outcome) state" where
  "PatchDeployment h name patchData =
     on_client (kh_DeploymentClient h) (\<lambda>c. dep_Patch c (ctx_seconds 5) name StrategicMergePatchType patchData JNull)"

definition GetNamespace ::
  "'w KubeHelper \<Rightarrow> string \<Rightarrow> ('w, Namespace option res outcome) state" where
  "GetNamespace h namespace =
     on_client (kh_NamespaceClient h) (\<lambda>c. ns_Get c (ctx_seconds 5) namespace JNull)"

definition ListNamespace ::
  "'w KubeHelper \<Rightarrow> json \<Rightarrow> ('w, json option res outcome) state" where
  "ListNamespace h opt =
     on_client (kh_NamespaceClient h) (\<lambda>c. ns_List c (ctx_seconds 5) opt)"

definition CreateNamespace ::
  "'w KubeHelper \<Rightarrow> json \<Rightarrow> ('w, go_error option outcome) state" where
  "CreateNamespace h metadata =
     on_client (kh_NamespaceClient h) (\<lambda>c. only_err (ns_Create c (ctx_seconds 5) (JObj [(''metadata'', metadata)]) JNull))"

definition PatchNamespace ::
  "'w KubeHelper \<Rightarrow> string \<Rightarrow> string \<Rightarrow> ('w, go_error option outcome) state" where
  "PatchNamespace h namespace patchData =
     on_client (kh_NamespaceClient h) (\<lambda>c. only_err (ns_Patch c (ctx_seconds 5) namespace StrategicMergePatchType patchData JNull))"

definition DeleteNamespace ::
  "'w KubeHelper \<Rightarrow> string \<Rightarrow> ('w, go_error option outcome) state" where
  "DeleteNamespace h namespace =
     on_client (kh_NamespaceClient h) (\<lambda>c. ns_Delete c (ctx_seconds 5) namespace (JObj [(''gracePeriodSeconds'', JNum 120)]))"

definition GetServiceAccount ::
  "'w KubeHelper \<Rightarrow> string \<Rightarrow> ('w, json option res outcome) state" where
  "GetServiceAccount h name =
     on_client (kh_ServiceAccountClient h) (\<lambda>c. sa_Get c (ctx_seconds 5) name JNull)"

definition ListServiceAccount ::
  "'w KubeHelper \<Rightarrow> json \<Rightarrow> ('w, json option res outcome) state" where
  "ListServiceAccount h opt =
     on_client (kh_ServiceAccountClient h) (\<lambda>c. sa_List c (ctx_seconds 5) opt)"

definition CreateServiceAccount ::
  "'w KubeHelper \<Rightarrow> json \<Rightarrow> ('w, json option res outcome) state" where
  "CreateServiceAccount h metadata =
     on_client (kh_ServiceAccountClient h) (\<lambda>c. sa_Create c (ctx_seconds 5) (JObj [(''metadata'', metadata)]) JNull)"

definition DeleteServiceAccount ::
  "'w KubeHelper \<Rightarrow> string \<Rightarrow> ('w, go_error option outcome) state" where
  "DeleteServiceAccount h name =
     on_client (kh_ServiceAccountClient h) (\<lambda>c. sa_Delete c (ctx_seconds 5) name JNull)"

definition GetTokenSecret ::
  "'w KubeHelper \<Rightarrow> string \<Rightarrow> ('w, json option res outcome) state" where
  "GetTokenSecret h secretName =
     on_client (kh_SecretClient h) (\<lambda>c. sec_Get c (ctx_seconds 5) secretName JNull)"

definition GetSecret ::
  "'w KubeHelper \<Rightarrow> string \<Rightarrow> ('w, json option res outcome) state" where
  "GetSecret h secretName =
     on_client (kh_SecretClient h) (\<lambda>c. sec_Get c (ctx_seconds 5) secretName JNull)"

definition GenTokenSecretOpts :: "string \<Rightarrow> string \<Rightarrow> json" where
  "GenTokenSecretOpts secretName serviceAccountName =
     JObj [(''metadata'', JObj [(''name'', JStr secretName),
             (''annotations'', JObj [(''kubernetes.io/service-account.name'', JStr serviceAccountName)])]),
           (''type'', JStr ''kubernetes.io/service-account-token'')]"

definition CreateTokenSecret ::
  "'w KubeHelper \<Rightarrow> string \<Rightarrow> string \<Rightarrow> ('w, json option res outcome) state" where
  "CreateTokenSecret h secretName serviceAccountName =
     on_client (kh_SecretClient h) (\<lambda>c. sec_Create c (ctx_seconds 5) (GenTokenSecretOpts secretName serviceAccountName) JNull)"

definition DeleteSecret ::
  "'w KubeHelper \<Rightarrow> string \<Rightarrow> ('w, go_error option outcome) state" where
  "DeleteSecret h secretName =
     on_client (kh_SecretClient h) (\<lambda>c. sec_Delete c (ctx_seconds 5) secretName JNull)"

definition CreateSecret ::
  "'w KubeHelper \<Rightarrow> json \<Rightarrow> ('w, json option res outcome) state" where
  "CreateSecret h secret =
     on_client (kh_SecretClient h) (\<lambda>c. sec_Create c (ctx_seconds 5) secret JNull)"

definition ListRoleBindings ::
  "'w KubeHelper \<Rightarrow> json \<Rightarrow> ('w, RoleBinding list option res outcome) state" where
  "ListRoleBindings h opt =
     on_client (kh_RoleBindingClient h) (\<lambda>c. rb_List c (ctx_seconds 5) opt)"

definition ListClusterRoleBinding ::
  "'w KubeHelper \<Rightarrow> json \<Rightarrow> ('w, json option res outcome) state" where
  "ListClusterRoleBinding h opt =
     on_client (kh_ClusterRoleBindingClient h) (\<lambda>c. crb_List c (ctx_seconds 5) opt)"

definition GetClusterRole ::
  "'w KubeHelper \<Rightarrow> string \<Rightarrow> ('w, json option res outcome) state" where
  "GetClusterRole h name =
     on_client (kh_ClusterRoleClient h) (\<lambda>c. cr_Get c (ctx_seconds 5) name JNull)"

definition CreateClusterRole ::
  "'w KubeHelper \<Rightarrow> string \<Rightarrow> json \<Rightarrow> ('w, json option res outcome) state" where
  "CreateClusterRole h name rbacRules =
     on_client (kh_ClusterRoleClient h) (\<lambda>c. cr_Create c (ctx_seconds 5)
       (JObj [(''metadata'', JObj [(''name'', JStr name)]), (''rules'', rbacRules)]) JNull)"

definition CreateClusterRoleBinding ::
  "'w KubeHelper \<Rightarrow> json \<Rightarrow> json \<Rightarrow> json \<Rightarrow> ('w, json option res outcome) state" where
  "CreateClusterRoleBinding h metaData roleRef subjects =
     on_client (kh_ClusterRoleBindingClient h) (\<lambda>c. crb_Create c (ctx_seconds 5)
       (JObj [(''metadata'', metaData), (''roleRef'', roleRef), (''subjects'', subjects)]) JNull)"

definition UpdateNode ::
  "'w KubeHelper \<Rightarrow> Node \<Rightarrow> ('w, Node option res outcome) state" where
  "UpdateNode h node =
     on_client (kh_NodeClient h) (\<lambda>c. node_Update c (ctx_seconds 5) node JNull)"

definition ListNodes :: "'w KubeHelper \<Rightarrow> ('w, json option res outcome) state" where
  "ListNodes h = on_client (kh_NodeClient h) (\<lambda>c. node_List c (ctx_seconds 5) JNull)"

definition GetRole ::
  "'w KubeHelper \<Rightarrow> string \<Rightarrow> ('w, json option res outcome) state" where
  "GetRole h name =
     on_client (kh_RoleClient h) (\<lambda>c. role_Get c (ctx_seconds 5) name JNull)"

definition ListStorageClasses ::
  "'w KubeHelper \<Rightarrow> ('w, StorageClass list option res outcome) state" where
  "ListStorageClasses h =
     on_client (kh_StorageClassClient h) (\<lambda>c. scl_List c ctx_10s JNull)"

definition GetStorageClass ::
  "'w KubeHelper \<Rightarrow> string \<Rightarrow> ('w, StorageClass option res outcome) state" where
  "GetStorageClass h name =
     on_client (kh_StorageClassClient h) (\<lambda>c. scl_Get c ctx_10s name JNull)"

definition CreateStorageClass ::
  "'w KubeHelper \<Rightarrow> StorageClass \<Rightarrow> ('w, StorageClass option res outcome) state" where
  "CreateStorageClass h storageClass =
     on_client (kh_StorageClassClient h) (\<lambda>c. scl_Create c ctx_10s storageClass JNull)"

definition ListResourceQuota ::
  "'w KubeHelper \<Rightarrow> json \<Rightarrow> ('w, json option res outcome) state" where
  "ListResourceQuota h opts =
     on_client (kh_ResourceQuotaClient h) (\<lambda>c. rq_List c (ctx_seconds 5) opts)"

definition CreateResourceQuota ::
  "'w KubeHelper \<Rightarrow> string \<Rightarrow> json \<Rightarrow> ('w, json option res outcome) state" where
  "CreateResourceQuota h name resourceQuota =
     on_client (kh_ResourceQuotaClient h) (\<lambda>c. rq_Create c (ctx_seconds 5) resourceQuota JNull)"

definition UpdateResourceQuota ::
  "'w KubeHelper \<Rightarrow> string \<Rightarrow> string \<Rightarrow> ('w, go_error option outcome) state" where
  "UpdateResourceQuota h name patchData =
     on_client (kh_ResourceQuotaClient h) (\<lambda>c. only_err (rq_Patch c (ctx_seconds 5) name StrategicMergePatchType patchData JNull))"

definition ListCustomResourceDefinition ::
  "'w KubeHelper \<Rightarrow> ('w, json option res outcome) state" where
  "ListCustomResourceDefinition h =
     on_client (kh_CRDClient h) (\<lambda>c. crd_List c (ctx_seconds 5) JNull)"

definition ApplyCustomResourceDefinitions ::
  "'w KubeHelper \<Rightarrow> json \<Rightarrow> ('w, json option res outcome) state" where
  "ApplyCustomResourceDefinitions h crd =
     on_client (kh_CRDClient h) (\<lambda>c. crd_Create c (ctx_seconds 5) crd JNull)"

definition CreateConfigMap ::
  "'w KubeHelper \<Rightarrow> json \<Rightarrow> ('w, json option res outcome) state" where
  "CreateConfigMap h configMap =
     on_client (kh_ConfigMapClient h) (\<lambda>c. cm_Create c (ctx_seconds 5) configMap JNull)"

definition GetConfigMap ::
  "'w KubeHelper \<Rightarrow> string \<Rightarrow> ('w, json option res outcome) state" where
  "GetConfigMap h name =
     on_client (kh_ConfigMapClient h) (\<lambda>c. cm_Get c (ctx_seconds 5) name JNull)"

definition UpdateConfigMap ::
  "'w KubeHelper \<Rightarrow> json \<Rightarrow> ('w, json option res outcome) state" where
  "UpdateConfigMap h configMap =
     on_client (kh_ConfigMapClient h) (\<lambda>c. cm_Update c (ctx_seconds 5) configMap JNull)"

definition DeleteConfigMap ::
  "'w KubeHelper \<Rightarrow> string \<Rightarrow> ('w, go_error option outcome) state" where
  "DeleteConfigMap h name =
     on_client (kh_ConfigMapClient h) (\<lambda>c. cm_Delete c (ctx_seconds 5) name JNull)"

definition CreateJob ::
  "'w KubeHelper \<Rightarrow> json \<Rightarrow> ('w, json option res outcome) state" where
  "CreateJob h job =
     on_client (kh_JobClient h) (\<lambda>c. job_Create c (ctx_seconds 5) job JNull)"

definition GetJob ::
  "'w KubeHelper \<Rightarrow> string \<Rightarrow> ('w, json option res outcome) state" where
  "GetJob h name =
     on_client (kh_JobClient h) (\<lambda>c. job_Get c (ctx_seconds 5) name JNull)"

definition ListJobs ::
  "'w KubeHelper \<Rightarrow> json \<Rightarrow> ('w, json option res outcome) state" where
  "ListJobs h opt =
     on_client (kh_JobClient h) (\<lambda>c. job_List c (ctx_seconds 5) opt)"

definition DeleteJob ::
  "'w KubeHelper \<Rightarrow> string \<Rightarrow> ('w, go_error option outcome) state" where
  "DeleteJob h name =
     on_client (kh_JobClient h) (\<lambda>c. job_Delete c (ctx_seconds 5) name (JObj [(''propagationPolicy'', JStr ''Background'')]))"

definition CreateSvc ::
  "'w KubeHelper \<Rightarrow> Service \<Rightarrow> ('w, Service option res outcome) state" where
  "CreateSvc h svc =
     on_client (kh_SvcClient h) (\<lambda>c. svc_Create c (ctx_seconds 60) svc JNull)"

definition CreateRoleBinding ::
  "'w KubeHelper \<Rightarrow> string \<Rightarrow> string \<Rightarrow> json option \<Rightarrow> Subject list
    \<Rightarrow> ('w, RoleBinding option res outcome) state" where
  "CreateRoleBinding h name namespace roleRef subjects =
     deref roleRef (\<lambda>ref. on_client (kh_RoleBindingClient h) (\<lambda>c. rb_Create c (ctx_seconds 5)
       \<lparr>rbo_Name = name, rbo_Namespace = namespace, rbo_RoleRef = ref, rbo_Subjects = subjects\<rparr> JNull))"

text \<open>The lease callbacks and the configuration that \<open>RunLeaseCron\<close> hands to \<open>LeaseRun\<close>.\<close>

definition SetLeaseCron :: "'w KubeHelper \<Rightarrow> ('w, unit) state \<Rightarrow> 'w KubeHelper" where
  "SetLeaseCron h schedule = h\<lparr>kh_LeaseCallback := Some
     \<lparr>OnStartedLeading = \<lambda>_. schedule,
      OnStoppedLeading = State_Monad.return (),
      OnNewLeader = \<lambda>identity. if identity = kh_LeaseID h then State_Monad.return ()
        else State_Monad.return ()\<rparr>\<rparr>"

record 'w LeaderElectionConfig =
  le_Lock :: "LeaseLock option"
  le_ReleaseOnCancel :: bool
  le_LeaseDuration :: duration
  le_RenewDeadline :: duration
  le_RetryPeriod :: duration
  le_Callbacks :: "'w LeaderCallbacks option"

definition RunLeaseCron ::
  "(ctx \<Rightarrow> 'w LeaderElectionConfig \<Rightarrow> ('w, unit) state) \<Rightarrow> 'w KubeHelper \<Rightarrow> ctx option
    \<Rightarrow> ('w, unit outcome) state" where
  "RunLeaseCron LeaseRun h ctx = on_client ctx (\<lambda>c. LeaseRun c
     \<lparr>le_Lock = kh_LeaseClient h, le_ReleaseOnCancel = True, le_LeaseDuration = 30 * Second,
      le_RenewDeadline = 15 * Second, le_RetryPeriod = 5 * Second,
      le_Callbacks = kh_LeaseCallback h\<rparr>)"

section \<open>Operations of several requests\<close>

fun address_of_type :: "string \<Rightarrow> (string \<times> string) list \<Rightarrow> string res" where
  "address_of_type addrType [] =
     ([], Some (ErrText (''can't find the node ip by specified addr type('' @ addrType @ '')'')))"
| "address_of_type addrType ((typ, address) # addrs) =
     (if typ = addrType then (address, None) else address_of_type addrType addrs)"

definition GetNodeIP :: "'w KubeHelper \<Rightarrow> string \<Rightarrow> string \<Rightarrow> ('w, string res outcome) state" where
  "GetNodeIP h nodeName addrType = do {
     r \<leftarrow> GetNode h nodeName;
     proceed r (\<lambda>(node, err). on_err err
       (deref node (\<lambda>n. State_Monad.return (Return (address_of_type addrType (no_Addresses n)))))
       (\<lambda>e. Return ([], Some e)))
   }"

fun node_port_of :: "int \<Rightarrow> ServicePort list \<Rightarrow> int res" where
  "node_port_of targetPort [] =
     (0, Some (ErrText (''can't find the node port by specified target port('' @ Itoa targetPort @ '')'')))"
| "node_port_of targetPort (port # ports) =
     (if sp_TargetPort port = 8080 then (sp_NodePort port, None) else node_port_of targetPort ports)"

definition GetSvcNodePortByTargetPort ::
  "'w KubeHelper \<Rightarrow> string \<Rightarrow> int \<Rightarrow> ('w, int res outcome) state" where
  "GetSvcNodePortByTargetPort h svcName targetPort = do {
     r \<leftarrow> GetSvc h svcName;
     proceed r (\<lambda>(svc, err). on_err err
       (deref svc (\<lambda>s. State_Monad.return (Return (node_port_of targetPort (svo_Ports s)))))
       (\<lambda>e. Return (0, Some e)))
   }"

definition PatchClusterRole ::
  "'w KubeHelper \<Rightarrow> string \<Rightarrow> string \<Rightarrow> ('w, go_error option outcome) state" where
  "PatchClusterRole h name dataToPatch = on_client (kh_ClusterRoleClient h) (\<lambda>c. do {
     err \<leftarrow> only_err (cr_Patch c (ctx_seconds 5) name JSONPatchType dataToPatch JNull);
     State_Monad.return (map_option (\<lambda>e. errors_Wrapf e (''Failed to patch cluster role: '' @ name)) err)
   })"

text \<open>
  The loops below change the helper: \<open>SetRoleBindingClient\<close> replaces its client, and the helper
  the caller holds keeps the last one. The world of these loops is the helper beside the world.
\<close>

definition delete_binding_in ::
  "ctx \<Rightarrow> string \<Rightarrow> string \<Rightarrow> ('w KubeHelper \<times> 'w, go_error option outcome) state" where
  "delete_binding_in ctx namespace name = State (\<lambda>(h, w).
     case SetRoleBindingClient h namespace of
       Panic p \<Rightarrow> (Panic p, (h, w))
     | Return h1 \<Rightarrow>
         (case run_state (on_client (kh_RoleBindingClient h1) (\<lambda>c. rb_Delete c ctx name JNull)) w of
            (r, w1) \<Rightarrow> (r, (h1, w1))))"

fun DeleteRoleBindings_loop ::
  "ctx \<Rightarrow> string \<Rightarrow> string list \<Rightarrow> ('w KubeHelper \<times> 'w, go_error option outcome) state" where
  "DeleteRoleBindings_loop ctx username [] = State_Monad.return (Return None)"
| "DeleteRoleBindings_loop ctx username (namespace # namespaces) = do {
     r \<leftarrow> delete_binding_in ctx namespace username;
     proceed r (\<lambda>err. on_err err (DeleteRoleBindings_loop ctx username namespaces) (\<lambda>e. Return (Some e)))
   }"

definition DeleteRoleBindings ::
  "string \<Rightarrow> string list \<Rightarrow> ('w KubeHelper \<times> 'w, go_error option outcome) state" where
  "DeleteRoleBindings username namespaces = DeleteRoleBindings_loop (ctx_seconds 5) username namespaces"

text \<open>The inner loop deletes at the first subject that matches and breaks.\<close>

fun delete_if_bound ::
  "ctx \<Rightarrow> string \<Rightarrow> string \<Rightarrow> RoleBinding \<Rightarrow> Subject list
    \<Rightarrow> ('w KubeHelper \<times> 'w, go_error option outcome) state" where
  "delete_if_bound ctx username namespace rb [] = State_Monad.return (Return None)"
| "delete_if_bound ctx username namespace rb (subject # subjects) =
     (if \<not> IsBoundServiceAccount subject username namespace
      then delete_if_bound ctx username namespace rb subjects
      else delete_binding_in ctx (rbo_Namespace rb) (rbo_Name rb))"

fun delete_bound_loop ::
  "ctx \<Rightarrow> string \<Rightarrow> string \<Rightarrow> RoleBinding list \<Rightarrow> ('w KubeHelper \<times> 'w, go_error option outcome) state" where
  "delete_bound_loop ctx username namespace [] = State_Monad.return (Return None)"
| "delete_bound_loop ctx username namespace (rb # rbs) = do {
     r \<leftarrow> delete_if_bound ctx username namespace rb (rbo_Subjects rb);
     proceed r (\<lambda>err. on_err err (delete_bound_loop ctx username namespace rbs) (\<lambda>e. Return (Some e)))
   }"

definition on_world :: "('w, 'a) state \<Rightarrow> ('h \<times> 'w, 'a) state" where
  "on_world m = State (\<lambda>(h, w). case run_state m w of (r, w') \<Rightarrow> (r, (h, w')))"

definition DeleteRoleBindingsIfTheServiceAccountIsIncluded ::
  "string \<Rightarrow> string \<Rightarrow> ('w KubeHelper \<times> 'w, go_error option outcome) state" where
  "DeleteRoleBindingsIfTheServiceAccountIsIncluded username namespace = State (\<lambda>(h, w).
     run_state (do {
       r \<leftarrow> on_world (on_client (kh_RoleBindingClient h) (\<lambda>c. rb_List c (ctx_seconds 5) JNull));
       proceed r (\<lambda>(list, err). on_err err
         (deref list (\<lambda>items. delete_bound_loop (ctx_seconds 5) username namespace items))
         (\<lambda>e. Return (Some e)))
     }) (h, w))"

section \<open>Storage classes\<close>

definition default_annotation :: string where
  "default_annotation = ''storageclass.kubernetes.io/is-default-class''"

fun getDefaultStorageClasses :: "StorageClass list \<Rightarrow> StorageClass list" where
  "getDefaultStorageClasses [] = []"
| "getDefaultStorageClasses (sc # scs) =
     (case sco_Annotations sc default_annotation of
        None \<Rightarrow> getDefaultStorageClasses scs
      | Some value \<Rightarrow>
          if value \<noteq> [] then sc # getDefaultStorageClasses scs else getDefaultStorageClasses scs)"

definition patch_storage_class ::
  "'w KubeHelper \<Rightarrow> string \<Rightarrow> StorageClass \<Rightarrow> ('w, go_error option outcome) state" where
  "patch_storage_class h patchData sc = on_client (kh_StorageClassClient h) (\<lambda>c. do {
     err \<leftarrow> only_err (scl_Patch c ctx_10s (sco_Name sc) StrategicMergePatchType patchData JNull);
     State_Monad.return
       (map_option (\<lambda>e. errors_Wrapf e (''Failed to patch StorageClass: '' @ sco_Name sc)) err)
   })"

fun PatchStorageClasses ::
  "'w KubeHelper \<Rightarrow> StorageClass list \<Rightarrow> string \<Rightarrow> ('w, go_error option outcome) state" where
  "PatchStorageClasses h [] patchData = State_Monad.return (Return None)"
| "PatchStorageClasses h (sc # storageClasses) patchData = do {
     r \<leftarrow> patch_storage_class h patchData sc;
     proceed r (\<lambda>err. on_err err (PatchStorageClasses h storageClasses patchData) (\<lambda>e. Return (Some e)))
   }"

definition DisableCurrentDefaultStorageClasses ::
  "'w KubeHelper \<Rightarrow> ('w, go_error option outcome) state" where
  "DisableCurrentDefaultStorageClasses h = do {
     r \<leftarrow> ListStorageClasses h;
     proceed r (\<lambda>(list, err). on_err err
       (deref list (\<lambda>items.
          let defaultList = getDefaultStorageClasses items;
              (patchData, err) = genPatchToToggleDefaultStorageClass ''false''
          in on_err err (PatchStorageClasses h defaultList patchData)
               (\<lambda>e. Return (Some (errors_Wrapf e ''Failed to generate storage class patch data'')))))
       (\<lambda>e. Return (Some (errors_Wrapf e ''Failed to list storage classes''))))
   }"

definition SetDefaultStorageClass ::
  "'w KubeHelper \<Rightarrow> string \<Rightarrow> ('w, go_error option outcome) state" where
  "SetDefaultStorageClass h name =
     (let (patchData, err) = genPatchToToggleDefaultStorageClass ''true''
      in on_err err
           (on_client (kh_StorageClassClient h) (\<lambda>c. do {
              err \<leftarrow> only_err (scl_Patch c ctx_10s name StrategicMergePatchType patchData JNull);
              State_Monad.return
                (map_option (\<lambda>e. errors_Wrapf e (''Failed to set default storage class: '' @ name)) err)
            }))
           (\<lambda>e. Return (Some e)))"

section \<open>Dynamic resources\<close>

text \<open>
  The YAML decoder gives, for each document of the stream in order, the fields it decoded into
  the object's map or an error, and then \<open>io.EOF\<close>. \<open>obj.Object\<close> starts as a non-nil map, and
  \<open>Decode\<close>, which gets the map and not a pointer to it, cannot make it nil.
\<close>

record DynObject =
  Object :: "(string \<times> json) list option"

record ObjectApi =
  GroupKind_of :: "DynObject \<Rightarrow> string"
  Version_of :: "DynObject \<Rightarrow> string"
  GetNamespace_of :: "DynObject \<Rightarrow> string"
  GetName_of :: "DynObject \<Rightarrow> string"

definition apply_document ::
  "ObjectApi \<Rightarrow> 'w KubeHelper \<Rightarrow> DynObject \<Rightarrow> ('w, go_error option outcome) state" where
  "apply_document api h obj = do {
     r \<leftarrow> on_client (kh_discoveryMapper h) (\<lambda>m. rm_RESTMapping m (GroupKind_of api obj) (Version_of api obj));
     proceed r (\<lambda>(restMapping, err). on_err err
       (deref restMapping (\<lambda>gvr.
          let namespace = GetNamespace_of api obj;
              namespace = (if length namespace = 0 then ''kube-system'' else namespace)
          in do {
            a \<leftarrow> on_client (kh_dynamicClient h) (\<lambda>c. only_err (dyn_Apply c gvr namespace (ctx_seconds 5)
                   (GetName_of api obj) (JObj (case Object obj of None \<Rightarrow> [] | Some kvs \<Rightarrow> kvs))
                   (JObj [(''fieldManager'', JStr ''kube-apply'')])));
            proceed a (\<lambda>err. State_Monad.return (Return
              (map_option (\<lambda>e. ErrText (''failed to apply dynamic resource('' @ err_msg e @ '')'')) err)))
          }))
       (\<lambda>e. Return (Some e)))
   }"

fun ApplyDynamicResource ::
  "ObjectApi \<Rightarrow> 'w KubeHelper \<Rightarrow> (go_error + (string \<times> json) list) list
    \<Rightarrow> ('w, go_error option outcome) state" where
  "ApplyDynamicResource api h [] = State_Monad.return (Return None)"
| "ApplyDynamicResource api h (Inl e # docs) = State_Monad.return (Panic (PanicValue e))"
| "ApplyDynamicResource api h (Inr fs # docs) =
     (let obj = \<lparr>Object = Some fs\<rparr>
      in if Object obj = None then ApplyDynamicResource api h docs
         else do {
           r \<leftarrow> apply_document api h obj;
           proceed r (\<lambda>err. on_err err (ApplyDynamicResource api h docs) (\<lambda>e. Return (Some e)))
         })"

section \<open>The loops that stop at the first error\<close>

interpretation delete_bindings: stop_at_error "DeleteRoleBindings_loop ctx username"
  "\<lambda>namespace. delete_binding_in ctx namespace username" "Return None" for ctx username
  by unfold_locales (simp_all add: proceed_on_err)

interpretation delete_bound: stop_at_error "delete_bound_loop ctx username namespace"
  "\<lambda>rb. delete_if_bound ctx username namespace rb (rbo_Subjects rb)" "Return None"
  for ctx username namespace
  by unfold_locales (simp_all add: proceed_on_err)

interpretation patch_classes: stop_at_error "\<lambda>scs. PatchStorageClasses h scs patchData"
  "patch_storage_class h patchData" "Return None" for h :: "'w KubeHelper" and patchData
  by unfold_locales (simp_all add: proceed_on_err)

interpretation apply_documents: stop_at_error "\<lambda>docs. ApplyDynamicResource api h (map Inr docs)"
  "\<lambda>fs. apply_document api h \<lparr>Object = Some fs\<rparr>" "Return None" for api and h :: "'w KubeHelper"
  by unfold_locales (simp_all add: proceed_on_err)

end
