(* ===== verification/KubernetesLaws.thy ===== *)
theory KubernetesLaws
  imports KubernetesOps
begin

text \<open>
  What package kubernetes promises: the retry budget and what is returned when it is used up, the
  deletion of role bindings, the default storage class, and the application of dynamic resources.
\<close>

section \<open>Retries\<close>

text \<open>The world after \<open>n\<close> failed calls in a row, and \<open>None\<close> when one of them succeeds.\<close>

fun failures :: "nat \<Rightarrow> ('w, 'a) reply \<Rightarrow> 'w \<Rightarrow> 'w option" where
  "failures 0 call w = Some w"
| "failures (Suc n) call w =
     (case run_state call w of ((_, Some e), w') \<Rightarrow> failures n call w' | ((_, None), w') \<Rightarrow> None)"

definition attempts_of :: "'w KubeHelper \<Rightarrow> nat" where
  "attempts_of h = nat (ko_Retry (kh_Options h) + 1)"

lemma failing_read_attempt:
  "failing n (read_attempt (on_client (Some c) f)) () w = map_option (Pair ()) (failures n (f c) w)"
  by (induction n arbitrary: w)
    (auto simp: read_attempt_def split: prod.splits option.splits sum.splits)

lemma retry_negative: "n < 0 \<Longrightarrow> retry_read n call 0 w = (Return (None, None), w)"
  by (simp add: retry_read.simps)

lemma retry_read_budget:
  "retry_read retry call 0 w = run_state (State (retry_read (int (nat (retry + 1)) - 1) call 0)) w"
  by (cases "retry < 0") (auto simp: retry_negative retry_read.simps)

text \<open>The two ways a retried read can end.\<close>

lemma retry_read_exhausted:
  assumes "failures (nat (retry + 1)) (f c) w = Some w'"
  shows "retry_read retry (on_client (Some c) f) 0 w = (Return (None, None), w')"
  by (subst retry_read_budget, rule read_retries.loop_all_fail) (simp add: failing_read_attempt assms)

lemma retry_read_success:
  assumes "failures k (f c) w = Some w1" and "run_state (f c) w1 = ((v, None), w2)"
    and "int k \<le> retry"
  shows "retry_read retry (on_client (Some c) f) 0 w = (Return (v, None), w2)"
  by (subst retry_read_budget, rule read_retries.loop_first_success [where k = k and ?e1.0 = "()" and ?w1.0 = w1])
    (use assms in \<open>auto simp: failing_read_attempt read_attempt_def\<close>)

lemma failures_cases:
  obtains w' where "failures n call w = Some w'"
  | k w1 v w2 where "k < n" and "failures k call w = Some w1" and "run_state call w1 = ((v, None), w2)"
proof -
  have "(\<exists>w'. failures n call w = Some w') \<or> (\<exists>k w1 v w2. k < n \<and> failures k call w = Some w1
      \<and> run_state call w1 = ((v, None), w2))"
  proof (induction n arbitrary: w)
    case 0
    show ?case by simp
  next
    case (Suc n)
    obtain v err w1 where c: "run_state call w = ((v, err), w1)" by (metis prod.exhaust)
    show ?case
    proof (cases err)
      case None
      with c have "0 < Suc n \<and> failures 0 call w = Some w \<and> run_state call w = ((v, None), w1)" by simp
      then show ?thesis by blast
    next
      case (Some e)
      from Suc [of w1] show ?thesis
      proof (elim disjE exE conjE)
        fix w' assume "failures n call w1 = Some w'"
        with c Some show ?thesis by simp
      next
        fix k u v' w2
        assume "k < n" "failures k call w1 = Some u" "run_state call u = ((v', None), w2)"
        with c Some have "Suc k < Suc n \<and> failures (Suc k) call w = Some u
            \<and> run_state call u = ((v', None), w2)" by simp
        then show ?thesis by blast
      qed
    qed
  qed
  then show ?thesis using that by blast
qed

lemma failures_stop:
  assumes "failures k call w = Some w1" and "run_state call w1 = ((v, None), w2)" and "k < n"
  shows "failures n call w = None"
  using assms
proof (induction k arbitrary: w n)
  case 0
  then show ?case by (cases n) auto
next
  case (Suc k)
  then obtain m where "n = Suc m" "k < m" by (cases n) auto
  with Suc show ?case by (auto split: prod.splits option.splits)
qed

text \<open>
  C21. \<open>GetNode\<close> makes at most \<open>Retry + 1\<close> requests (none when \<open>Retry\<close> is negative). The first one
  that succeeds is the result; when all of them fail the result is a nil node with a nil error,
  since the error that is returned is not the one the attempts set.
\<close>

theorem GetNode_retries:
  assumes "kh_NodeClient h = Some c" and "call = node_Get c (ctx_seconds 5) name JNull"
  shows "(\<forall>w'. failures (attempts_of h) call w = Some w' \<longrightarrow>
      run_state (GetNode h name) w = (Return (None, None), w'))
    \<and> (\<forall>k w1 v w2. k < attempts_of h \<longrightarrow> failures k call w = Some w1 \<longrightarrow>
      run_state call w1 = ((v, None), w2) \<longrightarrow> run_state (GetNode h name) w = (Return (v, None), w2))"
  using assms
  by (auto simp: GetNode_def attempts_of_def intro!: retry_read_exhausted retry_read_success)

definition flaky :: "nat \<Rightarrow> 'a \<Rightarrow> (nat, 'a) reply" where
  "flaky n x = State (\<lambda>k. ((if k < n then (None, Some (APIError 503 ''busy'')) else (Some x, None)), k + 1))"

definition demo_node_client :: "nat \<Rightarrow> nat NodeClient" where
  "demo_node_client n = \<lparr>node_Get = \<lambda>_ _ _. flaky n \<lparr>no_Addresses = [(''InternalIP'', ''10.0.0.7'')], no_rest = JNull\<rparr>,
     node_List = \<lambda>_ _. flaky n JNull, node_Update = \<lambda>_ x _. flaky n x\<rparr>"

definition demo_kube :: "nat \<Rightarrow> int \<Rightarrow> nat KubeHelper" where
  "demo_kube n retry = (fresh_helper (kubernetes_zero\<lparr>ko_Retry := retry\<rparr>))
     \<lparr>kh_NodeClient := Some (demo_node_client n)\<rparr>"

lemma GetNode_retries_witness:
  "run_state (GetNode (demo_kube 9 2) ''n1'') 0 = (Return (None, None), 3)
   \<and> run_state (GetNode (demo_kube 1 2) ''n1'') 0 =
      (Return (Some \<lparr>no_Addresses = [(''InternalIP'', ''10.0.0.7'')], no_rest = JNull\<rparr>, None), 2)"
proof -
  have c: "kh_NodeClient (demo_kube n 2) = Some (demo_node_client n)" for n
    by (simp add: demo_kube_def)
  have a: "attempts_of (demo_kube n 2) = 3" for n
    by (simp add: demo_kube_def attempts_of_def fresh_helper_def)
  have "failures 3 (node_Get (demo_node_client 9) (ctx_seconds 5) ''n1'' JNull) 0 = Some 3"
    and "failures 1 (node_Get (demo_node_client 1) (ctx_seconds 5) ''n1'' JNull) 0 = Some 1"
    by (simp_all add: demo_node_client_def flaky_def eval_nat_numeral)
  moreover have "run_state (node_Get (demo_node_client 1) (ctx_seconds 5) ''n1'' JNull) 1
      = ((Some \<lparr>no_Addresses = [(''InternalIP'', ''10.0.0.7'')], no_rest = JNull\<rparr>, None), 2)"
    by (simp add: demo_node_client_def flaky_def)
  moreover have "1 < attempts_of (demo_kube 1 2)" by (simp add: a)
  ultimately show ?thesis
    using GetNode_retries [OF c refl, of 9 "''n1''" 0] GetNode_retries [OF c refl, of 1 "''n1''" 0]
    unfolding a by blast
qed

definition no_address_error :: "string \<Rightarrow> go_error" where
  "no_address_error addrType =
     ErrText (''can't find the node ip by specified addr type('' @ addrType @ '')'')"

lemma address_of_type_find:
  "address_of_type addrType as = (case find (\<lambda>a. fst a = addrType) as of
      Some a \<Rightarrow> (snd a, None) | None \<Rightarrow> ([], Some (no_address_error addrType)))"
  by (induction as) (auto simp: no_address_error_def)

text \<open>
  C22. \<open>GetNodeIP\<close> panics exactly when every attempt to read the node failed, because it trusts the
  nil error and dereferences the nil node; otherwise it answers the first address of the
  requested type, or the error that there is none.
\<close>

theorem GetNodeIP_panics_iff_exhausted:
  assumes "kh_NodeClient h = Some c" and "call = node_Get c (ctx_seconds 5) name JNull"
    and "\<And>w v w'. run_state call w = ((v, None), w') \<Longrightarrow> v \<noteq> None"
  shows "case failures (attempts_of h) call w of
      Some w' \<Rightarrow> run_state (GetNodeIP h name addrType) w = (Panic NilDereference, w')
    | None \<Rightarrow> \<exists>node w'. run_state (GetNode h name) w = (Return (Some node, None), w')
        \<and> run_state (GetNodeIP h name addrType) w
          = (Return (case find (\<lambda>a. fst a = addrType) (no_Addresses node) of
               Some a \<Rightarrow> (snd a, None) | None \<Rightarrow> ([], Some (no_address_error addrType))), w')"
proof (cases rule: failures_cases [of "attempts_of h" call w])
  case (1 w')
  then have "run_state (GetNode h name) w = (Return (None, None), w')"
    using assms(1,2) by (auto simp: GetNode_def attempts_of_def intro!: retry_read_exhausted)
  with 1 show ?thesis by (simp add: GetNodeIP_def)
next
  case (2 k w1 v w2)
  then have g: "run_state (GetNode h name) w = (Return (v, None), w2)"
    using assms(1,2) by (auto simp: GetNode_def attempts_of_def intro!: retry_read_success)
  from assms(3) [OF 2(3)] obtain n where "v = Some n" by auto
  moreover have "failures (attempts_of h) call w = None"
    by (rule failures_stop [OF 2(2,3,1)])
  ultimately show ?thesis using g by (simp add: GetNodeIP_def address_of_type_find)
qed

lemma GetNodeIP_panics_iff_exhausted_witness:
  "run_state (GetNodeIP (demo_kube 9 2) ''n1'' ''InternalIP'') 0 = (Panic NilDereference, 3)"
proof -
  have c: "kh_NodeClient (demo_kube n 2) = Some (demo_node_client n)" for n
    by (simp add: demo_kube_def)
  have a: "attempts_of (demo_kube n 2) = 3" for n
    by (simp add: demo_kube_def attempts_of_def fresh_helper_def)
  have "failures 3 (node_Get (demo_node_client 9) (ctx_seconds 5) ''n1'' JNull) 0 = Some 3"
    by (simp add: demo_node_client_def flaky_def eval_nat_numeral)
  moreover have "run_state (node_Get (demo_node_client 9) (ctx_seconds 5) ''n1'' JNull) w = ((v, None), w')
      \<Longrightarrow> v \<noteq> None" for w v w'
    by (auto simp: demo_node_client_def flaky_def split: if_splits)
  ultimately show ?thesis
    using GetNodeIP_panics_iff_exhausted [OF c refl, of 9 "''n1''" 0 "''InternalIP''"] by (simp add: a)
qed

text \<open>Whether one of the next \<open>n\<close> lookups shows an active namespace.\<close>

fun active_within :: "nat \<Rightarrow> ('w, Namespace) reply \<Rightarrow> 'w \<Rightarrow> bool" where
  "active_within 0 call w = False"
| "active_within (Suc n) call w =
     (case run_state call w of
        ((Some ns, None), w') \<Rightarrow> nso_Phase ns = ''Active'' \<or> active_within n call w'
      | (_, w') \<Rightarrow> active_within n call w')"

text \<open>
  C34. \<open>IsNamespaceExist\<close> answers true exactly when one of the first \<open>Retry + 1\<close> lookups shows the
  namespace in phase Active; failed lookups and other phases use up an attempt each.
\<close>

theorem IsNamespaceExist_iff_active:
  assumes "kh_NamespaceClient h = Some c" and "call = ns_Get c (ctx_seconds 5) namespace JNull"
    and "\<And>w v w'. run_state call w = ((v, None), w') \<Longrightarrow> v \<noteq> None"
  shows "fst (run_state (IsNamespaceExist h namespace) w) = Return (active_within (attempts_of h) call w)"
proof -
  let ?f = "\<lambda>c. ns_Get c (ctx_seconds 5) namespace JNull"
  have main: "fst (run_state (State (namespace_active_loop (int n - 1) (on_client (Some c) ?f) 0)) w)
      = Return (active_within n call w)" for n w
  proof (induction n arbitrary: w)
    case 0
    show ?case by (simp add: namespace_active_loop.simps)
  next
    case (Suc n)
    obtain v err w' where r: "run_state call w = ((v, err), w')" by (metis prod.exhaust)
    with assms(3) [of w v w'] Suc [of w'] assms(2) show ?case
      unfolding active_retries.loop_suc [where e = "()"]
      by (cases err; cases v) (simp_all add: active_attempt_def)
  qed
  have "ko_Retry (kh_Options h) < 0 \<Longrightarrow> namespace_active_loop (ko_Retry (kh_Options h)) m 0 w
      = namespace_active_loop (- 1) m 0 w" for m
    by (simp add: namespace_active_loop.simps)
  then show ?thesis using main [of "attempts_of h" w] assms(1)
    by (cases "ko_Retry (kh_Options h) < 0") (simp_all add: IsNamespaceExist_def attempts_of_def)
qed

definition demo_ns_client :: "nat \<Rightarrow> nat NamespaceClient" where
  "demo_ns_client n = \<lparr>ns_Get = \<lambda>_ _ _. flaky n \<lparr>nso_Phase = ''Active'', nso_rest = JNull\<rparr>,
     ns_Create = \<lambda>_ _ _. State_Monad.return (None, None),
     ns_Patch = \<lambda>_ _ _ _ _. State_Monad.return (None, None),
     ns_Delete = \<lambda>_ _ _. State_Monad.return None, ns_List = \<lambda>_ _. State_Monad.return (None, None)\<rparr>"

lemma IsNamespaceExist_iff_active_witness:
  "fst (run_state (IsNamespaceExist ((demo_kube 0 2)\<lparr>kh_NamespaceClient := Some (demo_ns_client 2)\<rparr>) ''ns'') 0)
     = Return True
   \<and> fst (run_state (IsNamespaceExist ((demo_kube 0 2)\<lparr>kh_NamespaceClient := Some (demo_ns_client 3)\<rparr>) ''ns'') 0)
     = Return False"
proof -
  let ?h = "\<lambda>n. (demo_kube 0 2)\<lparr>kh_NamespaceClient := Some (demo_ns_client n)\<rparr>"
  have a: "attempts_of (?h n) = 3" for n
    by (simp add: demo_kube_def attempts_of_def fresh_helper_def)
  have "run_state (ns_Get (demo_ns_client n) (ctx_seconds 5) ''ns'' JNull) w = ((v, None), w') \<Longrightarrow> v \<noteq> None"
    for n w v w' by (auto simp: demo_ns_client_def flaky_def split: if_splits)
  then have "fst (run_state (IsNamespaceExist (?h n) ''ns'') 0)
      = Return (active_within 3 (ns_Get (demo_ns_client n) (ctx_seconds 5) ''ns'' JNull) 0)" for n
    using IsNamespaceExist_iff_active [of "?h n" "demo_ns_client n" _ "''ns''" 0] a by simp
  then show ?thesis by (simp add: demo_ns_client_def flaky_def eval_nat_numeral)
qed

text \<open>
  \<open>GetSvcNodePortByTargetPort\<close> does not look at the target port it is asked for: whatever it
  is, a success is the node port of the first port whose target is 8080.
\<close>

theorem GetSvcNodePort_ignores_target:
  assumes "run_state (GetSvcNodePortByTargetPort h svcName targetPort) w = (Return (port, None), w')"
  shows "run_state (GetSvcNodePortByTargetPort h svcName otherPort) w = (Return (port, None), w')
    \<and> (\<exists>svc p. run_state (GetSvc h svcName) w = (Return (Some svc, None), w')
        \<and> find (\<lambda>p. sp_TargetPort p = 8080) (svo_Ports svc) = Some p \<and> sp_NodePort p = port)"
proof -
  have np: "node_port_of t ps = (port, None) \<longleftrightarrow>
      (\<exists>p. find (\<lambda>p. sp_TargetPort p = 8080) ps = Some p \<and> sp_NodePort p = port)" for t ps
    by (induction ps) auto
  from assms show ?thesis
    by (auto simp: GetSvcNodePortByTargetPort_def on_err_def np proceed_def deref_def
        split: outcome.splits option.splits prod.splits)
qed

definition demo_svc_client :: "unit SvcClient" where
  "demo_svc_client = \<lparr>svc_Get = \<lambda>_ _ _. State_Monad.return
       (Some \<lparr>svo_Ports = [\<lparr>sp_TargetPort = 8080, sp_NodePort = 30001\<rparr>], svo_rest = JNull\<rparr>, None),
     svc_Create = \<lambda>_ _ _. State_Monad.return (None, None)\<rparr>"

lemma GetSvcNodePort_ignores_target_witness:
  "run_state (GetSvcNodePortByTargetPort ((fresh_helper kubernetes_zero)
      \<lparr>kh_SvcClient := Some demo_svc_client\<rparr>) ''s'' 443) () = (Return (30001, None), ())"
proof -
  let ?h = "(fresh_helper kubernetes_zero)\<lparr>kh_SvcClient := Some demo_svc_client\<rparr>"
  have "run_state (GetSvcNodePortByTargetPort ?h ''s'' 8080) () = (Return (30001, None), ())"
    by (simp add: GetSvcNodePortByTargetPort_def GetSvc_def retry_read.simps fresh_helper_def
        demo_svc_client_def kubernetes_zero_def)
  from GetSvcNodePort_ignores_target [OF this] show ?thesis by blast
qed

section \<open>Role bindings\<close>

text \<open>What the operation means: delete each binding in its own namespace, up to the first error.\<close>

definition bound_to :: "string \<Rightarrow> string \<Rightarrow> RoleBinding \<Rightarrow> bool" where
  "bound_to username namespace rb \<longleftrightarrow>
     (\<exists>s \<in> set (rbo_Subjects rb). IsBoundServiceAccount s username namespace)"

fun delete_each :: "'w Clientset \<Rightarrow> RoleBinding list \<Rightarrow> ('w, go_error option) state" where
  "delete_each cs [] = State_Monad.return None"
| "delete_each cs (rb # rbs) = do {
     err \<leftarrow> rb_Delete (cs_RoleBindings cs (rbo_Namespace rb)) (ctx_seconds 5) (rbo_Name rb) JNull;
     on_err err (delete_each cs rbs) Some
   }"

lemma run_delete_binding_in:
  "kh_clientset h = Some cs \<Longrightarrow> run_state (delete_binding_in ctx namespace name) (h, w) =
     (case run_state (rb_Delete (cs_RoleBindings cs namespace) ctx name JNull) w of
        (err, w1) \<Rightarrow> (Return err, (h\<lparr>kh_RoleBindingClient := Some (cs_RoleBindings cs namespace)\<rparr>, w1)))"
  by (simp add: delete_binding_in_def SetRoleBindingClient_def from_clientset_def split: prod.splits)

lemma delete_if_bound_eq:
  "delete_if_bound ctx u n rb subs =
     (if \<exists>s \<in> set subs. IsBoundServiceAccount s u n
      then delete_binding_in ctx (rbo_Namespace rb) (rbo_Name rb) else State_Monad.return (Return None))"
  by (induction subs) auto

lemma delete_bound_loop_eq:
  assumes "kh_clientset h = Some cs"
  shows "\<exists>h'. kh_clientset h' = Some cs \<and> run_state (delete_bound_loop (ctx_seconds 5) u n rbs) (h, w)
    = (case run_state (delete_each cs (filter (bound_to u n) rbs)) w of (err, w') \<Rightarrow> (Return err, (h', w')))"
  using assms
proof (induction rbs arbitrary: h w)
  case Nil
  then show ?case by auto
next
  case (Cons rb rbs)
  show ?case
  proof (cases "bound_to u n rb")
    case False
    with Cons show ?thesis by (simp add: bound_to_def delete_if_bound_eq)
  next
    case True
    obtain err w1 where d: "run_state (rb_Delete (cs_RoleBindings cs (rbo_Namespace rb)) (ctx_seconds 5)
        (rbo_Name rb) JNull) w = (err, w1)" by (metis prod.exhaust)
    let ?h1 = "h\<lparr>kh_RoleBindingClient := Some (cs_RoleBindings cs (rbo_Namespace rb))\<rparr>"
    have "kh_clientset ?h1 = Some cs" using Cons.prems by simp
    from Cons.IH [OF this, of w1] show ?thesis
      using True d run_delete_binding_in [OF Cons.prems] Cons.prems
      by (cases err) (auto simp: bound_to_def delete_if_bound_eq)
  qed
qed

text \<open>
  C8. \<open>DeleteRoleBindingsIfTheServiceAccountIsIncluded\<close> deletes, in the order of the listing, each
  binding once that has the service account among its subjects, in the binding's own namespace,
  and no other; it stops at the first deletion that fails and returns its error.
\<close>

theorem DeleteRoleBindingsIf_deletes_bound:
  assumes "kh_clientset h = Some cs" and "kh_RoleBindingClient h = Some c"
    and "run_state (rb_List c (ctx_seconds 5) JNull) w = ((Some items, None), w1)"
    and "run_state (delete_each cs (filter (bound_to username namespace) items)) w1 = (err, w2)"
  shows "\<exists>h'. run_state (DeleteRoleBindingsIfTheServiceAccountIsIncluded username namespace) (h, w)
    = (Return err, (h', w2))"
  using delete_bound_loop_eq [OF assms(1), of username namespace items w1] assms(2-4)
  by (auto simp: DeleteRoleBindingsIfTheServiceAccountIsIncluded_def on_world_def)

definition demo_rb_client :: "string \<Rightarrow> RoleBinding list RoleBindingClient" where
  "demo_rb_client ns = \<lparr>rb_List = \<lambda>_ _. State (\<lambda>w. ((Some w, None), w)),
     rb_Create = \<lambda>_ rb _. State (\<lambda>w. ((Some rb, None), w @ [rb])),
     rb_Delete = \<lambda>_ name _. State (\<lambda>w. (None,
       filter (\<lambda>rb. \<not> (rbo_Namespace rb = ns \<and> rbo_Name rb = name)) w)),
     rb_Apply = \<lambda>_ _ _. State_Monad.return (None, None)\<rparr>"

definition demo_binding :: "string \<Rightarrow> string \<Rightarrow> RoleBinding" where
  "demo_binding name user = \<lparr>rbo_Name = name, rbo_Namespace = ''ns1'', rbo_RoleRef = JNull,
     rbo_Subjects = [\<lparr>sub_Kind = ''User'', sub_Name = user, sub_Namespace = ''ns''\<rparr>,
       \<lparr>sub_Kind = ''ServiceAccount'', sub_Name = user, sub_Namespace = ''ns''\<rparr>]\<rparr>"

lemma DeleteRoleBindingsIf_deletes_bound_witness:
  "\<forall>cs :: RoleBinding list Clientset. \<exists>h'.
     run_state (DeleteRoleBindingsIfTheServiceAccountIsIncluded ''bob'' ''ns'')
       ((fresh_helper kubernetes_zero)\<lparr>kh_clientset := Some (cs\<lparr>cs_RoleBindings := demo_rb_client\<rparr>),
          kh_RoleBindingClient := Some (demo_rb_client [])\<rparr>,
        [demo_binding ''a'' ''bob'', demo_binding ''b'' ''eve''])
     = (Return None, (h', [demo_binding ''b'' ''eve'']))"
proof
  fix cs :: "RoleBinding list Clientset"
  let ?w = "[demo_binding ''a'' ''bob'', demo_binding ''b'' ''eve'']"
  have l: "run_state (rb_List (demo_rb_client []) (ctx_seconds 5) JNull) ?w = ((Some ?w, None), ?w)"
    by (simp add: demo_rb_client_def)
  have d: "run_state (delete_each (cs\<lparr>cs_RoleBindings := demo_rb_client\<rparr>)
      (filter (bound_to ''bob'' ''ns'') ?w)) ?w = (None, [demo_binding ''b'' ''eve''])"
    by (simp add: bound_to_def demo_binding_def IsBoundServiceAccount_def demo_rb_client_def)
  show "\<exists>h'. run_state (DeleteRoleBindingsIfTheServiceAccountIsIncluded ''bob'' ''ns'')
       ((fresh_helper kubernetes_zero)\<lparr>kh_clientset := Some (cs\<lparr>cs_RoleBindings := demo_rb_client\<rparr>),
          kh_RoleBindingClient := Some (demo_rb_client [])\<rparr>, ?w)
     = (Return None, (h', [demo_binding ''b'' ''eve'']))"
    by (rule DeleteRoleBindingsIf_deletes_bound [OF _ _ l d]) simp_all
qed

section \<open>The default storage class\<close>

definition annotate :: "string \<Rightarrow> string \<Rightarrow> StorageClass \<Rightarrow> StorageClass" where
  "annotate name v sc = (if sco_Name sc = name
     then sc\<lparr>sco_Annotations := (sco_Annotations sc)(default_annotation \<mapsto> v)\<rparr> else sc)"

text \<open>
  The API server as the package relies on it: a listing shows the classes, and a merge patch made
  by \<open>genPatchToToggleDefaultStorageClass\<close> writes the annotation of the named class; any request
  may fail and change nothing.
\<close>

definition storage_server ::
  "'w StorageClassClient \<Rightarrow> ('w \<Rightarrow> StorageClass list) \<Rightarrow> bool" where
  "storage_server c classes \<longleftrightarrow>
     (\<forall>w. \<exists>r err w'. run_state (scl_List c ctx_10s JNull) w = ((r, err), w') \<and> classes w' = classes w
        \<and> (err = None \<longrightarrow> r = Some (classes w)))
   \<and> (\<forall>w name v. v \<in> {''true'', ''false''} \<longrightarrow> (\<exists>r err w'.
        run_state (scl_Patch c ctx_10s name StrategicMergePatchType
          (fst (genPatchToToggleDefaultStorageClass v)) JNull) w = ((r, err), w')
        \<and> classes w' = (if err = None then map (annotate name v) (classes w) else classes w)))"

lemma getDefault_filter:
  "getDefaultStorageClasses scs =
     filter (\<lambda>sc. case sco_Annotations sc default_annotation of None \<Rightarrow> False | Some v \<Rightarrow> v \<noteq> []) scs"
  by (induction scs) (auto split: option.splits)

lemma annotate_name [simp]: "sco_Name (annotate name v sc) = sco_Name sc"
  by (simp add: annotate_def)

lemma annotate_default:
  "sco_Annotations (annotate name v sc) default_annotation =
     (if sco_Name sc = name then Some v else sco_Annotations sc default_annotation)"
  by (simp add: annotate_def)

lemma patch_all_classes:
  assumes srv: "storage_server c classes" and "kh_StorageClassClient h = Some c"
    and "all_ok (Return None) (patch_storage_class h (fst (genPatchToToggleDefaultStorageClass ''false''))) scs w = Some w'"
  shows "classes w' = map (\<lambda>sc. fold (\<lambda>x. annotate (sco_Name x) ''false'') scs sc) (classes w)"
  using assms(3)
proof (induction scs arbitrary: w)
  case Nil
  then show ?case by simp
next
  case (Cons x scs)
  from srv obtain r err v where p: "run_state (scl_Patch c ctx_10s (sco_Name x) StrategicMergePatchType
        (fst (genPatchToToggleDefaultStorageClass ''false'')) JNull) w = ((r, err), v)"
    "classes v = (if err = None then map (annotate (sco_Name x) ''false'') (classes w) else classes w)"
    unfolding storage_server_def by blast
  with Cons assms(2) have "err = None"
    by (cases err) (auto simp: patch_storage_class_def)
  with p Cons assms(2) show ?case by (simp add: patch_storage_class_def comp_def)
qed

lemma fold_annotate:
  "sco_Name (fold (\<lambda>x. annotate (sco_Name x) v) scs sc) = sco_Name sc
   \<and> sco_Annotations (fold (\<lambda>x. annotate (sco_Name x) v) scs sc) default_annotation =
     (if sco_Name sc \<in> sco_Name ` set scs then Some v else sco_Annotations sc default_annotation)"
  by (induction scs arbitrary: sc) (auto simp: annotate_default)

text \<open>
  C4. After \<open>DisableCurrentDefaultStorageClasses\<close> and \<open>SetDefaultStorageClass\<close> have both succeeded,
  the named class is the only default one, whatever was default before, and no class was added or
  lost.
\<close>

theorem default_storage_class_unique:
  assumes "storage_server c classes" and "kh_StorageClassClient h = Some c"
    and "run_state (DisableCurrentDefaultStorageClasses h) w = (Return None, w1)"
    and "run_state (SetDefaultStorageClass h name) w1 = (Return None, w2)"
  shows "map sco_Name (classes w2) = map sco_Name (classes w)
    \<and> (\<forall>sc \<in> set (classes w2). sco_Annotations sc default_annotation = Some ''true'' \<longleftrightarrow> sco_Name sc = name)"
proof -
  from assms(1) obtain r err v where l: "run_state (scl_List c ctx_10s JNull) w = ((r, err), v)"
    "classes v = classes w" "err = None \<longrightarrow> r = Some (classes w)"
    unfolding storage_server_def by blast
  with assms(2,3) have "err = None"
    by (cases err) (auto simp: DisableCurrentDefaultStorageClasses_def ListStorageClasses_def)
  with l assms(2,3) have "run_state (PatchStorageClasses h (getDefaultStorageClasses (classes w))
      (fst (genPatchToToggleDefaultStorageClass ''false''))) v = (Return None, w1)"
    by (simp add: DisableCurrentDefaultStorageClasses_def ListStorageClasses_def
        genPatchToToggleDefaultStorageClass_def)
  then have "classes w1 = map (fold (\<lambda>x. annotate (sco_Name x) ''false'')
      (getDefaultStorageClasses (classes w))) (classes w)"
    using patch_all_classes [OF assms(1,2)] l(2) by (simp add: patch_classes.loop_ok_iff)
  moreover from assms(1) obtain r2 err2 v2 where
    "run_state (scl_Patch c ctx_10s name StrategicMergePatchType
        (fst (genPatchToToggleDefaultStorageClass ''true'')) JNull) w1 = ((r2, err2), v2)"
    "classes v2 = (if err2 = None then map (annotate name ''true'') (classes w1) else classes w1)"
    unfolding storage_server_def by blast
  then have "classes w2 = map (annotate name ''true'') (classes w1)" using assms(2,4)
    by (cases err2) (auto simp: SetDefaultStorageClass_def genPatchToToggleDefaultStorageClass_def)
  ultimately show ?thesis
    by (auto simp: fold_annotate annotate_default getDefault_filter split: option.splits)
qed

definition demo_sc_client :: "StorageClass list StorageClassClient" where
  "demo_sc_client = \<lparr>scl_List = \<lambda>_ _. State (\<lambda>w. ((Some w, None), w)),
     scl_Get = \<lambda>_ _ _. State_Monad.return (None, None),
     scl_Create = \<lambda>_ _ _. State_Monad.return (None, None),
     scl_Patch = \<lambda>_ name _ data _. State (\<lambda>w. ((None, None), map (annotate name
       (if data = fst (genPatchToToggleDefaultStorageClass ''true'') then ''true'' else ''false'')) w))\<rparr>"

lemma toggle_patches_differ:
  "fst (genPatchToToggleDefaultStorageClass ''false'') \<noteq> fst (genPatchToToggleDefaultStorageClass ''true'')"
proof
  let ?key = "json_string ''storageclass.kubernetes.io/is-default-class''"
  assume "fst (genPatchToToggleDefaultStorageClass ''false'') = fst (genPatchToToggleDefaultStorageClass ''true'')"
  then have "json_string ''false'' = json_string ''true''"
    by (simp add: genPatchToToggleDefaultStorageClass_def)
  then show False by (simp add: json_string_def json_char_def)
qed

lemma demo_storage_server: "storage_server demo_sc_client (\<lambda>w. w)"
  using toggle_patches_differ by (auto simp: storage_server_def demo_sc_client_def)

lemma default_storage_class_unique_witness:
  "\<exists>w1 w2. run_state (SetDefaultStorageClass ((fresh_helper kubernetes_zero)
       \<lparr>kh_StorageClassClient := Some demo_sc_client\<rparr>) ''fast'') w1 = (Return None, w2)
     \<and> map sco_Name w2 = [''slow'', ''fast'']
     \<and> (\<forall>sc \<in> set w2. sco_Annotations sc default_annotation = Some ''true'' \<longleftrightarrow> sco_Name sc = ''fast'')"
proof -
  let ?h = "(fresh_helper kubernetes_zero)\<lparr>kh_StorageClassClient := Some demo_sc_client\<rparr>"
  let ?w = "[\<lparr>sco_Name = ''slow'', sco_Annotations = [default_annotation \<mapsto> ''true'']\<rparr>,
    \<lparr>sco_Name = ''fast'', sco_Annotations = Map.empty\<rparr>]"
  let ?w1 = "map (annotate ''slow'' ''false'') ?w"
  have c: "kh_StorageClassClient ?h = Some demo_sc_client" by simp
  have "run_state (DisableCurrentDefaultStorageClasses ?h) ?w = (Return None, ?w1)"
    using toggle_patches_differ
    by (simp add: DisableCurrentDefaultStorageClasses_def ListStorageClasses_def demo_sc_client_def
        patch_storage_class_def genPatchToToggleDefaultStorageClass_def)
  moreover have "run_state (SetDefaultStorageClass ?h ''fast'') ?w1
      = (Return None, map (annotate ''fast'' ''true'') ?w1)"
    by (simp add: SetDefaultStorageClass_def demo_sc_client_def genPatchToToggleDefaultStorageClass_def)
  ultimately show ?thesis
    using default_storage_class_unique [OF demo_storage_server c, of ?w ?w1 "''fast''"
        "map (annotate ''fast'' ''true'') ?w1"]
    by (intro exI [of _ ?w1] exI [of _ "map (annotate ''fast'' ''true'') ?w1"]) simp
qed

section \<open>Authentication\<close>

lemma connect_clients_ok:
  "connect_clients sdk conf h = (None, h') \<Longrightarrow>
     NewClientset sdk conf = (kh_clientset h', None) \<and> NewDynamic sdk conf = (kh_dynamicClient h', None)
     \<and> NewApiExt sdk conf = (kh_apiExtensionClientset h', None)
     \<and> kh_discoveryMapper h' = Some (NewRESTMapper sdk (kh_clientset h'))
     \<and> kh_PodClient h' = kh_PodClient h \<and> kh_NodeClient h' = kh_NodeClient h
     \<and> kh_DeploymentClient h' = kh_DeploymentClient h \<and> kh_Options h' = kh_Options h"
  by (cases "NewClientset sdk conf"; cases "NewDynamic sdk conf"; cases "NewApiExt sdk conf")
    (auto simp: connect_clients_def Let_def split: if_splits)

lemma SetAuth_ok:
  assumes "run_state (SetAuth sdk h) w = ((None, h'), w')"
  obtains conf where
    "run_state (if au_Type (ko_Auth (kh_Options h)) = ''inCluster'' then InClusterConfig sdk
       else BuildConfigFromFlags sdk [] (au_FilePath (ko_Auth (kh_Options h)))) w = ((conf, None), w')"
    and "connect_clients sdk conf (set_rest_conf conf h) = (None, h')"
  using assms
  by (auto simp: SetAuth_def InClusterAuth_def OutOfClusterAuth_def Let_def
      split: prod.splits option.splits if_splits)

text \<open>
  C35. \<open>NewHelper\<close> accepts the two authentication types only and refuses any other without a call;
  a helper it returns was configured from the file or the cluster, has the clients of that
  configuration, and none of the typed clients, which have to be set before they are used.
\<close>

theorem kubernetes_NewHelper_connects:
  "(au_Type (ko_Auth (kubernetes_initOptions opts)) \<notin> {''inCluster'', ''outOfCluster''} \<longrightarrow>
      run_state (kubernetes_NewHelper sdk opts) w = ((None, Some (ErrText
        (''failed to set auth (unsupported auth type: ''
          @ au_Type (ko_Auth (kubernetes_initOptions opts)) @ '')''))), w))
   \<and> (\<forall>h w'. run_state (kubernetes_NewHelper sdk opts) w = ((Some h, None), w') \<longrightarrow>
      (\<exists>conf. au_RestConf (ko_Auth (kh_Options h)) = conf
        \<and> run_state (if au_Type (ko_Auth (kubernetes_initOptions opts)) = ''inCluster'' then InClusterConfig sdk
            else BuildConfigFromFlags sdk [] (au_FilePath (ko_Auth (kubernetes_initOptions opts)))) w
          = ((conf, None), w')
        \<and> NewClientset sdk conf = (kh_clientset h, None)
        \<and> NewDynamic sdk conf = (kh_dynamicClient h, None)
        \<and> NewApiExt sdk conf = (kh_apiExtensionClientset h, None)
        \<and> kh_discoveryMapper h = Some (NewRESTMapper sdk (kh_clientset h))
        \<and> kh_PodClient h = None \<and> kh_NodeClient h = None \<and> kh_DeploymentClient h = None))"
proof (intro conjI impI allI)
  assume "au_Type (ko_Auth (kubernetes_initOptions opts)) \<notin> {''inCluster'', ''outOfCluster''}"
  then show "run_state (kubernetes_NewHelper sdk opts) w = ((None, Some (ErrText
        (''failed to set auth (unsupported auth type: ''
          @ au_Type (ko_Auth (kubernetes_initOptions opts)) @ '')''))), w)"
    by (simp add: kubernetes_NewHelper_def SetAuth_def InClusterAuth_def OutOfClusterAuth_def fresh_helper_def)
next
  fix h w'
  assume "run_state (kubernetes_NewHelper sdk opts) w = ((Some h, None), w')"
  then have "run_state (SetAuth sdk (fresh_helper (kubernetes_initOptions opts))) w = ((None, h), w')"
    by (auto simp: kubernetes_NewHelper_def split: prod.splits option.splits)
  then show "\<exists>conf. au_RestConf (ko_Auth (kh_Options h)) = conf
        \<and> run_state (if au_Type (ko_Auth (kubernetes_initOptions opts)) = ''inCluster'' then InClusterConfig sdk
            else BuildConfigFromFlags sdk [] (au_FilePath (ko_Auth (kubernetes_initOptions opts)))) w
          = ((conf, None), w')
        \<and> NewClientset sdk conf = (kh_clientset h, None)
        \<and> NewDynamic sdk conf = (kh_dynamicClient h, None)
        \<and> NewApiExt sdk conf = (kh_apiExtensionClientset h, None)
        \<and> kh_discoveryMapper h = Some (NewRESTMapper sdk (kh_clientset h))
        \<and> kh_PodClient h = None \<and> kh_NodeClient h = None \<and> kh_DeploymentClient h = None"
    by (rule SetAuth_ok) (drule connect_clients_ok, auto simp: set_rest_conf_def fresh_helper_def split: if_splits)
qed

lemma kubernetes_NewHelper_connects_witness:
  "\<forall>sdk :: unit KubeSdk. run_state (kubernetes_NewHelper sdk [kubernetes_AuthType ''token'']) () =
     ((None, Some (ErrText ''failed to set auth (unsupported auth type: token)'')), ())"
proof
  fix sdk :: "unit KubeSdk"
  show "run_state (kubernetes_NewHelper sdk [kubernetes_AuthType ''token'']) () =
     ((None, Some (ErrText ''failed to set auth (unsupported auth type: token)'')), ())"
    using kubernetes_NewHelper_connects [of "[kubernetes_AuthType ''token'']" sdk "()"]
    by (simp add: kubernetes_initOptions_def kubernetes_AuthType_def kubernetes_zero_def)
qed

section \<open>Dynamic resources\<close>

lemma Inl_Cons_split: "Inl e # items = map Inr docs @ y # ys \<longleftrightarrow> docs = [] \<and> y = Inl e \<and> ys = items"
  by (cases docs) auto

lemma ex_list: "(\<exists>xs. P xs) \<longleftrightarrow> P [] \<or> (\<exists>y ys. P (y # ys))"
  by (metis list.exhaust)

lemma apply_documents_outcome:
  fixes h :: "'w KubeHelper"
  assumes "step = (\<lambda>fs. apply_document api h \<lparr>Object = Some fs\<rparr>)"
  shows "run_state (ApplyDynamicResource api h items) w = (r, w') \<longleftrightarrow>
     (r = Return None \<and> (\<exists>docs. items = map Inr docs \<and> all_ok (Return None) step docs w = Some w'))
   \<or> (\<exists>docs fs rest v. items = map Inr docs @ Inr fs # rest \<and> all_ok (Return None) step docs w = Some v
        \<and> run_state (step fs) v = (r, w') \<and> r \<noteq> Return None)
   \<or> (\<exists>docs e rest. items = map Inr docs @ Inl e # rest \<and> all_ok (Return None) step docs w = Some w'
        \<and> r = Panic (PanicValue e))"
  (is "?run items w \<longleftrightarrow> ?applied items w \<or> ?refused items w \<or> ?garbled items w")
proof (induction items arbitrary: w)
  case Nil
  show ?case by auto
next
  case (Cons item items)
  show ?case
  proof (cases item)
    case (Inl e)
    have "\<not> ?applied (item # items) w" and "\<not> ?refused (item # items) w"
      by (auto simp: Inl Inl_Cons_split Cons_eq_map_conv)
    moreover have "?garbled (item # items) w \<longleftrightarrow> r = Panic (PanicValue e) \<and> w' = w"
      by (auto simp: Inl Inl_Cons_split)
    ultimately show ?thesis by (auto simp: Inl)
  next
    case (Inr fs)
    obtain r1 v where step: "run_state (step fs) w = (r1, v)" by (metis prod.exhaust)
    then have run: "?run (item # items) w \<longleftrightarrow> (if r1 = Return None then ?run items v else r = r1 \<and> w' = v)"
      by (auto simp: Inr assms proceed_on_err)
    have "?applied (item # items) w \<longleftrightarrow> r1 = Return None \<and> ?applied items v"
      by (auto simp: Inr step Cons_eq_map_conv split: if_splits)
    moreover have "?refused (item # items) w \<longleftrightarrow>
        (if r1 = Return None then ?refused items v else r = r1 \<and> w' = v)"
      by (subst ex_list, cases "r1 = Return None") (simp_all add: Inr step, blast+)
    moreover have "?garbled (item # items) w \<longleftrightarrow> r1 = Return None \<and> ?garbled items v"
      by (subst ex_list, cases "r1 = Return None") (simp_all add: Inr step)
    ultimately show ?thesis using run Cons.IH [of v] by simp
  qed
qed

text \<open>
  C30. What \<open>ApplyDynamicResource\<close> does with a stream of documents, for every way it can end. It answers
  success exactly when every document decodes and is applied. It ends with the error, or the panic, of a
  document exactly when that is the first one not applied: everything before it was applied in order,
  and nothing after it is read. It panics at a document that does not decode once everything before
  it was applied.
\<close>

theorem ApplyDynamicResource_outcome:
  "run_state (ApplyDynamicResource api h items) w = (r, w') \<longleftrightarrow>
     (r = Return None \<and> (\<exists>docs. items = map Inr docs
        \<and> all_ok (Return None) (\<lambda>fs. apply_document api h \<lparr>Object = Some fs\<rparr>) docs w = Some w'))
   \<or> (\<exists>docs fs rest v. items = map Inr docs @ Inr fs # rest
        \<and> all_ok (Return None) (\<lambda>fs. apply_document api h \<lparr>Object = Some fs\<rparr>) docs w = Some v
        \<and> run_state (apply_document api h \<lparr>Object = Some fs\<rparr>) v = (r, w') \<and> r \<noteq> Return None)
   \<or> (\<exists>docs e rest. items = map Inr docs @ Inl e # rest
        \<and> all_ok (Return None) (\<lambda>fs. apply_document api h \<lparr>Object = Some fs\<rparr>) docs w = Some w'
        \<and> r = Panic (PanicValue e))"
  by (rule apply_documents_outcome) (rule refl)

text \<open>A cluster that keeps the names of what was applied and refuses one of them.\<close>

definition demo_api :: ObjectApi where
  "demo_api = \<lparr>GroupKind_of = \<lambda>_. ''ConfigMap'', Version_of = \<lambda>_. ''v1'', GetNamespace_of = \<lambda>_. [],
     GetName_of = \<lambda>obj. (case Object obj of Some [(_, JStr name)] \<Rightarrow> name | _ \<Rightarrow> [])\<rparr>"

definition demo_cluster :: "string list KubeHelper" where
  "demo_cluster = (fresh_helper kubernetes_zero)
     \<lparr>kh_discoveryMapper := Some \<lparr>rm_RESTMapping = \<lambda>_ _. State_Monad.return (Some JNull, None)\<rparr>,
      kh_dynamicClient := Some \<lparr>dyn_Apply = \<lambda>_ namespace _ name obj _. State (\<lambda>names.
        if name = ''b'' then ((None, Some (ErrText ''denied'')), names)
        else ((Some obj, None), names @ [namespace @ ''/'' @ name]))\<rparr>\<rparr>"

lemma ApplyDynamicResource_outcome_witness:
  "run_state (ApplyDynamicResource demo_api demo_cluster
      [Inr [(''name'', JStr ''a'')], Inr [(''name'', JStr ''b'')], Inr [(''name'', JStr ''c'')]]) []
    = (Return (Some (ErrText ''failed to apply dynamic resource(denied)'')), [''kube-system/a''])"
proof -
  note defs = apply_document_def demo_api_def demo_cluster_def Let_def
  have a: "run_state (apply_document demo_api demo_cluster \<lparr>Object = Some [(''name'', JStr ''a'')]\<rparr>) []
      = (Return None, [''kube-system/a''])" by (simp add: defs)
  have b: "run_state (apply_document demo_api demo_cluster \<lparr>Object = Some [(''name'', JStr ''b'')]\<rparr>) [''kube-system/a'']
      = (Return (Some (ErrText ''failed to apply dynamic resource(denied)'')), [''kube-system/a''])"
    by (simp add: defs)
  have "\<exists>docs fs rest v. [Inr [(''name'', JStr ''a'')], Inr [(''name'', JStr ''b'')], Inr [(''name'', JStr ''c'')]]
        = map Inr docs @ Inr fs # rest
      \<and> all_ok (Return None) (\<lambda>fs. apply_document demo_api demo_cluster \<lparr>Object = Some fs\<rparr>) docs [] = Some v
      \<and> run_state (apply_document demo_api demo_cluster \<lparr>Object = Some fs\<rparr>) v =
          (Return (Some (ErrText ''failed to apply dynamic resource(denied)'')), [''kube-system/a''])
      \<and> Return (Some (ErrText ''failed to apply dynamic resource(denied)'')) \<noteq> Return None"
    by (intro exI [of _ "[[(''name'', JStr ''a'')]]"] exI [of _ "[(''name'', JStr ''b'')]"]
        exI [of _ "[Inr [(''name'', JStr ''c'')]]"] exI [of _ "[''kube-system/a'']"]) (simp add: a b)
  then show ?thesis by (intro ApplyDynamicResource_outcome [THEN iffD2] disjI1 disjI2)
qed

end
