(* ===== verification/OpenstackConf.thy ===== *)
theory OpenstackConf
  imports GoStrings
begin

text \<open>
  Packages openstack (v2) and openstack/v1: the options, where they come from (the environment, an
  openrc file, the caller) and the authentication options made of them. The environment is a
  function (\<open>os.Getenv\<close> gives the empty string for an unset variable), the file system a function
  from paths to an error or the text of the file. Log lines are not modelled.
\<close>

type_synonym getenv = "string \<Rightarrow> string"

type_synonym file_system = "string \<Rightarrow> go_error + string"

section \<open>Options of v2\<close>

record os_Domain =
  dom_ID :: string
  dom_Name :: string

record os_Tenant =
  ten_ID :: string
  ten_Name :: string
  ten_Domain :: os_Domain

record os_Project =
  prj_ID :: string
  prj_Name :: string
  prj_Domain :: os_Domain

record os_User =
  usr_ID :: string
  usr_Name :: string
  usr_Domain :: os_Domain

record os_Auth =
  auth_Source :: string
  auth_Type :: string
  auth_Url :: string
  auth_Username :: string
  auth_Password :: string
  auth_Token :: string
  auth_Project :: os_Project
  auth_EnableAutoRenew :: bool
  auth_File :: string

text \<open>Of \<open>gophercloud.AuthScope\<close> the packages only set \<open>System\<close>.\<close>

record AuthScope =
  scope_System :: bool
  scope_rest :: json

record os_options =
  os_ConfFile :: string
  os_IdentityEndpoint :: string
  os_Auth :: os_Auth
  os_Domain :: os_Domain
  os_Tenant :: os_Tenant
  os_Project :: os_Project
  os_User :: os_User
  os_Password :: string
  os_Passcode :: string
  os_IdentityAPIVersion :: string
  os_ImageAPIVersion :: string
  os_Scope :: "AuthScope option"

definition no_domain :: os_Domain where
  "no_domain = \<lparr>dom_ID = [], dom_Name = []\<rparr>"

definition no_project :: os_Project where
  "no_project = \<lparr>prj_ID = [], prj_Name = [], prj_Domain = no_domain\<rparr>"

definition openstack_zero :: os_options where
  "openstack_zero = \<lparr>os_ConfFile = [], os_IdentityEndpoint = [],
     os_Auth = \<lparr>auth_Source = [], auth_Type = [], auth_Url = [], auth_Username = [], auth_Password = [],
       auth_Token = [], auth_Project = no_project, auth_EnableAutoRenew = False, auth_File = []\<rparr>,
     os_Domain = no_domain, os_Tenant = \<lparr>ten_ID = [], ten_Name = [], ten_Domain = no_domain\<rparr>,
     os_Project = no_project, os_User = \<lparr>usr_ID = [], usr_Name = [], usr_Domain = no_domain\<rparr>,
     os_Password = [], os_Passcode = [], os_IdentityAPIVersion = [], os_ImageAPIVersion = [],
     os_Scope = None\<rparr>"

type_synonym os_option = "os_options \<Rightarrow> os_options"

definition openstack_ConfFile :: "string \<Rightarrow> os_option" where
  "openstack_ConfFile v = (\<lambda>o1. o1\<lparr>os_ConfFile := v\<rparr>)"

definition openstack_AuthType :: "string \<Rightarrow> os_option" where
  "openstack_AuthType v = (\<lambda>o1. o1\<lparr>os_Auth := (os_Auth o1)\<lparr>auth_Type := v\<rparr>\<rparr>)"

definition openstack_AuthUrl :: "string \<Rightarrow> os_option" where
  "openstack_AuthUrl v = (\<lambda>o1. o1\<lparr>os_Auth := (os_Auth o1)\<lparr>auth_Url := v\<rparr>\<rparr>)"

definition openstack_AuthSource :: "string \<Rightarrow> os_option" where
  "openstack_AuthSource v = (\<lambda>o1. o1\<lparr>os_Auth := (os_Auth o1)\<lparr>auth_Source := v\<rparr>\<rparr>)"

definition openstack_AuthFile :: "string \<Rightarrow> os_option" where
  "openstack_AuthFile v = (\<lambda>o1. o1\<lparr>os_Auth := (os_Auth o1)\<lparr>auth_File := v\<rparr>\<rparr>)"

definition openstack_UserID :: "string \<Rightarrow> os_option" where
  "openstack_UserID v = (\<lambda>o1. o1\<lparr>os_User := (os_User o1)\<lparr>usr_ID := v\<rparr>\<rparr>)"

definition openstack_Username :: "string \<Rightarrow> os_option" where
  "openstack_Username v = (\<lambda>o1. o1\<lparr>os_User := (os_User o1)\<lparr>usr_Name := v\<rparr>\<rparr>)"

definition openstack_Password :: "string \<Rightarrow> os_option" where
  "openstack_Password v = (\<lambda>o1. o1\<lparr>os_Password := v\<rparr>)"

definition openstack_Passcode :: "string \<Rightarrow> os_option" where
  "openstack_Passcode v = (\<lambda>o1. o1\<lparr>os_Passcode := v\<rparr>)"

definition openstack_EnableAutoRenew :: "bool \<Rightarrow> os_option" where
  "openstack_EnableAutoRenew v = (\<lambda>o1. o1\<lparr>os_Auth := (os_Auth o1)\<lparr>auth_EnableAutoRenew := v\<rparr>\<rparr>)"

definition openstack_TenantID :: "string \<Rightarrow> os_option" where
  "openstack_TenantID v = (\<lambda>o1. o1\<lparr>os_Tenant := (os_Tenant o1)\<lparr>ten_ID := v\<rparr>\<rparr>)"

definition openstack_TenantName :: "string \<Rightarrow> os_option" where
  "openstack_TenantName v = (\<lambda>o1. o1\<lparr>os_Tenant := (os_Tenant o1)\<lparr>ten_Name := v\<rparr>\<rparr>)"

definition openstack_ProjectName :: "string \<Rightarrow> os_option" where
  "openstack_ProjectName v = (\<lambda>o1. o1\<lparr>os_Project := (os_Project o1)\<lparr>prj_Name := v\<rparr>\<rparr>)"

definition openstack_DomainID :: "string \<Rightarrow> os_option" where
  "openstack_DomainID v = (\<lambda>o1. o1\<lparr>os_Domain := (os_Domain o1)\<lparr>dom_ID := v\<rparr>\<rparr>)"

definition openstack_DomainName :: "string \<Rightarrow> os_option" where
  "openstack_DomainName v = (\<lambda>o1. o1\<lparr>os_Domain := (os_Domain o1)\<lparr>dom_Name := v\<rparr>\<rparr>)"

definition openstack_ProjectDomainName :: "string \<Rightarrow> os_option" where
  "openstack_ProjectDomainName v = (\<lambda>o1. o1\<lparr>os_Project := (os_Project o1)\<lparr>prj_Domain := (prj_Domain (os_Project o1))\<lparr>dom_Name := v\<rparr>\<rparr>\<rparr>)"

definition openstack_UserDomainName :: "string \<Rightarrow> os_option" where
  "openstack_UserDomainName v = (\<lambda>o1. o1\<lparr>os_User := (os_User o1)\<lparr>usr_Domain := (usr_Domain (os_User o1))\<lparr>dom_Name := v\<rparr>\<rparr>\<rparr>)"

definition openstack_IdentityAPIVersion :: "string \<Rightarrow> os_option" where
  "openstack_IdentityAPIVersion v = (\<lambda>o1. o1\<lparr>os_IdentityAPIVersion := v\<rparr>)"

definition openstack_ImageAPIVersion :: "string \<Rightarrow> os_option" where
  "openstack_ImageAPIVersion v = (\<lambda>o1. o1\<lparr>os_ImageAPIVersion := v\<rparr>)"

definition openstack_Scope :: "AuthScope option \<Rightarrow> os_option" where
  "openstack_Scope v = (\<lambda>o1. o1\<lparr>os_Scope := v\<rparr>)"

section \<open>The environment\<close>

definition NewConf :: "getenv \<Rightarrow> os_options res" where
  "NewConf env =
     (let opts = openstack_zero\<lparr>
            os_Domain := no_domain\<lparr>dom_Name := ''default''\<rparr>,
            os_Auth := (os_Auth openstack_zero)\<lparr>auth_Type := env ''OS_AUTH_TYPE'', auth_Url := env ''OS_AUTH_URL''\<rparr>,
            os_User := \<lparr>usr_ID = [], usr_Name = env ''OS_USERNAME'',
              usr_Domain = no_domain\<lparr>dom_Name := env ''OS_USER_DOMAIN_NAME''\<rparr>\<rparr>,
            os_Password := env ''OS_PASSWORD'',
            os_Tenant := \<lparr>ten_ID = [], ten_Name = env ''OS_PROJECT_NAME'',
              ten_Domain = no_domain\<lparr>dom_Name := env ''OS_PROJECT_DOMAIN_NAME''\<rparr>\<rparr>\<rparr>;
          systemScope = env ''OS_SYSTEM_SCOPE'';
          opts = (if systemScope = ''all''
            then opts\<lparr>os_Scope := Some \<lparr>scope_System = True, scope_rest = JNull\<rparr>\<rparr> else opts)
      in (opts, None))"

fun sync_loop :: "os_options \<Rightarrow> os_option list \<Rightarrow> os_options" where
  "sync_loop options [] = options"
| "sync_loop options (o1 # opts) = sync_loop (o1 options) opts"

definition syncOptions :: "getenv \<Rightarrow> os_option list \<Rightarrow> os_options option res" where
  "syncOptions env opts =
     (let (options, err) = NewConf env
      in case err of Some e \<Rightarrow> (None, Some e) | None \<Rightarrow> (Some (sync_loop options opts), None))"

lemma sync_loop_eq: "sync_loop o0 opts = apply_options opts o0"
  by (induction opts arbitrary: o0) simp_all

interpretation os_opts: func_options "\<lambda>opts. the (fst (syncOptions env opts))" "fst (NewConf env)" for env
  by unfold_locales (simp_all add: syncOptions_def NewConf_def sync_loop_eq Let_def)

section \<open>The openrc file\<close>

text \<open>\<open>words := strings.Split(line, "="); words[1]\<close>, which panics on a line with no \<open>=\<close>.\<close>

definition word1 :: "string \<Rightarrow> string outcome" where
  "word1 line = (let words = Split line (CHR ''='') in
     if 1 < length words then Return (words ! 1) else Panic IndexOutOfRange)"

definition with_word1 :: "string \<Rightarrow> (string \<Rightarrow> 'o) \<Rightarrow> 'o outcome" where
  "with_word1 line f = (case word1 line of Panic p \<Rightarrow> Panic p | Return v \<Rightarrow> Return (f v))"

definition auth_file_line :: "os_options \<Rightarrow> string \<Rightarrow> os_options outcome" where
  "auth_file_line opts line =
     (if Contains line ''OS_AUTH_URL'' then with_word1 line (\<lambda>v. openstack_AuthUrl v opts)
      else if Contains line ''OS_AUTH_TYPE'' then with_word1 line (\<lambda>v. openstack_AuthType v opts)
      else if Contains line ''OS_USERNAME'' then with_word1 line (\<lambda>v. openstack_Username v opts)
      else if Contains line ''OS_USER_DOMAIN_NAME'' then with_word1 line (\<lambda>v. openstack_UserDomainName v opts)
      else if Contains line ''OS_PASSWORD'' then with_word1 line (\<lambda>v. openstack_Password v opts)
      else if Contains line ''OS_PROJECT_NAME'' then with_word1 line (\<lambda>v. openstack_ProjectName v opts)
      else if Contains line ''OS_PROJECT_DOMAIN_NAME''
      then with_word1 line (\<lambda>v. openstack_ProjectDomainName v opts)
      else Return opts)"

fun auth_file_lines :: "os_options \<Rightarrow> string list \<Rightarrow> os_options outcome" where
  "auth_file_lines opts [] = Return opts"
| "auth_file_lines opts (line # ls) =
     (case auth_file_line opts line of Panic p \<Rightarrow> Panic p | Return opts1 \<Rightarrow> auth_file_lines opts1 ls)"

definition ParseAuthFile :: "file_system \<Rightarrow> os_options \<Rightarrow> os_options outcome" where
  "ParseAuthFile files opts =
     (case files (auth_File (os_Auth opts)) of
        Inl err \<Rightarrow> Return opts
      | Inr text \<Rightarrow> auth_file_lines opts (ScanLines text))"

section \<open>Authentication options\<close>

record AuthOptions =
  ao_IdentityEndpoint :: string
  ao_Username :: string
  ao_UserID :: string
  ao_Password :: string
  ao_Passcode :: string
  ao_DomainID :: string
  ao_DomainName :: string
  ao_TenantID :: string
  ao_TenantName :: string
  ao_AllowReauth :: bool
  ao_Scope :: "AuthScope option"

definition no_auth :: AuthOptions where
  "no_auth = \<lparr>ao_IdentityEndpoint = [], ao_Username = [], ao_UserID = [], ao_Password = [],
     ao_Passcode = [], ao_DomainID = [], ao_DomainName = [], ao_TenantID = [], ao_TenantName = [],
     ao_AllowReauth = False, ao_Scope = None\<rparr>"

text \<open>\<open>openstack.AuthOptionsFromEnv\<close> of gophercloud is the parameter \<open>from_env\<close>.\<close>

definition ParseAuthEnv :: "AuthOptions res \<Rightarrow> os_options \<Rightarrow> AuthOptions res" where
  "ParseAuthEnv from_env opts =
     (case from_env of
        (env, Some err) \<Rightarrow> (no_auth, Some err)
      | (env, None) \<Rightarrow> (env\<lparr>ao_AllowReauth := auth_EnableAutoRenew (os_Auth opts)\<rparr>, None))"

text \<open>\<open>GenAuthOpts\<close> writes what it parsed into the options it was given, so it returns them too.\<close>

definition GenAuthOpts ::
  "file_system \<Rightarrow> AuthOptions res \<Rightarrow> os_options \<Rightarrow> (AuthOptions res \<times> os_options) outcome" where
  "GenAuthOpts files from_env opts =
     (if auth_Type (os_Auth opts) = ''env'' then Return (ParseAuthEnv from_env opts, opts)
      else
        let build = (\<lambda>o1. ((no_auth\<lparr>ao_IdentityEndpoint := auth_Url (os_Auth o1),
               ao_Username := usr_Name (os_User o1), ao_Password := os_Password o1,
               ao_TenantName := prj_Name (os_Project o1), ao_DomainName := dom_Name (os_Domain o1),
               ao_AllowReauth := auth_EnableAutoRenew (os_Auth o1)\<rparr>, None), o1))
        in if auth_Source (os_Auth opts) = ''file''
           then (case ParseAuthFile files opts of Panic p \<Rightarrow> Panic p | Return o1 \<Rightarrow> Return (build o1))
           else Return (build opts))"

section \<open>Options and configuration of v1\<close>

record osv1_options =
  v1_ConfFile :: string
  v1_IdentityEndpoint :: string
  v1_AuthType :: string
  v1_UserID :: string
  v1_Username :: string
  v1_Password :: string
  v1_Passcode :: string
  v1_TenantID :: string
  v1_TenantName :: string
  v1_ProjectName :: string
  v1_DomainID :: string
  v1_DomainName :: string
  v1_ProjectDomainName :: string
  v1_UserDomainName :: string
  v1_IdentityAPIVersion :: string
  v1_ImageAPIVersion :: string
  v1_Scope :: "AuthScope option"

definition osv1_zero :: osv1_options where
  "osv1_zero = \<lparr>v1_ConfFile = [], v1_IdentityEndpoint = [], v1_AuthType = [], v1_UserID = [],
     v1_Username = [], v1_Password = [], v1_Passcode = [], v1_TenantID = [], v1_TenantName = [],
     v1_ProjectName = [], v1_DomainID = [], v1_DomainName = [], v1_ProjectDomainName = [],
     v1_UserDomainName = [], v1_IdentityAPIVersion = [], v1_ImageAPIVersion = [], v1_Scope = None\<rparr>"

type_synonym osv1_option = "osv1_options \<Rightarrow> osv1_options"

definition osv1_ConfFile :: "string \<Rightarrow> osv1_option" where
  "osv1_ConfFile v = (\<lambda>o1. o1\<lparr>v1_ConfFile := v\<rparr>)"

definition osv1_IdentityEndpoint :: "string \<Rightarrow> osv1_option" where
  "osv1_IdentityEndpoint v = (\<lambda>o1. o1\<lparr>v1_IdentityEndpoint := v\<rparr>)"

definition osv1_AuthType :: "string \<Rightarrow> osv1_option" where
  "osv1_AuthType v = (\<lambda>o1. o1\<lparr>v1_AuthType := v\<rparr>)"

definition osv1_UserID :: "string \<Rightarrow> osv1_option" where
  "osv1_UserID v = (\<lambda>o1. o1\<lparr>v1_UserID := v\<rparr>)"

definition osv1_Username :: "string \<Rightarrow> osv1_option" where
  "osv1_Username v = (\<lambda>o1. o1\<lparr>v1_Username := v\<rparr>)"

definition osv1_Password :: "string \<Rightarrow> osv1_option" where
  "osv1_Password v = (\<lambda>o1. o1\<lparr>v1_Password := v\<rparr>)"

definition osv1_Passcode :: "string \<Rightarrow> osv1_option" where
  "osv1_Passcode v = (\<lambda>o1. o1\<lparr>v1_Passcode := v\<rparr>)"

definition osv1_TenantID :: "string \<Rightarrow> osv1_option" where
  "osv1_TenantID v = (\<lambda>o1. o1\<lparr>v1_TenantID := v\<rparr>)"

definition osv1_TenantName :: "string \<Rightarrow> osv1_option" where
  "osv1_TenantName v = (\<lambda>o1. o1\<lparr>v1_TenantName := v\<rparr>)"

definition osv1_ProjectName :: "string \<Rightarrow> osv1_option" where
  "osv1_ProjectName v = (\<lambda>o1. o1\<lparr>v1_ProjectName := v\<rparr>)"

definition osv1_DomainID :: "string \<Rightarrow> osv1_option" where
  "osv1_DomainID v = (\<lambda>o1. o1\<lparr>v1_DomainID := v\<rparr>)"

definition osv1_DomainName :: "string \<Rightarrow> osv1_option" where
  "osv1_DomainName v = (\<lambda>o1. o1\<lparr>v1_DomainName := v\<rparr>)"

definition osv1_ProjectDomainName :: "string \<Rightarrow> osv1_option" where
  "osv1_ProjectDomainName v = (\<lambda>o1. o1\<lparr>v1_ProjectDomainName := v\<rparr>)"

definition osv1_UserDomainName :: "string \<Rightarrow> osv1_option" where
  "osv1_UserDomainName v = (\<lambda>o1. o1\<lparr>v1_UserDomainName := v\<rparr>)"

definition osv1_IdentityAPIVersion :: "string \<Rightarrow> osv1_option" where
  "osv1_IdentityAPIVersion v = (\<lambda>o1. o1\<lparr>v1_IdentityAPIVersion := v\<rparr>)"

definition osv1_ImageAPIVersion :: "string \<Rightarrow> osv1_option" where
  "osv1_ImageAPIVersion v = (\<lambda>o1. o1\<lparr>v1_ImageAPIVersion := v\<rparr>)"

definition osv1_Scope :: "AuthScope option \<Rightarrow> osv1_option" where
  "osv1_Scope v = (\<lambda>o1. o1\<lparr>v1_Scope := v\<rparr>)"

definition osv1_conf_line :: "osv1_options \<Rightarrow> string \<Rightarrow> osv1_options outcome" where
  "osv1_conf_line opts line =
     (if Contains line ''OS_AUTH_URL'' then with_word1 line (\<lambda>v. osv1_IdentityEndpoint v opts)
      else if Contains line ''OS_AUTH_TYPE'' then with_word1 line (\<lambda>v. osv1_AuthType v opts)
      else if Contains line ''OS_USERNAME'' then with_word1 line (\<lambda>v. osv1_Username v opts)
      else if Contains line ''OS_USER_DOMAIN_NAME'' then with_word1 line (\<lambda>v. osv1_UserDomainName v opts)
      else if Contains line ''OS_PASSWORD'' then with_word1 line (\<lambda>v. osv1_Password v opts)
      else if Contains line ''OS_PROJECT_NAME'' then with_word1 line (\<lambda>v. osv1_TenantName v opts)
      else if Contains line ''OS_PROJECT_DOMAIN_NAME''
      then with_word1 line (\<lambda>v. osv1_ProjectDomainName v opts)
      else Return opts)"

fun osv1_conf_lines :: "osv1_options \<Rightarrow> string list \<Rightarrow> osv1_options outcome" where
  "osv1_conf_lines opts [] = Return opts"
| "osv1_conf_lines opts (line # ls) =
     (case osv1_conf_line opts line of Panic p \<Rightarrow> Panic p | Return opts1 \<Rightarrow> osv1_conf_lines opts1 ls)"

definition osv1_NewConf :: "file_system \<Rightarrow> getenv \<Rightarrow> string \<Rightarrow> osv1_options option res outcome" where
  "osv1_NewConf files env file =
     (case files file of
        Inl err \<Rightarrow> Return (None, Some err)
      | Inr text \<Rightarrow>
          (case osv1_conf_lines osv1_zero (ScanLines text) of
             Panic p \<Rightarrow> Panic p
           | Return opts \<Rightarrow>
               let opts = opts\<lparr>v1_DomainName := ''default''\<rparr>;
                   opts = (if env ''OS_SYSTEM_SCOPE'' = ''all''
                     then opts\<lparr>v1_Scope := Some \<lparr>scope_System = True, scope_rest = JNull\<rparr>\<rparr> else opts)
               in Return (Some opts, None)))"

fun osv1_init_loop :: "osv1_options \<Rightarrow> osv1_option list \<Rightarrow> osv1_options" where
  "osv1_init_loop options [] = options"
| "osv1_init_loop options (o1 # opts) = osv1_init_loop (o1 options) opts"

definition osv1_initOptions ::
  "file_system \<Rightarrow> getenv \<Rightarrow> string \<Rightarrow> osv1_option list \<Rightarrow> osv1_options option res outcome" where
  "osv1_initOptions files env defaultConf opts =
     (case osv1_NewConf files env defaultConf of
        Panic p \<Rightarrow> Panic p
      | Return (options, Some err) \<Rightarrow> Return (None, Some err)
      | Return (None, None) \<Rightarrow> (if opts = [] then Return (None, None) else Panic NilDereference)
      | Return (Some options, None) \<Rightarrow> Return (Some (osv1_init_loop options opts), None))"

definition osv1_auth :: "osv1_options \<Rightarrow> AuthOptions" where
  "osv1_auth o1 = \<lparr>ao_IdentityEndpoint = v1_IdentityEndpoint o1, ao_Username = v1_Username o1,
     ao_UserID = v1_UserID o1, ao_Password = v1_Password o1, ao_Passcode = v1_Passcode o1,
     ao_DomainID = v1_DomainID o1, ao_DomainName = v1_DomainName o1, ao_TenantID = v1_TenantID o1,
     ao_TenantName = v1_TenantName o1, ao_AllowReauth = False, ao_Scope = v1_Scope o1\<rparr>"

definition osv1_NewProvider ::
  "(AuthOptions \<Rightarrow> ('w, json option res) state) \<Rightarrow> file_system \<Rightarrow> getenv \<Rightarrow> string \<Rightarrow> osv1_option list
    \<Rightarrow> ('w, json option res outcome) state" where
  "osv1_NewProvider AuthenticatedClient files env defaultConf opts =
     proceed (osv1_initOptions files env defaultConf opts) (\<lambda>(initedOpts, err).
       on_err err
         (deref initedOpts (\<lambda>o1. do {
            r \<leftarrow> AuthenticatedClient (osv1_auth o1);
            State_Monad.return (Return r)
          }))
         (\<lambda>e. Return (None, Some e)))"

text \<open>
  The client of the accelerator service: the endpoint is looked up for the service type
  \<open>accelerator\<close> (\<open>ApplyDefaults\<close> of gophercloud is a parameter, like the locator).
\<close>

record AcceleratorClient =
  ac_Type :: string
  ac_Provider :: json
  ac_Endpoint :: string

definition NewAcceleratorV1 ::
  "(string \<Rightarrow> json \<Rightarrow> json) \<Rightarrow> (json \<Rightarrow> json \<Rightarrow> ('w, string res) state) \<Rightarrow> json \<Rightarrow> json
    \<Rightarrow> ('w, AcceleratorClient option res) state" where
  "NewAcceleratorV1 ApplyDefaults EndpointLocator provider opts = do {
     (url, err) \<leftarrow> EndpointLocator provider (ApplyDefaults ''accelerator'' opts);
     on_err err
       (State_Monad.return
         (Some \<lparr>ac_Type = ''accelerator'', ac_Provider = provider, ac_Endpoint = url\<rparr>, None))
       (\<lambda>e. (None, Some e))
   }"

end
