(* ===== verification/OpenstackApi.thy ===== *)
theory OpenstackApi
  imports OpenstackConf Wait Loops
begin

text \<open>
  Package openstack (v2): the helper with its service clients, and the operations. A call
  \<open>pkg.Verb(ctx, client, args)\<close> of gophercloud is an application of the record \<open>'w Gopher\<close> to the
  names of the package and the function, the context, the service client (nil is \<open>None\<close>) and the
  arguments; a listing is requested with \<open>g_pages\<close> and its pages are turned into elements with
  \<open>g_extract\<close>. Elements and option structs are \<open>json\<close> objects whose keys are the Go field names;
  \<open>get_str\<close> reads a string field, the empty string when it is absent, as decoding does.
\<close>

record 'w Gopher =
  g_extracted :: "string \<Rightarrow> string \<Rightarrow> ctx \<Rightarrow> json option \<Rightarrow> json list \<Rightarrow> ('w, json option res) state"
  g_err :: "string \<Rightarrow> string \<Rightarrow> ctx \<Rightarrow> json option \<Rightarrow> json list \<Rightarrow> ('w, go_error option) state"
  g_pages :: "string \<Rightarrow> string \<Rightarrow> ctx \<Rightarrow> json option \<Rightarrow> json list \<Rightarrow> ('w, json option res) state"
  g_extract :: "string \<Rightarrow> json option \<Rightarrow> json list res"

section \<open>The helper\<close>

record OpenstackHelper =
  oh_Provider :: "json option"
  oh_Identity :: "json option"
  oh_Compute :: "json option"
  oh_Image :: "json option"
  oh_Network :: "json option"
  oh_Dns :: "json option"
  oh_Loadbalancer :: "json option"
  oh_Storage :: "json option"
  oh_Share :: "json option"
  oh_ObjectStore :: "json option"
  oh_Options :: "os_options option"

record EndpointOpts =
  eo_Region :: string
  eo_Version :: int

text \<open>The constructors of gophercloud's service clients, and its authentication.\<close>

record 'w OpenstackSdk =
  AuthOptionsFromEnv :: "AuthOptions res"
  AuthenticatedClient :: "ctx \<Rightarrow> AuthOptions \<Rightarrow> ('w, json option res) state"
  NewIdentityV3 :: "json option \<Rightarrow> EndpointOpts \<Rightarrow> ('w, json option res) state"
  NewComputeV2 :: "json option \<Rightarrow> EndpointOpts \<Rightarrow> ('w, json option res) state"
  NewImageV2 :: "json option \<Rightarrow> EndpointOpts \<Rightarrow> ('w, json option res) state"
  NewNetworkV2 :: "json option \<Rightarrow> EndpointOpts \<Rightarrow> ('w, json option res) state"
  NewDNSV2 :: "json option \<Rightarrow> EndpointOpts \<Rightarrow> ('w, json option res) state"
  NewLoadBalancerV2 :: "json option \<Rightarrow> EndpointOpts \<Rightarrow> ('w, json option res) state"
  NewBlockStorageV3 :: "json option \<Rightarrow> EndpointOpts \<Rightarrow> ('w, json option res) state"
  NewSharedFileSystemV2 :: "json option \<Rightarrow> EndpointOpts \<Rightarrow> ('w, json option res) state"
  NewObjectStorageV1 :: "json option \<Rightarrow> EndpointOpts \<Rightarrow> ('w, json option res) state"

definition newIdentityCli :: "'w OpenstackSdk \<Rightarrow> getenv \<Rightarrow> json option \<Rightarrow> ('w, json option res) state" where
  "newIdentityCli sdk env provider =
     NewIdentityV3 sdk provider \<lparr>eo_Region = env ''OS_REGION_NAME'', eo_Version = 0\<rparr>"

definition newComputeCli :: "'w OpenstackSdk \<Rightarrow> getenv \<Rightarrow> json option \<Rightarrow> ('w, json option res) state" where
  "newComputeCli sdk env provider =
     NewComputeV2 sdk provider \<lparr>eo_Region = env ''OS_REGION_NAME'', eo_Version = 0\<rparr>"

definition newImageCli :: "'w OpenstackSdk \<Rightarrow> getenv \<Rightarrow> json option \<Rightarrow> ('w, json option res) state" where
  "newImageCli sdk env provider =
     NewImageV2 sdk provider \<lparr>eo_Region = env ''OS_REGION_NAME'', eo_Version = 0\<rparr>"

definition newNetworkCli :: "'w OpenstackSdk \<Rightarrow> getenv \<Rightarrow> json option \<Rightarrow> ('w, json option res) state" where
  "newNetworkCli sdk env provider =
     NewNetworkV2 sdk provider \<lparr>eo_Region = env ''OS_REGION_NAME'', eo_Version = 0\<rparr>"

definition newDnsCli :: "'w OpenstackSdk \<Rightarrow> getenv \<Rightarrow> json option \<Rightarrow> ('w, json option res) state" where
  "newDnsCli sdk env provider =
     NewDNSV2 sdk provider \<lparr>eo_Region = env ''OS_REGION_NAME'', eo_Version = 0\<rparr>"

definition newLoadBalancerCli :: "'w OpenstackSdk \<Rightarrow> getenv \<Rightarrow> json option \<Rightarrow> ('w, json option res) state" where
  "newLoadBalancerCli sdk env provider =
     NewLoadBalancerV2 sdk provider \<lparr>eo_Region = env ''OS_REGION_NAME'', eo_Version = 0\<rparr>"

definition newStorageCli :: "'w OpenstackSdk \<Rightarrow> getenv \<Rightarrow> json option \<Rightarrow> ('w, json option res) state" where
  "newStorageCli sdk env provider =
     NewBlockStorageV3 sdk provider \<lparr>eo_Region = env ''OS_REGION_NAME'', eo_Version = 3\<rparr>"

definition newShareCli :: "'w OpenstackSdk \<Rightarrow> getenv \<Rightarrow> json option \<Rightarrow> ('w, json option res) state" where
  "newShareCli sdk env provider =
     NewSharedFileSystemV2 sdk provider \<lparr>eo_Region = env ''OS_REGION_NAME'', eo_Version = 0\<rparr>"

definition newObjectStoreCli :: "'w OpenstackSdk \<Rightarrow> getenv \<Rightarrow> json option \<Rightarrow> ('w, json option res) state" where
  "newObjectStoreCli sdk env provider =
     NewObjectStorageV1 sdk provider \<lparr>eo_Region = env ''OS_REGION_NAME'', eo_Version = 0\<rparr>"

definition newProvider ::
  "'w OpenstackSdk \<Rightarrow> file_system \<Rightarrow> getenv \<Rightarrow> os_option list \<Rightarrow> ('w, json option res outcome) state" where
  "newProvider sdk files env opts =
     (case syncOptions env opts of
        (_, Some e) \<Rightarrow> State_Monad.return (Return (None, Some e))
      | (syncedOpts, None) \<Rightarrow>
          deref syncedOpts (\<lambda>o1.
            proceed (GenAuthOpts files (AuthOptionsFromEnv sdk) o1) (\<lambda>((finalOpts, err), _).
              on_err err
                (do {
                   r \<leftarrow> AuthenticatedClient sdk Background finalOpts;
                   State_Monad.return (Return r)
                 })
                (\<lambda>e. Return (None, Some e)))))"

text \<open>The next step of the construction, or its error.\<close>

definition then_client ::
  "('w, json option res) state \<Rightarrow> (json option \<Rightarrow> ('w, 'a option res) state) \<Rightarrow> ('w, 'a option res) state" where
  "then_client new k = do { (c, err) \<leftarrow> new; on_err err (k c) (\<lambda>e. (None, Some e)) }"

definition clients_of ::
  "'w OpenstackSdk \<Rightarrow> getenv \<Rightarrow> json option \<Rightarrow> ('w, OpenstackHelper option res) state" where
  "clients_of sdk env provider =
     then_client (newIdentityCli sdk env provider) (\<lambda>identityCli.
     then_client (newComputeCli sdk env provider) (\<lambda>computeCli.
     then_client (newImageCli sdk env provider) (\<lambda>imageCli.
     then_client (newNetworkCli sdk env provider) (\<lambda>networkCli.
     then_client (newDnsCli sdk env provider) (\<lambda>dnsCli.
     then_client (newLoadBalancerCli sdk env provider) (\<lambda>loadBalancerCli.
     then_client (newStorageCli sdk env provider) (\<lambda>storageCli.
     then_client (newShareCli sdk env provider) (\<lambda>shareCli.
     then_client (newObjectStoreCli sdk env provider) (\<lambda>objectStoreCli.
       State_Monad.return (Some \<lparr>oh_Provider = provider, oh_Identity = identityCli,
         oh_Compute = computeCli, oh_Image = imageCli, oh_Network = networkCli, oh_Dns = dnsCli,
         oh_Loadbalancer = loadBalancerCli, oh_Storage = storageCli, oh_Share = shareCli,
         oh_ObjectStore = objectStoreCli, oh_Options = None\<rparr>, None))))))))))"

definition clients_without_dns ::
  "'w OpenstackSdk \<Rightarrow> getenv \<Rightarrow> json option \<Rightarrow> ('w, OpenstackHelper option res) state" where
  "clients_without_dns sdk env provider =
     then_client (newIdentityCli sdk env provider) (\<lambda>identityCli.
     then_client (newComputeCli sdk env provider) (\<lambda>computeCli.
     then_client (newImageCli sdk env provider) (\<lambda>imageCli.
     then_client (newNetworkCli sdk env provider) (\<lambda>networkCli.
     then_client (newLoadBalancerCli sdk env provider) (\<lambda>loadBalancerCli.
     then_client (newStorageCli sdk env provider) (\<lambda>storageCli.
     then_client (newShareCli sdk env provider) (\<lambda>shareCli.
     then_client (newObjectStoreCli sdk env provider) (\<lambda>objectStoreCli.
       State_Monad.return (Some \<lparr>oh_Provider = provider, oh_Identity = identityCli,
         oh_Compute = computeCli, oh_Image = imageCli, oh_Network = networkCli, oh_Dns = None,
         oh_Loadbalancer = loadBalancerCli, oh_Storage = storageCli, oh_Share = shareCli,
         oh_ObjectStore = objectStoreCli, oh_Options = None\<rparr>, None)))))))))"

definition openstack_NewHelper ::
  "'w OpenstackSdk \<Rightarrow> file_system \<Rightarrow> getenv \<Rightarrow> os_option list
    \<Rightarrow> ('w, OpenstackHelper option res outcome) state" where
  "openstack_NewHelper sdk files env opts = do {
     r \<leftarrow> newProvider sdk files env opts;
     proceed r (\<lambda>(provider, err). on_err err
       (do { h \<leftarrow> clients_of sdk env provider; State_Monad.return (Return h) })
       (\<lambda>e. Return (None, Some e)))
   }"

definition NewHelperWithoutDnsService ::
  "'w OpenstackSdk \<Rightarrow> file_system \<Rightarrow> getenv \<Rightarrow> os_option list
    \<Rightarrow> ('w, OpenstackHelper option res outcome) state" where
  "NewHelperWithoutDnsService sdk files env opts = do {
     r \<leftarrow> newProvider sdk files env opts;
     proceed r (\<lambda>(provider, err). on_err err
       (do { h \<leftarrow> clients_without_dns sdk env provider; State_Monad.return (Return h) })
       (\<lambda>e. Return (None, Some e)))
   }"

text \<open>
  The global helper. A panic inside \<open>once.Do\<close> counts as the one call and propagates; both
  constructors share the same \<open>once\<close>.
\<close>

definition once_Do_outcome ::
  "('w, 'h option res outcome) state \<Rightarrow> ('h globals \<times> 'w, go_error option outcome) state" where
  "once_Do_outcome new = State (\<lambda>(g, w).
     if once_done g then (Return None, (g, w))
     else (case run_state new w of
             (Panic p, w') \<Rightarrow> (Panic p, (g\<lparr>once_done := True\<rparr>, w'))
           | (Return (h, err), w') \<Rightarrow> (Return err, (g\<lparr>once_done := True, helper := h\<rparr>, w'))))"

definition openstack_NewGlobalHelper ::
  "'w OpenstackSdk \<Rightarrow> file_system \<Rightarrow> getenv \<Rightarrow> os_option list
    \<Rightarrow> (OpenstackHelper globals \<times> 'w, go_error option outcome) state" where
  "openstack_NewGlobalHelper sdk files env opts = once_Do_outcome (openstack_NewHelper sdk files env opts)"

definition NewGlobalHelperWithoutDnsService ::
  "'w OpenstackSdk \<Rightarrow> file_system \<Rightarrow> getenv \<Rightarrow> os_option list
    \<Rightarrow> (OpenstackHelper globals \<times> 'w, go_error option outcome) state" where
  "NewGlobalHelperWithoutDnsService sdk files env opts =
     once_Do_outcome (NewHelperWithoutDnsService sdk files env opts)"

definition openstack_GetGlobalHelper :: "OpenstackHelper globals \<Rightarrow> OpenstackHelper option" where
  "openstack_GetGlobalHelper g = helper g"

section \<open>Listings and searches\<close>

definition list_pages ::
  "'w Gopher \<Rightarrow> string \<Rightarrow> string \<Rightarrow> string \<Rightarrow> json option \<Rightarrow> json list \<Rightarrow> ('w, json list res) state" where
  "list_pages g pkg verb extract client args = do {
     (pages, err) \<leftarrow> g_pages g pkg verb (ctx_seconds 30) client args;
     on_err err (State_Monad.return (g_extract g extract pages)) (\<lambda>e. ([], Some e))
   }"

text \<open>
  The search loops: the first element whose field has the wanted value, and an error when there
  is none. The two \<open>...IdByName\<close> functions keep the identifier of the first match and take an
  empty one for not found; the \<open>Is...Exist\<close> functions answer true at the first match.
\<close>

fun first_with :: "(json \<Rightarrow> string) \<Rightarrow> (string \<Rightarrow> go_error) \<Rightarrow> string \<Rightarrow> json list \<Rightarrow> json option res" where
  "first_with key missing k [] = (None, Some (missing k))"
| "first_with key missing k (x # xs) = (if key x = k then (Some x, None) else first_with key missing k xs)"

interpretation name_search: first_match "first_with key missing" key missing for key missing
  by unfold_locales simp_all

fun any_with :: "(json \<Rightarrow> string) \<Rightarrow> string \<Rightarrow> json list \<Rightarrow> bool" where
  "any_with key k [] = False"
| "any_with key k (x # xs) = (if key x = k then True else any_with key k xs)"

fun first_id :: "string \<Rightarrow> json list \<Rightarrow> string" where
  "first_id name [] = []"
| "first_id name (x # xs) = (if get_str ''Name'' x = name then get_str ''ID'' x else first_id name xs)"

definition searching ::
  "('w, json list res) state \<Rightarrow> (json list \<Rightarrow> 'a res) \<Rightarrow> 'a \<Rightarrow> ('w, 'a res) state" where
  "searching listing search zero = do {
     (xs, err) \<leftarrow> listing;
     on_err err (State_Monad.return (search xs)) (\<lambda>e. (zero, Some e))
   }"

definition not_found :: "string \<Rightarrow> string \<Rightarrow> go_error" where
  "not_found kind name = ErrText (kind @ '' '' @ name @ '' not found'')"

section \<open>Networks\<close>

definition ListNetworks ::
  "'w Gopher \<Rightarrow> OpenstackHelper \<Rightarrow> json \<Rightarrow> ('w, json list res) state" where
  "ListNetworks g h opts =
     list_pages g ''networks'' ''List'' ''ExtractNetworks'' (oh_Network h) [opts]"

definition DeleteNetwork ::
  "'w Gopher \<Rightarrow> OpenstackHelper \<Rightarrow> string \<Rightarrow> ('w, go_error option) state" where
  "DeleteNetwork g h ident =
     g_err g ''networks'' ''Delete'' (ctx_seconds 30) (oh_Network h) [JStr ident]"

definition GetNetworkByName ::
  "'w Gopher \<Rightarrow> OpenstackHelper \<Rightarrow> json \<Rightarrow> ('w, json option res) state" where
  "GetNetworkByName g h opts =
     searching (ListNetworks g h opts)
       (first_with (get_str ''Name'') (not_found ''network'') (get_str ''Name'' opts)) None"

definition GetNetwork ::
  "'w Gopher \<Rightarrow> OpenstackHelper \<Rightarrow> string \<Rightarrow> ('w, json option res) state" where
  "GetNetwork g h ident =
     g_extracted g ''networks'' ''Get'' (ctx_seconds 30) (oh_Network h) [JStr ident]"

definition CreateNetwork ::
  "'w Gopher \<Rightarrow> OpenstackHelper \<Rightarrow> json \<Rightarrow> ('w, json option res) state" where
  "CreateNetwork g h opts =
     g_extracted g ''networks'' ''Create'' (ctx_seconds 30) (oh_Network h) [opts]"

definition ListAttachedNetworksByServerId ::
  "'w Gopher \<Rightarrow> OpenstackHelper \<Rightarrow> string \<Rightarrow> ('w, json list res) state" where
  "ListAttachedNetworksByServerId g h serverId =
     list_pages g ''attachinterfaces'' ''List'' ''ExtractInterfaces'' (oh_Compute h) [JStr serverId]"

definition GetAttachedPortByServerIdAndNetworkId ::
  "'w Gopher \<Rightarrow> OpenstackHelper \<Rightarrow> string \<Rightarrow> string \<Rightarrow> ('w, json option res) state" where
  "GetAttachedPortByServerIdAndNetworkId g h serverId networkId =
     searching (ListAttachedNetworksByServerId g h serverId)
       (first_with (get_str ''NetID'') (\<lambda>n. ErrText (''port attached to server '' @ serverId @ '' in network '' @ n @ '' not found'')) networkId) None"

definition AddNetworkTag ::
  "'w Gopher \<Rightarrow> OpenstackHelper \<Rightarrow> string \<Rightarrow> string \<Rightarrow> ('w, go_error option) state" where
  "AddNetworkTag g h ident tag =
     g_err g ''attributestags'' ''Add'' (ctx_seconds 30) (oh_Network h) [JStr ''networks'', JStr ident, JStr tag]"

definition ListSubnets ::
  "'w Gopher \<Rightarrow> OpenstackHelper \<Rightarrow> json \<Rightarrow> ('w, json list res) state" where
  "ListSubnets g h opts =
     list_pages g ''subnets'' ''List'' ''ExtractSubnets'' (oh_Network h) [opts]"

definition CreateSubnet ::
  "'w Gopher \<Rightarrow> OpenstackHelper \<Rightarrow> json \<Rightarrow> ('w, json option res) state" where
  "CreateSubnet g h opts =
     g_extracted g ''subnets'' ''Create'' (ctx_seconds 30) (oh_Network h) [opts]"

definition GetSubnet ::
  "'w Gopher \<Rightarrow> OpenstackHelper \<Rightarrow> string \<Rightarrow> ('w, json option res) state" where
  "GetSubnet g h ident =
     g_extracted g ''subnets'' ''Get'' (ctx_seconds 30) (oh_Network h) [JStr ident]"

definition UpdateSubnet ::
  "'w Gopher \<Rightarrow> OpenstackHelper \<Rightarrow> string \<Rightarrow> json \<Rightarrow> ('w, json option res) state" where
  "UpdateSubnet g h ident opts =
     g_extracted g ''subnets'' ''Update'' (ctx_seconds 30) (oh_Network h) [JStr ident, opts]"

definition DeleteSubnet ::
  "'w Gopher \<Rightarrow> OpenstackHelper \<Rightarrow> string \<Rightarrow> ('w, go_error option) state" where
  "DeleteSubnet g h ident =
     g_err g ''subnets'' ''Delete'' (ctx_seconds 30) (oh_Network h) [JStr ident]"

definition GetRouter ::
  "'w Gopher \<Rightarrow> OpenstackHelper \<Rightarrow> string \<Rightarrow> ('w, json option res) state" where
  "GetRouter g h ident =
     g_extracted g ''routers'' ''Get'' (ctx_seconds 30) (oh_Network h) [JStr ident]"

definition ListRouters ::
  "'w Gopher \<Rightarrow> OpenstackHelper \<Rightarrow> json \<Rightarrow> ('w, json list res) state" where
  "ListRouters g h opts =
     list_pages g ''routers'' ''List'' ''ExtractRouters'' (oh_Network h) [opts]"

definition RemoveRouterInterface ::
  "'w Gopher \<Rightarrow> OpenstackHelper \<Rightarrow> string \<Rightarrow> json \<Rightarrow> ('w, go_error option) state" where
  "RemoveRouterInterface g h routerId opts =
     g_err g ''routers'' ''RemoveInterface'' (ctx_seconds 30) (oh_Network h) [JStr routerId, opts]"

definition CreateRouter ::
  "'w Gopher \<Rightarrow> OpenstackHelper \<Rightarrow> json \<Rightarrow> ('w, json option res) state" where
  "CreateRouter g h opts =
     g_extracted g ''routers'' ''Create'' (ctx_seconds 30) (oh_Network h) [opts]"

definition UpdateRouter ::
  "'w Gopher \<Rightarrow> OpenstackHelper \<Rightarrow> string \<Rightarrow> json \<Rightarrow> ('w, go_error option) state" where
  "UpdateRouter g h ident opts =
     g_err g ''routers'' ''Update'' (ctx_seconds 30) (oh_Network h) [JStr ident, opts]"

definition AttachNetworkToRouter ::
  "'w Gopher \<Rightarrow> OpenstackHelper \<Rightarrow> string \<Rightarrow> json \<Rightarrow> ('w, json option res) state" where
  "AttachNetworkToRouter g h ident opts =
     g_extracted g ''routers'' ''AddInterface'' (ctx_seconds 30) (oh_Network h) [JStr ident, opts]"

definition AddRouterTag ::
  "'w Gopher \<Rightarrow> OpenstackHelper \<Rightarrow> string \<Rightarrow> string \<Rightarrow> ('w, go_error option) state" where
  "AddRouterTag g h ident tag =
     g_err g ''attributestags'' ''Add'' (ctx_seconds 30) (oh_Network h) [JStr ''routers'', JStr ident, JStr tag]"

definition DeleteRouter ::
  "'w Gopher \<Rightarrow> OpenstackHelper \<Rightarrow> string \<Rightarrow> ('w, go_error option) state" where
  "DeleteRouter g h ident =
     g_err g ''routers'' ''Delete'' (ctx_seconds 30) (oh_Network h) [JStr ident]"

definition DeleteRouterInterface ::
  "'w Gopher \<Rightarrow> OpenstackHelper \<Rightarrow> string \<Rightarrow> json \<Rightarrow> ('w, go_error option) state" where
  "DeleteRouterInterface g h routerId opts =
     g_err g ''routers'' ''RemoveInterface'' (ctx_seconds 30) (oh_Network h) [JStr routerId, opts]"

definition CreatePort ::
  "'w Gopher \<Rightarrow> OpenstackHelper \<Rightarrow> json \<Rightarrow> ('w, json option res) state" where
  "CreatePort g h opts =
     g_extracted g ''ports'' ''Create'' (ctx_seconds 30) (oh_Network h) [opts]"

definition UpdatePort ::
  "'w Gopher \<Rightarrow> OpenstackHelper \<Rightarrow> string \<Rightarrow> json \<Rightarrow> ('w, json option res) state" where
  "UpdatePort g h ident opts =
     g_extracted g ''ports'' ''Update'' (ctx_seconds 30) (oh_Network h) [JStr ident, opts]"

definition AttachPortToInstance ::
  "'w Gopher \<Rightarrow> OpenstackHelper \<Rightarrow> string \<Rightarrow> string \<Rightarrow> ('w, go_error option) state" where
  "AttachPortToInstance g h portId instanceId =
     g_err g ''attachinterfaces'' ''Create'' (ctx_seconds 30) (oh_Compute h) [JStr instanceId, JObj [(''PortID'', JStr portId)]]"

definition DeleteAttachedPortFromInstance ::
  "'w Gopher \<Rightarrow> OpenstackHelper \<Rightarrow> string \<Rightarrow> string \<Rightarrow> ('w, go_error option) state" where
  "DeleteAttachedPortFromInstance g h instanceId portId =
     g_err g ''attachinterfaces'' ''Delete'' (ctx_seconds 30) (oh_Compute h) [JStr instanceId, JStr portId]"

definition ListSecurityGroups ::
  "'w Gopher \<Rightarrow> OpenstackHelper \<Rightarrow> json \<Rightarrow> ('w, json list res) state" where
  "ListSecurityGroups g h opts =
     list_pages g ''groups'' ''List'' ''ExtractGroups'' (oh_Network h) [opts]"

definition ListSecurityGroupRulesPage ::
  "'w Gopher \<Rightarrow> OpenstackHelper \<Rightarrow> json \<Rightarrow> ('w, json option res) state" where
  "ListSecurityGroupRulesPage g h opts =
     do {
     (pages, err) \<leftarrow> g_pages g ''rules'' ''List'' (ctx_seconds 30) (oh_Network h) [opts];
     on_err err (State_Monad.return (pages, None)) (\<lambda>e. (None, Some e))
   }"

definition CreateSecurityGroup ::
  "'w Gopher \<Rightarrow> OpenstackHelper \<Rightarrow> json \<Rightarrow> ('w, json option res) state" where
  "CreateSecurityGroup g h opts =
     g_extracted g ''groups'' ''Create'' (ctx_seconds 30) (oh_Network h) [opts]"

definition CreateSecurityGroupRule ::
  "'w Gopher \<Rightarrow> OpenstackHelper \<Rightarrow> json \<Rightarrow> ('w, json option res) state" where
  "CreateSecurityGroupRule g h opts =
     g_extracted g ''rules'' ''Create'' (ctx_seconds 30) (oh_Network h) [opts]"

definition ListSecurityGroupRules ::
  "'w Gopher \<Rightarrow> OpenstackHelper \<Rightarrow> json \<Rightarrow> ('w, json list res) state" where
  "ListSecurityGroupRules g h opts =
     list_pages g ''rules'' ''List'' ''ExtractRules'' (oh_Network h) [opts]"

definition DeleteSecurityGroup ::
  "'w Gopher \<Rightarrow> OpenstackHelper \<Rightarrow> string \<Rightarrow> ('w, go_error option) state" where
  "DeleteSecurityGroup g h ident =
     g_err g ''groups'' ''Delete'' (ctx_seconds 30) (oh_Network h) [JStr ident]"

definition UpdateSecurityGroup ::
  "'w Gopher \<Rightarrow> OpenstackHelper \<Rightarrow> string \<Rightarrow> json \<Rightarrow> ('w, json option res) state" where
  "UpdateSecurityGroup g h ident opts =
     g_extracted g ''groups'' ''Update'' (ctx_seconds 30) (oh_Network h) [JStr ident, opts]"

definition UpdateNetworkQuotas ::
  "'w Gopher \<Rightarrow> OpenstackHelper \<Rightarrow> string \<Rightarrow> json \<Rightarrow> ('w, go_error option) state" where
  "UpdateNetworkQuotas g h projectId opts =
     g_err g ''quotas'' ''Update'' (ctx_seconds 30) (oh_Network h) [JStr projectId, opts]"

definition UpdateNetwork ::
  "'w Gopher \<Rightarrow> OpenstackHelper \<Rightarrow> string \<Rightarrow> json \<Rightarrow> ('w, json option res) state" where
  "UpdateNetwork g h ident opts =
     g_extracted g ''networks'' ''Update'' (ctx_seconds 30) (oh_Network h) [JStr ident, opts]"

text \<open>\<open>FixedIPs\<close> of a port: the list of its addresses.\<close>

definition fixed_ips :: "json \<Rightarrow> string list" where
  "fixed_ips port = (case port of
     JObj kvs \<Rightarrow> (case map_of kvs ''FixedIPs'' of Some (JArr xs) \<Rightarrow> map (get_str ''IPAddress'') xs | _ \<Rightarrow> [])
   | _ \<Rightarrow> [])"

fun has_ip :: "string \<Rightarrow> string list \<Rightarrow> bool" where
  "has_ip ip [] = False"
| "has_ip ip (a # as) = (if a = ip then True else has_ip ip as)"

fun port_with_ip :: "string \<Rightarrow> string \<Rightarrow> json list \<Rightarrow> json option res" where
  "port_with_ip netId ip [] =
     (None, Some (ErrText (''port with ip '' @ ip @ '' not found in network '' @ netId)))"
| "port_with_ip netId ip (port # ports) =
     (if get_str ''NetworkID'' port \<noteq> netId then port_with_ip netId ip ports
      else if has_ip ip (fixed_ips port) then (Some port, None) else port_with_ip netId ip ports)"

definition GetPortByNetIdAndIp ::
  "'w Gopher \<Rightarrow> OpenstackHelper \<Rightarrow> string \<Rightarrow> string \<Rightarrow> ('w, json option res) state" where
  "GetPortByNetIdAndIp g h netId ip = searching
     (list_pages g ''ports'' ''List'' ''ExtractPorts'' (oh_Network h)
       [JObj [(''NetworkID'', JStr netId), (''FixedIPs'', JArr [JObj [(''IPAddress'', JStr ip)]])]])
     (port_with_ip netId ip) None"

definition ListPorts ::
  "'w Gopher \<Rightarrow> OpenstackHelper \<Rightarrow> json \<Rightarrow> ('w, json list res) state" where
  "ListPorts g h opts =
     list_pages g ''ports'' ''List'' ''ExtractPorts'' (oh_Network h) [opts]"

definition DeletePort ::
  "'w Gopher \<Rightarrow> OpenstackHelper \<Rightarrow> string \<Rightarrow> ('w, go_error option) state" where
  "DeletePort g h ident =
     g_err g ''ports'' ''Delete'' (ctx_seconds 30) (oh_Network h) [JStr ident]"

definition GetSubnetByName ::
  "'w Gopher \<Rightarrow> OpenstackHelper \<Rightarrow> json \<Rightarrow> ('w, json option res) state" where
  "GetSubnetByName g h opts =
     searching (list_pages g ''subnets'' ''List'' ''ExtractSubnets'' (oh_Network h) [opts])
       (first_with (get_str ''Name'') (not_found ''subnet'') (get_str ''Name'' opts)) None"

definition GetSubnetByNetworkID ::
  "'w Gopher \<Rightarrow> OpenstackHelper \<Rightarrow> json \<Rightarrow> ('w, json option res) state" where
  "GetSubnetByNetworkID g h opts =
     searching (list_pages g ''subnets'' ''List'' ''ExtractSubnets'' (oh_Network h) [opts])
       (first_with (get_str ''NetworkID'') (not_found ''subnet in network'') (get_str ''NetworkID'' opts)) None"

definition GetSecurityGroupByName ::
  "'w Gopher \<Rightarrow> OpenstackHelper \<Rightarrow> json \<Rightarrow> ('w, json option res) state" where
  "GetSecurityGroupByName g h opts =
     searching (list_pages g ''groups'' ''List'' ''ExtractGroups'' (oh_Network h) [opts])
       (first_with (get_str ''Name'') (not_found ''security group'') (get_str ''Name'' opts)) None"

definition GetSecurityGroup ::
  "'w Gopher \<Rightarrow> OpenstackHelper \<Rightarrow> string \<Rightarrow> ('w, json option res) state" where
  "GetSecurityGroup g h ident =
     g_extracted g ''groups'' ''Get'' (ctx_seconds 30) (oh_Network h) [JStr ident]"

definition DeleteSecurityGroupRule ::
  "'w Gopher \<Rightarrow> OpenstackHelper \<Rightarrow> string \<Rightarrow> ('w, go_error option) state" where
  "DeleteSecurityGroupRule g h ident =
     g_err g ''rules'' ''Delete'' (ctx_seconds 30) (oh_Network h) [JStr ident]"

definition GetShareNetworkByName ::
  "'w Gopher \<Rightarrow> OpenstackHelper \<Rightarrow> json \<Rightarrow> ('w, json option res) state" where
  "GetShareNetworkByName g h opts =
     searching (list_pages g ''sharenetworks'' ''ListDetail'' ''ExtractShareNetworks'' (oh_Share h) [opts])
       (first_with (get_str ''Name'') (not_found ''share network'') (get_str ''Name'' opts)) None"

definition CreateShareNetwork ::
  "'w Gopher \<Rightarrow> OpenstackHelper \<Rightarrow> json option \<Rightarrow> json \<Rightarrow> ('w, json option res) state" where
  "CreateShareNetwork g h client opts =
     g_extracted g ''sharenetworks'' ''Create'' (ctx_seconds 30) client [opts]"

definition DeleteShareNetwork ::
  "'w Gopher \<Rightarrow> OpenstackHelper \<Rightarrow> json option \<Rightarrow> string \<Rightarrow> ('w, go_error option) state" where
  "DeleteShareNetwork g h client ident =
     g_err g ''sharenetworks'' ''Delete'' (ctx_seconds 30) client [JStr ident]"

definition ListLoadBalancers ::
  "'w Gopher \<Rightarrow> OpenstackHelper \<Rightarrow> json \<Rightarrow> ('w, json list res) state" where
  "ListLoadBalancers g h opts =
     list_pages g ''loadbalancers'' ''List'' ''ExtractLoadBalancers'' (oh_Loadbalancer h) [opts]"

definition GetLoadBalancer ::
  "'w Gopher \<Rightarrow> OpenstackHelper \<Rightarrow> string \<Rightarrow> ('w, json option res) state" where
  "GetLoadBalancer g h ident =
     g_extracted g ''loadbalancers'' ''Get'' (ctx_seconds 30) (oh_Loadbalancer h) [JStr ident]"

definition ListFloatingIps ::
  "'w Gopher \<Rightarrow> OpenstackHelper \<Rightarrow> json \<Rightarrow> ('w, json list res) state" where
  "ListFloatingIps g h opts =
     list_pages g ''floatingips'' ''List'' ''ExtractFloatingIPs'' (oh_Network h) [opts]"

definition GetFloatingIpByIp ::
  "'w Gopher \<Rightarrow> OpenstackHelper \<Rightarrow> string \<Rightarrow> ('w, json option res) state" where
  "GetFloatingIpByIp g h ip =
     searching (ListFloatingIps g h (JObj [(''FloatingIP'', JStr ip)]))
       (first_with (get_str ''FloatingIP'') (not_found ''floating ip'') ip) None"

definition CreateFloatingIp ::
  "'w Gopher \<Rightarrow> OpenstackHelper \<Rightarrow> json \<Rightarrow> ('w, json option res) state" where
  "CreateFloatingIp g h opts =
     g_extracted g ''floatingips'' ''Create'' (ctx_seconds 30) (oh_Network h) [opts]"

definition AssociateFloatingIp ::
  "'w Gopher \<Rightarrow> OpenstackHelper \<Rightarrow> string \<Rightarrow> json \<Rightarrow> ('w, json option res) state" where
  "AssociateFloatingIp g h floatingIpId opts =
     g_extracted g ''floatingips'' ''Update'' (ctx_seconds 30) (oh_Network h) [JStr floatingIpId, opts]"

definition DisassociateFloatingIp ::
  "'w Gopher \<Rightarrow> OpenstackHelper \<Rightarrow> string \<Rightarrow> ('w, go_error option) state" where
  "DisassociateFloatingIp g h ident =
     g_err g ''floatingips'' ''Update'' (ctx_seconds 30) (oh_Network h) [JStr ident, JObj [(''PortID'', JNull)]]"

definition DeleteLoadBalancer ::
  "'w Gopher \<Rightarrow> OpenstackHelper \<Rightarrow> string \<Rightarrow> ('w, go_error option) state" where
  "DeleteLoadBalancer g h ident =
     g_err g ''loadbalancers'' ''Delete'' (ctx_seconds 30) (oh_Loadbalancer h) [JStr ident, JObj [(''Cascade'', JBool True)]]"

definition ListLoadBalancerFlavorProfiles ::
  "'w Gopher \<Rightarrow> OpenstackHelper \<Rightarrow> json \<Rightarrow> ('w, json list res) state" where
  "ListLoadBalancerFlavorProfiles g h opts =
     list_pages g ''flavorprofiles'' ''List'' ''ExtractFlavorProfiles'' (oh_Loadbalancer h) [opts]"

definition GetLoadBalancerFlavorProfile ::
  "'w Gopher \<Rightarrow> OpenstackHelper \<Rightarrow> string \<Rightarrow> ('w, json option res) state" where
  "GetLoadBalancerFlavorProfile g h ident =
     g_extracted g ''flavorprofiles'' ''Get'' (ctx_seconds 30) (oh_Loadbalancer h) [JStr ident]"

definition ListLoadBalancerFlavors ::
  "'w Gopher \<Rightarrow> OpenstackHelper \<Rightarrow> json \<Rightarrow> ('w, json list res) state" where
  "ListLoadBalancerFlavors g h opts =
     list_pages g ''loadbalancer/flavors'' ''List'' ''ExtractFlavors'' (oh_Loadbalancer h) [opts]"

definition GetLoadBalancerFlavor ::
  "'w Gopher \<Rightarrow> OpenstackHelper \<Rightarrow> string \<Rightarrow> ('w, json option res) state" where
  "GetLoadBalancerFlavor g h ident =
     g_extracted g ''loadbalancer/flavors'' ''Get'' (ctx_seconds 30) (oh_Loadbalancer h) [JStr ident]"

definition DeleteFloatingIP ::
  "'w Gopher \<Rightarrow> OpenstackHelper \<Rightarrow> string \<Rightarrow> ('w, go_error option) state" where
  "DeleteFloatingIP g h ident =
     g_err g ''floatingips'' ''Delete'' (ctx_seconds 30) (oh_Network h) [JStr ident]"

definition CreateDnsZone ::
  "'w Gopher \<Rightarrow> OpenstackHelper \<Rightarrow> json \<Rightarrow> ('w, json option res) state" where
  "CreateDnsZone g h opts =
     g_extracted g ''zones'' ''Create'' (ctx_seconds 30) (oh_Dns h) [opts]"

definition DeleteDnsZone ::
  "'w Gopher \<Rightarrow> OpenstackHelper \<Rightarrow> string \<Rightarrow> ('w, go_error option) state" where
  "DeleteDnsZone g h ident =
     g_err g ''zones'' ''Delete'' (ctx_seconds 30) (oh_Dns h) [JStr ident]"

definition ListDnsZones ::
  "'w Gopher \<Rightarrow> OpenstackHelper \<Rightarrow> json \<Rightarrow> ('w, json list res) state" where
  "ListDnsZones g h opts =
     list_pages g ''zones'' ''List'' ''ExtractZones'' (oh_Dns h) [opts]"

definition GetDnsZoneByName ::
  "'w Gopher \<Rightarrow> OpenstackHelper \<Rightarrow> string \<Rightarrow> ('w, json option res) state" where
  "GetDnsZoneByName g h name =
     searching (ListDnsZones g h (JObj [(''Name'', JStr name)]))
       (first_with (get_str ''Name'') (not_found ''dns zone'') name) None"

definition CreateDnsRecord ::
  "'w Gopher \<Rightarrow> OpenstackHelper \<Rightarrow> string \<Rightarrow> json \<Rightarrow> ('w, json option res) state" where
  "CreateDnsRecord g h zoneId opts =
     g_extracted g ''recordsets'' ''Create'' (ctx_seconds 30) (oh_Dns h) [JStr zoneId, opts]"

definition DeleteDnsRecord ::
  "'w Gopher \<Rightarrow> OpenstackHelper \<Rightarrow> string \<Rightarrow> string \<Rightarrow> ('w, go_error option) state" where
  "DeleteDnsRecord g h zoneId ident =
     g_err g ''recordsets'' ''Delete'' (ctx_seconds 30) (oh_Dns h) [JStr zoneId, JStr ident]"

section \<open>Compute and images\<close>

definition UpdateComputeQuotas ::
  "'w Gopher \<Rightarrow> OpenstackHelper \<Rightarrow> string \<Rightarrow> json \<Rightarrow> ('w, go_error option) state" where
  "UpdateComputeQuotas g h projectId opts =
     g_err g ''compute/quotasets'' ''Update'' (ctx_seconds 30) (oh_Compute h) [JStr projectId, opts]"

definition ListServers ::
  "'w Gopher \<Rightarrow> OpenstackHelper \<Rightarrow> json \<Rightarrow> ('w, json list res) state" where
  "ListServers g h opts =
     list_pages g ''servers'' ''List'' ''ExtractServers'' (oh_Compute h) [opts]"

definition GetServer ::
  "'w Gopher \<Rightarrow> OpenstackHelper \<Rightarrow> string \<Rightarrow> ('w, json option res) state" where
  "GetServer g h ident =
     g_extracted g ''servers'' ''Get'' (ctx_seconds 30) (oh_Compute h) [JStr ident]"

definition DeleteServer ::
  "'w Gopher \<Rightarrow> OpenstackHelper \<Rightarrow> string \<Rightarrow> ('w, go_error option) state" where
  "DeleteServer g h ident =
     g_err g ''servers'' ''Delete'' (ctx_seconds 30) (oh_Compute h) [JStr ident]"

definition GetHypervisorStatistics ::
  "'w Gopher \<Rightarrow> OpenstackHelper \<Rightarrow> ('w, json option res) state" where
  "GetHypervisorStatistics g h =
     g_extracted g ''hypervisors'' ''GetStatistics'' (ctx_seconds 30) (oh_Compute h) []"

definition ListHypervisors ::
  "'w Gopher \<Rightarrow> OpenstackHelper \<Rightarrow> json \<Rightarrow> ('w, json list res) state" where
  "ListHypervisors g h opts =
     list_pages g ''hypervisors'' ''List'' ''ExtractHypervisors'' (oh_Compute h) [JObj []]"

definition GetHypervisorByHostname ::
  "'w Gopher \<Rightarrow> OpenstackHelper \<Rightarrow> string \<Rightarrow> ('w, json option res) state" where
  "GetHypervisorByHostname g h hostname =
     searching (ListHypervisors g h (JObj []))
       (first_with (get_str ''HypervisorHostname'') (\<lambda>n. ErrText (''hypervisor with hostname '' @ n @ '' not found'')) hostname) None"

definition GetHypervisorUpTime ::
  "'w Gopher \<Rightarrow> OpenstackHelper \<Rightarrow> string \<Rightarrow> ('w, json option res) state" where
  "GetHypervisorUpTime g h ident =
     g_extracted g ''hypervisors'' ''GetUptime'' (ctx_seconds 30) (oh_Compute h) [JStr ident]"

definition IsImageExistByName ::
  "'w Gopher \<Rightarrow> OpenstackHelper \<Rightarrow> string \<Rightarrow> ('w, bool res) state" where
  "IsImageExistByName g h name =
     searching (list_pages g ''images'' ''List'' ''ExtractImages'' (oh_Image h) [JObj [(''Name'', JStr name)]])
       (\<lambda>list. if any_with (get_str ''Name'') name list then (True, None)
          else (False, Some (not_found ''image'' name))) False"

definition IsImageExist ::
  "'w Gopher \<Rightarrow> OpenstackHelper \<Rightarrow> string \<Rightarrow> ('w, bool res) state" where
  "IsImageExist g h ident =
     searching (list_pages g ''images'' ''List'' ''ExtractImages'' (oh_Image h) [JObj [(''ID'', JStr ident)]])
       (\<lambda>list. if any_with (get_str ''ID'') ident list then (True, None)
          else (False, Some (not_found ''image'' ident))) False"

definition ListImages ::
  "'w Gopher \<Rightarrow> OpenstackHelper \<Rightarrow> json \<Rightarrow> ('w, json list res) state" where
  "ListImages g h opts =
     list_pages g ''images'' ''List'' ''ExtractImages'' (oh_Image h) [opts]"

definition GetImage ::
  "'w Gopher \<Rightarrow> OpenstackHelper \<Rightarrow> string \<Rightarrow> ('w, json option res) state" where
  "GetImage g h ident =
     g_extracted g ''images'' ''Get'' (ctx_seconds 30) (oh_Image h) [JStr ident]"

definition DeleteImage ::
  "'w Gopher \<Rightarrow> OpenstackHelper \<Rightarrow> string \<Rightarrow> ('w, go_error option) state" where
  "DeleteImage g h ident =
     g_err g ''images'' ''Delete'' (ctx_seconds 30) (oh_Image h) [JStr ident]"

definition GetImageByName ::
  "'w Gopher \<Rightarrow> OpenstackHelper \<Rightarrow> string \<Rightarrow> ('w, json option res) state" where
  "GetImageByName g h name =
     searching (ListImages g h (JObj [(''Name'', JStr name)]))
       (\<lambda>images. if length images = 0 then (None, Some (ErrText ''no images found''))
          else first_with (get_str ''Name'') (\<lambda>n. ErrText (''image with name '' @ n @ '' not found'')) name images)
       None"

definition UpdateImageProperty ::
  "'w Gopher \<Rightarrow> OpenstackHelper \<Rightarrow> string \<Rightarrow> json \<Rightarrow> ('w, go_error option) state" where
  "UpdateImageProperty g h ident opts =
     g_err g ''images'' ''Update'' (ctx_seconds 30) (oh_Image h) [JStr ident, opts]"

definition IsFlavorExist ::
  "'w Gopher \<Rightarrow> OpenstackHelper \<Rightarrow> string \<Rightarrow> ('w, bool res) state" where
  "IsFlavorExist g h name =
     searching (list_pages g ''compute/flavors'' ''ListDetail'' ''ExtractFlavors'' (oh_Compute h) [JObj []])
       (\<lambda>list. if any_with (get_str ''Name'') name list then (True, None)
          else (False, Some (not_found ''flavor'' name))) False"

definition UpdateServer ::
  "'w Gopher \<Rightarrow> OpenstackHelper \<Rightarrow> string \<Rightarrow> json \<Rightarrow> ('w, json option res) state" where
  "UpdateServer g h ident opts =
     g_extracted g ''servers'' ''Update'' (ctx_seconds 30) (oh_Compute h) [JStr ident, opts]"

definition GetComputeFlavor ::
  "'w Gopher \<Rightarrow> OpenstackHelper \<Rightarrow> string \<Rightarrow> ('w, json option res) state" where
  "GetComputeFlavor g h ident =
     g_extracted g ''compute/flavors'' ''Get'' (ctx_seconds 30) (oh_Compute h) [JStr ident]"

section \<open>Storage\<close>

definition ListVolumeTypes ::
  "'w Gopher \<Rightarrow> OpenstackHelper \<Rightarrow> json \<Rightarrow> ('w, json list res) state" where
  "ListVolumeTypes g h opts =
     list_pages g ''volumetypes'' ''List'' ''ExtractVolumeTypes'' (oh_Storage h) [opts]"

definition UpdateStorageQuotas ::
  "'w Gopher \<Rightarrow> OpenstackHelper \<Rightarrow> string \<Rightarrow> json \<Rightarrow> ('w, go_error option) state" where
  "UpdateStorageQuotas g h projectId opts =
     g_err g ''blockstorage/quotasets'' ''Update'' (ctx_seconds 30) (oh_Storage h) [JStr projectId, opts]"

definition ListVolumes ::
  "'w Gopher \<Rightarrow> OpenstackHelper \<Rightarrow> json \<Rightarrow> ('w, json list res) state" where
  "ListVolumes g h opts =
     list_pages g ''volumes'' ''List'' ''ExtractVolumes'' (oh_Storage h) [opts]"

definition GetVolume ::
  "'w Gopher \<Rightarrow> OpenstackHelper \<Rightarrow> string \<Rightarrow> ('w, json option res) state" where
  "GetVolume g h volumeId =
     g_extracted g ''volumes'' ''Get'' (ctx_seconds 30) (oh_Storage h) [JStr volumeId]"

definition DeleteVolume ::
  "'w Gopher \<Rightarrow> OpenstackHelper \<Rightarrow> string \<Rightarrow> ('w, go_error option) state" where
  "DeleteVolume g h ident =
     g_err g ''volumes'' ''Delete'' (ctx_seconds 30) (oh_Storage h) [JStr ident, JObj [(''Cascade'', JBool True)]]"

definition ListShares ::
  "'w Gopher \<Rightarrow> OpenstackHelper \<Rightarrow> json \<Rightarrow> ('w, json list res) state" where
  "ListShares g h opts =
     list_pages g ''shares'' ''ListDetail'' ''ExtractShares'' (oh_Share h) [opts]"

definition DeleteShare ::
  "'w Gopher \<Rightarrow> OpenstackHelper \<Rightarrow> string \<Rightarrow> ('w, go_error option) state" where
  "DeleteShare g h ident =
     g_err g ''shares'' ''Delete'' (ctx_seconds 30) (oh_Share h) [JStr ident]"

definition ListContainers ::
  "'w Gopher \<Rightarrow> OpenstackHelper \<Rightarrow> json \<Rightarrow> ('w, json list res) state" where
  "ListContainers g h opts =
     list_pages g ''containers'' ''List'' ''ExtractInfo'' (oh_Storage h) [opts]"

definition CreateContainer ::
  "'w Gopher \<Rightarrow> OpenstackHelper \<Rightarrow> string \<Rightarrow> json \<Rightarrow> ('w, go_error option) state" where
  "CreateContainer g h containerName opts =
     only_err (g_extracted g ''containers'' ''Create'' (ctx_seconds 30) (oh_ObjectStore h) [JStr containerName, opts])"

section \<open>Projects, users, roles, quotas, credentials, domains\<close>

definition ListProjects ::
  "'w Gopher \<Rightarrow> OpenstackHelper \<Rightarrow> json \<Rightarrow> ('w, json list res) state" where
  "ListProjects g h opts =
     list_pages g ''projects'' ''List'' ''ExtractProjects'' (oh_Identity h) [opts]"

definition IsProjectExists ::
  "'w Gopher \<Rightarrow> OpenstackHelper \<Rightarrow> string \<Rightarrow> ('w, bool res) state" where
  "IsProjectExists g h name =
     searching (ListProjects g h (JObj [(''Name'', JStr name)]))
       (\<lambda>xs. (any_with (get_str ''Name'') name xs, None)) False"

definition GetProject ::
  "'w Gopher \<Rightarrow> OpenstackHelper \<Rightarrow> string \<Rightarrow> ('w, json option res) state" where
  "GetProject g h ident =
     do {
     (project, err) \<leftarrow> g_extracted g ''projects'' ''Get'' (ctx_seconds 30) (oh_Identity h) [JStr ident];
     on_err err (State_Monad.return (project, None))
       (\<lambda>e. (None, Some (ErrText (''failed to get project by id '' @ ident @ ''('' @ err_msg e @ '')''))))
   }"

definition GetProjectByName ::
  "'w Gopher \<Rightarrow> OpenstackHelper \<Rightarrow> string \<Rightarrow> ('w, json option res) state" where
  "GetProjectByName g h name =
     searching (ListProjects g h (JObj [(''Name'', JStr name)]))
       (first_with (get_str ''Name'') (not_found ''project'') name) None"

definition GetProjectIdByName ::
  "'w Gopher \<Rightarrow> OpenstackHelper \<Rightarrow> string \<Rightarrow> ('w, string res) state" where
  "GetProjectIdByName g h name =
     searching (ListProjects g h (JObj [(''Name'', JStr name)]))
       (\<lambda>xs. if first_id name xs = [] then ([], Some (not_found ''project'' name))
          else (first_id name xs, None)) []"

definition CreateProject ::
  "'w Gopher \<Rightarrow> OpenstackHelper \<Rightarrow> string \<Rightarrow> ('w, json option res) state" where
  "CreateProject g h name =
     g_extracted g ''projects'' ''Create'' (ctx_seconds 30) (oh_Identity h) [JObj [(''Name'', JStr name), (''Enabled'', JBool True)]]"

definition DeleteProject ::
  "'w Gopher \<Rightarrow> OpenstackHelper \<Rightarrow> string \<Rightarrow> ('w, go_error option) state" where
  "DeleteProject g h ident =
     g_err g ''projects'' ''Delete'' (ctx_seconds 30) (oh_Identity h) [JStr ident]"

definition ListUsers ::
  "'w Gopher \<Rightarrow> OpenstackHelper \<Rightarrow> json \<Rightarrow> ('w, json list res) state" where
  "ListUsers g h opts =
     do {
     (users, err) \<leftarrow> list_pages g ''users'' ''List'' ''ExtractUsers'' (oh_Identity h) [opts];
     on_err err (State_Monad.return (users, None)) (\<lambda>e. ([], Some e))
   }"

definition GetUserIdByName ::
  "'w Gopher \<Rightarrow> OpenstackHelper \<Rightarrow> string \<Rightarrow> ('w, string res) state" where
  "GetUserIdByName g h name =
     searching (ListUsers g h (JObj [(''Name'', JStr name)]))
       (\<lambda>xs. if first_id name xs = [] then ([], Some (not_found ''user'' name))
          else (first_id name xs, None)) []"

definition openstack_CreateUser ::
  "'w Gopher \<Rightarrow> OpenstackHelper \<Rightarrow> json \<Rightarrow> ('w, json option res) state" where
  "openstack_CreateUser g h opts =
     g_extracted g ''users'' ''Create'' (ctx_seconds 30) (oh_Identity h) [opts]"

definition GetUserByName ::
  "'w Gopher \<Rightarrow> OpenstackHelper \<Rightarrow> string \<Rightarrow> ('w, json option res) state" where
  "GetUserByName g h name =
     searching (list_pages g ''users'' ''List'' ''ExtractUsers'' (oh_Identity h)
         [JObj [(''Name'', JStr name)]])
       (first_with (get_str ''Name'') (not_found ''user'') name) None"

definition openstack_DeleteUser ::
  "'w Gopher \<Rightarrow> OpenstackHelper \<Rightarrow> string \<Rightarrow> ('w, go_error option) state" where
  "openstack_DeleteUser g h ident =
     g_err g ''users'' ''Delete'' (ctx_seconds 30) (oh_Identity h) [JStr ident]"

definition AddRole ::
  "'w Gopher \<Rightarrow> OpenstackHelper \<Rightarrow> string \<Rightarrow> json \<Rightarrow> ('w, go_error option) state" where
  "AddRole g h roleId opts =
     g_err g ''roles'' ''Assign'' (ctx_seconds 30) (oh_Identity h) [JStr roleId, opts]"

definition GetRoleByName ::
  "'w Gopher \<Rightarrow> OpenstackHelper \<Rightarrow> string \<Rightarrow> ('w, json option res) state" where
  "GetRoleByName g h name =
     searching (list_pages g ''roles'' ''List'' ''ExtractRoles'' (oh_Identity h)
         [JObj [(''Name'', JStr name)]])
       (first_with (get_str ''Name'') (not_found ''role'') name) None"

definition AssignRoleToUser ::
  "'w Gopher \<Rightarrow> OpenstackHelper \<Rightarrow> string \<Rightarrow> json \<Rightarrow> ('w, go_error option) state" where
  "AssignRoleToUser g h roleID opts =
     g_err g ''roles'' ''Assign'' (ctx_seconds 30) (oh_Identity h) [JStr roleID, opts]"

definition ListRoleAssignments ::
  "'w Gopher \<Rightarrow> OpenstackHelper \<Rightarrow> json \<Rightarrow> ('w, json list res) state" where
  "ListRoleAssignments g h opts =
     list_pages g ''roles'' ''ListAssignments'' ''ExtractRoleAssignments'' (oh_Identity h) [opts]"

definition UpdateComputeQuota ::
  "'w Gopher \<Rightarrow> OpenstackHelper \<Rightarrow> string \<Rightarrow> json \<Rightarrow> ('w, json option res) state" where
  "UpdateComputeQuota g h projectID updateOpts =
     g_extracted g ''compute/quotasets'' ''Update'' (ctx_seconds 30) (oh_Compute h) [JStr projectID, updateOpts]"

definition UpdateBlockStorageQuota ::
  "'w Gopher \<Rightarrow> OpenstackHelper \<Rightarrow> string \<Rightarrow> json \<Rightarrow> ('w, json option res) state" where
  "UpdateBlockStorageQuota g h projectID updateOpts =
     g_extracted g ''blockstorage/quotasets'' ''Update'' (ctx_seconds 30) (oh_Storage h) [JStr projectID, updateOpts]"

definition UpdateNetworkQuota ::
  "'w Gopher \<Rightarrow> OpenstackHelper \<Rightarrow> string \<Rightarrow> json \<Rightarrow> ('w, json option res) state" where
  "UpdateNetworkQuota g h projectID updateOpts =
     g_extracted g ''quotas'' ''Update'' (ctx_seconds 30) (oh_Network h) [JStr projectID, updateOpts]"

record ManilaQuotaSet =
  mq_Shares :: "int option"
  mq_Gigabytes :: "int option"
  mq_Snapshots :: "int option"
  mq_SnapshotGigabytes :: "int option"
  mq_ShareNetworks :: "int option"

text \<open>The request body; fields tagged \<open>omitempty\<close> are left out when nil.\<close>

definition quota_body :: "ManilaQuotaSet \<Rightarrow> json" where
  "quota_body q =
     (let field = (\<lambda>k v. case v of None \<Rightarrow> [] | Some n \<Rightarrow> [(k, JNum n)])
      in JObj [(''quota_set'', JObj (field ''shares'' (mq_Shares q) @ field ''gigabytes'' (mq_Gigabytes q)
           @ field ''snapshots'' (mq_Snapshots q) @ field ''snapshot_gigabytes'' (mq_SnapshotGigabytes q)
           @ field ''share_networks'' (mq_ShareNetworks q)))])"

text \<open>
  \<open>ServiceURL\<close> and \<open>Put\<close> of the service client, which sends the body and accepts the listed status
  codes; the answer is the status code of the response.
\<close>

definition UpdateSharedFileSystemQuota ::
  "(json option \<Rightarrow> string list \<Rightarrow> string)
    \<Rightarrow> (json option \<Rightarrow> string \<Rightarrow> json \<Rightarrow> int list \<Rightarrow> ('w, int option res) state)
    \<Rightarrow> OpenstackHelper \<Rightarrow> string \<Rightarrow> ManilaQuotaSet \<Rightarrow> ('w, go_error option outcome) state" where
  "UpdateSharedFileSystemQuota ServiceURL Put h projectID updateOpts = do {
     (resp, err) \<leftarrow> Put (oh_Share h) (ServiceURL (oh_Share h) [''os-quota-sets'', projectID])
        (quota_body updateOpts) [200, 201, 202];
     on_err err
       (deref resp (\<lambda>status. State_Monad.return (Return
          (if status \<noteq> 200 then Some (ErrText (''unexpected status code: '' @ Itoa status)) else None))))
       (\<lambda>e. Return (Some (Wrapped (''failed to update manila quotas: '' @ err_msg e) e)))
   }"

text \<open>The credential of EC2 kind; \<open>%s\<close> puts the keys between the quotes as they are.\<close>

definition ec2_blob :: "string \<Rightarrow> string \<Rightarrow> string" where
  "ec2_blob accessKey secretKey =
     ''{'' @ [CHR 0x22] @ ''access'' @ [CHR 0x22] @ '':'' @ [CHR 0x22] @ accessKey @ [CHR 0x22]
     @ '','' @ [CHR 0x22] @ ''secret'' @ [CHR 0x22] @ '':'' @ [CHR 0x22] @ secretKey @ [CHR 0x22] @ ''}''"

definition CreateEc2Credential ::
  "'w Gopher \<Rightarrow> OpenstackHelper \<Rightarrow> string \<Rightarrow> string \<Rightarrow> string \<Rightarrow> string \<Rightarrow> ('w, json option res) state" where
  "CreateEc2Credential g h userId projectId accessKey secretKey =
     g_extracted g ''credentials'' ''Create'' (ctx_seconds 30) (oh_Identity h) 
       [JObj [(''UserID'', JStr userId), (''ProjectID'', JStr projectId), (''Type'', JStr ''ec2''),
         (''Blob'', JStr (ec2_blob accessKey secretKey))]]"

definition ListEc2Credentials ::
  "'w Gopher \<Rightarrow> OpenstackHelper \<Rightarrow> json \<Rightarrow> ('w, json list res) state" where
  "ListEc2Credentials g h opts =
     list_pages g ''credentials'' ''List'' ''ExtractCredentials'' (oh_Identity h) [opts]"

definition DeleteEc2Credential ::
  "'w Gopher \<Rightarrow> OpenstackHelper \<Rightarrow> string \<Rightarrow> ('w, go_error option) state" where
  "DeleteEc2Credential g h ident =
     g_err g ''credentials'' ''Delete'' (ctx_seconds 30) (oh_Identity h) [JStr ident]"

definition ValidToken ::
  "'w Gopher \<Rightarrow> OpenstackHelper \<Rightarrow> string \<Rightarrow> ('w, go_error option) state" where
  "ValidToken g h token =
     g_err g ''tokens'' ''Get'' (ctx_seconds 30) (oh_Identity h) [JStr token]"

definition ListDomains ::
  "'w Gopher \<Rightarrow> OpenstackHelper \<Rightarrow> (json \<Rightarrow> string) \<Rightarrow> json \<Rightarrow> ('w, json list res) state" where
  "ListDomains g h show_opts opts =
     do {
     (domains, err) \<leftarrow> list_pages g ''domains'' ''List'' ''ExtractDomains'' (oh_Identity h) [opts];
     on_err err
       (State_Monad.return
         (if length domains = 0
          then ([], Some (ErrText (''no domains found with the provided options: '' @ show_opts opts)))
          else (domains, None)))
       (\<lambda>e. ([], Some e))
   }"

definition IsDomainExists ::
  "'w Gopher \<Rightarrow> OpenstackHelper \<Rightarrow> (json \<Rightarrow> string) \<Rightarrow> string \<Rightarrow> ('w, bool res) state" where
  "IsDomainExists g h show_opts name =
     searching (ListDomains g h show_opts (JObj [(''Name'', JStr name)]))
       (\<lambda>xs. (any_with (get_str ''Name'') name xs, None)) False"

text \<open>The token of the provider's last authentication, and the catalog it gives access to.\<close>

definition GetServiceCatalog ::
  "'w Gopher \<Rightarrow> (json option \<Rightarrow> string res) \<Rightarrow> OpenstackHelper \<Rightarrow> ('w, json option res) state" where
  "GetServiceCatalog g ExtractTokenID h =
     (case ExtractTokenID (oh_Provider h) of
        (_, Some e) \<Rightarrow> State_Monad.return (None, Some e)
      | (ident, None) \<Rightarrow> g_extracted g ''tokens'' ''GetServiceCatalog'' (ctx_seconds 30) (oh_Identity h) [JStr ident])"

end
