(* ===== verification/OpenstackLaws.thy ===== *)
theory OpenstackLaws
  imports OpenstackApi
begin

text \<open>
  What the openstack packages promise: how an openrc file is read, which options reach the
  authentication, that a helper is complete or not built, and what the searches answer.
\<close>

section \<open>Keywords in a line\<close>

lemma Contains_key_value:
  assumes "c \<notin> set sub" and "sub \<noteq> []"
  shows "Contains (x @ c # v) sub \<longleftrightarrow> Contains x sub \<or> Contains v sub"
proof
  assume "Contains (x @ c # v) sub"
  then obtain a b where eq: "x @ c # v = a @ sub @ b" by (auto simp: Contains_iff)
  from eq consider (early) us where "x = a @ us" "us @ c # v = sub @ b"
    | (late) us where "x @ us = a" "c # v = us @ sub @ b"
    by (auto simp: append_eq_append_conv2)
  then show "Contains x sub \<or> Contains v sub"
  proof cases
    case early
    from early(2) consider ts where "us = sub @ ts" | ts where "sub = us @ ts" "c # v = ts @ b"
      by (auto simp: append_eq_append_conv2)
    then show ?thesis
    proof cases
      case 1
      then show ?thesis using early(1) by (auto simp: Contains_iff)
    next
      case 2
      with assms(1) have "ts = []" by (cases ts) auto
      with 2 early(1) have "x = a @ sub @ []" by simp
      then show ?thesis unfolding Contains_iff by blast
    qed
  next
    case late
    show ?thesis
    proof (cases us)
      case Nil
      with late(2) assms show ?thesis by (cases sub) auto
    next
      case (Cons y ys)
      with late(2) show ?thesis by (auto simp: Contains_iff)
    qed
  qed
next
  assume "Contains x sub \<or> Contains v sub"
  then show "Contains (x @ c # v) sub"
  proof
    assume "Contains x sub"
    then obtain a b where "x = a @ sub @ b" by (auto simp: Contains_iff)
    then have "x @ c # v = a @ sub @ (b @ c # v)" by simp
    then show ?thesis unfolding Contains_iff by blast
  next
    assume "Contains v sub"
    then obtain a b where "v = a @ sub @ b" by (auto simp: Contains_iff)
    then have "x @ c # v = (x @ c # a) @ sub @ b" by simp
    then show ?thesis unfolding Contains_iff by blast
  qed
qed

lemma Contains_trans: "Contains s t \<Longrightarrow> Contains t u \<Longrightarrow> Contains s u"
  unfolding Contains_iff by (metis append.assoc)

lemma Contains_prefix: "\<not> Contains v p \<Longrightarrow> \<not> Contains v (p @ q)"
  unfolding Contains_iff by (metis append.assoc)

lemma Contains_Nil [simp]: "Contains [] sub \<longleftrightarrow> sub = []"
  by (subst Contains.simps) (auto simp: HasPrefix_def)

lemma Contains_Cons: "Contains (c # s) sub \<longleftrightarrow> take (length sub) (c # s) = sub \<or> Contains s sub"
  by (subst Contains.simps) (simp add: HasPrefix_def)

definition openrc_keys :: "string list" where
  "openrc_keys = [''OS_AUTH_URL'', ''OS_AUTH_TYPE'', ''OS_USERNAME'', ''OS_USER_DOMAIN_NAME'',
     ''OS_PASSWORD'', ''OS_PROJECT_NAME'', ''OS_PROJECT_DOMAIN_NAME'']"

definition set_key :: "string \<Rightarrow> string \<Rightarrow> os_option" where
  "set_key k v =
     (if k = ''OS_AUTH_URL'' then openstack_AuthUrl v else if k = ''OS_AUTH_TYPE'' then openstack_AuthType v
      else if k = ''OS_USERNAME'' then openstack_Username v
      else if k = ''OS_USER_DOMAIN_NAME'' then openstack_UserDomainName v
      else if k = ''OS_PASSWORD'' then openstack_Password v
      else if k = ''OS_PROJECT_NAME'' then openstack_ProjectName v
      else if k = ''OS_PROJECT_DOMAIN_NAME'' then openstack_ProjectDomainName v else (\<lambda>o1. o1))"

text \<open>A line of an openrc file, and a value that does not look like a keyword.\<close>

definition openrc_line :: "string \<times> string \<Rightarrow> string" where
  "openrc_line kv = ''export '' @ fst kv @ ''='' @ snd kv"

definition plain_value :: "string \<Rightarrow> bool" where
  "plain_value v \<longleftrightarrow> CHR 0x0A \<notin> set v \<and> (v = [] \<or> last v \<noteq> CHR 0x0D) \<and> \<not> Contains v ''OS_'' \<and> length v \<le> 60000"

lemma word1_line: "CHR ''='' \<notin> set k \<Longrightarrow>
    word1 (k @ CHR ''='' # v) = Return (takeWhile (\<lambda>c. c \<noteq> CHR ''='') v)"
proof -
  assume "CHR ''='' \<notin> set k"
  then have "Split (k @ CHR ''='' # v) (CHR ''='') = k # Split v (CHR ''='')"
    by (rule Split_append_sep)
  moreover obtain p ps where "Split v (CHR ''='') = p # ps" by (metis Split_not_Nil list.exhaust)
  ultimately show ?thesis using Split_hd [of v "CHR ''=''"] by (simp add: word1_def)
qed

lemma auth_file_line_openrc:
  assumes "k \<in> set openrc_keys" and "\<not> Contains v ''OS_''"
  shows "auth_file_line o1 (openrc_line (k, v)) = Return (set_key k (takeWhile (\<lambda>c. c \<noteq> CHR ''='') v) o1)"
proof -
  have v: "\<not> Contains v (''OS_'' @ q)" for q
    using assms(2) by (rule Contains_prefix)
  have eq: "openrc_line (k, v) = (''export '' @ k) @ CHR ''='' # v"
    by (simp add: openrc_line_def)
  have key: "CHR ''='' \<notin> set (''OS_'' @ q) \<Longrightarrow>
      Contains (openrc_line (k, v)) (''OS_'' @ q) \<longleftrightarrow> Contains (''export '' @ k) (''OS_'' @ q)" for q
    unfolding eq using v [of q] by (subst Contains_key_value) auto
  note keys = key [of "''AUTH_URL''"] key [of "''AUTH_TYPE''"] key [of "''USERNAME''"]
    key [of "''USER_DOMAIN_NAME''"] key [of "''PASSWORD''"] key [of "''PROJECT_NAME''"]
    key [of "''PROJECT_DOMAIN_NAME''"]
  have k: "CHR ''='' \<notin> set (''export '' @ k)"
    using assms(1) by (auto simp: openrc_keys_def)
  have w: "word1 (openrc_line (k, v)) = Return (takeWhile (\<lambda>c. c \<noteq> CHR ''='') v)"
    unfolding eq by (rule word1_line [OF k])
  from assms(1) have "k = ''OS_AUTH_URL'' \<or> k = ''OS_AUTH_TYPE'' \<or> k = ''OS_USERNAME''
      \<or> k = ''OS_USER_DOMAIN_NAME'' \<or> k = ''OS_PASSWORD'' \<or> k = ''OS_PROJECT_NAME''
      \<or> k = ''OS_PROJECT_DOMAIN_NAME''"
    by (simp add: openrc_keys_def)
  then show ?thesis using keys w
    by (elim disjE) (simp_all add: auth_file_line_def with_word1_def set_key_def Contains_Cons)
qed

section \<open>The openrc file\<close>

lemma auth_file_lines_openrc:
  assumes "\<And>k v. (k, v) \<in> set kvs \<Longrightarrow> k \<in> set openrc_keys \<and> \<not> Contains v ''OS_''"
  shows "auth_file_lines o1 (map openrc_line kvs) =
    Return (fold (\<lambda>(k, v). set_key k (takeWhile (\<lambda>c. c \<noteq> CHR ''='') v)) kvs o1)"
  using assms
proof (induction kvs arbitrary: o1)
  case Nil
  show ?case by simp
next
  case (Cons kv kvs)
  obtain k v where kv: "kv = (k, v)" by (cases kv)
  have "auth_file_line o1 (openrc_line (k, v)) = Return (set_key k (takeWhile (\<lambda>c. c \<noteq> CHR ''='') v) o1)"
    using Cons.prems [of k v] kv by (intro auth_file_line_openrc) auto
  moreover have "auth_file_lines o2 (map openrc_line kvs) =
      Return (fold (\<lambda>(k, v). set_key k (takeWhile (\<lambda>c. c \<noteq> CHR ''='') v)) kvs o2)" for o2
    by (rule Cons.IH) (use Cons.prems in auto)
  ultimately show ?case by (simp add: kv)
qed

lemma key_chars: "k \<in> set openrc_keys \<Longrightarrow> CHR 0x0A \<notin> set k \<and> length k \<le> 30"
  by (auto simp: openrc_keys_def)

lemma ScanLines_openrc:
  assumes "\<And>k v. (k, v) \<in> set kvs \<Longrightarrow> k \<in> set openrc_keys \<and> plain_value v"
  shows "ScanLines (concat (map (\<lambda>kv. openrc_line kv @ [CHR 0x0A]) kvs)) = map openrc_line kvs"
proof -
  have "CHR 0x0A \<notin> set l \<and> length l \<le> 65535 \<and> (l \<noteq> [] \<longrightarrow> last l \<noteq> CHR 0x0D)"
    if l: "l \<in> set (map openrc_line kvs)" for l
  proof -
    from l obtain k v where kv: "(k, v) \<in> set kvs" "l = openrc_line (k, v)" by auto
    with assms [OF kv(1)] key_chars [of k] show ?thesis
      by (auto simp: openrc_line_def plain_value_def)
  qed
  then have "ScanLines (concat (map (\<lambda>l. l @ [CHR 0x0A]) (map openrc_line kvs))) = map openrc_line kvs"
    by (rule ScanLines_lines)
  then show ?thesis by (simp add: comp_def)
qed

text \<open>
  C12. \<open>ParseAuthFile\<close> on an openrc file of \<open>export KEY=value\<close> lines sets each option its keys name,
  in the order of the lines, to the value up to its first \<open>=\<close>: values without \<open>=\<close> are read back
  exactly, and what follows an \<open>=\<close> inside a value (a padded secret, a URL query) is lost.
\<close>

theorem ParseAuthFile_reads_openrc:
  assumes "files (auth_File (os_Auth o1)) = Inr (concat (map (\<lambda>kv. openrc_line kv @ [CHR 0x0A]) kvs))"
    and "\<And>k v. (k, v) \<in> set kvs \<Longrightarrow> k \<in> set openrc_keys \<and> plain_value v"
  shows "ParseAuthFile files o1 =
    Return (fold (\<lambda>(k, v). set_key k (takeWhile (\<lambda>c. c \<noteq> CHR ''='') v)) kvs o1)"
  using assms by (simp add: ParseAuthFile_def ScanLines_openrc auth_file_lines_openrc plain_value_def)

definition demo_openrc :: "(string \<times> string) list" where
  "demo_openrc = [(''OS_USERNAME'', ''admin''), (''OS_PASSWORD'', ''a=b'')]"

lemma ParseAuthFile_reads_openrc_witness:
  "ParseAuthFile (\<lambda>_. Inr (concat (map (\<lambda>kv. openrc_line kv @ [CHR 0x0A]) demo_openrc))) openstack_zero
   = Return (openstack_Password ''a'' (openstack_Username ''admin'' openstack_zero))"
proof -
  have "k \<in> set openrc_keys \<and> plain_value v" if "(k, v) \<in> set demo_openrc" for k v
    using that by (auto simp: demo_openrc_def openrc_keys_def plain_value_def Contains_Cons)
  from ParseAuthFile_reads_openrc [where kvs = demo_openrc and ?o1.0 = openstack_zero
      and files = "\<lambda>_. Inr (concat (map (\<lambda>kv. openrc_line kv @ [CHR 0x0A]) demo_openrc))", OF refl this]
  have "ParseAuthFile (\<lambda>_. Inr (concat (map (\<lambda>kv. openrc_line kv @ [CHR 0x0A]) demo_openrc))) openstack_zero
    = Return (fold (\<lambda>(k, v). set_key k (takeWhile (\<lambda>c. c \<noteq> CHR ''='') v)) demo_openrc openstack_zero)" .
  also have "fold (\<lambda>(k, v). set_key k (takeWhile (\<lambda>c. c \<noteq> CHR ''='') v)) demo_openrc openstack_zero
    = openstack_Password ''a'' (openstack_Username ''admin'' openstack_zero)"
    by (simp add: demo_openrc_def set_key_def)
  finally show ?thesis .
qed

lemma word1_Panic: "(\<exists>p. word1 line = Panic p) \<longleftrightarrow> CHR ''='' \<notin> set line"
proof -
  have "word1 line = Panic IndexOutOfRange \<longleftrightarrow> count_list line (CHR ''='') = 0"
    by (simp add: word1_def length_Split)
  then show ?thesis by (auto simp: word1_def Let_def count_list_0_iff split: if_splits)
qed

lemma auth_file_line_Panic:
  "(\<exists>p. auth_file_line o1 line = Panic p) \<longleftrightarrow>
     (\<exists>k \<in> set openrc_keys. Contains line k) \<and> CHR ''='' \<notin> set line"
proof -
  have "(\<exists>p. with_word1 line f = Panic p) \<longleftrightarrow> CHR ''='' \<notin> set line" for f :: "string \<Rightarrow> os_options"
    using word1_Panic [of line] by (auto simp: with_word1_def split: outcome.splits)
  then show ?thesis by (auto simp: auth_file_line_def openrc_keys_def)
qed

lemma auth_file_lines_Panic:
  "(\<exists>p. auth_file_lines o1 ls = Panic p) \<longleftrightarrow>
     (\<exists>line \<in> set ls. (\<exists>k \<in> set openrc_keys. Contains line k) \<and> CHR ''='' \<notin> set line)"
proof (induction ls arbitrary: o1)
  case Nil
  show ?case by simp
next
  case (Cons l ls)
  show ?case
  proof (cases "auth_file_line o1 l")
    case (Panic p)
    then show ?thesis using auth_file_line_Panic [of o1 l] by auto
  next
    case (Return o2)
    then have "\<not> ((\<exists>k \<in> set openrc_keys. Contains l k) \<and> CHR ''='' \<notin> set l)"
      using auth_file_line_Panic [of o1 l] by auto
    with Return Cons [of o2] show ?thesis by auto
  qed
qed

text \<open>
  C24. \<open>ParseAuthFile\<close> panics exactly when a scanned line has one of the keywords and no \<open>=\<close>; it
  ignores a file it cannot open.
\<close>

theorem ParseAuthFile_panics_iff:
  "(\<exists>p. ParseAuthFile files o1 = Panic p) \<longleftrightarrow>
     (\<exists>text. files (auth_File (os_Auth o1)) = Inr text
        \<and> (\<exists>line \<in> set (ScanLines text). (\<exists>k \<in> set openrc_keys. Contains line k) \<and> CHR ''='' \<notin> set line))"
  by (cases "files (auth_File (os_Auth o1))")
    (simp_all add: ParseAuthFile_def auth_file_lines_Panic)

text \<open>A file that never names the project leaves it as it was.\<close>

lemma auth_file_lines_project:
  assumes "auth_file_lines o1 ls = Return o2" and "\<forall>line \<in> set ls. \<not> Contains line ''OS_PROJECT_NAME''"
  shows "prj_Name (os_Project o2) = prj_Name (os_Project o1)"
  using assms
proof (induction ls arbitrary: o1)
  case (Cons l ls)
  then obtain o3 where o3: "auth_file_line o1 l = Return o3" "auth_file_lines o3 ls = Return o2"
    by (auto split: outcome.splits)
  have "prj_Name (os_Project o3) = prj_Name (os_Project o1)"
    using o3(1) Cons.prems(2)
    by (auto simp: auth_file_line_def with_word1_def openstack_AuthUrl_def openstack_AuthType_def openstack_Username_def
        openstack_UserDomainName_def openstack_Password_def openstack_ProjectDomainName_def
        split: if_splits outcome.splits)
  with Cons.IH [OF o3(2)] Cons.prems(2) show ?case by simp
qed simp

text \<open>
  C31. Where the project of the authentication options comes from, when no option sets one. With the
  authentication type \<open>env\<close> it is the one that gophercloud itself reads from the environment. With any other type
  it is not: \<open>NewConf\<close> stores \<open>OS_PROJECT_NAME\<close> as the tenant, and \<open>GenAuthOpts\<close> takes the tenant name
  from the project, which is empty unless the source is a file and the file names one. The
  system scope is lost for these types too, whatever \<open>OS_SYSTEM_SCOPE\<close> says.
\<close>

theorem environment_project_only_by_env_type:
  assumes "\<forall>opt \<in> set opts. \<forall>o1. os_Project (opt o1) = os_Project o1"
    and "syncOptions env opts = (Some o1, None)"
  shows "(auth_Type (os_Auth o1) = ''env'' \<longrightarrow> from_env = (ao, None) \<longrightarrow>
      GenAuthOpts files from_env o1 =
        Return ((ao\<lparr>ao_AllowReauth := auth_EnableAutoRenew (os_Auth o1)\<rparr>, None), o1))
   \<and> (auth_Type (os_Auth o1) \<noteq> ''env'' \<longrightarrow> auth_Source (os_Auth o1) \<noteq> ''file'' \<longrightarrow>
      (\<exists>ao. GenAuthOpts files from_env o1 = Return ((ao, None), o1)
        \<and> ao_TenantName ao = [] \<and> ao_TenantID ao = [] \<and> ao_Scope ao = None
        \<and> ao_Username ao = usr_Name (os_User o1) \<and> ao_IdentityEndpoint ao = auth_Url (os_Auth o1)))
   \<and> (auth_Type (os_Auth o1) \<noteq> ''env'' \<longrightarrow> auth_Source (os_Auth o1) = ''file'' \<longrightarrow>
      (\<forall>ao err o2. GenAuthOpts files from_env o1 = Return ((ao, err), o2) \<longrightarrow>
        err = None \<and> ParseAuthFile files o1 = Return o2
        \<and> ao_TenantName ao = prj_Name (os_Project o2) \<and> ao_TenantID ao = [] \<and> ao_Scope ao = None
        \<and> ((\<forall>text. files (auth_File (os_Auth o1)) = Inr text \<longrightarrow>
              (\<forall>line \<in> set (ScanLines text). \<not> Contains line ''OS_PROJECT_NAME'')) \<longrightarrow> ao_TenantName ao = [])))
   \<and> ten_Name (os_Tenant (fst (NewConf env))) = env ''OS_PROJECT_NAME''"
proof -
  have "os_Project (the (fst (syncOptions env opts))) = os_Project (fst (NewConf env))"
    by (rule os_opts.default_kept) (use assms(1) in blast)
  then have project: "os_Project o1 = no_project"
    using assms(2) by (simp add: NewConf_def openstack_zero_def Let_def)
  have "ao_TenantName ao = []" if "GenAuthOpts files from_env o1 = Return ((ao, err), o2)"
    "auth_Type (os_Auth o1) \<noteq> ''env''" "auth_Source (os_Auth o1) = ''file''"
    "\<forall>text. files (auth_File (os_Auth o1)) = Inr text \<longrightarrow>
      (\<forall>line \<in> set (ScanLines text). \<not> Contains line ''OS_PROJECT_NAME'')" for ao err o2
  proof -
    from that(1-3) have o2: "ParseAuthFile files o1 = Return o2" "ao_TenantName ao = prj_Name (os_Project o2)"
      by (auto simp: GenAuthOpts_def Let_def split: outcome.splits)
    have "prj_Name (os_Project o2) = prj_Name (os_Project o1)"
    proof (cases "files (auth_File (os_Auth o1))")
      case (Inl e)
      with o2(1) show ?thesis by (simp add: ParseAuthFile_def)
    next
      case (Inr content)
      with o2(1) that(4) show ?thesis
        by (intro auth_file_lines_project [of _ "ScanLines content"]) (simp_all add: ParseAuthFile_def)
    qed
    with o2(2) project show ?thesis by (simp add: no_project_def)
  qed
  moreover have "err = None \<and> ParseAuthFile files o1 = Return o2
      \<and> ao_TenantName ao = prj_Name (os_Project o2) \<and> ao_TenantID ao = [] \<and> ao_Scope ao = None"
    if "GenAuthOpts files from_env o1 = Return ((ao, err), o2)"
      "auth_Type (os_Auth o1) \<noteq> ''env''" "auth_Source (os_Auth o1) = ''file''" for ao err o2
    using that by (auto simp: GenAuthOpts_def no_auth_def Let_def split: outcome.splits)
  moreover have "auth_Type (os_Auth o1) = ''env'' \<Longrightarrow> from_env = (ao, None) \<Longrightarrow> GenAuthOpts files from_env o1 =
      Return ((ao\<lparr>ao_AllowReauth := auth_EnableAutoRenew (os_Auth o1)\<rparr>, None), o1)"
    by (simp add: GenAuthOpts_def ParseAuthEnv_def)
  moreover have "auth_Type (os_Auth o1) \<noteq> ''env'' \<Longrightarrow> auth_Source (os_Auth o1) \<noteq> ''file'' \<Longrightarrow>
      \<exists>ao. GenAuthOpts files from_env o1 = Return ((ao, None), o1)
        \<and> ao_TenantName ao = [] \<and> ao_TenantID ao = [] \<and> ao_Scope ao = None
        \<and> ao_Username ao = usr_Name (os_User o1) \<and> ao_IdentityEndpoint ao = auth_Url (os_Auth o1)"
    using project by (simp add: GenAuthOpts_def no_auth_def no_project_def Let_def)
  moreover have "ten_Name (os_Tenant (fst (NewConf env))) = env ''OS_PROJECT_NAME''"
    by (simp add: NewConf_def Let_def)
  ultimately show ?thesis by blast
qed

lemma environment_project_only_by_env_type_witness:
  "\<exists>o1 ao. syncOptions (\<lambda>k. if k = ''OS_PROJECT_NAME'' then ''demo'' else if k = ''OS_SYSTEM_SCOPE'' then ''all'' else [])
      [openstack_Username ''admin''] = (Some o1, None)
    \<and> GenAuthOpts (\<lambda>_. Inl (ErrText ''no file'')) (no_auth, None) o1 = Return ((ao, None), o1)
    \<and> ao_TenantName ao = [] \<and> ao_Scope ao = None \<and> ao_Username ao = ''admin''"
proof -
  let ?env = "\<lambda>k. if k = ''OS_PROJECT_NAME'' then ''demo'' else if k = ''OS_SYSTEM_SCOPE'' then ''all'' else []"
  let ?opts = "[openstack_Username ''admin'']"
  obtain o1 where o1: "syncOptions ?env ?opts = (Some o1, None)" "auth_Type (os_Auth o1) = []"
    "auth_Source (os_Auth o1) = []" "usr_Name (os_User o1) = ''admin''"
    by (simp add: syncOptions_def NewConf_def openstack_Username_def openstack_zero_def Let_def)
  have "\<forall>opt \<in> set ?opts. \<forall>o2. os_Project (opt o2) = os_Project o2"
    by (simp add: openstack_Username_def)
  from environment_project_only_by_env_type [where opts = ?opts and env = ?env and ?o1.0 = o1
      and files = "\<lambda>_. Inl (ErrText ''no file'')" and from_env = "(no_auth, None)", OF this o1(1)] o1
  show ?thesis by auto
qed

section \<open>Construction of the helper\<close>

definition all_clients ::
  "'w OpenstackSdk \<Rightarrow> getenv \<Rightarrow> json option \<Rightarrow> ('w, json option res) state list" where
  "all_clients sdk env provider =
     [newIdentityCli sdk env provider, newComputeCli sdk env provider, newImageCli sdk env provider,
      newNetworkCli sdk env provider, newDnsCli sdk env provider, newLoadBalancerCli sdk env provider,
      newStorageCli sdk env provider, newShareCli sdk env provider, newObjectStoreCli sdk env provider]"

lemma then_client_ok:
  "(\<exists>h. run_state (then_client new k) w = ((Some h, None), w')) \<longleftrightarrow>
     (\<exists>c w1. run_state new w = ((c, None), w1) \<and> (\<exists>h. run_state (k c) w1 = ((Some h, None), w')))"
  by (auto simp: then_client_def on_err_def split: prod.splits option.splits)

lemma all_ok_Cons_ok:
  "all_ok None only_err (new # news) w = Some w' \<longleftrightarrow>
     (\<exists>c w1. run_state new w = ((c, None), w1) \<and> all_ok None only_err news w1 = Some w')"
  by (auto split: prod.splits)

lemma clients_of_ok_iff:
  "(\<exists>h. run_state (clients_of sdk env provider) w = ((Some h, None), w')) \<longleftrightarrow>
     all_ok None only_err (all_clients sdk env provider) w = Some w'"
  unfolding clients_of_def all_clients_def then_client_ok all_ok_Cons_ok by simp

text \<open>A constructor that answers a value or an error, never both and never neither.\<close>

definition one_answer :: "('w, 'a option res) state \<Rightarrow> bool" where
  "one_answer m \<longleftrightarrow> (\<forall>w h err w'. run_state m w = ((h, err), w') \<longrightarrow> (h = None) = (err \<noteq> None))"

lemma one_answer_return: "one_answer (State_Monad.return (Some h, None))"
  by (simp add: one_answer_def)

lemma one_answer_then: "(\<And>c. one_answer (k c)) \<Longrightarrow> one_answer (then_client new k)"
  unfolding one_answer_def by (auto simp: then_client_def on_err_def split: prod.splits option.splits)

lemma clients_of_answers:
  "run_state (clients_of sdk env provider) w = ((h, err), w') \<Longrightarrow> (h = None) = (err \<noteq> None)"
proof -
  have "one_answer (clients_of sdk env provider)"
    unfolding clients_of_def by (intro one_answer_then one_answer_return)
  then show "run_state (clients_of sdk env provider) w = ((h, err), w') \<Longrightarrow> (h = None) = (err \<noteq> None)"
    unfolding one_answer_def by blast
qed

text \<open>
  C23. \<open>NewHelper\<close> is all or nothing: once the provider is authenticated it returns a helper exactly
  when the nine service clients could be made one after the other, otherwise nil with an error;
  the helper's own options stay nil.
\<close>

theorem openstack_NewHelper_complete:
  assumes "run_state (newProvider sdk files env opts) w = (Return (provider, None), w1)"
  shows "((\<exists>h. run_state (openstack_NewHelper sdk files env opts) w = (Return (Some h, None), w'))
      \<longleftrightarrow> all_ok None only_err (all_clients sdk env provider) w1 = Some w')
    \<and> (\<forall>h err. run_state (openstack_NewHelper sdk files env opts) w = (Return (h, err), w')
      \<longrightarrow> (h = None) = (err \<noteq> None))"
proof -
  have run: "run_state (openstack_NewHelper sdk files env opts) w =
      (case run_state (clients_of sdk env provider) w1 of (h, v) \<Rightarrow> (Return h, v))"
    using assms by (simp add: openstack_NewHelper_def split: prod.splits)
  then have "(\<exists>h. run_state (openstack_NewHelper sdk files env opts) w = (Return (Some h, None), w'))
      \<longleftrightarrow> (\<exists>h. run_state (clients_of sdk env provider) w1 = ((Some h, None), w'))"
    by (auto split: prod.splits)
  moreover have "(h = None) = (err \<noteq> None)"
    if "run_state (openstack_NewHelper sdk files env opts) w = (Return (h, err), w')" for h err
  proof (rule clients_of_answers)
    show "run_state (clients_of sdk env provider) w1 = ((h, err), w')"
      using that run by (auto split: prod.splits)
  qed
  ultimately show ?thesis by (simp only: clients_of_ok_iff) blast
qed

definition demo_service :: "string \<Rightarrow> json option \<Rightarrow> EndpointOpts \<Rightarrow> (string list, json option res) state" where
  "demo_service name provider eo = State (\<lambda>w. ((Some (JStr name), None), w @ [name]))"

definition demo_sdk :: "bool \<Rightarrow> string list OpenstackSdk" where
  "demo_sdk dns = \<lparr>AuthOptionsFromEnv = (no_auth, None),
     AuthenticatedClient = \<lambda>_ _. State_Monad.return (Some JNull, None),
     NewIdentityV3 = demo_service ''identity'', NewComputeV2 = demo_service ''compute'',
     NewImageV2 = demo_service ''image'', NewNetworkV2 = demo_service ''network'',
     NewDNSV2 = (if dns then demo_service ''dns'' else (\<lambda>_ _. State_Monad.return (None, Some (ErrText ''no endpoint'')))),
     NewLoadBalancerV2 = demo_service ''lb'', NewBlockStorageV3 = demo_service ''storage'',
     NewSharedFileSystemV2 = demo_service ''share'', NewObjectStorageV1 = demo_service ''object''\<rparr>"

lemma openstack_NewHelper_complete_witness:
  "(\<exists>h. run_state (openstack_NewHelper (demo_sdk True) (\<lambda>_. Inl (ErrText ''none'')) (\<lambda>_. []) []) []
      = (Return (Some h, None), [''identity'', ''compute'', ''image'', ''network'', ''dns'', ''lb'',
          ''storage'', ''share'', ''object'']))
   \<and> \<not> (\<exists>h w'. run_state (openstack_NewHelper (demo_sdk False) (\<lambda>_. Inl (ErrText ''none'')) (\<lambda>_. []) []) []
      = (Return (Some h, None), w'))"
proof -
  have p: "run_state (newProvider (demo_sdk d) (\<lambda>_. Inl (ErrText ''none'')) (\<lambda>_. []) []) []
      = (Return (Some JNull, None), [])" for d
    by (simp add: newProvider_def syncOptions_def NewConf_def GenAuthOpts_def demo_sdk_def openstack_zero_def Let_def)
  note defs = all_clients_def demo_sdk_def newIdentityCli_def newComputeCli_def newImageCli_def
    newNetworkCli_def newDnsCli_def newLoadBalancerCli_def newStorageCli_def newShareCli_def
    newObjectStoreCli_def demo_service_def
  let ?new = "\<lambda>d. openstack_NewHelper (demo_sdk d) (\<lambda>_. Inl (ErrText ''none'')) (\<lambda>_. []) []"
  have ok: "all_ok None only_err (all_clients (demo_sdk True) (\<lambda>_. []) (Some JNull)) []
      = Some [''identity'', ''compute'', ''image'', ''network'', ''dns'', ''lb'', ''storage'', ''share'', ''object'']"
    and bad: "all_ok None only_err (all_clients (demo_sdk False) (\<lambda>_. []) (Some JNull)) [] = None"
    by (simp_all add: defs)
  have iff: "(\<exists>h. run_state (?new d) [] = (Return (Some h, None), w')) \<longleftrightarrow>
      all_ok None only_err (all_clients (demo_sdk d) (\<lambda>_. []) (Some JNull)) [] = Some w'" for d w'
    by (rule openstack_NewHelper_complete [OF p, THEN conjunct1])
  have "\<nexists>h. run_state (?new False) [] = (Return (Some h, None), w')" for w'
    using iff [of False w'] unfolding bad by blast
  moreover have "\<exists>h. run_state (?new True) [] = (Return (Some h, None), [''identity'', ''compute'', ''image'',
      ''network'', ''dns'', ''lb'', ''storage'', ''share'', ''object''])"
    using iff [of True] ok by blast
  ultimately show ?thesis by blast
qed

section \<open>Searches\<close>

lemma run_searching:
  "run_state listing w = ((xs, None), w') \<Longrightarrow> run_state (searching listing search zero) w = (search xs, w')"
  "run_state listing w = ((xs, Some e), w') \<Longrightarrow> run_state (searching listing search zero) w = ((zero, Some e), w')"
  by (simp_all add: searching_def)

lemma any_with_iff: "any_with key k xs \<longleftrightarrow> find (\<lambda>x. key x = k) xs \<noteq> None"
  by (induction xs) auto

lemma first_id_find:
  "first_id name xs = (case find (\<lambda>x. get_str ''Name'' x = name) xs of None \<Rightarrow> [] | Some x \<Rightarrow> get_str ''ID'' x)"
  by (induction xs) auto

text \<open>
  C32. The three project lookups agree on one listing: \<open>IsProjectExists\<close> says whether one has the
  name, \<open>GetProjectByName\<close> returns the first that has it, and \<open>GetProjectIdByName\<close> the identifier of
  that one, except that it reports a project with an empty identifier as not found.
\<close>

theorem project_lookups_agree:
  assumes "run_state (ListProjects g h (JObj [(''Name'', JStr name)])) w = ((xs, None), w')"
  shows "run_state (IsProjectExists g h name) w
      = ((find (\<lambda>x. get_str ''Name'' x = name) xs \<noteq> None, None), w')
    \<and> run_state (GetProjectByName g h name) w = (case find (\<lambda>x. get_str ''Name'' x = name) xs of
        Some x \<Rightarrow> ((Some x, None), w') | None \<Rightarrow> ((None, Some (not_found ''project'' name)), w'))
    \<and> run_state (GetProjectIdByName g h name) w = (case find (\<lambda>x. get_str ''Name'' x = name) xs of
        Some x \<Rightarrow> if get_str ''ID'' x \<noteq> [] then ((get_str ''ID'' x, None), w')
          else (([], Some (not_found ''project'' name)), w')
      | None \<Rightarrow> (([], Some (not_found ''project'' name)), w'))"
  by (cases "find (\<lambda>x. get_str ''Name'' x = name) xs")
    (simp_all add: IsProjectExists_def GetProjectByName_def GetProjectIdByName_def
      run_searching(1) [OF assms] name_search.search_find any_with_iff first_id_find)

definition demo_gopher :: "json list \<Rightarrow> unit Gopher" where
  "demo_gopher xs = \<lparr>g_extracted = \<lambda>_ _ _ _ _. State_Monad.return (None, None),
     g_err = \<lambda>_ _ _ _ _. State_Monad.return None,
     g_pages = \<lambda>_ _ _ _ _. State_Monad.return (Some JNull, None), g_extract = \<lambda>_ _. (xs, None)\<rparr>"

definition demo_os_helper :: OpenstackHelper where
  "demo_os_helper = \<lparr>oh_Provider = None, oh_Identity = None, oh_Compute = None, oh_Image = None,
     oh_Network = None, oh_Dns = None, oh_Loadbalancer = None, oh_Storage = None, oh_Share = None,
     oh_ObjectStore = None, oh_Options = None\<rparr>"

definition demo_project :: json where
  "demo_project = JObj [(''Name'', JStr ''demo''), (''ID'', JStr ''p1'')]"

lemma project_lookups_agree_witness:
  "run_state (GetProjectIdByName (demo_gopher [demo_project]) demo_os_helper ''demo'') () = ((''p1'', None), ())"
proof -
  have "run_state (ListProjects (demo_gopher [demo_project]) demo_os_helper (JObj [(''Name'', JStr ''demo'')])) ()
      = (([demo_project], None), ())"
    by (simp add: ListProjects_def list_pages_def demo_gopher_def)
  from project_lookups_agree [OF this] show ?thesis
    by (simp add: demo_project_def get_str_def get_field_def)
qed

text \<open>
  A missing domain and a missing project are not reported alike: when the listing by name is
  empty \<open>IsProjectExists\<close> answers false, while \<open>IsDomainExists\<close> fails with an error, because
  \<open>ListDomains\<close> treats an empty listing as a failure.
\<close>

theorem missing_domain_is_an_error:
  assumes "run_state (list_pages g ''domains'' ''List'' ''ExtractDomains'' (oh_Identity h)
      [JObj [(''Name'', JStr name)]]) w = (([], None), w1)"
    and "run_state (ListProjects g h (JObj [(''Name'', JStr name)])) w = (([], None), w2)"
  shows "(\<exists>e. run_state (IsDomainExists g h show_opts name) w = ((False, Some e), w1))
    \<and> run_state (IsProjectExists g h name) w = ((False, None), w2)"
proof
  show "\<exists>e. run_state (IsDomainExists g h show_opts name) w = ((False, Some e), w1)"
    using assms(1) by (simp add: IsDomainExists_def ListDomains_def searching_def)
  show "run_state (IsProjectExists g h name) w = ((False, None), w2)"
    by (simp add: IsProjectExists_def run_searching(1) [OF assms(2)])
qed

lemma missing_domain_is_an_error_witness:
  "(\<exists>e. run_state (IsDomainExists (demo_gopher []) demo_os_helper json_Marshal ''x'') () = ((False, Some e), ()))
   \<and> run_state (IsProjectExists (demo_gopher []) demo_os_helper ''x'') () = ((False, None), ())"
  by (rule missing_domain_is_an_error)
    (simp_all add: list_pages_def ListProjects_def demo_gopher_def)

text \<open>
  \<open>GetPortByNetIdAndIp\<close> returns the first port of the listing that is in the network and has
  the address, and the error that there is none otherwise.
\<close>

theorem GetPortByNetIdAndIp_first:
  assumes "run_state (list_pages g ''ports'' ''List'' ''ExtractPorts'' (oh_Network h)
      [JObj [(''NetworkID'', JStr netId), (''FixedIPs'', JArr [JObj [(''IPAddress'', JStr ip)]])]]) w
    = ((ports, None), w')"
  shows "run_state (GetPortByNetIdAndIp g h netId ip) w =
    (case find (\<lambda>p. get_str ''NetworkID'' p = netId \<and> ip \<in> set (fixed_ips p)) ports of
       Some p \<Rightarrow> ((Some p, None), w')
     | None \<Rightarrow> ((None, Some (ErrText (''port with ip '' @ ip @ '' not found in network '' @ netId))), w'))"
proof -
  have ip: "has_ip ip as \<longleftrightarrow> ip \<in> set as" for as
    by (induction as) auto
  have "port_with_ip netId ip ports =
      (case find (\<lambda>p. get_str ''NetworkID'' p = netId \<and> ip \<in> set (fixed_ips p)) ports of
         Some p \<Rightarrow> (Some p, None)
       | None \<Rightarrow> (None, Some (ErrText (''port with ip '' @ ip @ '' not found in network '' @ netId))))"
    by (induction ports) (auto simp: ip)
  then show ?thesis
    by (simp add: GetPortByNetIdAndIp_def run_searching(1) [OF assms] split: option.splits)
qed

lemma GetPortByNetIdAndIp_first_witness:
  "run_state (GetPortByNetIdAndIp (demo_gopher [JObj [(''NetworkID'', JStr ''n''),
       (''FixedIPs'', JArr [JObj [(''IPAddress'', JStr ''10.0.0.9'')]])]]) demo_os_helper ''n'' ''10.0.0.8'') ()
     = ((None, Some (ErrText (''port with ip '' @ ''10.0.0.8'' @ '' not found in network '' @ ''n''))), ())"
proof -
  let ?ps = "[JObj [(''NetworkID'', JStr ''n''), (''FixedIPs'', JArr [JObj [(''IPAddress'', JStr ''10.0.0.9'')]])]]"
  have "run_state (list_pages (demo_gopher ?ps) ''ports'' ''List'' ''ExtractPorts'' (oh_Network demo_os_helper)
      [JObj [(''NetworkID'', JStr ''n''), (''FixedIPs'', JArr [JObj [(''IPAddress'', JStr ''10.0.0.8'')]])]]) ()
    = ((?ps, None), ())"
    by (simp add: list_pages_def demo_gopher_def)
  from GetPortByNetIdAndIp_first [OF this] show ?thesis
    by (simp add: get_str_def get_field_def fixed_ips_def del: append.simps)
qed

text \<open>
  \<open>UpdateSharedFileSystemQuota\<close> asks \<open>Put\<close> to accept the codes 200, 201 and 202, but reports
  success for 200 only: an update the server accepted with 201 or 202 comes back as an error.
\<close>

theorem UpdateSharedFileSystemQuota_only_200:
  assumes "run_state (Put (oh_Share h) (ServiceURL (oh_Share h) [''os-quota-sets'', projectID])
      (quota_body q) [200, 201, 202]) w = ((Some status, None), w')"
  shows "\<exists>err. run_state (UpdateSharedFileSystemQuota ServiceURL Put h projectID q) w = (Return err, w')
    \<and> (err = None \<longleftrightarrow> status = 200)"
  using assms by (auto simp: UpdateSharedFileSystemQuota_def)

lemma UpdateSharedFileSystemQuota_only_200_witness:
  "\<exists>err. run_state (UpdateSharedFileSystemQuota (\<lambda>_ _. ''url'')
       (\<lambda>_ _ _ _. State_Monad.return (Some 202, None)) demo_os_helper ''p''
       \<lparr>mq_Shares = Some 3, mq_Gigabytes = None, mq_Snapshots = None, mq_SnapshotGigabytes = None,
         mq_ShareNetworks = None\<rparr>) () = (Return err, ()) \<and> (err = None \<longleftrightarrow> (202 :: int) = 200)"
  by (rule UpdateSharedFileSystemQuota_only_200) simp

end
