(* ===== verification/OpenstackVersions.thy ===== *)
theory OpenstackVersions
  imports OpenstackLaws
begin

text \<open>
  The two versions of package openstack side by side: \<open>NewConf\<close> of v1 and \<open>ParseAuthFile\<close> of v2 are
  two loops over the lines of an openrc file. Both compute one reference reading of the file, on top of
  what they start from: nothing for version 1, the environment and the caller's options for version 2.
\<close>

text \<open>The seven values of the file, where each version keeps them.\<close>

definition v1_values :: "osv1_options \<Rightarrow> string list" where
  "v1_values o1 = [v1_IdentityEndpoint o1, v1_AuthType o1, v1_Username o1, v1_UserDomainName o1,
     v1_Password o1, v1_TenantName o1, v1_ProjectDomainName o1]"

definition v2_values :: "os_options \<Rightarrow> string list" where
  "v2_values o2 = [auth_Url (os_Auth o2), auth_Type (os_Auth o2), usr_Name (os_User o2),
     dom_Name (usr_Domain (os_User o2)), os_Password o2, prj_Name (os_Project o2),
     dom_Name (prj_Domain (os_Project o2))]"

text \<open>
  The reference: the value that a file sets for each of the seven keys, \<open>None\<close> for a key it does not
  set. A line belongs to the first key it contains, and a later line overrides.
\<close>

fun key_index :: "string \<Rightarrow> string list \<Rightarrow> nat" where
  "key_index line [] = 0"
| "key_index line (k # ks) = (if Contains line k then 0 else Suc (key_index line ks))"

definition file_line :: "string option list \<Rightarrow> string \<Rightarrow> string option list outcome" where
  "file_line vs line = (let i = key_index line openrc_keys in
     if i < length openrc_keys then with_word1 line (\<lambda>v. vs[i := Some v]) else Return vs)"

fun file_lines :: "string option list \<Rightarrow> string list \<Rightarrow> string option list outcome" where
  "file_lines vs [] = Return vs"
| "file_lines vs (line # ls) =
     (case file_line vs line of Panic p \<Rightarrow> Panic p | Return vs' \<Rightarrow> file_lines vs' ls)"

definition file_settings :: "string \<Rightarrow> string option list outcome" where
  "file_settings content = file_lines (replicate 7 None) (ScanLines content)"

definition over :: "string list \<Rightarrow> string option list \<Rightarrow> string list" where
  "over olds vs = map2 (\<lambda>old v. case v of None \<Rightarrow> old | Some x \<Rightarrow> x) olds vs"

lemma over_nothing: "over olds (replicate (length olds) None) = olds"
  by (simp add: over_def list_eq_iff_nth_eq)

lemma over_update:
  "length vs = length olds \<Longrightarrow> i < length olds \<Longrightarrow> over olds (vs[i := Some x]) = (over olds vs)[i := x]"
  by (simp add: over_def list_eq_iff_nth_eq nth_list_update)

lemma length_values [simp]: "length (v1_values o1) = 7" "length (v2_values o2) = 7"
  by (simp_all add: v1_values_def v2_values_def)

text \<open>A reading of the file and the options of a version, whose values are read by \<open>vals\<close>.\<close>

fun agrees :: "('o \<Rightarrow> string list) \<Rightarrow> string list \<Rightarrow> string option list outcome \<Rightarrow> 'o outcome \<Rightarrow> bool" where
  "agrees vals olds (Panic p) (Panic q) = (p = q)"
| "agrees vals olds (Return vs) (Return opts) = (length vs = 7 \<and> vals opts = over olds vs)"
| "agrees vals olds _ _ = False"

lemma v1_update:
  "v1_values (osv1_IdentityEndpoint v o1) = (v1_values o1)[0 := v]"
  "v1_values (osv1_AuthType v o1) = (v1_values o1)[1 := v]"
  "v1_values (osv1_Username v o1) = (v1_values o1)[2 := v]"
  "v1_values (osv1_UserDomainName v o1) = (v1_values o1)[3 := v]"
  "v1_values (osv1_Password v o1) = (v1_values o1)[4 := v]"
  "v1_values (osv1_TenantName v o1) = (v1_values o1)[5 := v]"
  "v1_values (osv1_ProjectDomainName v o1) = (v1_values o1)[6 := v]"
  by (simp_all add: v1_values_def osv1_IdentityEndpoint_def osv1_AuthType_def osv1_Username_def
      osv1_UserDomainName_def osv1_Password_def osv1_TenantName_def osv1_ProjectDomainName_def)

lemma v2_update:
  "v2_values (openstack_AuthUrl v o2) = (v2_values o2)[0 := v]"
  "v2_values (openstack_AuthType v o2) = (v2_values o2)[1 := v]"
  "v2_values (openstack_Username v o2) = (v2_values o2)[2 := v]"
  "v2_values (openstack_UserDomainName v o2) = (v2_values o2)[3 := v]"
  "v2_values (openstack_Password v o2) = (v2_values o2)[4 := v]"
  "v2_values (openstack_ProjectName v o2) = (v2_values o2)[5 := v]"
  "v2_values (openstack_ProjectDomainName v o2) = (v2_values o2)[6 := v]"
  by (simp_all add: v2_values_def openstack_AuthUrl_def openstack_AuthType_def openstack_Username_def
      openstack_UserDomainName_def openstack_Password_def openstack_ProjectName_def openstack_ProjectDomainName_def)

lemma v1_line:
  assumes "length vs = 7" and "length olds = 7" and "v1_values o1 = over olds vs"
  shows "agrees v1_values olds (file_line vs line) (osv1_conf_line o1 line)"
  using assms by (cases "word1 line")
    (simp_all add: file_line_def osv1_conf_line_def with_word1_def openrc_keys_def Let_def v1_update over_update numeral_eq_Suc)

lemma v2_line:
  assumes "length vs = 7" and "length olds = 7" and "v2_values o2 = over olds vs"
  shows "agrees v2_values olds (file_line vs line) (auth_file_line o2 line)"
  using assms by (cases "word1 line")
    (simp_all add: file_line_def auth_file_line_def with_word1_def openrc_keys_def Let_def v2_update over_update numeral_eq_Suc)

lemma v1_lines:
  "length vs = 7 \<Longrightarrow> length olds = 7 \<Longrightarrow> v1_values o1 = over olds vs \<Longrightarrow>
    agrees v1_values olds (file_lines vs ls) (osv1_conf_lines o1 ls)"
proof (induction ls arbitrary: vs o1)
  case (Cons l ls)
  from v1_line [OF Cons.prems, of l] show ?case
    by (cases "file_line vs l"; cases "osv1_conf_line o1 l") (simp_all add: Cons.IH Cons.prems(2))
qed simp

lemma v2_lines:
  "length vs = 7 \<Longrightarrow> length olds = 7 \<Longrightarrow> v2_values o2 = over olds vs \<Longrightarrow>
    agrees v2_values olds (file_lines vs ls) (auth_file_lines o2 ls)"
proof (induction ls arbitrary: vs o2)
  case (Cons l ls)
  from v2_line [OF Cons.prems, of l] show ?case
    by (cases "file_line vs l"; cases "auth_file_line o2 l") (simp_all add: Cons.IH Cons.prems(2))
qed simp

text \<open>
  C15. Version 1 and version 2 read an openrc file alike: both panic on it, with the same panic, or both
  return and hold the values the file sets for endpoint, authentication type, user, user domain,
  password, project and project domain. They differ in what the file does not set: it is empty in
  version 1 and what the options held before in version 2, from the environment or the caller. Version 1
  also sets the domain to the default one, whatever the file says, and returns an error for a file
  that cannot be read, which version 2 ignores.
\<close>

theorem versions_read_alike:
  "case files (auth_File (os_Auth o2)) of
     Inl err \<Rightarrow> osv1_NewConf files env (auth_File (os_Auth o2)) = Return (None, Some err)
       \<and> ParseAuthFile files o2 = Return o2
   | Inr content \<Rightarrow>
       (case file_settings content of
          Panic p \<Rightarrow> osv1_NewConf files env (auth_File (os_Auth o2)) = Panic p \<and> ParseAuthFile files o2 = Panic p
        | Return vs \<Rightarrow> \<exists>o1 o2'. osv1_NewConf files env (auth_File (os_Auth o2)) = Return (Some o1, None)
            \<and> ParseAuthFile files o2 = Return o2'
            \<and> v1_values o1 = over (replicate 7 []) vs \<and> v2_values o2' = over (v2_values o2) vs
            \<and> v1_DomainName o1 = ''default'')"
proof (cases "files (auth_File (os_Auth o2))")
  case (Inl err)
  then show ?thesis by (simp add: osv1_NewConf_def ParseAuthFile_def)
next
  case (Inr content)
  have "v1_values osv1_zero = over (replicate 7 []) (replicate 7 None)"
    by (simp add: v1_values_def osv1_zero_def over_def numeral_eq_Suc)
  then have 1: "agrees v1_values (replicate 7 []) (file_settings content) (osv1_conf_lines osv1_zero (ScanLines content))"
    unfolding file_settings_def by (intro v1_lines) simp_all
  have "v2_values o2 = over (v2_values o2) (replicate 7 None)"
    using over_nothing [of "v2_values o2"] by simp
  then have 2: "agrees v2_values (v2_values o2) (file_settings content) (auth_file_lines o2 (ScanLines content))"
    unfolding file_settings_def by (intro v2_lines) simp_all
  show ?thesis
  proof (cases "file_settings content")
    case (Panic p)
    with 1 2 show ?thesis
      by (cases "osv1_conf_lines osv1_zero (ScanLines content)"; cases "auth_file_lines o2 (ScanLines content)")
        (simp_all add: Inr osv1_NewConf_def ParseAuthFile_def)
  next
    case (Return vs)
    with 1 2 show ?thesis
      by (cases "osv1_conf_lines osv1_zero (ScanLines content)"; cases "auth_file_lines o2 (ScanLines content)")
        (auto simp: Inr osv1_NewConf_def ParseAuthFile_def v1_values_def Let_def)
  qed
qed

lemma versions_read_alike_witness:
  "\<exists>o1 o2. osv1_NewConf (\<lambda>_. Inr ''export OS_USERNAME=admin'') (\<lambda>_. []) [] = Return (Some o1, None)
    \<and> ParseAuthFile (\<lambda>_. Inr ''export OS_USERNAME=admin'') (openstack_Password ''p'' openstack_zero) = Return o2
    \<and> v1_values o1 = [[], [], ''admin'', [], [], [], []] \<and> v2_values o2 = [[], [], ''admin'', [], ''p'', [], []]"
proof -
  have "ScanLines ''export OS_USERNAME=admin'' = [''export OS_USERNAME=admin'']"
    by (simp add: ScanLines_def drop_CR_def)
  moreover have "file_line (replicate 7 None) ''export OS_USERNAME=admin'' = Return ((replicate 7 None)[2 := Some ''admin''])"
    by (simp add: file_line_def with_word1_def word1_def HasPrefix_def Contains_Cons openrc_keys_def Let_def numeral_eq_Suc)
  ultimately have "file_settings ''export OS_USERNAME=admin'' = Return ((replicate 7 None)[2 := Some ''admin''])"
    by (simp add: file_settings_def)
  moreover have "auth_File (os_Auth (openstack_Password ''p'' openstack_zero)) = []"
    by (simp add: openstack_Password_def openstack_zero_def)
  ultimately show ?thesis
    using versions_read_alike [where files = "\<lambda>_. Inr ''export OS_USERNAME=admin''" and env = "\<lambda>_. []"
        and ?o2.0 = "openstack_Password ''p'' openstack_zero"]
    by (auto simp: over_def numeral_eq_Suc v2_values_def openstack_Password_def openstack_zero_def
        no_domain_def no_project_def)
qed

end
