(* ===== verification/Devices.thy ===== *)
theory Devices
  imports Prelude
begin

text \<open>
  Package devices: the accelerator devices of an OpenStack cloud, read through the pager of
  gophercloud, which is a parameter. Shown: the listing stops after the first page of a cloud that
  has several, and a page is empty exactly when it names no device.
\<close>

record Device =
  dv_UUID :: string
  dv_Hostname :: string
  dv_Type :: string
  dv_Vendor :: string
  dv_Model :: string
  dv_StdBoardInfo :: string
  dv_VendorBoardInfo :: string
  dv_CreatedAt :: string
  dv_UpdatedAt :: string

record ListOpts =
  op_Type :: string
  op_Vendor :: string
  op_Hostname :: string
  op_Filters :: "string \<rightharpoonup> string"

text \<open>
  A page is a \<open>DevicePage\<close>, known by its status code and decoded body, or a page of another kind,
  on which the type assertion of the code panics.
\<close>

record DevicePage =
  dp_StatusCode :: int
  dp_Body :: json

datatype Page = Devices_page DevicePage | Other_page

text \<open>
  What the code uses of gophercloud: the URL of the query of the options (its text, or nil), the URL of a service, the two
  decoders of a body, the choice of the next link, and the pager. \<open>EachPage\<close> threads the slice that
  the handler appends to, as the closure of the code does; a handler may panic.
\<close>

type_synonym handler = "Page \<Rightarrow> Device list \<Rightarrow> ((bool \<times> go_error option) \<times> Device list) outcome"

record ('w, 'c) gopher =
  gc_BuildQueryString :: "ListOpts \<Rightarrow> string option res"
  gc_ServiceURL :: "'c \<Rightarrow> string \<Rightarrow> string"
  gc_ExtractIntoSlicePtr :: "json \<Rightarrow> string \<Rightarrow> Device list res"
  gc_ExtractLinks :: "json \<Rightarrow> string \<Rightarrow> json res"
  gc_ExtractNextURL :: "json \<Rightarrow> string res"
  gc_EachPage :: "'c \<Rightarrow> string \<Rightarrow> (DevicePage \<Rightarrow> Page) \<Rightarrow> handler \<Rightarrow> Device list
    \<Rightarrow> ('w, (go_error option \<times> Device list) outcome) state"

text \<open>The URL that holds the query is rendered before its error is looked at: a nil one panics.\<close>

definition ToDeviceListQuery :: "('w, 'c) gopher \<Rightarrow> ListOpts \<Rightarrow> string res outcome" where
  "ToDeviceListQuery gc opts =
     (case gc_BuildQueryString gc opts of
        (None, err) \<Rightarrow> Panic NilDereference
      | (Some q, err) \<Rightarrow> Return (q, err))"

definition listDetailURL :: "('w, 'c) gopher \<Rightarrow> 'c \<Rightarrow> string" where
  "listDetailURL gc client = gc_ServiceURL gc client ''devices''"

definition pageLinker :: "DevicePage \<Rightarrow> Page" where
  "pageLinker r = Devices_page r"

text \<open>
  Decoding appends nothing: it replaces the slice by the devices of the body, unless it fails.
\<close>

definition ExtractDevicesInto :: "('w, 'c) gopher \<Rightarrow> Page \<Rightarrow> Device list \<Rightarrow> (go_error option \<times> Device list) outcome" where
  "ExtractDevicesInto gc r v =
     (case r of
        Other_page \<Rightarrow> Panic (PanicValue (ErrText ''interface conversion''))
      | Devices_page d \<Rightarrow> (case gc_ExtractIntoSlicePtr gc (dp_Body d) ''devices'' of
          (ds, None) \<Rightarrow> Return (None, ds)
        | (_, Some e) \<Rightarrow> Return (Some e, v)))"

definition ExtractDevices :: "('w, 'c) gopher \<Rightarrow> Page \<Rightarrow> Device list res outcome" where
  "ExtractDevices gc r =
     (case ExtractDevicesInto gc r [] of Panic p \<Rightarrow> Panic p | Return (err, d) \<Rightarrow> Return (d, err))"

definition devices_IsEmpty :: "('w, 'c) gopher \<Rightarrow> DevicePage \<Rightarrow> bool res outcome" where
  "devices_IsEmpty gc d =
     (if dp_StatusCode d = 204 then Return (True, None)
      else (case ExtractDevices gc (Devices_page d) of
              Panic p \<Rightarrow> Panic p
            | Return (devices, err) \<Rightarrow> Return (length devices = 0, err)))"

definition NextPageURL :: "('w, 'c) gopher \<Rightarrow> DevicePage \<Rightarrow> string res" where
  "NextPageURL gc r =
     (case gc_ExtractLinks gc (dp_Body r) ''servers_links'' of
        (_, Some e) \<Rightarrow> ([], Some e)
      | (links, None) \<Rightarrow> gc_ExtractNextURL gc links)"

definition page_handler :: "('w, 'c) gopher \<Rightarrow> handler" where
  "page_handler gc page devices =
     (case ExtractDevicesInto gc page devices of
        Panic p \<Rightarrow> Panic p
      | Return (err, devices) \<Rightarrow> Return ((False, err), devices))"

text \<open>The options are an interface value that may be nil.\<close>

definition devices_List ::
  "('w, 'c) gopher \<Rightarrow> 'c \<Rightarrow> ListOpts option \<Rightarrow> ('w, Device list res outcome) state" where
  "devices_List gc client opts =
     (let url = listDetailURL gc client in
      proceed (case opts of None \<Rightarrow> Return ([], None) | Some o1 \<Rightarrow> ToDeviceListQuery gc o1)
      (\<lambda>(query, err). on_err err
        (do {
           r \<leftarrow> gc_EachPage gc client (url @ query) pageLinker (page_handler gc) [];
           proceed r (\<lambda>(err, devices). on_err err
             (State_Monad.return (Return (devices, None))) (\<lambda>e. Return ([], Some e)))
         })
        (\<lambda>e. Return ([], Some e))))"

section \<open>Properties\<close>

text \<open>
  What the documentation of the pager promises for a listing whose first page is not empty: the
  handler gets that page first, and when it answers false the iteration ends with its error and
  nothing else is fetched. \<open>w'\<close> is the world after one request.
\<close>

definition first_page_ends :: "('w, 'c) gopher \<Rightarrow> 'c \<Rightarrow> string \<Rightarrow> DevicePage \<Rightarrow> 'w \<Rightarrow> 'w \<Rightarrow> bool" where
  "first_page_ends gc client url p w w' \<longleftrightarrow>
     (\<forall>link h s s' e. h (link p) s = Return ((False, e), s') \<longrightarrow>
        run_state (gc_EachPage gc client url link h s) w = (Return (e, s'), w'))"

text \<open>
  C38. The listing ends with its first page: the devices of that page are the whole answer and one
  request is made, however many pages follow.
\<close>

theorem devices_List_first_page_only:
  assumes "gc_BuildQueryString gc o1 = (Some query, None)"
    and "first_page_ends gc client (listDetailURL gc client @ query) p w w'"
    and "gc_ExtractIntoSlicePtr gc (dp_Body p) ''devices'' = (ds, None)"
  shows "run_state (devices_List gc client (Some o1)) w = (Return (ds, None), w')"
proof -
  have "page_handler gc (pageLinker p) [] = Return ((False, None), ds)"
    by (simp add: page_handler_def pageLinker_def ExtractDevicesInto_def assms(3))
  with assms(2) have "run_state (gc_EachPage gc client (listDetailURL gc client @ query) pageLinker (page_handler gc) []) w
      = (Return (None, ds), w')"
    unfolding first_page_ends_def by blast
  then show ?thesis
    by (simp add: devices_List_def ToDeviceListQuery_def assms(1))
qed

text \<open>A cloud with two pages, each of one device; the state counts the requests.\<close>

definition gpu :: "string \<Rightarrow> Device" where
  "gpu u = \<lparr>dv_UUID = u, dv_Hostname = ''cc1'', dv_Type = ''GPU'', dv_Vendor = ''10de'', dv_Model = [],
     dv_StdBoardInfo = [], dv_VendorBoardInfo = [], dv_CreatedAt = [], dv_UpdatedAt = []\<rparr>"

definition device_page :: "string \<Rightarrow> DevicePage" where
  "device_page u = \<lparr>dp_StatusCode = 200, dp_Body = JObj [(''devices'', JArr [JStr u])]\<rparr>"

fun walk_pages :: "(DevicePage \<Rightarrow> Page) \<Rightarrow> handler \<Rightarrow> Device list \<Rightarrow> DevicePage list \<Rightarrow> nat
    \<Rightarrow> (go_error option \<times> Device list) outcome \<times> nat" where
  "walk_pages link h s [] n = (Return (None, s), n)"
| "walk_pages link h s (p # ps) n =
     (case h (link p) s of
        Panic q \<Rightarrow> (Panic q, Suc n)
      | Return ((ok, None), s') \<Rightarrow> if ok then walk_pages link h s' ps (Suc n) else (Return (None, s'), Suc n)
      | Return ((ok, Some e), s') \<Rightarrow> (Return (Some e, s'), Suc n))"

definition two_pages :: "(nat, unit) gopher" where
  "two_pages = \<lparr>gc_BuildQueryString = (\<lambda>_. (Some ''?type=GPU'', None)), gc_ServiceURL = (\<lambda>_ s. ''http://cyborg/v2/'' @ s),
     gc_ExtractIntoSlicePtr = (\<lambda>b k. (map (\<lambda>x. case x of JStr u \<Rightarrow> gpu u | _ \<Rightarrow> gpu []) (get_arr k b), None)),
     gc_ExtractLinks = (\<lambda>b k. (get_field k b, None)), gc_ExtractNextURL = (\<lambda>_. ([], None)),
     gc_EachPage = (\<lambda>_ _ link h s. State (\<lambda>n. walk_pages link h s [device_page ''a'', device_page ''b''] n))\<rparr>"

lemma devices_List_first_page_only_witness:
  "run_state (devices_List two_pages () (Some \<lparr>op_Type = ''GPU'', op_Vendor = [], op_Hostname = [], op_Filters = Map.empty\<rparr>)) 0
    = (Return ([gpu ''a''], None), 1)"
  by (rule devices_List_first_page_only [where query = "''?type=GPU''" and p = "device_page ''a''"])
    (auto simp: two_pages_def first_page_ends_def device_page_def get_arr_def get_field_def split: option.splits)

text \<open>
  The emptiness test of a page agrees with the extraction of its devices, except for the answer
  without content, which is empty unread.
\<close>

theorem devices_IsEmpty_iff:
  "devices_IsEmpty gc d = Return (b, None) \<longleftrightarrow>
    (dp_StatusCode d = 204 \<and> b)
    \<or> (dp_StatusCode d \<noteq> 204 \<and> (\<exists>ds. ExtractDevices gc (Devices_page d) = Return (ds, None) \<and> b = (ds = [])))"
  by (auto simp: devices_IsEmpty_def ExtractDevices_def ExtractDevicesInto_def split: prod.splits option.splits outcome.splits)

end
