(* ===== verification/Zip.thy ===== *)
theory Zip
  imports GoStrings
begin

text \<open>
  Package zip: the extraction of an archive below a directory, with the part of package
  path/filepath it relies on (\<open>Clean\<close>, \<open>Join\<close> and \<open>Dir\<close> for Unix paths). The archive reader and the
  file system are parameters. What is shown is the guard against entries that leave the
  directory: it holds for every destination whose cleaned path does not end in \<open>..\<close>, fails for
  those that do, and refuses everything for the current directory.
\<close>

section \<open>Paths\<close>

text \<open>
  \<open>Clean\<close> drops empty and \<open>.\<close> elements and lets \<open>..\<close> remove the element before it; at the front it
  stays in a relative path and vanishes in a rooted one. The elements kept so far are reversed.
\<close>

fun clean_elems :: "bool \<Rightarrow> string list \<Rightarrow> string list \<Rightarrow> string list" where
  "clean_elems rooted acc [] = rev acc"
| "clean_elems rooted acc (c # cs) =
     (if c = [] \<or> c = ''.'' then clean_elems rooted acc cs
      else if c = ''..'' then
        (case acc of
           [] \<Rightarrow> if rooted then clean_elems rooted [] cs else clean_elems rooted [''..''] cs
         | a # as \<Rightarrow> if a = ''..'' then clean_elems rooted (''..'' # acc) cs else clean_elems rooted as cs)
      else clean_elems rooted (c # acc) cs)"

definition is_rooted :: "string \<Rightarrow> bool" where
  "is_rooted p \<longleftrightarrow> p \<noteq> [] \<and> hd p = CHR ''/''"

definition show_path :: "bool \<Rightarrow> string list \<Rightarrow> string" where
  "show_path rooted cs =
     (if rooted then ''/'' @ Join cs ''/'' else if cs = [] then ''.'' else Join cs ''/'')"

definition path_elems :: "string \<Rightarrow> string list" where
  "path_elems p = clean_elems (is_rooted p) [] (Split p (CHR ''/''))"

definition filepath_Clean :: "string \<Rightarrow> string" where
  "filepath_Clean p = show_path (is_rooted p) (path_elems p)"

definition filepath_Join :: "string \<Rightarrow> string \<Rightarrow> string" where
  "filepath_Join a b =
     (if a \<noteq> [] then filepath_Clean (Join [a, b] ''/'') else if b \<noteq> [] then filepath_Clean b else [])"

text \<open>\<open>Dir\<close> cleans what stands before the last separator, the separator included.\<close>

definition filepath_Dir :: "string \<Rightarrow> string" where
  "filepath_Dir p = filepath_Clean (rev (dropWhile (\<lambda>c. c \<noteq> CHR ''/'') (rev p)))"

section \<open>Extraction\<close>

record ZipFile =
  zf_Name :: string
  zf_IsDir :: bool
  zf_Mode :: int

record 'w ZipOs =
  z_OpenReader :: "string \<Rightarrow> ('w, ZipFile list res) state"
  z_CloseReader :: "('w, unit) state"
  z_MkdirAll :: "string \<Rightarrow> int \<Rightarrow> ('w, go_error option) state"
  z_Open :: "ZipFile \<Rightarrow> ('w, json res) state"
  z_OpenFile :: "string \<Rightarrow> string list \<Rightarrow> int \<Rightarrow> ('w, json res) state"
  z_Copy :: "json \<Rightarrow> json \<Rightarrow> ('w, int res) state"
  z_Close :: "json \<Rightarrow> ('w, unit) state"

definition ModePerm :: int where
  "ModePerm = 511"

definition extract_entry :: "'w ZipOs \<Rightarrow> string \<Rightarrow> ZipFile \<Rightarrow> ('w, go_error option) state" where
  "extract_entry sys dest file =
     (let path = filepath_Join dest (zf_Name file)
      in if \<not> HasPrefix path (filepath_Clean dest @ ''/'')
         then State_Monad.return (Some (ErrText (''zip: illegal file path: '' @ path)))
         else if zf_IsDir file then z_MkdirAll sys path ModePerm
         else do {
           err \<leftarrow> z_MkdirAll sys (filepath_Dir path) ModePerm;
           on_err err (do {
             (readCloser, err) \<leftarrow> z_Open sys file;
             on_err err (do {
               (outFile, err) \<leftarrow> z_OpenFile sys path [''O_WRONLY'', ''O_CREATE'', ''O_TRUNC''] (zf_Mode file);
               case err of
                 Some e \<Rightarrow> do { _ \<leftarrow> z_Close sys readCloser; State_Monad.return (Some e) }
               | None \<Rightarrow> do {
                   (_, err) \<leftarrow> z_Copy sys outFile readCloser;
                   _ \<leftarrow> z_Close sys outFile;
                   _ \<leftarrow> z_Close sys readCloser;
                   State_Monad.return err
                 }
             }) Some
           }) Some
         })"

fun extract_all :: "'w ZipOs \<Rightarrow> string \<Rightarrow> ZipFile list \<Rightarrow> ('w, go_error option) state" where
  "extract_all sys dest [] = State_Monad.return None"
| "extract_all sys dest (file # files) = do {
     err \<leftarrow> extract_entry sys dest file;
     on_err err (extract_all sys dest files) Some
   }"

definition DecompressFromTo :: "'w ZipOs \<Rightarrow> string \<Rightarrow> string \<Rightarrow> ('w, go_error option) state" where
  "DecompressFromTo sys src dest = do {
     (files, err) \<leftarrow> z_OpenReader sys src;
     on_err err (do {
       err \<leftarrow> extract_all sys dest files;
       _ \<leftarrow> z_CloseReader sys;
       State_Monad.return err
     }) Some
   }"

section \<open>Cleaned paths\<close>

definition plain_elem :: "string \<Rightarrow> bool" where
  "plain_elem c \<longleftrightarrow> c \<noteq> [] \<and> c \<noteq> ''.'' \<and> CHR ''/'' \<notin> set c"

text \<open>The elements of a cleaned path: the \<open>..\<close> all stand in front, and there are none at the root.\<close>

definition normal :: "bool \<Rightarrow> string list \<Rightarrow> bool" where
  "normal rooted cs \<longleftrightarrow> list_all plain_elem cs
     \<and> ''..'' \<notin> set (dropWhile (\<lambda>c. c = ''..'') cs) \<and> (rooted \<longrightarrow> ''..'' \<notin> set cs)"

lemma normal_Nil [simp]: "normal rooted []"
  by (simp add: normal_def)

lemma normal_snoc: "normal rooted cs \<Longrightarrow> plain_elem c \<Longrightarrow> c \<noteq> ''..'' \<Longrightarrow> normal rooted (cs @ [c])"
  by (auto simp: normal_def dropWhile_append)

lemma normal_up:
  assumes "normal rooted cs" and "\<not> rooted" and "cs = [] \<or> last cs = ''..''"
  shows "normal rooted (cs @ [''..''])"
proof -
  have "dropWhile (\<lambda>c. c = ''..'') cs = []"
  proof (rule ccontr)
    assume ne: "dropWhile (\<lambda>c. c = ''..'') cs \<noteq> []"
    then have "last (dropWhile (\<lambda>c. c = ''..'') cs) = last cs"
      by (metis last_append takeWhile_dropWhile_id)
    with ne assms(3) have "''..'' \<in> set (dropWhile (\<lambda>c. c = ''..'') cs)"
      by (metis dropWhile.simps(1) last_in_set)
    with assms(1) show False by (simp add: normal_def)
  qed
  with assms(1,2) show ?thesis
    by (auto simp: normal_def dropWhile_append plain_elem_def dropWhile_eq_Nil_conv)
qed

lemma normal_butlast: "normal rooted (cs @ [c]) \<Longrightarrow> normal rooted cs"
proof -
  assume n: "normal rooted (cs @ [c])"
  show "normal rooted cs"
  proof (cases "\<forall>x \<in> set cs. x = ''..''")
    case True
    then have nil: "dropWhile (\<lambda>c. c = ''..'') cs = []" by simp
    have "''..'' \<notin> set (dropWhile (\<lambda>c. c = ''..'') cs)" unfolding nil by simp
    with n show ?thesis by (simp add: normal_def)
  next
    case False
    with n show ?thesis by (auto simp: normal_def dropWhile_append split: if_splits)
  qed
qed

lemma rooted_no_up: "normal True cs \<Longrightarrow> ''..'' \<notin> set cs"
  by (auto simp: normal_def)

lemma normal_clean_elems:
  "normal rooted (rev acc) \<Longrightarrow> \<forall>c \<in> set cs. CHR ''/'' \<notin> set c \<Longrightarrow>
    normal rooted (clean_elems rooted acc cs)"
proof (induction cs arbitrary: acc)
  case Nil
  then show ?case by simp
next
  case (Cons c cs)
  then have ih: "normal rooted (rev as) \<Longrightarrow> normal rooted (clean_elems rooted as cs)" for as by simp
  show ?case
  proof (cases "c = [] \<or> c = ''.''")
    case True
    with Cons.prems ih show ?thesis by auto
  next
    case named: False
    show ?thesis
    proof (cases "c = ''..''")
      case False
      with named Cons.prems have "normal rooted (rev (c # acc))"
        by (simp add: normal_snoc plain_elem_def)
      with named False ih [of "c # acc"] show ?thesis by simp
    next
      case up: True
      show ?thesis
      proof (cases acc)
        case Nil
        have "normal False [''..'']" using normal_up [of False "[]"] by simp
        with named up Nil ih [of "[]"] ih [of "[''..'']"] show ?thesis by (cases rooted) simp_all
      next
        case (Cons a as)
        show ?thesis
        proof (cases "a = ''..''")
          case True
          with Cons.prems(1) Cons have r: "\<not> rooted" using rooted_no_up by force
          from normal_up [OF Cons.prems(1) r] Cons True have "normal rooted (rev (''..'' # acc))" by simp
          with named up Cons True ih [of "''..'' # acc"] show ?thesis by simp
        next
          case False
          with Cons.prems(1) Cons have "normal rooted (rev as)"
            using normal_butlast [of rooted "rev as" a] by simp
          with named up Cons False ih [of as] show ?thesis by simp
        qed
      qed
    qed
  qed
qed

lemma normal_path_elems: "normal (is_rooted p) (path_elems p)"
  unfolding path_elems_def by (rule normal_clean_elems) (auto dest: Split_pieces_free)

lemma clean_elems_append:
  "clean_elems rooted acc (xs @ ys) = clean_elems rooted (rev (clean_elems rooted acc xs)) ys"
  by (induction rooted acc xs rule: clean_elems.induct) (auto split: list.splits)

lemma clean_elems_normal_id:
  "normal rooted (rev acc @ cs) \<Longrightarrow> clean_elems rooted acc cs = rev acc @ cs"
proof (induction cs arbitrary: acc)
  case Nil
  then show ?case by simp
next
  case (Cons c cs)
  have c: "plain_elem c" using Cons.prems by (simp add: normal_def)
  have ih: "clean_elems rooted (c # acc) cs = rev (c # acc) @ cs"
    using Cons.prems by (intro Cons.IH) simp
  show ?case
  proof (cases "c = ''..''")
    case False
    with c ih show ?thesis by (simp add: plain_elem_def)
  next
    case True
    have "list_all (\<lambda>x. x = ''..'') (rev acc)"
    proof (rule ccontr)
      assume "\<not> list_all (\<lambda>x. x = ''..'') (rev acc)"
      then have "dropWhile (\<lambda>x. x = ''..'') (rev acc @ c # cs) = dropWhile (\<lambda>x. x = ''..'') (rev acc) @ c # cs"
        by (auto simp: list_all_iff dropWhile_append dropWhile_eq_Nil_conv)
      with Cons.prems True show False by (simp add: normal_def)
    qed
    moreover have "\<not> rooted" using Cons.prems True by (auto simp: normal_def)
    ultimately show ?thesis using True ih by (cases acc) (simp_all add: list_all_iff)
  qed
qed

lemma Split_append: "Split (a @ c # b) c = Split a c @ Split b c"
  by (induction a c rule: Split.induct) (auto split: list.splits)

lemma Split_Join_normal:
  "normal rooted cs \<Longrightarrow> cs \<noteq> [] \<Longrightarrow> Split (Join cs ''/'') (CHR ''/'') = cs"
  by (intro Split_Join) (auto simp: normal_def list_all_iff plain_elem_def)

lemma Join_hd:
  "normal rooted (c # cs) \<Longrightarrow> Join (c # cs) ''/'' \<noteq> [] \<and> hd (Join (c # cs) ''/'') \<noteq> CHR ''/''"
  by (cases c; cases cs) (auto simp: normal_def plain_elem_def)

text \<open>A cleaned path has the elements it was made of.\<close>

lemma show_path_elems:
  assumes "normal rooted cs" and "cs \<noteq> []"
  shows "is_rooted (show_path rooted cs) = rooted"
    and "Split (show_path rooted cs) (CHR ''/'') = (if rooted then [] # cs else cs)"
proof -
  obtain c ds where cs: "cs = c # ds" using assms(2) by (cases cs) auto
  have j: "Join cs ''/'' \<noteq> []" "hd (Join cs ''/'') \<noteq> CHR ''/''"
    using Join_hd [of rooted c ds] assms(1) cs by simp_all
  then show "is_rooted (show_path rooted cs) = rooted"
    using assms(2) by (simp add: is_rooted_def show_path_def)
  show "Split (show_path rooted cs) (CHR ''/'') = (if rooted then [] # cs else cs)"
    using Split_Join_normal [OF assms] assms(2) by (simp add: show_path_def)
qed

lemma Clean_slash:
  assumes "normal rooted cs" and "cs \<noteq> []"
  shows "filepath_Clean (show_path rooted cs @ ''/'') = show_path rooted cs"
proof -
  have ne: "show_path rooted cs \<noteq> []"
    using assms Join_hd by (cases cs) (auto simp: show_path_def)
  have r: "is_rooted (show_path rooted cs @ ''/'') = rooted"
    using show_path_elems(1) [OF assms] ne by (simp add: is_rooted_def)
  have "Split (show_path rooted cs @ ''/'') (CHR ''/'') = (if rooted then [] # cs else cs) @ [[]]"
    using Split_append [of "show_path rooted cs" "CHR ''/''" "[]"] show_path_elems(2) [OF assms] by simp
  then have "path_elems (show_path rooted cs @ ''/'') = clean_elems rooted [] (cs @ [[]])"
    by (simp add: path_elems_def r)
  also have "\<dots> = cs"
    using clean_elems_normal_id [of rooted "[]" cs] assms(1) by (simp add: clean_elems_append)
  finally show ?thesis by (simp add: filepath_Clean_def r)
qed

lemma show_path_snoc:
  "cs \<noteq> [] \<Longrightarrow> show_path rooted (cs @ [c]) = show_path rooted cs @ ''/'' @ c"
  by (simp add: show_path_def Join_append)

lemma Dir_show:
  assumes "normal rooted (cs @ [c])" and "cs \<noteq> []"
  shows "filepath_Dir (show_path rooted (cs @ [c])) = show_path rooted cs"
proof -
  have "CHR ''/'' \<notin> set c" using assms(1) by (simp add: normal_def plain_elem_def)
  then have "dropWhile (\<lambda>x. x \<noteq> CHR ''/'') (rev (show_path rooted cs @ ''/'' @ c))
      = rev (show_path rooted cs @ ''/'')"
  proof -
    assume c: "CHR ''/'' \<notin> set c"
    have "dropWhile (\<lambda>x. x \<noteq> CHR ''/'') (rev c @ CHR ''/'' # rev (show_path rooted cs))
        = dropWhile (\<lambda>x. x \<noteq> CHR ''/'') (CHR ''/'' # rev (show_path rooted cs))"
      by (rule dropWhile_append2) (use c in auto)
    then show ?thesis by simp
  qed
  then show ?thesis
    using Clean_slash [OF normal_butlast [OF assms(1)] assms(2)]
    by (simp only: filepath_Dir_def show_path_snoc [OF assms(2)] rev_rev_ident)
qed

section \<open>The guard\<close>

text \<open>The elements of the path an entry is extracted to.\<close>

definition entry_elems :: "string \<Rightarrow> string \<Rightarrow> string list" where
  "entry_elems dest name = clean_elems (is_rooted dest) (rev (path_elems dest)) (Split name (CHR ''/''))"

lemma normal_entry_elems: "normal (is_rooted dest) (entry_elems dest name)"
  unfolding entry_elems_def using normal_path_elems [of dest]
  by (intro normal_clean_elems) (auto dest: Split_pieces_free)

lemma Join_entry:
  "dest \<noteq> [] \<Longrightarrow> filepath_Join dest name = show_path (is_rooted dest) (entry_elems dest name)"
proof -
  assume "dest \<noteq> []"
  then have r: "is_rooted (dest @ ''/'' @ name) = is_rooted dest" by (simp add: is_rooted_def)
  have "Split (dest @ ''/'' @ name) (CHR ''/'') = Split dest (CHR ''/'') @ Split name (CHR ''/'')"
    using Split_append [of dest "CHR ''/''" name] by simp
  then have "path_elems (dest @ ''/'' @ name) = entry_elems dest name"
    by (simp add: path_elems_def r [simplified] clean_elems_append entry_elems_def)
  with \<open>dest \<noteq> []\<close> r show ?thesis by (simp add: filepath_Join_def filepath_Clean_def)
qed

lemma show_path_prefix:
  assumes "normal rooted ds" and "normal rooted ps"
  shows "HasPrefix (show_path rooted ps) (show_path rooted ds @ ''/'') \<longleftrightarrow>
    ds \<noteq> [] \<and> (\<exists>rs. rs \<noteq> [] \<and> ps = ds @ rs)"
proof
  assume pre: "HasPrefix (show_path rooted ps) (show_path rooted ds @ ''/'')"
  then obtain t where t: "show_path rooted ps = show_path rooted ds @ ''/'' @ t"
    by (auto simp: HasPrefix_iff)
  have ps: "ps \<noteq> []"
  proof
    assume "ps = []"
    with t have "show_path rooted ds = []" by (cases rooted) (auto simp: show_path_def Cons_eq_append_conv)
    with assms(1) show False using Join_hd by (cases ds) (auto simp: show_path_def split: if_splits)
  qed
  have sp: "Split (show_path rooted ps) (CHR ''/'') = (if rooted then [] # ps else ps)"
    by (rule show_path_elems(2) [OF assms(2) ps])
  have st: "Split (show_path rooted ps) (CHR ''/'') = Split (show_path rooted ds) (CHR ''/'') @ Split t (CHR ''/'')"
    using Split_append [of "show_path rooted ds" "CHR ''/''" t] t by simp
  show "ds \<noteq> [] \<and> (\<exists>rs. rs \<noteq> [] \<and> ps = ds @ rs)"
  proof (cases "ds = []")
    case True
    have "plain_elem (hd ps)" using assms(2) ps by (cases ps) (auto simp: normal_def)
    moreover have "hd ps = (if rooted then [] else ''.'')"
      using sp st True ps by (cases rooted) (auto simp: show_path_def dest: arg_cong [where f = hd])
    ultimately show ?thesis by (simp add: plain_elem_def split: if_splits)
  next
    case False
    have "ps = ds @ Split t (CHR ''/'')"
      using sp st show_path_elems(2) [OF assms(1) False] by (simp split: if_splits)
    with False show ?thesis using Split_not_Nil by blast
  qed
next
  assume "ds \<noteq> [] \<and> (\<exists>rs. rs \<noteq> [] \<and> ps = ds @ rs)"
  then obtain rs where "ds \<noteq> []" "rs \<noteq> []" "ps = ds @ rs" by blast
  then show "HasPrefix (show_path rooted ps) (show_path rooted ds @ ''/'')"
    by (simp add: show_path_def Join_append HasPrefix_iff)
qed

lemma guard_iff:
  "dest \<noteq> [] \<Longrightarrow> HasPrefix (filepath_Join dest name) (filepath_Clean dest @ ''/'') \<longleftrightarrow>
    path_elems dest \<noteq> [] \<and> (\<exists>rs. rs \<noteq> [] \<and> entry_elems dest name = path_elems dest @ rs)"
  by (simp add: Join_entry filepath_Clean_def show_path_prefix normal_path_elems normal_entry_elems)

lemma guard_empty_dest: "\<not> HasPrefix (filepath_Join [] name) (filepath_Clean [] @ ''/'')"
proof (cases name)
  case Nil
  then show ?thesis by (simp add: filepath_Join_def HasPrefix_def)
next
  case (Cons c cs)
  have dot: "filepath_Clean [] = show_path False []"
    by (simp add: filepath_Clean_def path_elems_def is_rooted_def)
  show ?thesis
  proof (cases "is_rooted name")
    case True
    then have "hd (filepath_Clean name) = CHR ''/''" by (simp add: filepath_Clean_def show_path_def)
    then show ?thesis using Cons
      by (auto simp: filepath_Join_def dot show_path_def HasPrefix_iff)
  next
    case False
    then have "filepath_Clean name = show_path False (path_elems name)"
      by (simp add: filepath_Clean_def)
    moreover have "filepath_Join [] name = filepath_Clean name"
      using Cons by (simp add: filepath_Join_def)
    ultimately show ?thesis using False show_path_prefix [of False "[]" "path_elems name"] normal_path_elems [of name]
      by (simp add: dot)
  qed
qed

text \<open>A path below the destination: its elements and then names, none of them \<open>..\<close>.\<close>

definition below :: "string \<Rightarrow> string \<Rightarrow> bool" where
  "below dest p \<longleftrightarrow> (\<exists>rs. list_all plain_elem rs \<and> ''..'' \<notin> set rs
     \<and> p = show_path (is_rooted dest) (path_elems dest @ rs))"

lemma accepted_below:
  assumes "HasPrefix (filepath_Join dest name) (filepath_Clean dest @ ''/'')"
    and "path_elems dest = [] \<or> last (path_elems dest) \<noteq> ''..''"
  shows "below dest (filepath_Join dest name) \<and> below dest (filepath_Dir (filepath_Join dest name))"
proof -
  have dest: "dest \<noteq> []" using assms(1) guard_empty_dest by auto
  let ?ds = "path_elems dest" and ?r = "is_rooted dest"
  from assms(1) guard_iff [OF dest] obtain rs where ds: "?ds \<noteq> []" and rs: "rs \<noteq> []"
    and ps: "entry_elems dest name = ?ds @ rs" by blast
  have n: "normal ?r (?ds @ rs)" using normal_entry_elems [of dest name] ps by simp
  have "dropWhile (\<lambda>c. c = ''..'') (?ds @ rs) = dropWhile (\<lambda>c. c = ''..'') ?ds @ rs"
    using assms(2) ds by (intro dropWhile_append1) auto
  with n have rs_ok: "list_all plain_elem rs" "''..'' \<notin> set rs" by (auto simp: normal_def)
  obtain qs q where q: "rs = qs @ [q]" using rs by (cases rs rule: rev_cases) auto
  have path: "filepath_Join dest name = show_path ?r ((?ds @ qs) @ [q])"
    using Join_entry [OF dest] ps q by simp
  have dir: "filepath_Dir (filepath_Join dest name) = show_path ?r (?ds @ qs)"
    unfolding path using n ds q by (intro Dir_show) auto
  have "below dest (filepath_Join dest name)"
    unfolding below_def using path rs_ok q by (intro exI [of _ rs]) simp
  moreover have "below dest (filepath_Dir (filepath_Join dest name))"
    unfolding below_def dir using rs_ok q by (intro exI [of _ qs]) simp
  ultimately show ?thesis ..
qed

text \<open>
  C3. Extraction stays below its destination, unless the destination itself ends in \<open>..\<close>: whatever
  the archive contains, replacing what the file system does for every path that is not below the
  cleaned destination changes nothing, so no directory or file outside is ever created or opened.
\<close>

theorem extraction_confined:
  assumes "path_elems dest = [] \<or> last (path_elems dest) \<noteq> ''..''"
    and "\<And>p m. below dest p \<Longrightarrow> mkdir p m = z_MkdirAll sys p m"
    and "\<And>p f m. below dest p \<Longrightarrow> open_file p f m = z_OpenFile sys p f m"
  shows "DecompressFromTo (sys\<lparr>z_MkdirAll := mkdir, z_OpenFile := open_file\<rparr>) src dest =
    DecompressFromTo sys src dest"
proof -
  have e: "extract_entry (sys\<lparr>z_MkdirAll := mkdir, z_OpenFile := open_file\<rparr>) dest entry = extract_entry sys dest entry"
    for entry
  proof (cases "HasPrefix (filepath_Join dest (zf_Name entry)) (filepath_Clean dest @ ''/'')")
    case True
    from accepted_below [OF this assms(1)] assms(2,3) show ?thesis
      by (simp add: extract_entry_def Let_def)
  next
    case False
    then show ?thesis by (simp add: extract_entry_def Let_def)
  qed
  have "extract_all (sys\<lparr>z_MkdirAll := mkdir, z_OpenFile := open_file\<rparr>) dest files = extract_all sys dest files"
    for files by (induction files) (simp_all add: e)
  then show ?thesis by (simp add: DecompressFromTo_def)
qed

definition demo_zip_os :: "ZipFile list \<Rightarrow> string list ZipOs" where
  "demo_zip_os files = \<lparr>z_OpenReader = \<lambda>_. State_Monad.return (files, None),
     z_CloseReader = State_Monad.return (), z_MkdirAll = \<lambda>p _. State (\<lambda>w. (None, w @ [p])),
     z_Open = \<lambda>_. State_Monad.return (JNull, None),
     z_OpenFile = \<lambda>p _ _. State (\<lambda>w. ((JNull, None), w @ [p])),
     z_Copy = \<lambda>_ _. State_Monad.return (0, None), z_Close = \<lambda>_. State_Monad.return ()\<rparr>"

lemma extraction_confined_witness:
  "DecompressFromTo ((demo_zip_os [\<lparr>zf_Name = ''../../etc/passwd'', zf_IsDir = False, zf_Mode = 420\<rparr>])
     \<lparr>z_MkdirAll := \<lambda>p m. if p = ''/etc'' then State_Monad.return None else State (\<lambda>w. (None, w @ [p])),
      z_OpenFile := \<lambda>p f m. if p = ''/etc/passwd'' then State_Monad.return (JNull, None)
        else State (\<lambda>w. ((JNull, None), w @ [p]))\<rparr>) ''a.zip'' ''/srv/data''
   = DecompressFromTo (demo_zip_os [\<lparr>zf_Name = ''../../etc/passwd'', zf_IsDir = False, zf_Mode = 420\<rparr>])
       ''a.zip'' ''/srv/data''"
proof (rule extraction_confined)
  have el: "path_elems ''/srv/data'' = [''srv'', ''data'']" "is_rooted ''/srv/data''"
    by (simp_all add: path_elems_def is_rooted_def)
  then show "path_elems ''/srv/data'' = [] \<or> last (path_elems ''/srv/data'') \<noteq> ''..''" by simp
  have out: "below ''/srv/data'' p \<Longrightarrow> take 4 p = ''/srv''" for p
    by (auto simp: below_def el show_path_def Join_Cons neq_Nil_conv split: list.splits)
  show "below ''/srv/data'' p \<Longrightarrow> (if p = ''/etc'' then State_Monad.return None else State (\<lambda>w. (None, w @ [p])))
      = z_MkdirAll (demo_zip_os [\<lparr>zf_Name = ''../../etc/passwd'', zf_IsDir = False, zf_Mode = 420\<rparr>]) p m" for p m
    using out [of p] by (auto simp: demo_zip_os_def)
  show "below ''/srv/data'' p \<Longrightarrow> (if p = ''/etc/passwd'' then State_Monad.return (JNull, None)
        else State (\<lambda>w. ((JNull, None), w @ [p])))
      = z_OpenFile (demo_zip_os [\<lparr>zf_Name = ''../../etc/passwd'', zf_IsDir = False, zf_Mode = 420\<rparr>]) p f m" for p f m
    using out [of p] by (auto simp: demo_zip_os_def)
qed

text \<open>
  The guard fails for a destination that ends in \<open>..\<close>: an entry named \<open>../evil\<close> extracted to the
  parent directory lands beside the parent, since \<open>../../evil\<close> starts with \<open>../\<close>.
\<close>

theorem parent_destination_escapes:
  "extract_entry sys ''..'' \<lparr>zf_Name = ''../evil'', zf_IsDir = True, zf_Mode = mode\<rparr> =
     z_MkdirAll sys ''../../evil'' ModePerm
   \<and> \<not> below ''..'' ''../../evil''"
proof
  have el: "path_elems ''..'' = [''..'']" "\<not> is_rooted ''..''"
    by (simp_all add: path_elems_def is_rooted_def)
  have j: "filepath_Join ''..'' ''../evil'' = ''../../evil''"
    by (simp add: Join_entry entry_elems_def el show_path_def)
  have c: "filepath_Clean ''..'' = ''..''"
    by (simp add: filepath_Clean_def el show_path_def)
  show "extract_entry sys ''..'' \<lparr>zf_Name = ''../evil'', zf_IsDir = True, zf_Mode = mode\<rparr> =
      z_MkdirAll sys ''../../evil'' ModePerm"
    by (simp add: extract_entry_def j c HasPrefix_def)
  show "\<not> below ''..'' ''../../evil''"
  proof
    assume "below ''..'' ''../../evil''"
    then obtain rs where rs: "''..'' \<notin> set rs" "list_all plain_elem rs" "''../../evil'' = show_path False (''..'' # rs)"
      by (auto simp: below_def el)
    have "Split ''../../evil'' (CHR ''/'') = ''..'' # rs"
      unfolding rs(3) using rs(2) by (simp add: show_path_def, intro Split_Join)
        (auto simp: list_all_iff plain_elem_def)
    then have "rs = [''..'', ''evil'']" by simp
    then show False using rs(1) by simp
  qed
qed

text \<open>
  Extraction to the current directory or to the root refuses every archive that has an entry,
  and touches nothing: the cleaned destination has no element that a path could be below of.
\<close>

theorem no_element_destination_refused:
  assumes "path_elems dest = []"
  shows "extract_all sys dest (file # files) =
    State_Monad.return (Some (ErrText (''zip: illegal file path: '' @ filepath_Join dest (zf_Name file))))"
proof -
  have "\<not> HasPrefix (filepath_Join dest (zf_Name file)) (filepath_Clean dest @ ''/'')"
    using guard_empty_dest guard_iff assms by (cases "dest = []") auto
  then have "extract_entry sys dest file = State_Monad.return
      (Some (ErrText (''zip: illegal file path: '' @ filepath_Join dest (zf_Name file))))"
    by (simp add: extract_entry_def)
  then show ?thesis by simp
qed

lemma no_element_destination_refused_witness:
  "extract_all (demo_zip_os []) ''.'' [\<lparr>zf_Name = ''a.txt'', zf_IsDir = False, zf_Mode = 420\<rparr>] =
     State_Monad.return (Some (ErrText (''zip: illegal file path: '' @ filepath_Join ''.'' ''a.txt'')))
   \<and> path_elems ''/'' = []"
  using no_element_destination_refused [of "''.''" "demo_zip_os []"
      "\<lparr>zf_Name = ''a.txt'', zf_IsDir = False, zf_Mode = 420\<rparr>" "[]"]
  by (simp add: path_elems_def is_rooted_def del: extract_all.simps)

end
