(* ===== verification/Password.thy ===== *)
theory Password
  imports GoStrings
begin

text \<open>
  Package password: encryption with AES-GCM under the SHA-256 hash of a secret, in base64. The
  base64 coding is defined here, as package encoding/base64 does it for \<open>StdEncoding\<close>; the hash, the
  cipher and the source of randomness are parameters, and the round trip rests on the law that
  opening a sealed text gives it back.
\<close>

section \<open>Base64\<close>

definition b64_char :: "nat \<Rightarrow> char" where
  "b64_char n = char_of (if n < 26 then 65 + n else if n < 52 then 71 + n else if n < 62 then n - 4
     else if n = 62 then 43 else 47)"

definition b64_val :: "char \<Rightarrow> nat option" where
  "b64_val c = (let n = of_char c in
     if 65 \<le> n \<and> n \<le> 90 then Some (n - 65) else if 97 \<le> n \<and> n \<le> 122 then Some (n - 71)
     else if 48 \<le> n \<and> n \<le> 57 then Some (n + 4) else if n = 43 then Some 62
     else if n = 47 then Some 63 else None)"

fun b64_encode :: "string \<Rightarrow> string" where
  "b64_encode [] = []"
| "b64_encode [a] = [b64_char (of_char a div 4), b64_char (of_char a mod 4 * 16), CHR ''='', CHR ''='']"
| "b64_encode [a, b] = [b64_char (of_char a div 4), b64_char (of_char a mod 4 * 16 + of_char b div 16),
     b64_char (of_char b mod 16 * 4), CHR ''='']"
| "b64_encode (a # b # c # s) =
     [b64_char (of_char a div 4), b64_char (of_char a mod 4 * 16 + of_char b div 16),
      b64_char (of_char b mod 16 * 4 + of_char c div 64), b64_char (of_char c mod 64)] @ b64_encode s"

text \<open>Line breaks are skipped; the bits below the last byte are not looked at.\<close>

fun b64_decode_clean :: "string \<Rightarrow> string option" where
  "b64_decode_clean [] = Some []"
| "b64_decode_clean (a # b # c # d # s) =
     (case (b64_val a, b64_val b) of
        (Some x, Some y) \<Rightarrow>
          if d = CHR ''='' then
            (if s \<noteq> [] then None
             else if c = CHR ''='' then Some [char_of (x * 4 + y div 16)]
             else (case b64_val c of
                 Some z \<Rightarrow> Some [char_of (x * 4 + y div 16), char_of (y mod 16 * 16 + z div 4)]
               | None \<Rightarrow> None))
          else (case (b64_val c, b64_val d) of
              (Some z, Some u) \<Rightarrow> map_option (\<lambda>r. [char_of (x * 4 + y div 16),
                  char_of (y mod 16 * 16 + z div 4), char_of (z mod 4 * 64 + u)] @ r) (b64_decode_clean s)
            | _ \<Rightarrow> None)
      | _ \<Rightarrow> None)"
| "b64_decode_clean s = None"

definition b64_decode :: "string \<Rightarrow> string option" where
  "b64_decode s = b64_decode_clean (filter (\<lambda>c. c \<noteq> CHR 0x0A \<and> c \<noteq> CHR 0x0D) s)"

section \<open>Encryption\<close>

record Gcm =
  gcm_NonceSize :: nat
  gcm_Seal :: "string \<Rightarrow> string \<Rightarrow> string"
  gcm_Open :: "string \<Rightarrow> string \<Rightarrow> string res"

record 'w Crypto =
  Sum256 :: "string \<Rightarrow> string"
  NewCipher :: "string \<Rightarrow> json res"
  NewGCM :: "json \<Rightarrow> Gcm res"
  ReadFull :: "nat \<Rightarrow> ('w, string res) state"
  CorruptInputError :: "string \<Rightarrow> go_error"

definition deriveKey :: "'w Crypto \<Rightarrow> string \<Rightarrow> string" where
  "deriveKey cr secret = Sum256 cr secret"

definition Encrypt :: "'w Crypto \<Rightarrow> string \<Rightarrow> string \<Rightarrow> ('w, string res) state" where
  "Encrypt cr plainText secret =
     (let key = deriveKey cr secret
      in case NewCipher cr key of
           (_, Some e) \<Rightarrow> State_Monad.return ([], Some e)
         | (block, None) \<Rightarrow>
             (case NewGCM cr block of
                (_, Some e) \<Rightarrow> State_Monad.return ([], Some e)
              | (gcm, None) \<Rightarrow> do {
                  (nonce, err) \<leftarrow> ReadFull cr (gcm_NonceSize gcm);
                  on_err err
                    (let cipherText = nonce @ gcm_Seal gcm nonce plainText
                     in State_Monad.return (b64_encode cipherText, None))
                    (\<lambda>e. ([], Some e))
                }))"

definition Decrypt :: "'w Crypto \<Rightarrow> string \<Rightarrow> string \<Rightarrow> string res" where
  "Decrypt cr encryptedText secret =
     (let key = deriveKey cr secret
      in case b64_decode encryptedText of
           None \<Rightarrow> ([], Some (CorruptInputError cr encryptedText))
         | Some cipherData \<Rightarrow>
             (case NewCipher cr key of
                (_, Some e) \<Rightarrow> ([], Some e)
              | (block, None) \<Rightarrow>
                  (case NewGCM cr block of
                     (_, Some e) \<Rightarrow> ([], Some e)
                   | (gcm, None) \<Rightarrow>
                       let nonceSize = gcm_NonceSize gcm
                       in if length cipherData < nonceSize then ([], Some (ErrText ''invalid ciphertext''))
                          else (case gcm_Open gcm (take nonceSize cipherData) (drop nonceSize cipherData) of
                                  (_, Some e) \<Rightarrow> ([], Some e)
                                | (plainText, None) \<Rightarrow> (plainText, None)))))"

section \<open>Round trips\<close>

lemma b64_val_char: "n < 64 \<Longrightarrow> b64_val (b64_char n) = Some n"
  by (auto simp: b64_val_def b64_char_def of_char_of Let_def)

lemma b64_char_special: "n < 64 \<Longrightarrow> b64_char n \<notin> {CHR ''='', CHR 0x0A, CHR 0x0D}"
  using b64_val_char [of n] by (auto simp: b64_val_def)

lemma byte_parts [simp]:
  "of_char c div 4 < (64 :: nat)" "of_char c div 16 < (16 :: nat)" "of_char c div 64 < (4 :: nat)"
  by (simp_all add: less_mult_imp_div_less)

lemma split_byte:
  "x < m \<Longrightarrow> (y * m + x) div m = (y :: nat)" "x < m \<Longrightarrow> (y * m + x) mod m = (x :: nat)"
  by simp_all

lemma byte_bounds:
  "(of_char a :: nat) div 4 < 64" "of_char a mod 4 * 16 < (64 :: nat)"
  "of_char a mod 4 * 16 + of_char b div 16 < (64 :: nat)"
  "of_char a mod 16 * 4 < (64 :: nat)" "of_char a mod 16 * 4 + of_char b div 64 < (64 :: nat)"
  "of_char a mod 64 < (64 :: nat)"
proof -
  have "of_char a mod 4 < (4 :: nat)" "of_char a mod 16 < (16 :: nat)" by simp_all
  then show "of_char a mod 4 * 16 < (64 :: nat)" "of_char a mod 16 * 4 < (64 :: nat)"
    "of_char a mod 4 * 16 + of_char b div 16 < (64 :: nat)"
    "of_char a mod 16 * 4 + of_char b div 64 < (64 :: nat)"
    using byte_parts(2,3) [of b] by linarith+
qed simp_all

text \<open>The bytes the four values of a group give back, in the form the decoder has them.\<close>

lemma byte1: "x < 16 \<Longrightarrow> char_of ((of_char a div 4) * 4 + (of_char a mod 4 * 16 + x) div (16 :: nat)) = a"
  by (simp only: split_byte div_mult_mod_eq char_of_char)

lemma byte2:
  "x < 4 \<Longrightarrow> char_of ((y * 16 + of_char b div 16) mod 16 * 16 + (of_char b mod 16 * 4 + x) div (4 :: nat)) = b"
  using byte_parts(2) [of b] by (simp only: split_byte div_mult_mod_eq char_of_char)

lemma byte3: "char_of ((y * 4 + of_char c div 64) mod 4 * 64 + of_char c mod (64 :: nat)) = c"
  using byte_parts(3) [of c] by (simp only: split_byte div_mult_mod_eq char_of_char)

lemma b64_not_pad: "n < 64 \<Longrightarrow> (b64_char n = CHR ''='') = False"
  using b64_char_special [of n] by blast

lemmas b64_group = b64_encode.simps b64_decode_clean.simps option.case prod.case simp_thms if_True if_False
  byte_bounds [THEN b64_val_char] byte_bounds [THEN b64_not_pad] append_Cons append_Nil option.map

lemma group1: "b64_decode_clean (b64_encode [a]) = Some [a]"
  using byte1 [of 0 a] by (simp only: b64_group add_0_right zero_less_numeral)

lemma group2: "b64_decode_clean (b64_encode [a, b]) = Some [a, b]"
  using byte1 [OF byte_parts(2) [of b], of a] byte2 [of 0 "of_char a mod 4" b]
  by (simp only: b64_group add_0_right zero_less_numeral)

lemma group3: "b64_decode_clean (b64_encode (a # b # c # s)) =
    map_option ((@) [a, b, c]) (b64_decode_clean (b64_encode s))"
  using byte1 [OF byte_parts(2) [of b], of a] byte2 [OF byte_parts(3) [of c], of "of_char a mod 4" b]
    byte3 [of "of_char b mod 16" c]
  by (simp only: b64_group)

lemma b64_decode_encode: "b64_decode_clean (b64_encode s) = Some s"
proof (induction s rule: b64_encode.induct)
  case (4 a b c s)
  then show ?case by (simp add: group3 del: b64_encode.simps)
qed (simp_all only: group1 group2 b64_encode.simps(1) b64_decode_clean.simps(1))

lemma b64_encode_clean: "c \<in> set (b64_encode s) \<Longrightarrow> c \<noteq> CHR 0x0A \<and> c \<noteq> CHR 0x0D"
  by (induction s rule: b64_encode.induct)
    (use b64_char_special [OF byte_bounds(1)] b64_char_special [OF byte_bounds(2)]
      b64_char_special [OF byte_bounds(3)] b64_char_special [OF byte_bounds(4)]
      b64_char_special [OF byte_bounds(5)] b64_char_special [OF byte_bounds(6)] in auto)

lemma b64_roundtrip: "b64_decode (b64_encode s) = Some s"
proof -
  have "filter (\<lambda>c. c \<noteq> CHR 0x0A \<and> c \<noteq> CHR 0x0D) (b64_encode s) = b64_encode s"
    using b64_encode_clean by (intro filter_True) blast
  then show ?thesis by (simp add: b64_decode_def b64_decode_encode)
qed

text \<open>
  C13. What \<open>Encrypt\<close> returns without an error \<open>Decrypt\<close> turns back into the plain text under the same
  secret, for every plain text, secret and nonce. The cipher is relied on for one thing only: a
  text sealed with a nonce of the right size opens to itself.
\<close>

theorem Encrypt_Decrypt:
  assumes "\<And>block gcm nonce plain. NewGCM cr block = (gcm, None) \<Longrightarrow> length nonce = gcm_NonceSize gcm \<Longrightarrow>
      gcm_Open gcm nonce (gcm_Seal gcm nonce plain) = (plain, None)"
    and "\<And>n w nonce w'. run_state (ReadFull cr n) w = ((nonce, None), w') \<Longrightarrow> length nonce = n"
    and "run_state (Encrypt cr plainText secret) w = ((enc, None), w')"
  shows "Decrypt cr enc secret = (plainText, None)"
proof -
  obtain block e1 where c: "NewCipher cr (deriveKey cr secret) = (block, e1)" by (metis prod.exhaust)
  obtain gcm e2 where g: "NewGCM cr block = (gcm, e2)" by (metis prod.exhaust)
  obtain nonce e3 v where r: "run_state (ReadFull cr (gcm_NonceSize gcm)) w = ((nonce, e3), v)"
    by (metis prod.exhaust)
  from assms(3) c g r have e: "e1 = None" "e2 = None" "e3 = None"
    and enc: "enc = b64_encode (nonce @ gcm_Seal gcm nonce plainText)"
    by (auto simp: Encrypt_def Let_def on_err_def split: option.splits)
  have len: "length nonce = gcm_NonceSize gcm" using assms(2) r e by simp
  then have "gcm_Open gcm nonce (gcm_Seal gcm nonce plainText) = (plainText, None)"
    using assms(1) g e by simp
  then show ?thesis using c g e len by (simp add: Decrypt_def enc b64_roundtrip)
qed

definition demo_crypto :: "unit Crypto" where
  "demo_crypto = \<lparr>Sum256 = \<lambda>s. take 32 (s @ replicate 32 (CHR ''0'')), NewCipher = \<lambda>k. (JStr k, None),
     NewGCM = \<lambda>b. (\<lparr>gcm_NonceSize = 2, gcm_Seal = \<lambda>n p. rev p @ n, gcm_Open = \<lambda>n c.
       (if drop (length c - 2) c = n then (rev (take (length c - 2) c), None)
        else ([], Some (ErrText ''cipher: message authentication failed'')))\<rparr>, None),
     ReadFull = \<lambda>n. State_Monad.return (replicate n (CHR ''n''), None),
     CorruptInputError = \<lambda>_. ErrText ''illegal base64 data''\<rparr>"

lemma Encrypt_Decrypt_witness:
  "Decrypt demo_crypto (b64_encode (''nn'' @ rev ''hello'' @ ''nn'')) ''secret'' = (''hello'', None)"
proof (rule Encrypt_Decrypt)
  show "run_state (Encrypt demo_crypto ''hello'' ''secret'') ()
      = ((b64_encode (''nn'' @ rev ''hello'' @ ''nn''), None), ())"
    by (simp add: Encrypt_def demo_crypto_def numeral_2_eq_2)
qed (auto simp: demo_crypto_def)

end
