(* ===== verification/Email.thy ===== *)
theory Email
  imports Loops GoStrings Wait
begin

text \<open>
  Package email in its two versions: the senders' options and defaults, the transport policy and
  the authentication of the SMTP client, the message builder, and the two resend loops. The mail
  libraries (go-mail, jordan-wright/email, net/smtp) are parameters; messages are known by handles,
  so that what a library does to a message it was given stays in the world. Log output is left out.
  What is shown: the encryption policy is never weaker than the one configured, credentials are
  given exactly when authentication is on, a message is built in a fixed order or not sent at all,
  and both loops stop at the first delivery and after a known number of attempts.
\<close>

section \<open>Version 2: options\<close>

type_synonym TLS = string

definition TLSNone :: TLS where "TLSNone = ''none''"

definition TLSOpportunistic :: TLS where "TLSOpportunistic = ''opportunistic''"

definition TLSMandatory :: TLS where "TLSMandatory = ''mandatory''"

record Sender =
  snd_Host :: string
  snd_Port :: int
  snd_From :: string
  snd_TLS :: TLS
  snd_Auth :: bool
  snd_Username :: string
  snd_Password :: string

record Retry =
  rt_Count :: int
  rt_WaitTime :: duration
  rt_MaxWaitTime :: duration

record email_options =
  eo_Sender :: Sender
  eo_Retry :: Retry

type_synonym email_option = "email_options \<Rightarrow> email_options"

definition on_sender :: "(Sender \<Rightarrow> Sender) \<Rightarrow> email_option" where
  "on_sender f = (\<lambda>o1. o1\<lparr>eo_Sender := f (eo_Sender o1)\<rparr>)"

definition on_retry :: "(Retry \<Rightarrow> Retry) \<Rightarrow> email_option" where
  "on_retry f = (\<lambda>o1. o1\<lparr>eo_Retry := f (eo_Retry o1)\<rparr>)"

definition SenderHost :: "string \<Rightarrow> email_option" where
  "SenderHost host = on_sender (\<lambda>s. s\<lparr>snd_Host := host\<rparr>)"

definition SenderPort :: "int \<Rightarrow> email_option" where
  "SenderPort port = on_sender (\<lambda>s. s\<lparr>snd_Port := port\<rparr>)"

definition SenderFrom :: "string \<Rightarrow> email_option" where
  "SenderFrom sender = on_sender (\<lambda>s. s\<lparr>snd_From := sender\<rparr>)"

definition SenderTLS :: "TLS \<Rightarrow> email_option" where
  "SenderTLS policy = on_sender (\<lambda>s. s\<lparr>snd_TLS := policy\<rparr>)"

definition SenderAuth :: "bool \<Rightarrow> email_option" where
  "SenderAuth auth = on_sender (\<lambda>s. s\<lparr>snd_Auth := auth\<rparr>)"

definition SenderUsername :: "string \<Rightarrow> email_option" where
  "SenderUsername username = on_sender (\<lambda>s. s\<lparr>snd_Username := username\<rparr>)"

definition SenderPassword :: "string \<Rightarrow> email_option" where
  "SenderPassword password = on_sender (\<lambda>s. s\<lparr>snd_Password := password\<rparr>)"

definition RetryCount :: "int \<Rightarrow> email_option" where
  "RetryCount count = on_retry (\<lambda>r. r\<lparr>rt_Count := count\<rparr>)"

definition RetryWaitTime :: "duration \<Rightarrow> email_option" where
  "RetryWaitTime t = on_retry (\<lambda>r. r\<lparr>rt_WaitTime := t\<rparr>)"

definition RetryMaxWaitTime :: "duration \<Rightarrow> email_option" where
  "RetryMaxWaitTime t = on_retry (\<lambda>r. r\<lparr>rt_MaxWaitTime := t\<rparr>)"

definition email_genDefaultOptions :: email_options where
  "email_genDefaultOptions =
     \<lparr>eo_Sender = \<lparr>snd_Host = [], snd_Port = 0, snd_From = [], snd_TLS = TLSMandatory,
        snd_Auth = False, snd_Username = [], snd_Password = []\<rparr>,
      eo_Retry = \<lparr>rt_Count = 3, rt_WaitTime = 2 * Second, rt_MaxWaitTime = 5 * Second\<rparr>\<rparr>"

fun email_init_loop :: "email_options \<Rightarrow> email_option list \<Rightarrow> email_options" where
  "email_init_loop options [] = options"
| "email_init_loop options (o1 # opts) = email_init_loop (o1 options) opts"

definition email_initOptions :: "email_option list \<Rightarrow> email_options" where
  "email_initOptions opts = email_init_loop email_genDefaultOptions opts"

lemma email_init_loop_eq: "email_init_loop o0 opts = apply_options opts o0"
  by (induction opts arbitrary: o0) simp_all

interpretation email_opts: func_options email_initOptions email_genDefaultOptions
  by unfold_locales (simp_all add: email_initOptions_def email_init_loop_eq)

section \<open>Version 2: transport policy\<close>

datatype mail_TLSPolicy = mail_TLSMandatory | mail_TLSOpportunistic | mail_NoTLS

datatype mail_AuthType = SMTPAuthPlain | SMTPAuthPlainNoEnc

datatype mail_Option =
    WithPort int
  | WithTLSPolicy mail_TLSPolicy
  | WithSMTPAuth mail_AuthType
  | WithUsername string
  | WithPassword string

definition TLS_Validate :: "TLS \<Rightarrow> go_error option" where
  "TLS_Validate t =
     (if t = TLSNone \<or> t = TLSOpportunistic \<or> t = TLSMandatory \<or> t = [] then None
      else Some (ErrText (''email: invalid TLS policy '' @ Quote t @ '' (want '' @ Quote TLSNone @ '', ''
        @ Quote TLSOpportunistic @ '' or '' @ Quote TLSMandatory @ '')'')))"

text \<open>The policy returned with an error is the zero value of its type.\<close>

definition TLS_policy :: "TLS \<Rightarrow> mail_TLSPolicy res" where
  "TLS_policy t = (case TLS_Validate t of
       Some e \<Rightarrow> (mail_TLSMandatory, Some e)
     | None \<Rightarrow> if t = TLSNone then (mail_NoTLS, None)
         else if t = TLSOpportunistic then (mail_TLSOpportunistic, None)
         else (mail_TLSMandatory, None))"

section \<open>Version 2: the helper\<close>

datatype mail_FileOption = WithFileContentID string | WithFileContentType string

record 'w MailClient =
  DialAndSend :: "json list \<Rightarrow> ('w, go_error option) state"

record 'w GoMail =
  mail_NewClient :: "string \<Rightarrow> mail_Option list \<Rightarrow> ('w, 'w MailClient option res) state"
  mail_NewMsg :: "('w, json) state"
  msg_From :: "json \<Rightarrow> string \<Rightarrow> ('w, go_error option) state"
  msg_To :: "json \<Rightarrow> string list \<Rightarrow> ('w, go_error option) state"
  msg_Cc :: "json \<Rightarrow> string list \<Rightarrow> ('w, go_error option) state"
  msg_Subject :: "json \<Rightarrow> string \<Rightarrow> ('w, unit) state"
  msg_SetBodyString :: "json \<Rightarrow> string \<Rightarrow> string \<Rightarrow> ('w, unit) state"
  msg_EmbedReader :: "json \<Rightarrow> string \<Rightarrow> string \<Rightarrow> mail_FileOption list \<Rightarrow> ('w, go_error option) state"

record 'w EmailHelper =
  eh_Client :: "'w MailClient option"
  eh_Options :: email_options

record Inline =
  il_ContentID :: string
  il_ContentType :: string
  il_Content :: string

record Message =
  mg_To :: "string list"
  mg_Cc :: "string list"
  mg_Subject :: string
  mg_Body :: string
  mg_HTML :: bool
  mg_Inlines :: "Inline list"

definition client_options :: "Sender \<Rightarrow> mail_TLSPolicy \<Rightarrow> mail_Option list" where
  "client_options s policy =
     [WithPort (snd_Port s), WithTLSPolicy policy]
     @ (if snd_Auth s
        then [WithSMTPAuth (if policy = mail_NoTLS then SMTPAuthPlainNoEnc else SMTPAuthPlain),
              WithUsername (snd_Username s), WithPassword (snd_Password s)]
        else [])"

text \<open>\<open>SetClient\<close> is a method on the pointer: it returns the helper it leaves.\<close>

definition email_SetClient ::
  "'w GoMail \<Rightarrow> 'w EmailHelper \<Rightarrow> ('w, go_error option \<times> 'w EmailHelper) state" where
  "email_SetClient sdk h =
     (let s = eo_Sender (eh_Options h) in
      case TLS_policy (snd_TLS s) of
        (_, Some e) \<Rightarrow> State_Monad.return (Some e, h)
      | (policy, None) \<Rightarrow> do {
          (client, err) \<leftarrow> mail_NewClient sdk (snd_Host s) (client_options s policy);
          State_Monad.return (case err of
            Some e \<Rightarrow> (Some (Wrapped (''email: build client: '' @ err_msg e) e), h)
          | None \<Rightarrow> (None, h\<lparr>eh_Client := client\<rparr>))
        })"

definition email_NewHelper ::
  "'w GoMail \<Rightarrow> email_option list \<Rightarrow> ('w, 'w EmailHelper option res) state" where
  "email_NewHelper sdk opts = do {
     (err, h) \<leftarrow> email_SetClient sdk \<lparr>eh_Client = None, eh_Options = email_initOptions opts\<rparr>;
     on_err err (State_Monad.return (Some h, None)) (\<lambda>e. (None, Some e))
   }"

definition email_NewGlobalHelper ::
  "'w GoMail \<Rightarrow> email_option list \<Rightarrow> ('w EmailHelper globals \<times> 'w, go_error option) state" where
  "email_NewGlobalHelper sdk opts = once_Do (email_NewHelper sdk opts)"

definition email_GetGlobalHelper :: "'w EmailHelper globals \<Rightarrow> 'w EmailHelper option" where
  "email_GetGlobalHelper g = helper g"

interpretation email_global: global_helper
  "email_NewGlobalHelper sdk" "email_NewHelper sdk" email_GetGlobalHelper
  by unfold_locales (auto simp: email_NewGlobalHelper_def email_GetGlobalHelper_def)

section \<open>Version 2: messages\<close>

definition bracketContentID :: "string \<Rightarrow> string" where
  "bracketContentID ident =
     (if HasPrefix ident ''<'' \<and> HasSuffix ident ''>'' then ident else ''<'' @ ident @ ''>'')"

definition embed_inline :: "'w GoMail \<Rightarrow> json \<Rightarrow> Inline \<Rightarrow> ('w, go_error option) state" where
  "embed_inline sdk m inline =
     (let opts = [WithFileContentID (bracketContentID (il_ContentID inline))]
        @ (if il_ContentType inline \<noteq> [] then [WithFileContentType (il_ContentType inline)] else [])
      in do {
        err \<leftarrow> msg_EmbedReader sdk m (il_ContentID inline) (il_Content inline) opts;
        on_err err (State_Monad.return None)
          (\<lambda>e. Some (Wrapped (''email: embed inline '' @ Quote (il_ContentID inline) @ '': '' @ err_msg e) e))
      })"

fun embed_inlines :: "'w GoMail \<Rightarrow> json \<Rightarrow> Inline list \<Rightarrow> ('w, go_error option) state" where
  "embed_inlines sdk m [] = State_Monad.return None"
| "embed_inlines sdk m (inline # inlines) = do {
     err \<leftarrow> embed_inline sdk m inline;
     on_err err (embed_inlines sdk m inlines) Some
   }"

definition show_list :: "string list \<Rightarrow> string" where
  "show_list xs = ''['' @ Join xs '' '' @ '']''"

definition buildMessage :: "'w GoMail \<Rightarrow> 'w EmailHelper \<Rightarrow> Message \<Rightarrow> ('w, json option res) state" where
  "buildMessage sdk h msg =
     (let sender = snd_From (eo_Sender (eh_Options h)) in do {
       m \<leftarrow> mail_NewMsg sdk;
       err \<leftarrow> msg_From sdk m sender;
       on_err err (do {
         err \<leftarrow> msg_To sdk m (mg_To msg);
         on_err err (do {
           err \<leftarrow> msg_Cc sdk m (mg_Cc msg);
           on_err err (do {
             _ \<leftarrow> msg_Subject sdk m (mg_Subject msg);
             _ \<leftarrow> msg_SetBodyString sdk m (if mg_HTML msg then ''text/html'' else ''text/plain'') (mg_Body msg);
             err \<leftarrow> embed_inlines sdk m (mg_Inlines msg);
             on_err err (State_Monad.return (Some m, None)) (\<lambda>e. (None, Some e))
           }) (\<lambda>e. (None, Some (Wrapped (''email: set cc '' @ show_list (mg_Cc msg) @ '': '' @ err_msg e) e)))
         }) (\<lambda>e. (None, Some (Wrapped (''email: set recipients '' @ show_list (mg_To msg) @ '': '' @ err_msg e) e)))
       }) (\<lambda>e. (None, Some (Wrapped (''email: set from '' @ Quote sender @ '': '' @ err_msg e) e)))
     })"

section \<open>Version 2: sending\<close>

text \<open>
  The loop either returns from \<open>Send\<close> (\<open>Inr\<close>) or ends with the last error (\<open>Inl\<close>), which is nil
  when the count is negative and nothing was sent.
\<close>

function send_loop ::
  "int \<Rightarrow> ('w, go_error option outcome) state \<Rightarrow> int \<Rightarrow> go_error option \<Rightarrow> 'w
    \<Rightarrow> (go_error option + go_error option outcome) \<times> 'w" where
  "send_loop count send trial lastErr w =
     (if trial \<le> count
      then (case run_state send w of
              (Panic p, w') \<Rightarrow> (Inr (Panic p), w')
            | (Return None, w') \<Rightarrow> (Inr (Return None), w')
            | (Return (Some e), w') \<Rightarrow> send_loop count send (trial + 1) (Some e) w')
      else (Inl lastErr, w))"
  by pat_completeness auto
termination by (relation "measure (\<lambda>(count, send, trial, lastErr, w). nat (count - trial + 1))") auto

declare send_loop.simps [simp del]

definition send_failed :: "int \<Rightarrow> go_error option \<Rightarrow> go_error" where
  "send_failed count lastErr =
     (let text = ''email: send failed after '' @ Itoa count @ '' retries: '' in
      case lastErr of None \<Rightarrow> ErrText (text @ ''%!w(<nil>)'') | Some e \<Rightarrow> Wrapped (text @ err_msg e) e)"

definition email_Send ::
  "'w GoMail \<Rightarrow> 'w EmailHelper \<Rightarrow> Message \<Rightarrow> ('w, go_error option outcome) state" where
  "email_Send sdk h msg = do {
     (m, err) \<leftarrow> buildMessage sdk h msg;
     on_err err (do {
       let count = rt_Count (eo_Retry (eh_Options h));
       r \<leftarrow> State (send_loop count (on_client (eh_Client h) (\<lambda>c. DialAndSend c [the m])) 0 None);
       State_Monad.return (case r of Inr r \<Rightarrow> r | Inl lastErr \<Rightarrow> Return (Some (send_failed count lastErr)))
     }) (\<lambda>e. Return (Some e))
   }"

section \<open>Version 1\<close>

record Email1 =
  em_From :: string
  em_To :: "string list"
  em_Subject :: string
  em_HTML :: string
  em_Attachments :: "json list"

record Sender1 =
  sn_Host :: string
  sn_Port :: string
  sn_Username :: string
  sn_Password :: string

record email1_options =
  e1_Email :: Email1
  e1_Sender :: Sender1
  e1_Retry :: Retry

type_synonym email1_option = "email1_options \<Rightarrow> email1_options"

definition EmailFrom :: "string \<Rightarrow> email1_option" where
  "EmailFrom sender = (\<lambda>o1. o1\<lparr>e1_Email := (e1_Email o1)\<lparr>em_From := sender\<rparr>\<rparr>)"

definition EmailTo :: "string list \<Rightarrow> email1_option" where
  "EmailTo recipients = (\<lambda>o1. o1\<lparr>e1_Email := (e1_Email o1)\<lparr>em_To := recipients\<rparr>\<rparr>)"

definition EmailSubject :: "string \<Rightarrow> email1_option" where
  "EmailSubject subject = (\<lambda>o1. o1\<lparr>e1_Email := (e1_Email o1)\<lparr>em_Subject := subject\<rparr>\<rparr>)"

definition EmailHTML :: "string \<Rightarrow> email1_option" where
  "EmailHTML html = (\<lambda>o1. o1\<lparr>e1_Email := (e1_Email o1)\<lparr>em_HTML := html\<rparr>\<rparr>)"

definition EmailAttachments :: "json list \<Rightarrow> email1_option" where
  "EmailAttachments attachments = (\<lambda>o1. o1\<lparr>e1_Email := (e1_Email o1)\<lparr>em_Attachments := attachments\<rparr>\<rparr>)"

definition email1_SenderHost :: "string \<Rightarrow> email1_option" where
  "email1_SenderHost host = (\<lambda>o1. o1\<lparr>e1_Sender := (e1_Sender o1)\<lparr>sn_Host := host\<rparr>\<rparr>)"

definition email1_SenderPort :: "string \<Rightarrow> email1_option" where
  "email1_SenderPort port = (\<lambda>o1. o1\<lparr>e1_Sender := (e1_Sender o1)\<lparr>sn_Port := port\<rparr>\<rparr>)"

definition email1_SenderUsername :: "string \<Rightarrow> email1_option" where
  "email1_SenderUsername username = (\<lambda>o1. o1\<lparr>e1_Sender := (e1_Sender o1)\<lparr>sn_Username := username\<rparr>\<rparr>)"

definition email1_SenderPassword :: "string \<Rightarrow> email1_option" where
  "email1_SenderPassword password = (\<lambda>o1. o1\<lparr>e1_Sender := (e1_Sender o1)\<lparr>sn_Password := password\<rparr>\<rparr>)"

definition email1_RetryWaitTime :: "duration \<Rightarrow> email1_option" where
  "email1_RetryWaitTime t = (\<lambda>o1. o1\<lparr>e1_Retry := (e1_Retry o1)\<lparr>rt_WaitTime := t\<rparr>\<rparr>)"

definition email1_RetryMaxWaitTime :: "duration \<Rightarrow> email1_option" where
  "email1_RetryMaxWaitTime t = (\<lambda>o1. o1\<lparr>e1_Retry := (e1_Retry o1)\<lparr>rt_MaxWaitTime := t\<rparr>\<rparr>)"

definition email1_genDefaultOptions :: email1_options where
  "email1_genDefaultOptions =
     \<lparr>e1_Email = \<lparr>em_From = [], em_To = [], em_Subject = [], em_HTML = [], em_Attachments = []\<rparr>,
      e1_Sender = \<lparr>sn_Host = [], sn_Port = [], sn_Username = [], sn_Password = []\<rparr>,
      e1_Retry = \<lparr>rt_Count = 3, rt_WaitTime = 2 * Second, rt_MaxWaitTime = 5 * Second\<rparr>\<rparr>"

fun email1_init_loop :: "email1_options \<Rightarrow> email1_option list \<Rightarrow> email1_options" where
  "email1_init_loop options [] = options"
| "email1_init_loop options (o1 # opts) = email1_init_loop (o1 options) opts"

definition email1_initOptions :: "email1_option list \<Rightarrow> email1_options" where
  "email1_initOptions opts = email1_init_loop email1_genDefaultOptions opts"

lemma email1_init_loop_eq: "email1_init_loop o0 opts = apply_options opts o0"
  by (induction opts arbitrary: o0) simp_all

interpretation email1_opts: func_options email1_initOptions email1_genDefaultOptions
  by unfold_locales (simp_all add: email1_initOptions_def email1_init_loop_eq)

text \<open>
  The message is the client: \<open>*email.Email\<close> implements the interface. \<open>smtp.PlainAuth\<close> only
  stores its arguments.
\<close>

datatype smtp_Auth = PlainAuth string string string string

datatype tls_Config = ServerName string

record 'w Client1 =
  SendWithStartTLS :: "string \<Rightarrow> smtp_Auth \<Rightarrow> tls_Config \<Rightarrow> ('w, go_error option) state"

record 'w Email1Helper =
  h1_Client :: "'w Client1 option"
  h1_Options :: email1_options

definition email1_NewHelper :: "(Email1 \<Rightarrow> 'w Client1) \<Rightarrow> email1_option list \<Rightarrow> 'w Email1Helper" where
  "email1_NewHelper as_client opts =
     (let initedOpts = email1_initOptions opts; m = e1_Email initedOpts;
          e = \<lparr>em_From = em_From m, em_To = em_To m, em_Subject = em_Subject m,
               em_HTML = em_HTML m, em_Attachments = em_Attachments m\<rparr>
      in \<lparr>h1_Client = Some (as_client e), h1_Options = initedOpts\<rparr>)"

definition getSmtpAddress :: "'w Email1Helper \<Rightarrow> string" where
  "getSmtpAddress h = sn_Host (e1_Sender (h1_Options h)) @ '':'' @ sn_Port (e1_Sender (h1_Options h))"

definition getSmtpAuth :: "'w Email1Helper \<Rightarrow> smtp_Auth" where
  "getSmtpAuth h = (let s = e1_Sender (h1_Options h) in PlainAuth [] (sn_Username s) (sn_Password s) (sn_Host s))"

definition getTLSConfig :: "'w Email1Helper \<Rightarrow> tls_Config" where
  "getTLSConfig h = ServerName (sn_Host (e1_Sender (h1_Options h)))"

function send1_loop ::
  "int \<Rightarrow> ('w, go_error option outcome) state \<Rightarrow> int \<Rightarrow> go_error option \<Rightarrow> 'w
    \<Rightarrow> go_error option outcome \<times> 'w" where
  "send1_loop count send trialCount err w =
     (if trialCount > count then (Return err, w)
      else (case run_state send w of
              (Panic p, w') \<Rightarrow> (Panic p, w')
            | (Return (Some e), w') \<Rightarrow> send1_loop count send (trialCount + 1) (Some e) w'
            | (Return None, w') \<Rightarrow> (Return None, w')))"
  by pat_completeness auto
termination by (relation "measure (\<lambda>(count, send, trial, lastErr, w). nat (count - trial + 1))") auto

declare send1_loop.simps [simp del]

definition email1_Send :: "'w Email1Helper \<Rightarrow> ('w, go_error option outcome) state" where
  "email1_Send h = State (send1_loop (rt_Count (e1_Retry (h1_Options h)))
     (on_client (h1_Client h)
       (\<lambda>c. SendWithStartTLS c (getSmtpAddress h) (getSmtpAuth h) (getTLSConfig h))) 0 None)"

section \<open>Both loops are bounded retries\<close>

definition send_attempt :: "('w, go_error option outcome) state \<Rightarrow> go_error option
    \<Rightarrow> ('w, go_error option + (go_error option + go_error option outcome)) state" where
  "send_attempt send _ = do {
     r \<leftarrow> send;
     State_Monad.return (case r of Return (Some e) \<Rightarrow> Inl (Some e) | _ \<Rightarrow> Inr (Inr r))
   }"

lemma send_loop_shift: "send_loop (c + 1) send (t + 1) e w = send_loop c send t e w"
  by (induction c send t e w rule: send_loop.induct)
    (subst (1 2) send_loop.simps, auto split: prod.splits outcome.splits option.splits)

lemma send_loop_Suc: "send_loop (int n) send 0 e w =
    (case run_state send w of
       (Panic p, w') \<Rightarrow> (Inr (Panic p), w') | (Return None, w') \<Rightarrow> (Inr (Return None), w')
     | (Return (Some e), w') \<Rightarrow> send_loop (int n - 1) send 0 (Some e) w')"
  using send_loop_shift [of "int n - 1" send 0]
  by (subst send_loop.simps) (simp split: prod.splits outcome.splits option.splits)

interpretation sends: bounded_retry
  "\<lambda>n e. State (send_loop (int n - 1) send 0 e)"
  "send_attempt send" Inl
  for send :: "('w, go_error option outcome) state"
proof
  fix n and e :: "go_error option"
  show "State (send_loop (int 0 - 1) send 0 e) = State_Monad.return (Inl e)"
    by (auto simp: send_loop.simps intro!: state.expand ext)
  show "State (send_loop (int (Suc n) - 1) send 0 e) = State_Monad.bind (send_attempt send e)
      (\<lambda>o1. case o1 of Inl e' \<Rightarrow> State (send_loop (int n - 1) send 0 e') | Inr r \<Rightarrow> State_Monad.return r)"
    by (intro state.expand ext)
      (simp add: send_attempt_def send_loop_Suc split: prod.splits outcome.splits option.splits)
qed

text \<open>The two versions resend alike: they differ in what is returned when the attempts are used up.\<close>

lemma send1_loop_eq: "send1_loop count send trial err w =
    (case send_loop count send trial err w of (Inl e, w') \<Rightarrow> (Return e, w') | (Inr r, w') \<Rightarrow> (r, w'))"
  by (induction count send trial err w rule: send_loop.induct)
    (subst send1_loop.simps, subst send_loop.simps, auto split: prod.splits outcome.splits option.splits)

text \<open>
  \<open>refusals n send e w\<close> is the last error and the world after \<open>n\<close> deliveries in a row that were
  refused, and \<open>None\<close> when one of them was not.
\<close>

fun refusals :: "nat \<Rightarrow> ('w, go_error option) state \<Rightarrow> go_error option \<Rightarrow> 'w \<Rightarrow> (go_error option \<times> 'w) option" where
  "refusals 0 send e w = Some (e, w)"
| "refusals (Suc n) send e w =
     (case run_state send w of (Some e', w') \<Rightarrow> refusals n send (Some e') w' | (None, w') \<Rightarrow> None)"

lemma failing_send: "failing n (send_attempt (on_client (Some c) f)) e w = refusals n (f c) e w"
  by (induction n arbitrary: e w) (auto simp: send_attempt_def split: prod.splits option.splits)

lemma send_loop_budget:
  "send_loop count send 0 e w = run_state (State (send_loop (int (nat (count + 1)) - 1) send 0 e)) w"
  by (cases "count < 0") (auto simp: send_loop.simps)

lemma send_loop_refused:
  assumes "refusals (nat (count + 1)) (f c) e w = Some (e', w')"
  shows "send_loop count (on_client (Some c) f) 0 e w = (Inl e', w')"
  by (subst send_loop_budget, rule sends.loop_all_fail) (simp add: failing_send assms)

lemma send_loop_delivered:
  assumes "refusals k (f c) e w = Some (e1, w1)" and "run_state (f c) w1 = (None, w2)" and "int k \<le> count"
  shows "send_loop count (on_client (Some c) f) 0 e w = (Inr (Return None), w2)"
  by (subst send_loop_budget, rule sends.loop_first_success [where k = k and ?e1.0 = e1 and ?w1.0 = w1])
    (use assms in \<open>auto simp: failing_send, simp add: send_attempt_def\<close>)

section \<open>Properties\<close>

text \<open>
  C9. \<open>SetClient\<close> never weakens the configured encryption: a plaintext client is made for the policy
  \<open>none\<close> only, the empty policy requires TLS, and an unknown one is refused before a client is made.
  User name and password are handed over exactly when authentication is on, and the mechanism that
  sends them unencrypted is chosen exactly when the policy is \<open>none\<close>.
\<close>

theorem SetClient_never_downgrades:
  assumes "s = eo_Sender (eh_Options h)"
  shows "(snd_TLS s \<notin> {''none'', ''opportunistic'', ''mandatory'', []} \<longrightarrow>
      (\<exists>e. run_state (email_SetClient sdk h) w = ((Some e, h), w)))
    \<and> (snd_TLS s \<in> {''none'', ''opportunistic'', ''mandatory'', []} \<longrightarrow>
      (\<exists>opts. run_state (email_SetClient sdk h) w =
          (case run_state (mail_NewClient sdk (snd_Host s) opts) w of
             ((client, None), w') \<Rightarrow> ((None, h\<lparr>eh_Client := client\<rparr>), w')
           | ((_, Some e), w') \<Rightarrow> ((Some (Wrapped (''email: build client: '' @ err_msg e) e), h), w'))
        \<and> (WithTLSPolicy mail_NoTLS \<in> set opts \<longleftrightarrow> snd_TLS s = ''none'')
        \<and> (WithTLSPolicy mail_TLSMandatory \<in> set opts \<longleftrightarrow> snd_TLS s \<in> {''mandatory'', []})
        \<and> (\<forall>u. WithUsername u \<in> set opts \<longleftrightarrow> snd_Auth s \<and> u = snd_Username s)
        \<and> (\<forall>p. WithPassword p \<in> set opts \<longleftrightarrow> snd_Auth s \<and> p = snd_Password s)
        \<and> (WithSMTPAuth SMTPAuthPlainNoEnc \<in> set opts \<longleftrightarrow> snd_Auth s \<and> snd_TLS s = ''none'')
        \<and> (WithSMTPAuth SMTPAuthPlain \<in> set opts \<longleftrightarrow> snd_Auth s \<and> snd_TLS s \<noteq> ''none'')))"
proof -
  note defs = email_SetClient_def TLS_policy_def TLS_Validate_def TLSNone_def TLSOpportunistic_def
    TLSMandatory_def Let_def
  have refuse: "\<exists>e. run_state (email_SetClient sdk h) w = ((Some e, h), w)"
    if "snd_TLS s \<notin> {''none'', ''opportunistic'', ''mandatory'', []}"
    using that by (simp add: defs assms)
  obtain p where p: "snd_TLS s \<in> {''none'', ''opportunistic'', ''mandatory'', []} \<Longrightarrow> TLS_policy (snd_TLS s) = (p, None)"
    "p = mail_NoTLS \<longleftrightarrow> snd_TLS s = ''none''"
    "p = mail_TLSMandatory \<longleftrightarrow> snd_TLS s \<notin> {''none'', ''opportunistic''}"
    by (cases "snd_TLS s = ''none''"; cases "snd_TLS s = ''opportunistic''") (auto simp: defs)
  have run: "run_state (email_SetClient sdk h) w =
      (case run_state (mail_NewClient sdk (snd_Host s) (client_options s p)) w of
         ((client, None), w') \<Rightarrow> ((None, h\<lparr>eh_Client := client\<rparr>), w')
       | ((_, Some e), w') \<Rightarrow> ((Some (Wrapped (''email: build client: '' @ err_msg e) e), h), w'))"
    if "snd_TLS s \<in> {''none'', ''opportunistic'', ''mandatory'', []}"
    using p(1) [OF that] by (simp add: email_SetClient_def Let_def assms split: prod.splits option.splits)
  show ?thesis
    using refuse run p(2,3) by (intro conjI impI exI [of _ "client_options s p"]) (auto simp: client_options_def)
qed

definition demo_mail :: "json list GoMail" where
  "demo_mail = \<lparr>mail_NewClient = \<lambda>_ _. State_Monad.return
       (Some \<lparr>DialAndSend = \<lambda>ms. State (\<lambda>w. (if length w < 2 then Some (ErrText ''busy'') else None, w @ ms))\<rparr>, None),
     mail_NewMsg = State_Monad.return (JStr ''msg''),
     msg_From = \<lambda>_ a. State_Monad.return (if a = [] then Some (ErrText ''no address'') else None),
     msg_To = \<lambda>_ _. State_Monad.return None, msg_Cc = \<lambda>_ _. State_Monad.return None,
     msg_Subject = \<lambda>_ _. State_Monad.return (), msg_SetBodyString = \<lambda>_ _ _. State_Monad.return (),
     msg_EmbedReader = \<lambda>_ _ _ _. State_Monad.return None\<rparr>"

lemma SetClient_never_downgrades_witness:
  "\<exists>e. run_state (email_SetClient demo_mail \<lparr>eh_Client = None,
      eh_Options = SenderTLS ''None'' email_genDefaultOptions\<rparr>) []
    = ((Some e, \<lparr>eh_Client = None, eh_Options = SenderTLS ''None'' email_genDefaultOptions\<rparr>), [])"
  using SetClient_never_downgrades [OF refl, of "\<lparr>eh_Client = None,
      eh_Options = SenderTLS ''None'' email_genDefaultOptions\<rparr>" demo_mail "[]"]
  by (simp add: SenderTLS_def on_sender_def)

text \<open>
  C17. \<open>Send\<close> dials until the message is delivered, at most \<open>Count + 1\<close> times. The first delivery ends
  it without an error; when all attempts are refused the error wraps the last refusal. With a
  negative \<open>Count\<close> nothing is sent and the error wraps nothing.
\<close>

theorem Send_resends:
  assumes "run_state (buildMessage sdk h msg) w = ((Some m, None), w0)" and "eh_Client h = Some c"
    and "count = rt_Count (eo_Retry (eh_Options h))" and "send = DialAndSend c [m]"
  shows "(\<forall>e w'. refusals (nat (count + 1)) send None w0 = Some (e, w') \<longrightarrow>
      run_state (email_Send sdk h msg) w = (Return (Some (send_failed count e)), w'))
    \<and> (\<forall>k e w1 w2. int k \<le> count \<longrightarrow> refusals k send None w0 = Some (e, w1) \<longrightarrow>
      run_state send w1 = (None, w2) \<longrightarrow> run_state (email_Send sdk h msg) w = (Return None, w2))"
  using assms
  by (auto simp: email_Send_def Let_def
      send_loop_refused [where f = "\<lambda>c. DialAndSend c [m]"]
      send_loop_delivered [where f = "\<lambda>c. DialAndSend c [m]"])

definition demo_message :: Message where
  "demo_message = \<lparr>mg_To = [''a@b.co''], mg_Cc = [], mg_Subject = ''hi'', mg_Body = ''x'', mg_HTML = True,
     mg_Inlines = [\<lparr>il_ContentID = ''logo@cmp'', il_ContentType = [], il_Content = ''png''\<rparr>]\<rparr>"

definition demo_mailer :: "int \<Rightarrow> json list EmailHelper" where
  "demo_mailer count = \<lparr>eh_Client = Some \<lparr>DialAndSend = \<lambda>ms. State (\<lambda>w. (if length w < 2 then Some (ErrText ''busy'') else None, w @ ms))\<rparr>,
     eh_Options = RetryCount count (SenderFrom ''me@b.co'' email_genDefaultOptions)\<rparr>"

lemma Send_resends_witness:
  "run_state (email_Send demo_mail (demo_mailer 1) demo_message) [] =
     (Return (Some (send_failed 1 (Some (ErrText ''busy'')))), [JStr ''msg'', JStr ''msg''])
   \<and> run_state (email_Send demo_mail (demo_mailer 2) demo_message) [] =
     (Return None, [JStr ''msg'', JStr ''msg'', JStr ''msg''])"
proof -
  let ?send = "DialAndSend \<lparr>DialAndSend = \<lambda>ms. State (\<lambda>w. (if length w < 2 then Some (ErrText ''busy'') else None, w @ ms))\<rparr> [JStr ''msg'']"
  have count: "rt_Count (eo_Retry (eh_Options (demo_mailer n))) = n"
    and client: "eh_Client (demo_mailer n) = Some \<lparr>DialAndSend = \<lambda>ms. State (\<lambda>w. (if length w < 2 then Some (ErrText ''busy'') else None, w @ ms))\<rparr>"
    and build: "run_state (buildMessage demo_mail (demo_mailer n) demo_message) [] = ((Some (JStr ''msg''), None), [])" for n
    by (simp_all add: demo_mailer_def RetryCount_def on_retry_def SenderFrom_def on_sender_def buildMessage_def
        demo_mail_def demo_message_def embed_inline_def Let_def email_genDefaultOptions_def)
  note props = Send_resends [OF build client count [symmetric] refl]
  have "refusals 2 ?send None [] = Some (Some (ErrText ''busy''), [JStr ''msg'', JStr ''msg''])"
    by (simp add: numeral_2_eq_2)
  moreover have "run_state ?send [JStr ''msg'', JStr ''msg''] = (None, [JStr ''msg'', JStr ''msg'', JStr ''msg''])"
    by simp
  ultimately show ?thesis
    using props [of 1] conjunct2 [OF props [of 2], rule_format, of 2] by simp
qed

text \<open>
  The message a \<open>Message\<close> stands for, as the library calls that make it, in their order.
\<close>

definition message_steps :: "'w GoMail \<Rightarrow> string \<Rightarrow> Message \<Rightarrow> json \<Rightarrow> ('w, go_error option) state list" where
  "message_steps sdk sender msg m =
     [msg_From sdk m sender, msg_To sdk m (mg_To msg), msg_Cc sdk m (mg_Cc msg),
      do { _ \<leftarrow> msg_Subject sdk m (mg_Subject msg);
           _ \<leftarrow> msg_SetBodyString sdk m (if mg_HTML msg then ''text/html'' else ''text/plain'') (mg_Body msg);
           State_Monad.return None }]
     @ map (\<lambda>il. msg_EmbedReader sdk m (il_ContentID il) (il_Content il)
         (WithFileContentID (bracketContentID (il_ContentID il))
          # (if il_ContentType il = [] then [] else [WithFileContentType (il_ContentType il)])))
       (mg_Inlines msg)"

lemma run_embed_inline: "run_state (embed_inline sdk m il) w =
    (case run_state (msg_EmbedReader sdk m (il_ContentID il) (il_Content il)
        (WithFileContentID (bracketContentID (il_ContentID il))
          # (if il_ContentType il = [] then [] else [WithFileContentType (il_ContentType il)]))) w of
       (None, w') \<Rightarrow> (None, w')
     | (Some e, w') \<Rightarrow> (Some (Wrapped (''email: embed inline '' @ Quote (il_ContentID il) @ '': '' @ err_msg e) e), w'))"
  by (simp add: embed_inline_def Let_def on_err_def split: prod.splits option.splits)

interpretation embeds: stop_at_error "embed_inlines sdk m" "embed_inline sdk m" None for sdk m
  by unfold_locales (auto simp: on_err_def intro!: arg_cong [where f = "State_Monad.bind _"] split: option.splits)

lemma all_ok_embeds: "all_ok None (\<lambda>s. s) (map (\<lambda>il. msg_EmbedReader sdk m (il_ContentID il) (il_Content il)
        (WithFileContentID (bracketContentID (il_ContentID il))
          # (if il_ContentType il = [] then [] else [WithFileContentType (il_ContentType il)]))) ils) w = Some w'
    \<longleftrightarrow> run_state (embed_inlines sdk m ils) w = (None, w')"
  unfolding embeds.loop_ok_iff
  by (induction ils arbitrary: w) (auto simp: run_embed_inline split: prod.splits option.splits)

text \<open>
  C16. \<open>buildMessage\<close> returns a message exactly when the sender, the recipients, the copies, the body
  and every inline part were accepted in this order, each part under its identifier in angle
  brackets; otherwise it returns no message and an error.
\<close>

theorem buildMessage_all_or_nothing:
  assumes "run_state (mail_NewMsg sdk) w = (m, w0)"
  shows "(run_state (buildMessage sdk h msg) w = ((Some m, None), w') \<longleftrightarrow>
      all_ok None (\<lambda>s. s) (message_steps sdk (snd_From (eo_Sender (eh_Options h))) msg m) w0 = Some w')
    \<and> (fst (run_state (buildMessage sdk h msg) w) = (Some m, None)
       \<or> (\<exists>e. fst (run_state (buildMessage sdk h msg) w) = (None, Some e)))"
  using assms
  by (auto simp: buildMessage_def message_steps_def all_ok_embeds Let_def on_err_def
      simp del: embed_inlines.simps split: prod.splits option.splits if_splits)

lemma buildMessage_all_or_nothing_witness:
  "run_state (buildMessage demo_mail (demo_mailer 1) demo_message) [] = ((Some (JStr ''msg''), None), [])"
proof -
  have "run_state (mail_NewMsg demo_mail) [] = (JStr ''msg'', [])" by (simp add: demo_mail_def)
  from conjunct1 [OF buildMessage_all_or_nothing [OF this, of "demo_mailer 1" demo_message "[]"]]
  show ?thesis
    by (simp add: demo_mail_def message_steps_def demo_message_def demo_mailer_def RetryCount_def
        on_retry_def SenderFrom_def on_sender_def email_genDefaultOptions_def)
qed

text \<open>
  C39. In version 1 no option sets the retry count, so a helper made by \<open>NewHelper\<close> sends at most four
  times: it returns nil after the first delivery, or the error of the fourth refusal. For a helper
  with a negative count \<open>Send\<close> reports success without having sent anything.
\<close>

theorem email1_four_attempts:
  assumes "\<forall>opt \<in> set opts. \<forall>o1. rt_Count (e1_Retry (opt o1)) = rt_Count (e1_Retry o1)"
    and "h = email1_NewHelper as_client opts" and "h1_Client h = Some c"
    and "send = SendWithStartTLS c (getSmtpAddress h) (getSmtpAuth h) (getTLSConfig h)"
  shows "(\<forall>e w'. refusals 4 send None w = Some (e, w') \<longrightarrow> run_state (email1_Send h) w = (Return e, w'))
    \<and> (\<forall>k e w1 w2. k < 4 \<longrightarrow> refusals k send None w = Some (e, w1) \<longrightarrow>
      run_state send w1 = (None, w2) \<longrightarrow> run_state (email1_Send h) w = (Return None, w2))
    \<and> (count < 0 \<longrightarrow> run_state (email1_Send (h\<lparr>h1_Options := (h1_Options h)\<lparr>e1_Retry :=
        (e1_Retry (h1_Options h))\<lparr>rt_Count := count\<rparr>\<rparr>\<rparr>)) w = (Return None, w))"
proof -
  have "rt_Count (e1_Retry (email1_initOptions opts)) = rt_Count (e1_Retry email1_genDefaultOptions)"
    by (rule email1_opts.default_kept) (use assms(1) in blast)
  then have count: "rt_Count (e1_Retry (h1_Options h)) = 3"
    by (simp add: assms(2) email1_NewHelper_def Let_def email1_genDefaultOptions_def)
  let ?f = "\<lambda>c. SendWithStartTLS c (getSmtpAddress h) (getSmtpAuth h) (getTLSConfig h)"
  show ?thesis
    using send_loop_refused [of 3 ?f c None w] send_loop_delivered [where f = ?f and c = c and e = None and w = w and count = 3]
    by (auto simp: email1_Send_def send1_loop_eq count assms(3,4)) (simp add: send_loop.simps)
qed

lemma email1_four_attempts_witness:
  "run_state (email1_Send (email1_NewHelper (\<lambda>_. \<lparr>SendWithStartTLS = \<lambda>_ _ _. State (\<lambda>n :: nat.
       (Some (ErrText ''refused''), n + 1))\<rparr>) [email1_SenderHost ''mx''])) 0 = (Return (Some (ErrText ''refused'')), 4)"
proof -
  let ?c = "\<lparr>SendWithStartTLS = \<lambda>_ _ _. State (\<lambda>n :: nat. (Some (ErrText ''refused''), n + 1))\<rparr>"
  let ?h = "email1_NewHelper (\<lambda>_. ?c) [email1_SenderHost ''mx'']"
  have "\<forall>opt \<in> set [email1_SenderHost ''mx'']. \<forall>o1. rt_Count (e1_Retry (opt o1)) = rt_Count (e1_Retry o1)"
    by (simp add: email1_SenderHost_def)
  moreover have "h1_Client ?h = Some ?c" by (simp add: email1_NewHelper_def Let_def)
  moreover have "refusals 4 (State (\<lambda>n :: nat. (Some (ErrText ''refused''), n + 1))) None 0
      = Some (Some (ErrText ''refused''), 4)"
    by (simp add: eval_nat_numeral)
  ultimately show ?thesis
    using email1_four_attempts [of "[email1_SenderHost ''mx'']" ?h "\<lambda>_. ?c" ?c, OF _ refl _ refl, of 0] by simp
qed

end
