(* ===== verification/Aws.thy ===== *)
theory Aws
  imports Loops Wait
begin

text \<open>
  Package aws: the helper of the object store (options, configuration, client, object operations)
  and the helper of the virtual machines, whose \<open>DeleteVpc\<close> tears a network down part by part. The SDK
  (configuration loader, S3 and EC2 clients, waiter) is a parameter. What is shown: against any EC2
  service that refuses to delete what others depend on, as the service documents, exactly which
  networks \<open>DeleteVpc\<close> deletes, what it leaves of them, and that it fails on the others without
  deleting them.
\<close>

section \<open>Options and configuration\<close>

record aws_options =
  ao_Region :: string
  ao_S3Url :: string
  ao_AccessKey :: string
  ao_SecretKey :: string
  ao_EnableCustomURL :: bool
  ao_EnableStaticCreds :: bool
  ao_InsecureSkipVerify :: bool

type_synonym aws_option = "aws_options \<Rightarrow> aws_options"

definition aws_zero :: aws_options where
  "aws_zero = \<lparr>ao_Region = [], ao_S3Url = [], ao_AccessKey = [], ao_SecretKey = [],
     ao_EnableCustomURL = False, ao_EnableStaticCreds = False, ao_InsecureSkipVerify = False\<rparr>"

definition aws_Region :: "string \<Rightarrow> aws_option" where
  "aws_Region region = (\<lambda>o1. o1\<lparr>ao_Region := region\<rparr>)"

definition aws_S3Url :: "string \<Rightarrow> aws_option" where
  "aws_S3Url s3Url = (\<lambda>o1. o1\<lparr>ao_S3Url := s3Url\<rparr>)"

definition aws_AccessKey :: "string \<Rightarrow> aws_option" where
  "aws_AccessKey accessKey = (\<lambda>o1. o1\<lparr>ao_AccessKey := accessKey\<rparr>)"

definition aws_SecretKey :: "string \<Rightarrow> aws_option" where
  "aws_SecretKey secretKey = (\<lambda>o1. o1\<lparr>ao_SecretKey := secretKey\<rparr>)"

definition EnableCustomURL :: "bool \<Rightarrow> aws_option" where
  "EnableCustomURL enable = (\<lambda>o1. o1\<lparr>ao_EnableCustomURL := enable\<rparr>)"

definition EnableStaticCreds :: "bool \<Rightarrow> aws_option" where
  "EnableStaticCreds enable = (\<lambda>o1. o1\<lparr>ao_EnableStaticCreds := enable\<rparr>)"

definition aws_InsecureSkipVerify :: "bool \<Rightarrow> aws_option" where
  "aws_InsecureSkipVerify skip = (\<lambda>o1. o1\<lparr>ao_InsecureSkipVerify := skip\<rparr>)"

fun aws_init_loop :: "aws_options \<Rightarrow> aws_option list \<Rightarrow> aws_options" where
  "aws_init_loop options [] = options"
| "aws_init_loop options (o1 # opts) = aws_init_loop (o1 options) opts"

definition aws_initOptions :: "aws_option list \<Rightarrow> aws_options" where
  "aws_initOptions opts = aws_init_loop aws_zero opts"

lemma aws_init_loop_eq: "aws_init_loop o0 opts = apply_options opts o0"
  by (induction opts arbitrary: o0) simp_all

interpretation aws_opts: func_options aws_initOptions aws_zero
  by unfold_locales (simp_all add: aws_initOptions_def aws_init_loop_eq)

text \<open>
  \<open>aws.Config\<close> as far as the package sets it: what the default loader found, the certificate check
  of a transport of its own, and static credentials (key, secret, session token).
\<close>

record AwsConfig =
  cfg_loaded :: json
  cfg_InsecureTransport :: "bool option"
  cfg_Credentials :: "(string \<times> string \<times> string) option"

section \<open>The object store\<close>

record S3Object =
  s3_Bucket :: string
  s3_Key :: string

record 'w S3Api =
  s3_CreateBucket :: "ctx \<Rightarrow> json \<Rightarrow> ('w, json option res) state"
  s3_PutObject :: "ctx \<Rightarrow> S3Object \<Rightarrow> string \<Rightarrow> string list \<Rightarrow> ('w, json option res) state"
  s3_DeleteObject :: "ctx \<Rightarrow> S3Object \<Rightarrow> ('w, json option res) state"
  s3_PresignGetObject :: "ctx \<Rightarrow> S3Object \<Rightarrow> duration \<Rightarrow> ('w, string option res) state"

record 'w AwsSdk =
  LoadDefaultConfig :: "ctx \<Rightarrow> string \<Rightarrow> ('w, json res) state"
  s3_NewFromConfig :: "AwsConfig \<Rightarrow> string option \<Rightarrow> 'w S3Api"

record 'w AwsHelper =
  ah_AwsS3Client :: "'w S3Api option"
  ah_S3Client :: "'w S3Api option"
  ah_S3PresignedClient :: "'w S3Api option"
  ah_Options :: aws_options

definition newAwsConfig :: "'w AwsSdk \<Rightarrow> aws_options \<Rightarrow> ('w, AwsConfig option res) state" where
  "newAwsConfig sdk opts = do {
     (cfg, err) \<leftarrow> LoadDefaultConfig sdk Background (ao_Region opts);
     on_err err
       (State_Monad.return (Some \<lparr>cfg_loaded = cfg,
          cfg_InsecureTransport = (if ao_InsecureSkipVerify opts then Some True else None),
          cfg_Credentials = (if ao_EnableStaticCreds opts
            then Some (ao_AccessKey opts, ao_SecretKey opts, []) else None)\<rparr>, None))
       (\<lambda>e. (None, Some e))
   }"

definition newS3Client :: "'w AwsSdk \<Rightarrow> aws_options \<Rightarrow> ('w, 'w S3Api option res) state" where
  "newS3Client sdk opts = do {
     (cfg, err) \<leftarrow> newAwsConfig sdk opts;
     on_err err
       (State_Monad.return (Some (s3_NewFromConfig sdk (the cfg)
          (if ao_EnableCustomURL opts then Some (ao_S3Url opts) else None)), None))
       (\<lambda>e. (None, Some e))
   }"

definition SetS3Client ::
  "'w AwsSdk \<Rightarrow> 'w AwsHelper \<Rightarrow> ('w, go_error option \<times> 'w AwsHelper) state" where
  "SetS3Client sdk h = do {
     (cli, err) \<leftarrow> newS3Client sdk (ah_Options h);
     on_err err
       (State_Monad.return (None, h\<lparr>ah_S3Client := cli, ah_S3PresignedClient := cli, ah_AwsS3Client := cli\<rparr>))
       (\<lambda>e. (Some e, h))
   }"

definition aws_NewHelper :: "'w AwsSdk \<Rightarrow> aws_option list \<Rightarrow> ('w, 'w AwsHelper option res) state" where
  "aws_NewHelper sdk opts = do {
     (err, h) \<leftarrow> SetS3Client sdk \<lparr>ah_AwsS3Client = None, ah_S3Client = None,
       ah_S3PresignedClient = None, ah_Options = aws_initOptions opts\<rparr>;
     on_err err (State_Monad.return (Some h, None)) (\<lambda>e. (None, Some e))
   }"

definition aws_NewGlobalHelper ::
  "'w AwsSdk \<Rightarrow> aws_option list \<Rightarrow> ('w AwsHelper globals \<times> 'w, go_error option) state" where
  "aws_NewGlobalHelper sdk opts = do {
     err \<leftarrow> once_Do (aws_NewHelper sdk opts);
     on_err err (State_Monad.return None) Some
   }"

definition aws_GetGlobalHelper :: "'w AwsHelper globals \<Rightarrow> 'w AwsHelper option" where
  "aws_GetGlobalHelper g = helper g"

interpretation aws_global: global_helper
  "aws_NewGlobalHelper sdk" "aws_NewHelper sdk" aws_GetGlobalHelper
  by unfold_locales
    (auto simp: aws_NewGlobalHelper_def aws_GetGlobalHelper_def on_err_def split: option.splits)

definition CreateBucket :: "'w AwsHelper \<Rightarrow> json \<Rightarrow> ('w, json option res outcome) state" where
  "CreateBucket h opts = on_client (ah_S3Client h) (\<lambda>c. s3_CreateBucket c (ctx_seconds 10) opts)"

definition PutObject ::
  "'w AwsHelper \<Rightarrow> string \<Rightarrow> string \<Rightarrow> string \<Rightarrow> ('w, json option res outcome) state" where
  "PutObject h bucket key reader = on_client (ah_S3Client h) (\<lambda>c.
     s3_PutObject c (ctx_seconds 10) \<lparr>s3_Bucket = bucket, s3_Key = key\<rparr> reader
       [''SwapComputePayloadSHA256ForUnsignedPayloadMiddleware''])"

definition PutByteObject ::
  "'w AwsHelper \<Rightarrow> string \<Rightarrow> string \<Rightarrow> string \<Rightarrow> ('w, json option res outcome) state" where
  "PutByteObject h bucket key body = on_client (ah_S3Client h) (\<lambda>c.
     s3_PutObject c (ctx_seconds 10) \<lparr>s3_Bucket = bucket, s3_Key = key\<rparr> body
       [''SwapComputePayloadSHA256ForUnsignedPayloadMiddleware''])"

definition DeleteObject ::
  "'w AwsHelper \<Rightarrow> string \<Rightarrow> string \<Rightarrow> ('w, go_error option outcome) state" where
  "DeleteObject h bucket key = on_client (ah_S3Client h) (\<lambda>c.
     only_err (s3_DeleteObject c (ctx_seconds 10) \<lparr>s3_Bucket = bucket, s3_Key = key\<rparr>))"

definition GenPresignedUrl ::
  "'w AwsHelper \<Rightarrow> string \<Rightarrow> string \<Rightarrow> duration \<Rightarrow> ('w, string res outcome) state" where
  "GenPresignedUrl h bucket key expires = do {
     r \<leftarrow> on_client (ah_S3PresignedClient h) (\<lambda>c.
       s3_PresignGetObject c (ctx_seconds 10) \<lparr>s3_Bucket = bucket, s3_Key = key\<rparr> expires);
     proceed r (\<lambda>(object, err). on_err err
       (deref object (\<lambda>url. State_Monad.return (Return (url, None))))
       (\<lambda>e. Return ([], Some e)))
   }"

section \<open>Virtual machines and their networks\<close>

text \<open>Identifiers are pointers in the SDK; they are passed on as they are, or dereferenced.\<close>

record RouteTableAssociation =
  as_Id :: "string option"
  as_Main :: "bool option"

record NetworkAcl =
  acl_Id :: "string option"
  acl_IsDefault :: "bool option"

datatype ec2_Filter = Filter string "string list"

record 'w Ec2Client =
  TerminateInstances :: "ctx \<Rightarrow> string list \<Rightarrow> ('w, go_error option) state"
  TerminatedWaiter :: "ctx \<Rightarrow> string list \<Rightarrow> duration \<Rightarrow> ('w, go_error option) state"
  ec2_DeleteVolume :: "ctx \<Rightarrow> string \<Rightarrow> ('w, go_error option) state"
  ec2_ReleaseAddress :: "ctx \<Rightarrow> string \<Rightarrow> ('w, go_error option) state"
  ec2_DeleteSecurityGroup :: "ctx \<Rightarrow> string \<Rightarrow> ('w, go_error option) state"
  DescribeInternetGateways :: "ctx \<Rightarrow> ec2_Filter list \<Rightarrow> ('w, string option list res) state"
  DetachInternetGateway :: "ctx \<Rightarrow> string option \<Rightarrow> string \<Rightarrow> ('w, go_error option) state"
  DeleteInternetGateway :: "ctx \<Rightarrow> string option \<Rightarrow> ('w, go_error option) state"
  DescribeRouteTables :: "ctx \<Rightarrow> ec2_Filter list \<Rightarrow> ('w, RouteTableAssociation list list res) state"
  DisassociateRouteTable :: "ctx \<Rightarrow> string option \<Rightarrow> ('w, go_error option) state"
  DescribeNetworkAcls :: "ctx \<Rightarrow> ec2_Filter list \<Rightarrow> ('w, NetworkAcl list res) state"
  DeleteNetworkAcl :: "ctx \<Rightarrow> string option \<Rightarrow> ('w, go_error option) state"
  DescribeSubnets :: "ctx \<Rightarrow> ec2_Filter list \<Rightarrow> ('w, string option list res) state"
  DescribeNetworkInterfaces :: "ctx \<Rightarrow> ec2_Filter list \<Rightarrow> ('w, string option list res) state"
  DeleteNetworkInterface :: "ctx \<Rightarrow> string option \<Rightarrow> ('w, go_error option) state"
  DeleteSubnet :: "ctx \<Rightarrow> string option \<Rightarrow> ('w, go_error option) state"
  ec2_DeleteVpc :: "ctx \<Rightarrow> string \<Rightarrow> ('w, go_error option) state"

text \<open>The helper is its client, which \<open>NewEc2Helper\<close> always sets.\<close>

definition NewEc2Helper ::
  "'w AwsSdk \<Rightarrow> (AwsConfig \<Rightarrow> 'w Ec2Client) \<Rightarrow> string \<Rightarrow> string \<Rightarrow> string \<Rightarrow> ('w, 'w Ec2Client option res) state" where
  "NewEc2Helper sdk ec2_NewFromConfig accessKey secretKey region = do {
     (cfg, err) \<leftarrow> newAwsConfig sdk (aws_zero\<lparr>ao_Region := region, ao_AccessKey := accessKey,
       ao_SecretKey := secretKey, ao_EnableStaticCreds := True\<rparr>);
     on_err err (State_Monad.return (Some (ec2_NewFromConfig (the cfg)), None)) (\<lambda>e. (None, Some e))
   }"

definition TerminateInstance :: "'w Ec2Client \<Rightarrow> string \<Rightarrow> ('w, go_error option) state" where
  "TerminateInstance c ident = TerminateInstances c (ctx_seconds 30) [ident]"

definition WaitInstanceTerminated :: "'w Ec2Client \<Rightarrow> string \<Rightarrow> ('w, go_error option) state" where
  "WaitInstanceTerminated c ident = TerminatedWaiter c (ctx_seconds 300) [ident] (5 * Minute)"

definition aws_DeleteVolume :: "'w Ec2Client \<Rightarrow> string \<Rightarrow> ('w, go_error option) state" where
  "aws_DeleteVolume c ident = ec2_DeleteVolume c (ctx_seconds 30) ident"

definition ReleaseAddress :: "'w Ec2Client \<Rightarrow> string \<Rightarrow> ('w, go_error option) state" where
  "ReleaseAddress c allocationID = ec2_ReleaseAddress c (ctx_seconds 30) allocationID"

definition aws_DeleteSecurityGroup :: "'w Ec2Client \<Rightarrow> string \<Rightarrow> ('w, go_error option) state" where
  "aws_DeleteSecurityGroup c ident = ec2_DeleteSecurityGroup c (ctx_seconds 30) ident"

definition vpcFilter :: "string \<Rightarrow> ec2_Filter" where
  "vpcFilter vpcID = Filter ''vpc-id'' [vpcID]"

definition detach_gateway ::
  "'w Ec2Client \<Rightarrow> ctx \<Rightarrow> string \<Rightarrow> string option \<Rightarrow> ('w, go_error option) state" where
  "detach_gateway c ctx vpcID igw = do {
     err \<leftarrow> DetachInternetGateway c ctx igw vpcID;
     on_err err (DeleteInternetGateway c ctx igw) Some
   }"

fun detach_gateways ::
  "'w Ec2Client \<Rightarrow> ctx \<Rightarrow> string \<Rightarrow> string option list \<Rightarrow> ('w, go_error option) state" where
  "detach_gateways c ctx vpcID [] = State_Monad.return None"
| "detach_gateways c ctx vpcID (igw # igws) = do {
     err \<leftarrow> detach_gateway c ctx vpcID igw;
     on_err err (detach_gateways c ctx vpcID igws) Some
   }"

definition detachInternetGateways :: "'w Ec2Client \<Rightarrow> ctx \<Rightarrow> string \<Rightarrow> ('w, go_error option) state" where
  "detachInternetGateways c ctx vpcID = do {
     (igws, err) \<leftarrow> DescribeInternetGateways c ctx [Filter ''attachment.vpc-id'' [vpcID]];
     on_err err (detach_gateways c ctx vpcID igws) Some
   }"

fun disassociate_each ::
  "'w Ec2Client \<Rightarrow> ctx \<Rightarrow> RouteTableAssociation list \<Rightarrow> ('w, go_error option) state" where
  "disassociate_each c ctx [] = State_Monad.return None"
| "disassociate_each c ctx (assoc # assocs) =
     (if as_Main assoc = Some True then disassociate_each c ctx assocs
      else do {
        err \<leftarrow> DisassociateRouteTable c ctx (as_Id assoc);
        on_err err (disassociate_each c ctx assocs) Some
      })"

fun disassociate_tables ::
  "'w Ec2Client \<Rightarrow> ctx \<Rightarrow> RouteTableAssociation list list \<Rightarrow> ('w, go_error option) state" where
  "disassociate_tables c ctx [] = State_Monad.return None"
| "disassociate_tables c ctx (rt # rts) = do {
     err \<leftarrow> disassociate_each c ctx rt;
     on_err err (disassociate_tables c ctx rts) Some
   }"

definition disassociateRouteTables :: "'w Ec2Client \<Rightarrow> ctx \<Rightarrow> string \<Rightarrow> ('w, go_error option) state" where
  "disassociateRouteTables c ctx vpcID = do {
     (rts, err) \<leftarrow> DescribeRouteTables c ctx [vpcFilter vpcID];
     on_err err (disassociate_tables c ctx rts) Some
   }"

fun delete_acls :: "'w Ec2Client \<Rightarrow> ctx \<Rightarrow> NetworkAcl list \<Rightarrow> ('w, go_error option) state" where
  "delete_acls c ctx [] = State_Monad.return None"
| "delete_acls c ctx (acl # acls) =
     (if acl_IsDefault acl = Some True then delete_acls c ctx acls
      else do {
        err \<leftarrow> DeleteNetworkAcl c ctx (acl_Id acl);
        on_err err (delete_acls c ctx acls) Some
      })"

definition deleteNetworkACLs :: "'w Ec2Client \<Rightarrow> ctx \<Rightarrow> string \<Rightarrow> ('w, go_error option) state" where
  "deleteNetworkACLs c ctx vpcID = do {
     (acls, err) \<leftarrow> DescribeNetworkAcls c ctx [vpcFilter vpcID];
     on_err err (delete_acls c ctx acls) Some
   }"

fun delete_interfaces :: "'w Ec2Client \<Rightarrow> ctx \<Rightarrow> string option list \<Rightarrow> ('w, go_error option) state" where
  "delete_interfaces c ctx [] = State_Monad.return None"
| "delete_interfaces c ctx (eni # enis) = do {
     err \<leftarrow> DeleteNetworkInterface c ctx eni;
     on_err err (delete_interfaces c ctx enis) Some
   }"

text \<open>Only here an identifier is dereferenced, in the filter.\<close>

definition delete_subnet ::
  "'w Ec2Client \<Rightarrow> ctx \<Rightarrow> string option \<Rightarrow> ('w, go_error option outcome) state" where
  "delete_subnet c ctx subnet = deref subnet (\<lambda>ident. do {
     (enis, err) \<leftarrow> DescribeNetworkInterfaces c ctx [Filter ''subnet-id'' [ident]];
     on_err err (do {
       err \<leftarrow> delete_interfaces c ctx enis;
       on_err err (do {
         err \<leftarrow> DeleteSubnet c ctx subnet;
         State_Monad.return (Return err)
       }) (\<lambda>e. Return (Some e))
     }) (\<lambda>e. Return (Some e))
   })"

fun delete_each_subnet ::
  "'w Ec2Client \<Rightarrow> ctx \<Rightarrow> string option list \<Rightarrow> ('w, go_error option outcome) state" where
  "delete_each_subnet c ctx [] = State_Monad.return (Return None)"
| "delete_each_subnet c ctx (subnet # subnets) = do {
     r \<leftarrow> delete_subnet c ctx subnet;
     proceed r (\<lambda>err. on_err err (delete_each_subnet c ctx subnets) (\<lambda>e. Return (Some e)))
   }"

definition deleteSubnets :: "'w Ec2Client \<Rightarrow> ctx \<Rightarrow> string \<Rightarrow> ('w, go_error option outcome) state" where
  "deleteSubnets c ctx vpcID = do {
     (subnets, err) \<leftarrow> DescribeSubnets c ctx [vpcFilter vpcID];
     on_err err (delete_each_subnet c ctx subnets) (\<lambda>e. Return (Some e))
   }"

definition DeleteVpc :: "'w Ec2Client \<Rightarrow> string \<Rightarrow> ('w, go_error option outcome) state" where
  "DeleteVpc c vpcID = (let ctx = ctx_seconds 120; fail = \<lambda>e. Return (Some e) in do {
     err \<leftarrow> detachInternetGateways c ctx vpcID;
     on_err err (do {
       err \<leftarrow> disassociateRouteTables c ctx vpcID;
       on_err err (do {
         err \<leftarrow> deleteNetworkACLs c ctx vpcID;
         on_err err (do {
           r \<leftarrow> deleteSubnets c ctx vpcID;
           proceed r (\<lambda>err. on_err err (do {
             err \<leftarrow> ec2_DeleteVpc c ctx vpcID;
             State_Monad.return (Return err)
           }) fail)
         }) fail
       }) fail
     }) fail
   })"

section \<open>A service that refuses to break dependencies\<close>

text \<open>
  What the package relies on: the service as seen from one network. Every object has an identifier,
  and functions of the identifier say what it is: whether an association is the main one or an
  access list the default one, the access list of a subnet, the subnet of an interface and whether
  the interface is attached. The service refuses, with an error and no effect,
  \<^item> to detach a gateway while public addresses are mapped through it,
  \<^item> to drop a main association,
  \<^item> to delete a default access list, or one that a subnet of the network uses,
  \<^item> to delete an interface that is attached, and a subnet with an interface,
  \<^item> to delete the network while it has a gateway, a subnet, or, beyond its default ones, an access
    list, a route table or a security group, or anything else that blocks it (\<open>vv_others\<close>: endpoints,
    peering connections, private gateways).
  Other calls are answered within the deadline, and a listing fits one answer.
\<close>

record vpc_view =
  vv_gateways :: "string list"
  vv_loose :: "string list"
  vv_addresses :: "string list"
  vv_assocs :: "string list"
  vv_main :: "string \<Rightarrow> bool option"
  vv_acls :: "string list"
  vv_default :: "string \<Rightarrow> bool option"
  vv_subnets :: "string list"
  vv_acl_of :: "string \<Rightarrow> string"
  vv_enis :: "string list"
  vv_subnet_of :: "string \<Rightarrow> string"
  vv_attached :: "string \<Rightarrow> bool"
  vv_tables :: "string list"
  vv_groups :: "string list"
  vv_others :: "string list"
  vv_exists :: bool

text \<open>The call has the effect when it is allowed, and is refused otherwise.\<close>

definition settles ::
  "('w, go_error option) state \<Rightarrow> ('w \<Rightarrow> vpc_view) \<Rightarrow> 'w \<Rightarrow> bool \<Rightarrow> vpc_view \<Rightarrow> bool" where
  "settles call view w allowed v \<longleftrightarrow>
     (if allowed then acts call view w None v else \<exists>e. acts call view w (Some e) (view w))"

definition gateway_service :: "'w Ec2Client \<Rightarrow> string \<Rightarrow> ('w \<Rightarrow> vpc_view) \<Rightarrow> bool" where
  "gateway_service c vpc view \<longleftrightarrow> (\<forall>ctx w.
     acts (DescribeInternetGateways c ctx [Filter ''attachment.vpc-id'' [vpc]]) view w
       (map Some (vv_gateways (view w)), None) (view w)
     \<and> (\<forall>i \<in> set (vv_gateways (view w)).
         settles (DetachInternetGateway c ctx (Some i) vpc) view w (vv_addresses (view w) = [])
           ((view w)\<lparr>vv_gateways := remove1 i (vv_gateways (view w)), vv_loose := i # vv_loose (view w)\<rparr>))
     \<and> (\<forall>i \<in> set (vv_loose (view w)). acts (DeleteInternetGateway c ctx (Some i)) view w None
         ((view w)\<lparr>vv_loose := remove1 i (vv_loose (view w))\<rparr>)))"

definition an_assoc :: "(string \<Rightarrow> bool option) \<Rightarrow> string \<Rightarrow> RouteTableAssociation" where
  "an_assoc main a = \<lparr>as_Id = Some a, as_Main = main a\<rparr>"

definition route_service :: "'w Ec2Client \<Rightarrow> string \<Rightarrow> ('w \<Rightarrow> vpc_view) \<Rightarrow> bool" where
  "route_service c vpc view \<longleftrightarrow> (\<forall>ctx w.
     (\<exists>rts. acts (DescribeRouteTables c ctx [Filter ''vpc-id'' [vpc]]) view w
         (map (map (an_assoc (vv_main (view w)))) rts, None) (view w)
       \<and> concat rts = vv_assocs (view w))
     \<and> (\<forall>a \<in> set (vv_assocs (view w)).
         settles (DisassociateRouteTable c ctx (Some a)) view w (vv_main (view w) a \<noteq> Some True)
           ((view w)\<lparr>vv_assocs := remove1 a (vv_assocs (view w))\<rparr>)))"

definition an_acl :: "(string \<Rightarrow> bool option) \<Rightarrow> string \<Rightarrow> NetworkAcl" where
  "an_acl dflt a = \<lparr>acl_Id = Some a, acl_IsDefault = dflt a\<rparr>"

text \<open>An access list that the code tries to delete and the service refuses to: a subnet uses it.\<close>

definition acl_in_use :: "vpc_view \<Rightarrow> string \<Rightarrow> bool" where
  "acl_in_use v a \<longleftrightarrow> vv_default v a \<noteq> Some True \<and> a \<in> vv_acl_of v ` set (vv_subnets v)"

definition acl_service :: "'w Ec2Client \<Rightarrow> string \<Rightarrow> ('w \<Rightarrow> vpc_view) \<Rightarrow> bool" where
  "acl_service c vpc view \<longleftrightarrow> (\<forall>ctx w.
     acts (DescribeNetworkAcls c ctx [Filter ''vpc-id'' [vpc]]) view w
       (map (an_acl (vv_default (view w))) (vv_acls (view w)), None) (view w)
     \<and> (\<forall>a \<in> set (vv_acls (view w)).
         settles (DeleteNetworkAcl c ctx (Some a)) view w
           (vv_default (view w) a \<noteq> Some True \<and> a \<notin> vv_acl_of (view w) ` set (vv_subnets (view w)))
           ((view w)\<lparr>vv_acls := remove1 a (vv_acls (view w))\<rparr>)))"

definition subnet_service :: "'w Ec2Client \<Rightarrow> string \<Rightarrow> ('w \<Rightarrow> vpc_view) \<Rightarrow> bool" where
  "subnet_service c vpc view \<longleftrightarrow> (\<forall>ctx w.
     acts (DescribeSubnets c ctx [Filter ''vpc-id'' [vpc]]) view w
       (map Some (vv_subnets (view w)), None) (view w)
     \<and> (\<forall>s. acts (DescribeNetworkInterfaces c ctx [Filter ''subnet-id'' [s]]) view w
         (map Some (filter (\<lambda>e. vv_subnet_of (view w) e = s) (vv_enis (view w))), None) (view w))
     \<and> (\<forall>e \<in> set (vv_enis (view w)).
         settles (DeleteNetworkInterface c ctx (Some e)) view w (\<not> vv_attached (view w) e)
           ((view w)\<lparr>vv_enis := remove1 e (vv_enis (view w))\<rparr>))
     \<and> (\<forall>s \<in> set (vv_subnets (view w)). (\<forall>a \<in> set (vv_assocs (view w)). vv_main (view w) a = Some True) \<longrightarrow>
         settles (DeleteSubnet c ctx (Some s)) view w (s \<notin> vv_subnet_of (view w) ` set (vv_enis (view w)))
           ((view w)\<lparr>vv_subnets := remove1 s (vv_subnets (view w))\<rparr>)))"

definition vpc_service :: "'w Ec2Client \<Rightarrow> string \<Rightarrow> ('w \<Rightarrow> vpc_view) \<Rightarrow> bool" where
  "vpc_service c vpc view \<longleftrightarrow> (\<forall>ctx w.
     settles (ec2_DeleteVpc c ctx vpc) view w
       (vv_gateways (view w) = [] \<and> vv_subnets (view w) = []
         \<and> (\<forall>a \<in> set (vv_acls (view w)). vv_default (view w) a = Some True)
         \<and> vv_tables (view w) = [] \<and> vv_groups (view w) = [] \<and> vv_others (view w) = [])
       ((view w)\<lparr>vv_exists := False\<rparr>))"

definition ec2_service :: "'w Ec2Client \<Rightarrow> string \<Rightarrow> ('w \<Rightarrow> vpc_view) \<Rightarrow> bool" where
  "ec2_service c vpc view \<longleftrightarrow> gateway_service c vpc view \<and> route_service c vpc view
     \<and> acl_service c vpc view \<and> subnet_service c vpc view \<and> vpc_service c vpc view"

section \<open>The loops of the deletion\<close>

interpretation gateways: stop_at_error "\<lambda>gs. detach_gateways c ctx vpc (map Some gs)"
  "\<lambda>g. detach_gateway c ctx vpc (Some g)" None for c :: "'w Ec2Client" and ctx vpc
  by unfold_locales (simp_all add: on_err_if)

interpretation assocs: stop_at_error "\<lambda>as. disassociate_each c ctx (map (an_assoc main) as)"
  "\<lambda>a. if main a = Some True then State_Monad.return None else DisassociateRouteTable c ctx (Some a)" None
  for c :: "'w Ec2Client" and ctx main
  by unfold_locales (simp_all add: on_err_if an_assoc_def)

interpretation tables: stop_at_error "\<lambda>rts. disassociate_tables c ctx (map (map (an_assoc main)) rts)"
  "\<lambda>rt. disassociate_each c ctx (map (an_assoc main) rt)" None
  for c :: "'w Ec2Client" and ctx main
  by unfold_locales (simp_all add: on_err_if)

interpretation acls: stop_at_error "\<lambda>as. delete_acls c ctx (map (an_acl dflt) as)"
  "\<lambda>a. if dflt a = Some True then State_Monad.return None else DeleteNetworkAcl c ctx (Some a)" None
  for c :: "'w Ec2Client" and ctx dflt
  by unfold_locales (simp_all add: on_err_if an_acl_def)

interpretation enis: stop_at_error "\<lambda>es. delete_interfaces c ctx (map Some es)"
  "\<lambda>e. DeleteNetworkInterface c ctx (Some e)" None for c :: "'w Ec2Client" and ctx
  by unfold_locales (simp_all add: on_err_if)

interpretation subnets: stop_at_error "\<lambda>ss. delete_each_subnet c ctx (map Some ss)"
  "\<lambda>s. delete_subnet c ctx (Some s)" "Return None" for c :: "'w Ec2Client" and ctx
  by unfold_locales (simp_all add: proceed_on_err)

text \<open>
  A part of the deletion: when \<open>good\<close> it answers \<open>ok\<close> and leaves the network as \<open>v\<close>; otherwise its
  answer is a \<open>bad\<close> one and it leaves the network in a state with \<open>J\<close>.
\<close>

definition stage ::
  "('w, 'r) state \<Rightarrow> ('w \<Rightarrow> vpc_view) \<Rightarrow> 'w \<Rightarrow> bool \<Rightarrow> 'r \<Rightarrow> vpc_view \<Rightarrow> ('r \<Rightarrow> bool) \<Rightarrow> (vpc_view \<Rightarrow> bool) \<Rightarrow> bool" where
  "stage call view w good ok v bad J \<longleftrightarrow>
     (if good then acts call view w ok v else \<exists>r u. bad r \<and> acts call view w r u \<and> J u)"

definition an_error :: "go_error option \<Rightarrow> bool" where
  "an_error r \<longleftrightarrow> (\<exists>e. r = Some e)"

definition an_error_outcome :: "go_error option outcome \<Rightarrow> bool" where
  "an_error_outcome r \<longleftrightarrow> (\<exists>e. r = Return (Some e))"

lemma not_ok: "an_error r \<Longrightarrow> r \<noteq> None" "an_error_outcome r' \<Longrightarrow> r' \<noteq> Return None"
  by (auto simp: an_error_def an_error_outcome_def)

lemma stage_loopI:
  assumes "if P then \<exists>v. acts call view w ok v \<and> Q v else \<exists>r u. bad r \<and> acts call view w r u \<and> J u"
    and "\<And>v. Q v \<Longrightarrow> v = u" and "P \<longleftrightarrow> good"
  shows "stage call view w good ok u bad J"
  using assms by (auto simp: stage_def split: if_splits)

lemma stage_list:
  assumes "acts call view w (xs, None) (view w)"
    and "\<And>u. view u = view w \<Longrightarrow> stage (next_call xs) view u good ok v bad J"
  shows "stage (State_Monad.bind call (\<lambda>(xs, err). on_err err (next_call xs) fail)) view w good ok v bad J"
proof -
  from assms(1) obtain u where u: "run_state call w = ((xs, None), u)" "view u = view w" by (rule actsE)
  then have "acts (State_Monad.bind call (\<lambda>(xs, err). on_err err (next_call xs) fail)) view w r v'
      \<longleftrightarrow> acts (next_call xs) view u r v'" for r v'
    by (simp add: acts_def)
  with assms(2) [OF u(2)] show ?thesis by (auto simp: stage_def split: if_splits)
qed

lemma stage_then:
  assumes "stage call view w g1 None v1 an_error J1"
    and "\<And>u. view u = v1 \<Longrightarrow> g1 \<Longrightarrow> stage next_call view u g2 ok v2 bad J2"
    and "\<And>e. bad (fail e)" and "\<And>u. J1 u \<Longrightarrow> J2 u"
  shows "stage (State_Monad.bind call (\<lambda>err. on_err err next_call fail)) view w (g1 \<and> g2) ok v2 bad J2"
proof (cases g1)
  case True
  with assms(1) have "acts call view w None v1" by (simp add: stage_def)
  then obtain u where u: "run_state call w = (None, u)" "view u = v1" by (rule actsE)
  then have "acts (State_Monad.bind call (\<lambda>err. on_err err next_call fail)) view w r v
      \<longleftrightarrow> acts next_call view u r v" for r v
    by (simp add: acts_def)
  with assms(2) [OF u(2) True] True show ?thesis by (auto simp: stage_def split: if_splits)
next
  case False
  with assms(1) obtain e u where "run_state call w = (Some e, u)" "J1 (view u)"
    by (auto simp: stage_def an_error_def elim: actsE)
  then have "acts (State_Monad.bind call (\<lambda>err. on_err err next_call fail)) view w (fail e) (view u)" "J2 (view u)"
    using assms(4) by (auto simp: acts_def)
  with False assms(3) show ?thesis by (auto simp: stage_def)
qed

lemma stage_then_outcome:
  assumes "stage call view w g1 (Return None) v1 an_error_outcome J"
    and "\<And>u. view u = v1 \<Longrightarrow> stage next_call view u g2 ok v2 an_error_outcome J"
  shows "stage (State_Monad.bind call (\<lambda>r. proceed r (\<lambda>err. on_err err next_call (\<lambda>e. Return (Some e)))))
    view w (g1 \<and> g2) ok v2 an_error_outcome J"
proof (cases g1)
  case True
  with assms(1) have "acts call view w (Return None) v1" by (simp add: stage_def)
  then obtain u where u: "run_state call w = (Return None, u)" "view u = v1" by (rule actsE)
  then have "acts (State_Monad.bind call (\<lambda>r. proceed r (\<lambda>err. on_err err next_call (\<lambda>e. Return (Some e))))) view w r v
      \<longleftrightarrow> acts next_call view u r v" for r v
    by (simp add: acts_def)
  with assms(2) [OF u(2)] True show ?thesis by (auto simp: stage_def split: if_splits)
next
  case False
  with assms(1) obtain e u where u: "run_state call w = (Return (Some e), u)" "J (view u)"
    by (auto simp: stage_def an_error_outcome_def elim: actsE)
  then have "acts (State_Monad.bind call (\<lambda>r. proceed r (\<lambda>err. on_err err next_call (\<lambda>e. Return (Some e)))))
      view w (Return (Some e)) (view u)"
    by (simp add: acts_def)
  with False u(2) show ?thesis by (auto simp: stage_def an_error_outcome_def)
qed

lemma stage_weaken: "stage call view w good ok v bad J1 \<Longrightarrow> (\<And>u. J1 u \<Longrightarrow> J2 u) \<Longrightarrow> stage call view w good ok v bad J2"
  by (auto simp: stage_def split: if_splits)

text \<open>The last call of a function that returns its error.\<close>

lemma stage_last:
  assumes "settles call view w good v" and "J (view w)"
  shows "stage (State_Monad.bind call (\<lambda>err. State_Monad.return (Return err))) view w good (Return None) v an_error_outcome J"
proof -
  have "acts (State_Monad.bind call (\<lambda>err. State_Monad.return (Return err))) view w (Return err) u \<longleftrightarrow> acts call view w err u"
    for err u by (auto simp: acts_def split: prod.splits)
  with assms show ?thesis unfolding stage_def settles_def an_error_outcome_def by (cases good) (simp_all, blast)
qed

lemma settles_good: "settles call view w allowed v \<Longrightarrow> allowed \<Longrightarrow> acts call view w None v"
  by (simp add: settles_def)

lemma settles_bad:
  "settles call view w allowed v \<Longrightarrow> \<not> allowed \<Longrightarrow> J (view w) \<Longrightarrow> \<exists>r u. an_error r \<and> acts call view w r u \<and> J u"
  by (auto simp: settles_def an_error_def)

text \<open>What the first three stages leave alone.\<close>

definition same_subnets :: "vpc_view \<Rightarrow> vpc_view \<Rightarrow> bool" where
  "same_subnets v u \<longleftrightarrow> vv_exists u = vv_exists v \<and> vv_subnets u = vv_subnets v \<and> vv_enis u = vv_enis v"

text \<open>The gateways are detached and deleted, unless an address is mapped through them.\<close>

lemma gateways_stage:
  assumes "gateway_service c vpc view"
  shows "stage (detachInternetGateways c ctx vpc) view w (vv_gateways (view w) = [] \<or> vv_addresses (view w) = [])
    None ((view w)\<lparr>vv_gateways := []\<rparr>) an_error (same_subnets (view w))"
proof -
  define v where "v = view w"
  have list: "acts (DescribeInternetGateways c ctx [Filter ''attachment.vpc-id'' [vpc]]) view w
      (map Some (vv_gateways v), None) (view w)"
    and detach: "i \<in> set (vv_gateways (view u)) \<Longrightarrow>
      settles (DetachInternetGateway c ctx (Some i) vpc) view u (vv_addresses (view u) = [])
        ((view u)\<lparr>vv_gateways := remove1 i (vv_gateways (view u)), vv_loose := i # vv_loose (view u)\<rparr>)"
    and delete: "i \<in> set (vv_loose (view u)) \<Longrightarrow> acts (DeleteInternetGateway c ctx (Some i)) view u None
      ((view u)\<lparr>vv_loose := remove1 i (vv_loose (view u))\<rparr>)" for u i
    using assms unfolding gateway_service_def v_def by blast+
  have "stage (detach_gateways c ctx vpc (map Some (vv_gateways v))) view u
      (vv_gateways v = [] \<or> vv_addresses v = []) None (v\<lparr>vv_gateways := []\<rparr>) an_error (same_subnets v)"
    if u: "view u = v" for u
  proof (rule stage_loopI, rule gateways.loop_acts [where I = "\<lambda>gs x. x = v\<lparr>vv_gateways := gs\<rparr>"
        and good = "\<lambda>_. vv_addresses v = []"])
    fix g gs w1
    assume w1: "view w1 = v\<lparr>vv_gateways := g # gs\<rparr>"
    then have detach: "settles (DetachInternetGateway c ctx (Some g) vpc) view w1 (vv_addresses v = [])
        (v\<lparr>vv_gateways := gs, vv_loose := g # vv_loose v\<rparr>)"
      using detach [of g w1] by simp
    {
      assume "vv_addresses v = []"
      with detach have d: "acts (DetachInternetGateway c ctx (Some g) vpc) view w1 None
          (v\<lparr>vv_gateways := gs, vv_loose := g # vv_loose v\<rparr>)" by (simp add: settles_def)
      have "acts (detach_gateway c ctx vpc (Some g)) view w1 None (v\<lparr>vv_gateways := gs\<rparr>)"
        unfolding detach_gateway_def
      proof (rule acts_bind [OF d])
        fix w2
        assume "view w2 = v\<lparr>vv_gateways := gs, vv_loose := g # vv_loose v\<rparr>"
        with delete [of g w2] show "acts (on_err None (DeleteInternetGateway c ctx (Some g)) Some) view w2 None
            (v\<lparr>vv_gateways := gs\<rparr>)" by simp
      qed
      then show "\<exists>x. acts (detach_gateway c ctx vpc (Some g)) view w1 None x \<and> x = v\<lparr>vv_gateways := gs\<rparr>" by simp
    }
    assume "vv_addresses v \<noteq> []"
    with detach obtain e where "acts (DetachInternetGateway c ctx (Some g) vpc) view w1 (Some e) (view w1)"
      by (auto simp: settles_def)
    then have "acts (detach_gateway c ctx vpc (Some g)) view w1 (Some e) (view w1)"
      unfolding detach_gateway_def by (rule acts_bind) (simp add: acts_return)
    then show "\<exists>r x. an_error r \<and> acts (detach_gateway c ctx vpc (Some g)) view w1 r x \<and> same_subnets v x"
      by (intro exI [of _ "Some e"] exI [of _ "view w1"]) (simp add: an_error_def same_subnets_def w1)
  qed (auto simp: u not_ok)
  then show ?thesis
    unfolding detachInternetGateways_def v_def by (intro stage_list [OF list [unfolded v_def]]) blast
qed

text \<open>A loop that leaves some elements alone and removes the others: \<open>kept\<close> are those it passed.\<close>

lemma remove1_after: "(\<And>x. x \<in> set kept \<Longrightarrow> P x) \<Longrightarrow> \<not> P a \<Longrightarrow> remove1 a (kept @ a # xs) = kept @ xs"
  by (auto simp: remove1_append)

text \<open>The associations other than the main ones are dropped; the service refuses none of them.\<close>

lemma routes_stage:
  assumes "route_service c vpc view"
  shows "stage (disassociateRouteTables c ctx vpc) view w True None
    ((view w)\<lparr>vv_assocs := filter (\<lambda>a. vv_main (view w) a = Some True) (vv_assocs (view w))\<rparr>) an_error (\<lambda>_. False)"
proof -
  define v where "v = view w"
  let ?main = "\<lambda>a. vv_main v a = Some True"
  let ?tables = "\<lambda>rts. disassociate_tables c ctx (map (map (an_assoc (vv_main v))) rts)"
  let ?each = "\<lambda>as. disassociate_each c ctx (map (an_assoc (vv_main v)) as)"
  obtain rts where list: "acts (DescribeRouteTables c ctx [vpcFilter vpc]) view w
      (map (map (an_assoc (vv_main v))) rts, None) (view w)" and rts: "concat rts = vv_assocs v"
    using assms unfolding route_service_def v_def vpcFilter_def by blast
  have drop: "a \<in> set (vv_assocs (view u)) \<Longrightarrow>
      settles (DisassociateRouteTable c ctx (Some a)) view u (vv_main (view u) a \<noteq> Some True)
        ((view u)\<lparr>vv_assocs := remove1 a (vv_assocs (view u))\<rparr>)" for u a
    using assms unfolding route_service_def by blast
  have each: "acts (?each as) view u None (v\<lparr>vv_assocs := (kept @ filter ?main as) @ rest\<rparr>)"
    if "view u = v\<lparr>vv_assocs := kept @ as @ rest\<rparr>" "\<forall>a \<in> set kept. ?main a" for as kept rest u
  proof -
    let ?I = "\<lambda>xs x. \<exists>ks. x = v\<lparr>vv_assocs := ks @ xs @ rest\<rparr> \<and> (\<forall>a \<in> set ks. ?main a)
        \<and> ks @ filter ?main xs = kept @ filter ?main as"
    have "if \<forall>a \<in> set as. True then \<exists>x. acts (?each as) view u None x \<and> ?I [] x
      else \<exists>r x. an_error r \<and> acts (?each as) view u r x \<and> False"
    proof (rule assocs.loop_acts)
      fix a xs w1
      assume "?I (a # xs) (view w1)"
      then obtain ks where ks: "view w1 = v\<lparr>vv_assocs := ks @ (a # xs) @ rest\<rparr>" "\<forall>a \<in> set ks. ?main a"
        "ks @ filter ?main (a # xs) = kept @ filter ?main as" by blast
      show "\<exists>x. acts (if ?main a then State_Monad.return None else DisassociateRouteTable c ctx (Some a)) view w1 None x
          \<and> ?I xs x"
      proof (cases "?main a")
        case True
        with ks show ?thesis by (intro exI [of _ "view w1"] conjI exI [of _ "ks @ [a]"]) (simp_all add: acts_return)
      next
        case False
        have "remove1 a (ks @ a # xs @ rest) = ks @ xs @ rest" by (rule remove1_after [where P = ?main]) (use ks False in auto)
        with drop [of a w1] ks False show ?thesis
          by (intro exI [of _ "v\<lparr>vv_assocs := ks @ xs @ rest\<rparr>"] conjI exI [of _ ks]) (simp_all add: settles_def)
      qed
    next
      show "?I as (view u)" using that by blast
    qed (simp_all add: not_ok)
    then have "\<exists>x. acts (?each as) view u None x \<and> ?I [] x" by (subst (asm) if_P) blast+
    then obtain x ks where "acts (?each as) view u None x" "x = v\<lparr>vv_assocs := ks @ [] @ rest\<rparr>"
      "ks @ filter ?main [] = kept @ filter ?main as" by (elim exE conjE) (rule that)
    then show ?thesis by simp
  qed
  have "stage (?tables rts) view u True None (v\<lparr>vv_assocs := filter ?main (vv_assocs v)\<rparr>) an_error (\<lambda>_. False)"
    if u: "view u = v" for u
  proof (rule stage_loopI, rule tables.loop_acts [where good = "\<lambda>_. True"
        and I = "\<lambda>xs x. \<exists>ks. x = v\<lparr>vv_assocs := ks @ concat xs\<rparr> \<and> (\<forall>a \<in> set ks. ?main a)
          \<and> ks @ filter ?main (concat xs) = filter ?main (vv_assocs v)"])
    fix rt xs w1
    assume "\<exists>ks. view w1 = v\<lparr>vv_assocs := ks @ concat (rt # xs)\<rparr> \<and> (\<forall>a \<in> set ks. ?main a)
        \<and> ks @ filter ?main (concat (rt # xs)) = filter ?main (vv_assocs v)"
    then obtain ks where "view w1 = v\<lparr>vv_assocs := ks @ rt @ concat xs\<rparr>" "\<forall>a \<in> set ks. ?main a"
      "ks @ filter ?main rt @ filter ?main (concat xs) = filter ?main (vv_assocs v)" by auto
    with each [of w1 ks rt "concat xs"] show "\<exists>x. acts (?each rt) view w1 None x
        \<and> (\<exists>ks. x = v\<lparr>vv_assocs := ks @ concat xs\<rparr> \<and> (\<forall>a \<in> set ks. ?main a)
          \<and> ks @ filter ?main (concat xs) = filter ?main (vv_assocs v))"
      by (intro exI [of _ "v\<lparr>vv_assocs := (ks @ filter ?main rt) @ concat xs\<rparr>"] conjI exI [of _ "ks @ filter ?main rt"]) auto
  next
    show "\<exists>ks. view u = v\<lparr>vv_assocs := ks @ concat rts\<rparr> \<and> (\<forall>a \<in> set ks. ?main a)
        \<and> ks @ filter ?main (concat rts) = filter ?main (vv_assocs v)"
      by (rule exI [of _ "[]"]) (simp add: u rts)
  next
    fix x
    assume "\<exists>ks. x = v\<lparr>vv_assocs := ks @ concat []\<rparr> \<and> (\<forall>a \<in> set ks. ?main a)
        \<and> ks @ filter ?main (concat []) = filter ?main (vv_assocs v)"
    then obtain ks where "x = v\<lparr>vv_assocs := ks @ concat []\<rparr>"
      "ks @ filter ?main (concat []) = filter ?main (vv_assocs v)" by (elim exE conjE) (rule that)
    then show "x = v\<lparr>vv_assocs := filter ?main (vv_assocs v)\<rparr>" by simp
  qed (simp_all add: not_ok)
  then show ?thesis
    unfolding disassociateRouteTables_def v_def by (intro stage_list [OF list [unfolded v_def]]) blast
qed

text \<open>The access lists but the default ones are deleted, unless a subnet uses one of them.\<close>

lemma acls_stage:
  assumes "acl_service c vpc view"
  shows "stage (deleteNetworkACLs c ctx vpc) view w (\<forall>a \<in> set (vv_acls (view w)). \<not> acl_in_use (view w) a) None
    ((view w)\<lparr>vv_acls := filter (\<lambda>a. vv_default (view w) a = Some True) (vv_acls (view w))\<rparr>)
    an_error (same_subnets (view w))"
proof -
  define v where "v = view w"
  let ?kept = "\<lambda>a. vv_default v a = Some True"
  have list: "acts (DescribeNetworkAcls c ctx [vpcFilter vpc]) view w
      (map (an_acl (vv_default v)) (vv_acls v), None) (view w)"
    using assms unfolding acl_service_def v_def vpcFilter_def by blast
  have delete: "a \<in> set (vv_acls (view u)) \<Longrightarrow>
      settles (DeleteNetworkAcl c ctx (Some a)) view u
        (vv_default (view u) a \<noteq> Some True \<and> a \<notin> vv_acl_of (view u) ` set (vv_subnets (view u)))
        ((view u)\<lparr>vv_acls := remove1 a (vv_acls (view u))\<rparr>)" for u a
    using assms unfolding acl_service_def by blast
  let ?step = "\<lambda>a. if ?kept a then State_Monad.return None else DeleteNetworkAcl c ctx (Some a)"
  let ?I = "\<lambda>xs x. \<exists>ks. x = v\<lparr>vv_acls := ks @ xs\<rparr> \<and> (\<forall>a \<in> set ks. ?kept a)
      \<and> ks @ filter ?kept xs = filter ?kept (vv_acls v)"
  have "stage (delete_acls c ctx (map (an_acl (vv_default v)) (vv_acls v))) view u
      (\<forall>a \<in> set (vv_acls v). \<not> acl_in_use v a) None (v\<lparr>vv_acls := filter ?kept (vv_acls v)\<rparr>) an_error (same_subnets v)"
    if u: "view u = v" for u
  proof (rule stage_loopI, rule acls.loop_acts [where good = "\<lambda>a. \<not> acl_in_use v a" and I = ?I])
    fix a xs w1
    assume "?I (a # xs) (view w1)"
    then obtain ks where ks: "view w1 = v\<lparr>vv_acls := ks @ a # xs\<rparr>" "\<forall>a \<in> set ks. ?kept a"
      "ks @ filter ?kept (a # xs) = filter ?kept (vv_acls v)" by (elim exE conjE) (rule that)
    have call: "settles (DeleteNetworkAcl c ctx (Some a)) view w1 (\<not> acl_in_use v a) (v\<lparr>vv_acls := ks @ xs\<rparr>)"
      if "\<not> ?kept a"
    proof -
      have "remove1 a (ks @ a # xs) = ks @ xs" by (rule remove1_after [where P = ?kept]) (use ks that in auto)
      with delete [of a w1] ks(1) that show ?thesis by (simp add: acl_in_use_def)
    qed
    show "\<exists>x. acts (?step a) view w1 None x \<and> ?I xs x" if "\<not> acl_in_use v a"
    proof (cases "?kept a")
      case True
      with ks show ?thesis by (intro exI [of _ "view w1"] conjI exI [of _ "ks @ [a]"]) (simp_all add: acts_return)
    next
      case False
      with ks call [OF False] that show ?thesis
        by (intro exI [of _ "v\<lparr>vv_acls := ks @ xs\<rparr>"] conjI exI [of _ ks]) (simp_all add: settles_def)
    qed
    show "\<exists>r x. an_error r \<and> acts (?step a) view w1 r x \<and> same_subnets v x" if used: "\<not> \<not> acl_in_use v a"
    proof -
      have kept: "\<not> ?kept a" using used by (simp add: acl_in_use_def)
      have "same_subnets v (view w1)" by (simp add: ks(1) same_subnets_def)
      from settles_bad [where J = "same_subnets v", OF call [OF kept] used this] kept show ?thesis by simp
    qed
  next
    show "?I (vv_acls v) (view u)" by (rule exI [of _ "[]"]) (simp add: u)
  next
    fix x
    assume "?I [] x"
    then obtain ks where "x = v\<lparr>vv_acls := ks @ []\<rparr>" "ks @ filter ?kept [] = filter ?kept (vv_acls v)"
      by (elim exE conjE) (rule that)
    then show "x = v\<lparr>vv_acls := filter ?kept (vv_acls v)\<rparr>" by simp
  qed (simp_all add: not_ok)
  then show ?thesis
    unfolding deleteNetworkACLs_def v_def by (intro stage_list [OF list [unfolded v_def]]) blast
qed

text \<open>The interfaces of one subnet are deleted, unless one of them is attached.\<close>

definition same_network :: "vpc_view \<Rightarrow> vpc_view \<Rightarrow> bool" where
  "same_network v u \<longleftrightarrow> vv_exists u = vv_exists v"

lemma interfaces_stage:
  assumes "subnet_service c vpc view"
  shows "stage (delete_interfaces c ctx (map Some (filter (\<lambda>e. vv_subnet_of (view w) e = s) (vv_enis (view w))))) view w
    (\<forall>e \<in> set (vv_enis (view w)). vv_subnet_of (view w) e = s \<longrightarrow> \<not> vv_attached (view w) e) None
    ((view w)\<lparr>vv_enis := filter (\<lambda>e. vv_subnet_of (view w) e \<noteq> s) (vv_enis (view w))\<rparr>)
    an_error (same_network (view w))"
proof -
  define v where "v = view w"
  let ?here = "\<lambda>e. vv_subnet_of v e = s"
  let ?I = "\<lambda>es x. \<exists>rest. x = v\<lparr>vv_enis := rest\<rparr> \<and> filter ?here rest = es
      \<and> filter (\<lambda>e. \<not> ?here e) rest = filter (\<lambda>e. \<not> ?here e) (vv_enis v)"
  have delete: "e \<in> set (vv_enis (view u)) \<Longrightarrow>
      settles (DeleteNetworkInterface c ctx (Some e)) view u (\<not> vv_attached (view u) e)
        ((view u)\<lparr>vv_enis := remove1 e (vv_enis (view u))\<rparr>)" for u e
    using assms unfolding subnet_service_def by blast
  have "stage (delete_interfaces c ctx (map Some (filter ?here (vv_enis v)))) view w
      (\<forall>e \<in> set (vv_enis v). ?here e \<longrightarrow> \<not> vv_attached v e) None
      (v\<lparr>vv_enis := filter (\<lambda>e. \<not> ?here e) (vv_enis v)\<rparr>) an_error (same_network v)"
  proof (rule stage_loopI, rule enis.loop_acts [where good = "\<lambda>e. \<not> vv_attached v e" and I = ?I])
    fix e es w1
    assume "?I (e # es) (view w1)"
    then obtain rest where rest: "view w1 = v\<lparr>vv_enis := rest\<rparr>" "filter ?here rest = e # es"
      "filter (\<lambda>e. \<not> ?here e) rest = filter (\<lambda>e. \<not> ?here e) (vv_enis v)" by (elim exE conjE) (rule that)
    have "e \<in> set (filter ?here rest)" by (simp only: rest(2) list.set_intros)
    then have e: "e \<in> set rest" "?here e" by simp_all
    with delete [of e w1] rest(1) have call:
      "settles (DeleteNetworkInterface c ctx (Some e)) view w1 (\<not> vv_attached v e) (v\<lparr>vv_enis := remove1 e rest\<rparr>)"
      by simp
    have here: "filter ?here (remove1 e rest) = es" using rest(2) by (simp add: filter_remove1)
    have other: "filter (\<lambda>e. \<not> ?here e) (remove1 e rest) = filter (\<lambda>e. \<not> ?here e) (vv_enis v)"
      using e(2) rest(3) by (simp add: filter_remove1 remove1_idem)
    show "\<exists>x. acts (DeleteNetworkInterface c ctx (Some e)) view w1 None x \<and> ?I es x" if "\<not> vv_attached v e"
      using settles_good [OF call that] here other by blast
    show "\<exists>r x. an_error r \<and> acts (DeleteNetworkInterface c ctx (Some e)) view w1 r x \<and> same_network v x"
      if "\<not> \<not> vv_attached v e"
      by (rule settles_bad [OF call that]) (simp add: rest(1) same_network_def)
  next
    show "?I (filter ?here (vv_enis v)) (view w)" by (rule exI [of _ "vv_enis v"]) (simp add: v_def)
  next
    fix x
    assume "?I [] x"
    then obtain rest where "x = v\<lparr>vv_enis := rest\<rparr>" "filter ?here rest = []"
      "filter (\<lambda>e. \<not> ?here e) rest = filter (\<lambda>e. \<not> ?here e) (vv_enis v)" by (elim exE conjE) (rule that)
    then show "x = v\<lparr>vv_enis := filter (\<lambda>e. \<not> ?here e) (vv_enis v)\<rparr>"
      by (metis filter_empty_conv filter_True)
  qed (auto simp: not_ok)
  then show ?thesis by (simp only: v_def)
qed

text \<open>An interface that the code tries to delete and the service refuses to.\<close>

definition free_subnet :: "vpc_view \<Rightarrow> string \<Rightarrow> bool" where
  "free_subnet v s \<longleftrightarrow> (\<forall>e \<in> set (vv_enis v). vv_subnet_of v e = s \<longrightarrow> \<not> vv_attached v e)"

lemma subnet_stage:
  assumes "subnet_service c vpc view" and "s \<in> set (vv_subnets (view w))"
    and "\<forall>a \<in> set (vv_assocs (view w)). vv_main (view w) a = Some True"
  shows "stage (delete_subnet c ctx (Some s)) view w (free_subnet (view w) s) (Return None)
    ((view w)\<lparr>vv_enis := filter (\<lambda>e. vv_subnet_of (view w) e \<noteq> s) (vv_enis (view w)),
       vv_subnets := remove1 s (vv_subnets (view w))\<rparr>) an_error_outcome (same_network (view w))"
proof -
  define v where "v = view w"
  have list: "acts (DescribeNetworkInterfaces c ctx [Filter ''subnet-id'' [s]]) view w
      (map Some (filter (\<lambda>e. vv_subnet_of v e = s) (vv_enis v)), None) (view w)"
    and delete: "s \<in> set (vv_subnets (view u)) \<Longrightarrow> \<forall>a \<in> set (vv_assocs (view u)). vv_main (view u) a = Some True \<Longrightarrow>
      settles (DeleteSubnet c ctx (Some s)) view u (s \<notin> vv_subnet_of (view u) ` set (vv_enis (view u)))
        ((view u)\<lparr>vv_subnets := remove1 s (vv_subnets (view u))\<rparr>)" for u
    using assms(1) unfolding subnet_service_def v_def by blast+
  let ?v1 = "v\<lparr>vv_enis := filter (\<lambda>e. vv_subnet_of v e \<noteq> s) (vv_enis v)\<rparr>"
  let ?v2 = "?v1\<lparr>vv_subnets := remove1 s (vv_subnets v)\<rparr>"
  have last: "stage (State_Monad.bind (DeleteSubnet c ctx (Some s)) (\<lambda>err. State_Monad.return (Return err))) view u True
      (Return None) ?v2 an_error_outcome (same_network v)" if u: "view u = ?v1" for u
  proof -
    have "s \<notin> vv_subnet_of v ` set (vv_enis (view u))" by (auto simp: u)
    with delete [of u] assms(2,3) have "settles (DeleteSubnet c ctx (Some s)) view u True ?v2"
      by (simp add: u v_def del: set_filter)
    then show ?thesis by (rule stage_last) (simp add: u same_network_def)
  qed
  have "stage (State_Monad.bind (delete_interfaces c ctx (map Some (filter (\<lambda>e. vv_subnet_of v e = s) (vv_enis v))))
      (\<lambda>err. on_err err (State_Monad.bind (DeleteSubnet c ctx (Some s)) (\<lambda>err. State_Monad.return (Return err)))
        (\<lambda>e. Return (Some e)))) view u (free_subnet v s \<and> True) (Return None) ?v2 an_error_outcome (same_network v)"
    if u: "view u = v" for u
    by (rule stage_then [OF interfaces_stage [OF assms(1), where w = u and s = s, unfolded u, folded free_subnet_def]])
      (simp_all add: last an_error_outcome_def)
  then show ?thesis
    unfolding delete_subnet_def deref_simps v_def
    by (intro stage_list [OF list [unfolded v_def]]) simp
qed

lemma subnets_stage:
  assumes "subnet_service c vpc view" and "\<forall>a \<in> set (vv_assocs (view w)). vv_main (view w) a = Some True"
  shows "stage (deleteSubnets c ctx vpc) view w (\<forall>s \<in> set (vv_subnets (view w)). free_subnet (view w) s) (Return None)
    ((view w)\<lparr>vv_enis := filter (\<lambda>e. vv_subnet_of (view w) e \<notin> set (vv_subnets (view w))) (vv_enis (view w)),
       vv_subnets := []\<rparr>) an_error_outcome (same_network (view w))"
proof -
  define v where "v = view w"
  define left where "left D ss = v\<lparr>vv_enis := filter (\<lambda>e. vv_subnet_of v e \<notin> D) (vv_enis v), vv_subnets := ss\<rparr>" for D ss
  have list: "acts (DescribeSubnets c ctx [vpcFilter vpc]) view w (map Some (vv_subnets v), None) (view w)"
    using assms(1) unfolding subnet_service_def v_def vpcFilter_def by blast
  let ?I = "\<lambda>ss x. \<exists>D. x = left D ss \<and> D \<union> set ss = set (vv_subnets v) \<and> (\<forall>s \<in> D. free_subnet v s)"
  have "stage (delete_each_subnet c ctx (map Some (vv_subnets v))) view u (\<forall>s \<in> set (vv_subnets v). free_subnet v s)
      (Return None) (left (set (vv_subnets v)) []) an_error_outcome (same_network v)" if u: "view u = v" for u
  proof (rule stage_loopI, rule subnets.loop_acts [where good = "free_subnet v" and I = ?I])
    fix s ss w1
    assume "?I (s # ss) (view w1)"
    then obtain D where D: "view w1 = left D (s # ss)" "D \<union> set (s # ss) = set (vv_subnets v)" "\<forall>s \<in> D. free_subnet v s"
      by (elim exE conjE) (rule that)
    have free: "free_subnet (view w1) s \<longleftrightarrow> free_subnet v s"
      using D(3) by (auto simp: D(1) left_def free_subnet_def)
    have "(view w1)\<lparr>vv_enis := filter (\<lambda>e. vv_subnet_of (view w1) e \<noteq> s) (vv_enis (view w1)),
        vv_subnets := remove1 s (vv_subnets (view w1))\<rparr> = left (insert s D) ss"
      by (simp add: D(1) left_def conj_commute)
    with subnet_stage [OF assms(1), of s w1 ctx] have
      "stage (delete_subnet c ctx (Some s)) view w1 (free_subnet v s) (Return None) (left (insert s D) ss)
        an_error_outcome (same_network v)"
      using assms(2) unfolding free by (simp add: D(1) left_def v_def same_network_def [abs_def])
    then show "free_subnet v s \<Longrightarrow> \<exists>x. acts (delete_subnet c ctx (Some s)) view w1 (Return None) x \<and> ?I ss x"
      and "\<not> free_subnet v s \<Longrightarrow> \<exists>r x. an_error_outcome r \<and> acts (delete_subnet c ctx (Some s)) view w1 r x \<and> same_network v x"
      using D(2,3) by (auto simp: stage_def intro!: exI [of _ "insert s D"])
  next
    show "?I (vv_subnets v) (view u)" by (rule exI [of _ "{}"]) (simp add: left_def u)
  next
    fix x
    assume "?I [] x"
    then show "x = left (set (vv_subnets v)) []" by auto
  qed (simp_all add: not_ok)
  then show ?thesis
    unfolding deleteSubnets_def v_def left_def [unfolded v_def] by (intro stage_list [OF list [unfolded v_def]]) blast
qed

section \<open>Properties\<close>

text \<open>
  C2. Against a service that refuses to delete what others depend on, \<open>DeleteVpc\<close> deletes the
  network exactly when nothing stands in its way that the code does not clear: no public address is
  mapped through a gateway, no access list of its own is used by a subnet (the lists are deleted before the
  subnets that use them), no interface of a subnet is attached, and there is no route table or security
  group beyond the default ones (the code drops the associations of the tables and keeps the tables), nor
  anything else of the kind.
  Then it returns without an error, and the gateways, lists, subnets and interfaces are gone, but not what
  belongs to others. Otherwise it returns an error, without a panic, and the network still exists;
  an access list in use stops it before any subnet or interface is touched.
\<close>

theorem DeleteVpc_outcome:
  assumes "ec2_service c vpc view" and "v = view w"
  shows "if (vv_gateways v = [] \<or> vv_addresses v = []) \<and> (\<forall>a \<in> set (vv_acls v). \<not> acl_in_use v a)
      \<and> (\<forall>s \<in> set (vv_subnets v). free_subnet v s) \<and> vv_tables v = [] \<and> vv_groups v = [] \<and> vv_others v = []
    then acts (DeleteVpc c vpc) view w (Return None)
      (v\<lparr>vv_gateways := [],
         vv_assocs := filter (\<lambda>a. vv_main v a = Some True) (vv_assocs v),
         vv_acls := filter (\<lambda>a. vv_default v a = Some True) (vv_acls v),
         vv_enis := filter (\<lambda>e. vv_subnet_of v e \<notin> set (vv_subnets v)) (vv_enis v),
         vv_subnets := [], vv_exists := False\<rparr>)
    else \<exists>e u. acts (DeleteVpc c vpc) view w (Return (Some e)) u \<and> vv_exists u = vv_exists v
      \<and> ((\<exists>a \<in> set (vv_acls v). acl_in_use v a) \<longrightarrow> vv_subnets u = vv_subnets v \<and> vv_enis u = vv_enis v)"
proof -
  let ?ctx = "ctx_seconds 120" and ?fail = "\<lambda>e. Return (Some e)"
  let ?J = "\<lambda>u. vv_exists u = vv_exists v
      \<and> ((\<exists>a \<in> set (vv_acls v). acl_in_use v a) \<longrightarrow> vv_subnets u = vv_subnets v \<and> vv_enis u = vv_enis v)"
  note service = assms(1) [unfolded ec2_service_def]
  let ?v1 = "v\<lparr>vv_gateways := []\<rparr>"
  let ?v2 = "?v1\<lparr>vv_assocs := filter (\<lambda>a. vv_main v a = Some True) (vv_assocs v)\<rparr>"
  let ?v3 = "?v2\<lparr>vv_acls := filter (\<lambda>a. vv_default v a = Some True) (vv_acls v)\<rparr>"
  let ?v4 = "?v3\<lparr>vv_enis := filter (\<lambda>e. vv_subnet_of v e \<notin> set (vv_subnets v)) (vv_enis v), vv_subnets := []\<rparr>"
  let ?free = "\<forall>a \<in> set (vv_acls v). \<not> acl_in_use v a"
  have stage1: "stage (detachInternetGateways c ?ctx vpc) view w (vv_gateways v = [] \<or> vv_addresses v = [])
      None ?v1 an_error (same_subnets v)"
    using gateways_stage [of c vpc view ?ctx w] service assms(2) by simp
  have stage2: "stage (disassociateRouteTables c ?ctx vpc) view u True None ?v2 an_error (\<lambda>_. False)"
    if "view u = ?v1" for u
    using routes_stage [of c vpc view ?ctx u] service that by simp
  have stage3: "stage (deleteNetworkACLs c ?ctx vpc) view u ?free None ?v3 an_error (same_subnets v)"
    if "view u = ?v2" for u
    using acls_stage [of c vpc view ?ctx u] service that by (simp add: same_subnets_def [abs_def] acl_in_use_def)
  have stage4: "stage (deleteSubnets c ?ctx vpc) view u (\<forall>s \<in> set (vv_subnets v). free_subnet v s) (Return None) ?v4
      an_error_outcome ?J" if "view u = ?v3" and ?free for u
    using subnets_stage [of c vpc view u ?ctx] service that
    by (auto simp: same_network_def [abs_def] free_subnet_def elim!: stage_weaken)
  have stage5: "stage (State_Monad.bind (ec2_DeleteVpc c ?ctx vpc) (\<lambda>err. State_Monad.return (Return err))) view u
      (vv_tables v = [] \<and> vv_groups v = [] \<and> vv_others v = []) (Return None) (?v4\<lparr>vv_exists := False\<rparr>) an_error_outcome ?J"
    if u: "view u = ?v4" and ?free for u
  proof (rule stage_last)
    have "settles (ec2_DeleteVpc c ?ctx vpc) view u
       (vv_gateways (view u) = [] \<and> vv_subnets (view u) = []
         \<and> (\<forall>a \<in> set (vv_acls (view u)). vv_default (view u) a = Some True)
         \<and> vv_tables (view u) = [] \<and> vv_groups (view u) = [] \<and> vv_others (view u) = []) ((view u)\<lparr>vv_exists := False\<rparr>)"
      using service unfolding vpc_service_def by blast
    then show "settles (ec2_DeleteVpc c ?ctx vpc) view u (vv_tables v = [] \<and> vv_groups v = [] \<and> vv_others v = []) (?v4\<lparr>vv_exists := False\<rparr>)"
      by (simp add: u)
  qed (use u \<open>?free\<close> in simp)
  have "stage (DeleteVpc c vpc) view w ((vv_gateways v = [] \<or> vv_addresses v = []) \<and> True \<and> ?free
      \<and> (\<forall>s \<in> set (vv_subnets v). free_subnet v s) \<and> vv_tables v = [] \<and> vv_groups v = [] \<and> vv_others v = [])
      (Return None) (?v4\<lparr>vv_exists := False\<rparr>) an_error_outcome ?J"
    unfolding DeleteVpc_def Let_def
    by (rule stage_then [OF stage1], rule stage_then [OF stage2], assumption, rule stage_then [OF stage3], assumption,
        rule stage_then_outcome [OF stage4], assumption, assumption, rule stage5, assumption, assumption)
      (simp_all add: an_error_outcome_def same_subnets_def)
  then show ?thesis by (auto simp: stage_def an_error_outcome_def split: if_splits)
qed

text \<open>A service to try it on: its world is the network.\<close>

definition demo_call :: "(vpc_view \<Rightarrow> bool) \<Rightarrow> (vpc_view \<Rightarrow> vpc_view) \<Rightarrow> (vpc_view, go_error option) state" where
  "demo_call allowed f = State (\<lambda>v. if allowed v then (None, f v) else (Some (ErrText ''DependencyViolation''), v))"

definition demo_list :: "(vpc_view \<Rightarrow> 'a list) \<Rightarrow> (vpc_view, 'a list res) state" where
  "demo_list f = State (\<lambda>v. ((f v, None), v))"

definition demo_ec2 :: "vpc_view Ec2Client" where
  "demo_ec2 = \<lparr>TerminateInstances = \<lambda>_ _. State_Monad.return None, TerminatedWaiter = \<lambda>_ _ _. State_Monad.return None,
     ec2_DeleteVolume = \<lambda>_ _. State_Monad.return None, ec2_ReleaseAddress = \<lambda>_ _. State_Monad.return None,
     ec2_DeleteSecurityGroup = \<lambda>_ _. State_Monad.return None,
     DescribeInternetGateways = \<lambda>_ _. demo_list (\<lambda>v. map Some (vv_gateways v)),
     DetachInternetGateway = \<lambda>_ i _. demo_call (\<lambda>v. vv_addresses v = [])
       (\<lambda>v. v\<lparr>vv_gateways := remove1 (the i) (vv_gateways v), vv_loose := the i # vv_loose v\<rparr>),
     DeleteInternetGateway = \<lambda>_ i. demo_call (\<lambda>_. True) (\<lambda>v. v\<lparr>vv_loose := remove1 (the i) (vv_loose v)\<rparr>),
     DescribeRouteTables = \<lambda>_ _. demo_list (\<lambda>v. [map (an_assoc (vv_main v)) (vv_assocs v)]),
     DisassociateRouteTable = \<lambda>_ a. demo_call (\<lambda>v. vv_main v (the a) \<noteq> Some True)
       (\<lambda>v. v\<lparr>vv_assocs := remove1 (the a) (vv_assocs v)\<rparr>),
     DescribeNetworkAcls = \<lambda>_ _. demo_list (\<lambda>v. map (an_acl (vv_default v)) (vv_acls v)),
     DeleteNetworkAcl = \<lambda>_ a. demo_call
       (\<lambda>v. vv_default v (the a) \<noteq> Some True \<and> the a \<notin> vv_acl_of v ` set (vv_subnets v))
       (\<lambda>v. v\<lparr>vv_acls := remove1 (the a) (vv_acls v)\<rparr>),
     DescribeSubnets = \<lambda>_ _. demo_list (\<lambda>v. map Some (vv_subnets v)),
     DescribeNetworkInterfaces = \<lambda>_ fs. demo_list (\<lambda>v. case fs of
         [Filter _ [s]] \<Rightarrow> map Some (filter (\<lambda>e. vv_subnet_of v e = s) (vv_enis v)) | _ \<Rightarrow> []),
     DeleteNetworkInterface = \<lambda>_ e. demo_call (\<lambda>v. \<not> vv_attached v (the e))
       (\<lambda>v. v\<lparr>vv_enis := remove1 (the e) (vv_enis v)\<rparr>),
     DeleteSubnet = \<lambda>_ s. demo_call (\<lambda>v. the s \<notin> vv_subnet_of v ` set (vv_enis v))
       (\<lambda>v. v\<lparr>vv_subnets := remove1 (the s) (vv_subnets v)\<rparr>),
     ec2_DeleteVpc = \<lambda>_ _. demo_call (\<lambda>v. vv_gateways v = [] \<and> vv_subnets v = []
         \<and> (\<forall>a \<in> set (vv_acls v). vv_default v a = Some True) \<and> vv_tables v = [] \<and> vv_groups v = [] \<and> vv_others v = [])
       (\<lambda>v. v\<lparr>vv_exists := False\<rparr>)\<rparr>"

lemma demo_acts:
  "acts (demo_list f) (\<lambda>v. v) v r v' \<longleftrightarrow> r = (f v, None) \<and> v' = v"
  "settles (demo_call allowed g) (\<lambda>v. v) v b v' \<longleftrightarrow> (if b then allowed v \<and> v' = g v else \<not> allowed v)"
  "acts (demo_call allowed g) (\<lambda>v. v) v None v' \<longleftrightarrow> allowed v \<and> v' = g v"
  by (auto simp: acts_def settles_def demo_list_def demo_call_def)

lemma demo_ec2_service: "ec2_service demo_ec2 vpc (\<lambda>v. v)"
proof -
  have "gateway_service demo_ec2 vpc (\<lambda>v. v)" by (simp add: gateway_service_def demo_ec2_def demo_acts)
  moreover have "route_service demo_ec2 vpc (\<lambda>v. v)"
    by (auto simp: route_service_def demo_ec2_def demo_acts intro!: exI [of _ "[vv_assocs w]" for w])
  moreover have "acl_service demo_ec2 vpc (\<lambda>v. v)" by (simp add: acl_service_def demo_ec2_def demo_acts)
  moreover have "subnet_service demo_ec2 vpc (\<lambda>v. v)" by (simp add: subnet_service_def demo_ec2_def demo_acts)
  moreover have "vpc_service demo_ec2 vpc (\<lambda>v. v)" by (simp add: vpc_service_def demo_ec2_def demo_acts)
  ultimately show ?thesis by (simp add: ec2_service_def)
qed

text \<open>A network with one list of its own, which the subnets do or do not use.\<close>

definition demo_net :: "string \<Rightarrow> vpc_view" where
  "demo_net list_of_a = \<lparr>vv_gateways = [''igw''], vv_loose = [''other''], vv_addresses = [],
     vv_assocs = [''main'', ''rt''], vv_main = (\<lambda>a. Some (a = ''main'')),
     vv_acls = [''default'', ''acl''], vv_default = (\<lambda>a. Some (a = ''default'')),
     vv_subnets = [''a'', ''b''], vv_acl_of = (\<lambda>s. if s = ''a'' then list_of_a else ''default''),
     vv_enis = [''a1'', ''b1'', ''x1''], vv_subnet_of = take 1, vv_attached = (\<lambda>e. e = ''x1''),
     vv_tables = [], vv_groups = [], vv_others = [], vv_exists = True\<rparr>"

lemma DeleteVpc_outcome_witness:
  "acts (DeleteVpc demo_ec2 ''vpc'') (\<lambda>v. v) (demo_net ''default'') (Return None)
     ((demo_net ''default'')\<lparr>vv_gateways := [], vv_assocs := [''main''], vv_acls := [''default''],
        vv_enis := [''x1''], vv_subnets := [], vv_exists := False\<rparr>)
   \<and> (\<exists>e u. acts (DeleteVpc demo_ec2 ''vpc'') (\<lambda>v. v) (demo_net ''acl'') (Return (Some e)) u
        \<and> vv_exists u \<and> vv_subnets u = [''a'', ''b''])"
proof -
  note defs = demo_net_def acl_in_use_def free_subnet_def
  show ?thesis
    using DeleteVpc_outcome [OF demo_ec2_service refl, where vpc = "''vpc''" and w = "demo_net ''default''"]
      DeleteVpc_outcome [OF demo_ec2_service refl, where vpc = "''vpc''" and w = "demo_net ''acl''"]
    by (simp add: defs) blast
qed

end
