(* ===== verification/Ipmi.thy ===== *)
theory Ipmi
  imports GoStrings Wait
begin

text \<open>
  Package ipmi: the helper that runs ipmitool, and the two parsers of its output (the inventory
  record of the machine and the address of its controller). The command is a parameter. What is
  shown: each field of the inventory is the value of the last line with its key, colons inside the
  value included, and the address is read from its own line and not from the one that says where
  the address comes from. Package os, which judges the error of such a command, is at the end.
\<close>

section \<open>Options\<close>

record ipmi_options =
  io_Host :: string
  io_Port :: int
  io_Username :: string
  io_Password :: string

type_synonym ipmi_option = "ipmi_options \<Rightarrow> ipmi_options"

definition ipmi_defaultPort :: int where
  "ipmi_defaultPort = 623"

definition ipmi_Host :: "string \<Rightarrow> ipmi_option" where
  "ipmi_Host host = (\<lambda>o1. o1\<lparr>io_Host := host\<rparr>)"

definition ipmi_Port :: "int \<Rightarrow> ipmi_option" where
  "ipmi_Port port = (\<lambda>o1. o1\<lparr>io_Port := port\<rparr>)"

definition ipmi_Username :: "string \<Rightarrow> ipmi_option" where
  "ipmi_Username username = (\<lambda>o1. o1\<lparr>io_Username := username\<rparr>)"

definition ipmi_Password :: "string \<Rightarrow> ipmi_option" where
  "ipmi_Password password = (\<lambda>o1. o1\<lparr>io_Password := password\<rparr>)"

definition ipmi_genDefaultOptions :: ipmi_options where
  "ipmi_genDefaultOptions = \<lparr>io_Host = [], io_Port = ipmi_defaultPort, io_Username = [], io_Password = []\<rparr>"

fun ipmi_init_loop :: "ipmi_options \<Rightarrow> ipmi_option list \<Rightarrow> ipmi_options" where
  "ipmi_init_loop options [] = options"
| "ipmi_init_loop options (o1 # opts) = ipmi_init_loop (o1 options) opts"

definition ipmi_initOptions :: "ipmi_option list \<Rightarrow> ipmi_options" where
  "ipmi_initOptions opts = ipmi_init_loop ipmi_genDefaultOptions opts"

lemma ipmi_init_loop_eq: "ipmi_init_loop o0 opts = apply_options opts o0"
  by (induction opts arbitrary: o0) simp_all

interpretation ipmi_opts: func_options ipmi_initOptions ipmi_genDefaultOptions
  by unfold_locales (simp_all add: ipmi_initOptions_def ipmi_init_loop_eq)

definition ipmi_NewHelper :: "ipmi_option list \<Rightarrow> ipmi_options option res" where
  "ipmi_NewHelper opts = (Some (ipmi_initOptions opts), None)"

section \<open>The inventory\<close>

record Board =
  bd_ManufacturingDate :: string
  bd_Manufacturer :: string
  bd_Product :: string
  bd_Serial :: string
  bd_PartNumber :: string

record Product =
  pd_Manufacturer :: string
  pd_Name :: string
  pd_Version :: string
  pd_Serial :: string

record FRU =
  fru_Board :: Board
  fru_Product :: Product

definition fru_zero :: FRU where
  "fru_zero = \<lparr>fru_Board = \<lparr>bd_ManufacturingDate = [], bd_Manufacturer = [], bd_Product = [],
       bd_Serial = [], bd_PartNumber = []\<rparr>,
     fru_Product = \<lparr>pd_Manufacturer = [], pd_Name = [], pd_Version = [], pd_Serial = []\<rparr>\<rparr>"

definition set_field :: "string \<Rightarrow> string \<Rightarrow> FRU \<Rightarrow> FRU" where
  "set_field key val fru =
     (let b = fru_Board fru; p = fru_Product fru in
      if key = ''Board Mfg Date'' then fru\<lparr>fru_Board := b\<lparr>bd_ManufacturingDate := val\<rparr>\<rparr>
      else if key = ''Board Mfg'' then fru\<lparr>fru_Board := b\<lparr>bd_Manufacturer := val\<rparr>\<rparr>
      else if key = ''Board Product'' then fru\<lparr>fru_Board := b\<lparr>bd_Product := val\<rparr>\<rparr>
      else if key = ''Board Serial'' then fru\<lparr>fru_Board := b\<lparr>bd_Serial := val\<rparr>\<rparr>
      else if key = ''Board Part Number'' then fru\<lparr>fru_Board := b\<lparr>bd_PartNumber := val\<rparr>\<rparr>
      else if key = ''Product Manufacturer'' then fru\<lparr>fru_Product := p\<lparr>pd_Manufacturer := val\<rparr>\<rparr>
      else if key = ''Product Name'' then fru\<lparr>fru_Product := p\<lparr>pd_Name := val\<rparr>\<rparr>
      else if key = ''Product Version'' then fru\<lparr>fru_Product := p\<lparr>pd_Version := val\<rparr>\<rparr>
      else if key = ''Product Serial'' then fru\<lparr>fru_Product := p\<lparr>pd_Serial := val\<rparr>\<rparr>
      else fru)"

fun fru_lines :: "FRU \<Rightarrow> string list \<Rightarrow> FRU" where
  "fru_lines fru [] = fru"
| "fru_lines fru (line # lines) =
     (let parts = SplitN2 line (CHR '':'') in
      if length parts \<noteq> 2 then fru_lines fru lines
      else let key = TrimSpace (parts ! 0); val = TrimSpace (parts ! 1)
           in fru_lines (set_field key val fru) lines)"

definition parseFRU :: "string \<Rightarrow> FRU option res" where
  "parseFRU out = (Some (fru_lines fru_zero (Split out (CHR 0x0A))), None)"

section \<open>The address\<close>

fun ip_lines :: "string list \<Rightarrow> string res" where
  "ip_lines [] = ([], Some (ErrText ''ipmi ip not found in output''))"
| "ip_lines (line # lines) =
     (if \<not> HasPrefix line ''IP Address'' then ip_lines lines
      else if Contains line ''IP Address Source'' then ip_lines lines
      else let parts = SplitN2 line (CHR '':'') in
           if length parts = 2 then (TrimSpace (parts ! 1), None) else ip_lines lines)"

definition parseIpmiIp :: "string \<Rightarrow> string res" where
  "parseIpmiIp out = ip_lines (Split out (CHR 0x0A))"

section \<open>Running the tool\<close>

text \<open>\<open>run ctx args\<close> is the standard output and error of \<open>ipmitool\<close> with the arguments.\<close>

type_synonym 'w ipmitool = "ctx \<Rightarrow> string list \<Rightarrow> ('w, string res) state"

definition ipmi_args :: "ipmi_options \<Rightarrow> string list \<Rightarrow> string list" where
  "ipmi_args h command = [''-I'', ''lanplus'', ''-H'', io_Host h, ''-p'', Itoa (io_Port h),
     ''-U'', io_Username h, ''-P'', io_Password h] @ command"

definition GetFRU :: "'w ipmitool \<Rightarrow> ipmi_options \<Rightarrow> ('w, FRU option res) state" where
  "GetFRU run h = do {
     (out, err) \<leftarrow> run (ctx_seconds 5) (ipmi_args h [''fru'', ''print'', ''0'']);
     on_err err (State_Monad.return (parseFRU out))
       (\<lambda>e. (None, Some (ErrText (''failed to get IPMI fru for 0 '' @ err_msg e @ ''('' @ out @ '')''))))
   }"

definition GetDefaultIpmiIp :: "'w ipmitool \<Rightarrow> ipmi_options \<Rightarrow> ('w, string res) state" where
  "GetDefaultIpmiIp run h = do {
     (out, err) \<leftarrow> run (ctx_seconds 20) (ipmi_args h [''lan'', ''print'', ''1'']);
     on_err err (State_Monad.return (parseIpmiIp out))
       (\<lambda>e. ([], Some (ErrText (''failed to get IPMI ip '' @ out @ ''('' @ err_msg e @ '')''))))
   }"

definition Operate :: "'w ipmitool \<Rightarrow> ipmi_options \<Rightarrow> string \<Rightarrow> ('w, go_error option) state" where
  "Operate run h operation = do {
     (out, err) \<leftarrow> run (ctx_seconds 20) (ipmi_args h [''chassis'', ''power'', operation]);
     on_err err (State_Monad.return None)
       (\<lambda>e. Some (ErrText (''failed to do IPMI operation '' @ out @ ''('' @ err_msg e @ '')'')))
   }"

text \<open>
  Package os: an \<open>*exec.ExitError\<close> is an \<open>APIError\<close> with its exit code; the type assertion does not
  look inside a wrapped error.
\<close>

fun IsSuccessCode :: "go_error option \<Rightarrow> bool" where
  "IsSuccessCode None = True"
| "IsSuccessCode (Some (APIError code s)) = (code = 0)"
| "IsSuccessCode (Some e) = False"

section \<open>Properties\<close>

definition fru_keys :: "(string \<times> (FRU \<Rightarrow> string)) list" where
  "fru_keys = [(''Board Mfg Date'', bd_ManufacturingDate \<circ> fru_Board),
     (''Board Mfg'', bd_Manufacturer \<circ> fru_Board), (''Board Product'', bd_Product \<circ> fru_Board),
     (''Board Serial'', bd_Serial \<circ> fru_Board), (''Board Part Number'', bd_PartNumber \<circ> fru_Board),
     (''Product Manufacturer'', pd_Manufacturer \<circ> fru_Product), (''Product Name'', pd_Name \<circ> fru_Product),
     (''Product Version'', pd_Version \<circ> fru_Product), (''Product Serial'', pd_Serial \<circ> fru_Product)]"

text \<open>A line is \<open>key : value\<close> with any white space around the two; only the first colon counts.\<close>

definition key_of :: "string \<Rightarrow> string option" where
  "key_of line = (if CHR '':'' \<in> set line then Some (TrimSpace (takeWhile (\<lambda>c. c \<noteq> CHR '':'') line)) else None)"

definition val_of :: "string \<Rightarrow> string" where
  "val_of line = TrimSpace (tl (dropWhile (\<lambda>c. c \<noteq> CHR '':'') line))"

lemma SplitN2_parts: "CHR '':'' \<in> set line \<Longrightarrow> SplitN2 line (CHR '':'') =
    [takeWhile (\<lambda>c. c \<noteq> CHR '':'') line, tl (dropWhile (\<lambda>c. c \<noteq> CHR '':'') line)]"
proof -
  assume "CHR '':'' \<in> set line"
  then obtain k v where line: "line = k @ CHR '':'' # v" "CHR '':'' \<notin> set k"
    by (meson split_list_first)
  then have "\<forall>c \<in> set k. c \<noteq> CHR '':''" by metis
  then have "takeWhile (\<lambda>c. c \<noteq> CHR '':'') line = k" "dropWhile (\<lambda>c. c \<noteq> CHR '':'') line = CHR '':'' # v"
    using line(1) by (simp_all add: takeWhile_append2 dropWhile_append2)
  then show ?thesis using line SplitN2_sep by simp
qed

lemma set_field_get:
  "(k, get) \<in> set fru_keys \<Longrightarrow> get (set_field key val fru) = (if key = k then val else get fru)"
proof -
  have other: "set_field key val fru = fru" if "key \<notin> fst ` set fru_keys"
    using that by (simp add: fru_keys_def set_field_def)
  assume k: "(k, get) \<in> set fru_keys"
  show ?thesis
  proof (cases "key \<in> fst ` set fru_keys")
    case False
    moreover have "k \<in> fst ` set fru_keys" using k by force
    ultimately show ?thesis using other by auto
  next
    case True
    then obtain get' where "(key, get') \<in> set fru_keys" by auto
    with k show ?thesis
      unfolding fru_keys_def list.set insert_iff prod.inject empty_iff simp_thms
      by (elim disjE conjE; hypsubst; simp add: set_field_def)
  qed
qed

lemma fru_lines_get:
  assumes "(k, get) \<in> set fru_keys"
  shows "get (fru_lines fru lines) = (case find (\<lambda>l. key_of l = Some k) (rev lines) of
     Some l \<Rightarrow> val_of l | None \<Rightarrow> get fru)"
proof (induction lines arbitrary: fru)
  case Nil
  show ?case by simp
next
  case (Cons line lines)
  have snoc: "find P (rev (line # lines)) = (case find P (rev lines) of Some l \<Rightarrow> Some l
      | None \<Rightarrow> if P line then Some line else None)" for P
    by (simp add: find_append split: option.splits)
  show ?case
  proof (cases "CHR '':'' \<in> set line")
    case True
    then show ?thesis
      by (simp add: SplitN2_parts Let_def Cons.IH set_field_get [OF assms] snoc key_of_def val_of_def
          del: rev.simps split: option.splits)
  next
    case False
    then show ?thesis
      by (simp add: SplitN2_free Cons.IH snoc key_of_def del: rev.simps split: option.splits)
  qed
qed

text \<open>
  C26. \<open>parseFRU\<close> never fails, and each of the nine fields is the value of the last line whose key it
  is, without the white space around it; everything after the first colon belongs to the value, so
  a date keeps its time, and a field no line names stays empty.
\<close>

theorem parseFRU_last_value:
  "\<exists>fru. parseFRU out = (Some fru, None) \<and> (\<forall>(k, get) \<in> set fru_keys.
     get fru = (case find (\<lambda>l. key_of l = Some k) (rev (Split out (CHR 0x0A))) of
       Some l \<Rightarrow> val_of l | None \<Rightarrow> []))"
proof -
  have zero: "get fru_zero = []" if "(k, get) \<in> set fru_keys" for k get
    using that by (auto simp: fru_keys_def fru_zero_def)
  have main: "get (fru_lines fru_zero (Split out (CHR 0x0A))) =
      (case find (\<lambda>l. key_of l = Some k) (rev (Split out (CHR 0x0A))) of Some l \<Rightarrow> val_of l | None \<Rightarrow> [])"
    if "(k, get) \<in> set fru_keys" for k get
    using fru_lines_get [OF that, of fru_zero "Split out (CHR 0x0A)"] zero [OF that]
    by (simp split: option.split)
  show ?thesis
    unfolding parseFRU_def
    by (rule exI [of _ "fru_lines fru_zero (Split out (CHR 0x0A))"], rule conjI, rule refl, clarify, rule main)
qed

definition demo_fru_output :: string where
  "demo_fru_output = '' Board Mfg Date : Mon 12:30'' @ [CHR 0x0A] @ ''Board Serial:1'' @ [CHR 0x0A]
     @ ''Device not present (x)'' @ [CHR 0x0A] @ '' Board Serial :  2 ''"

lemma parseFRU_last_value_witness:
  "\<exists>fru. parseFRU demo_fru_output = (Some fru, None) \<and> bd_ManufacturingDate (fru_Board fru) = ''Mon 12:30''
     \<and> bd_Serial (fru_Board fru) = ''2'' \<and> pd_Name (fru_Product fru) = []"
proof -
  obtain fru where fru: "parseFRU demo_fru_output = (Some fru, None)"
    and get: "\<forall>(k, get) \<in> set fru_keys. get fru = (case find (\<lambda>l. key_of l = Some k)
      (rev (Split demo_fru_output (CHR 0x0A))) of Some l \<Rightarrow> val_of l | None \<Rightarrow> [])"
    using parseFRU_last_value by blast
  have "Split demo_fru_output (CHR 0x0A) = ['' Board Mfg Date : Mon 12:30'', ''Board Serial:1'',
      ''Device not present (x)'', '' Board Serial :  2 '']"
    by (simp add: demo_fru_output_def)
  with get have "bd_ManufacturingDate (fru_Board fru) = ''Mon 12:30''" "bd_Serial (fru_Board fru) = ''2''"
    "pd_Name (fru_Product fru) = []"
    by (simp_all add: fru_keys_def key_of_def val_of_def TrimSpace_def trim_by_def is_space_def)
  with fru show ?thesis by blast
qed

lemma ip_lines_skip:
  "\<forall>l \<in> set before. HasPrefix l ''IP Address'' \<longrightarrow> Contains l ''IP Address Source'' \<Longrightarrow>
    ip_lines (before @ ls) = ip_lines ls"
  by (induction before) auto

lemma ip_line_read:
  "HasPrefix line ''IP Address'' \<Longrightarrow> \<not> Contains line ''IP Address Source'' \<Longrightarrow>
    SplitN2 line (CHR '':'') = [k, v] \<Longrightarrow> ip_lines (line # ls) = (TrimSpace v, None)"
  by (simp add: Let_def)

lemma Contains_set: "Contains s sub \<Longrightarrow> set sub \<subseteq> set s"
  by (auto simp: Contains_iff)

lemma spaces_free: "\<forall>c \<in> set s. is_space c \<Longrightarrow> \<not> is_space x \<Longrightarrow> x \<notin> set s"
  by blast

text \<open>
  C28. \<open>parseIpmiIp\<close> reads the address from the line \<open>IP Address : <ip>\<close>, whatever white space stands
  around the colon and the address and whatever lines come before and after it, the line that names
  the source of the address included.
\<close>

theorem parseIpmiIp_reads_address:
  assumes "Split out (CHR 0x0A) = before @ (''IP Address'' @ pad @ '':'' @ gap @ ip @ trail) # after"
    and "\<forall>l \<in> set before. HasPrefix l ''IP Address'' \<longrightarrow> Contains l ''IP Address Source''"
    and "\<forall>c \<in> set pad \<union> set gap \<union> set trail. is_space c"
    and "ip \<noteq> []" and "trimmed_by is_space ip" and "CHR ''S'' \<notin> set ip"
  shows "parseIpmiIp out = (ip, None)"
proof -
  let ?line = "''IP Address'' @ pad @ '':'' @ gap @ ip @ trail"
  have spaces: "\<forall>c \<in> set pad. is_space c" "\<forall>c \<in> set gap. is_space c" "\<forall>c \<in> set trail. is_space c"
    using assms(3) by blast+
  have pad: "CHR '':'' \<notin> set (''IP Address'' @ pad)"
    using spaces_free [OF spaces(1), of "CHR '':''"] by (simp add: is_space_def)
  have "CHR ''S'' \<notin> set ?line"
    using spaces [THEN spaces_free, of "CHR ''S''"] assms(6) by (simp add: is_space_def)
  then have source: "\<not> Contains ?line ''IP Address Source''"
    using Contains_set [of ?line "''IP Address Source''"] by (auto simp del: append.simps)
  have "SplitN2 ((''IP Address'' @ pad) @ CHR '':'' # (gap @ ip @ trail)) (CHR '':'')
      = [''IP Address'' @ pad, gap @ ip @ trail]"
    by (rule SplitN2_sep [OF pad])
  then have parts: "SplitN2 ?line (CHR '':'') = [''IP Address'' @ pad, gap @ ip @ trail]" by simp
  have "TrimSpace (gap @ ip @ trail) = ip"
    unfolding TrimSpace_def by (rule trim_by_pad [OF assms(5) spaces(2,3) assms(4)])
  then have "ip_lines (?line # after) = (ip, None)"
    using ip_line_read [OF HasPrefix_append source parts] by simp
  then show ?thesis
    unfolding parseIpmiIp_def assms(1) by (simp only: ip_lines_skip [OF assms(2)])
qed

lemma parseIpmiIp_reads_address_witness:
  "parseIpmiIp (''IP Address Source       : Static'' @ [CHR 0x0A] @ ''IP Address              : 10.0.0.5''
     @ [CHR 0x0A] @ ''Subnet Mask             : 255.0.0.0'') = (''10.0.0.5'', None)"
proof (rule parseIpmiIp_reads_address)
  show "Split (''IP Address Source       : Static'' @ [CHR 0x0A] @ ''IP Address              : 10.0.0.5''
     @ [CHR 0x0A] @ ''Subnet Mask             : 255.0.0.0'') (CHR 0x0A)
     = [''IP Address Source       : Static''] @ (''IP Address'' @ ''              '' @ '':'' @ '' '' @ ''10.0.0.5'' @ [])
       # [''Subnet Mask             : 255.0.0.0'']" by simp
qed (simp_all add: is_space_def trimmed_by_def HasPrefix_def Contains.simps)

end
