(* ===== verification/Http.thy ===== *)
theory Http
  imports Prelude Wait
begin

text \<open>
  Package http: the options and defaults of the REST client, its construction over resty (whose
  client is a parameter, known here by its settings), the global helper, and the tables of status
  codes. The tables are Go maps to \<open>bool\<close>, read as sets: a missing key is \<open>false\<close>.
\<close>

section \<open>Status codes\<close>

definition Is2XXCode :: "int list" where
  "Is2XXCode = [200, 201, 202, 203, 204, 205, 206, 207, 208, 226]"

definition Is4XXCode :: "int list" where
  "Is4XXCode = [400, 401, 402, 403, 404, 405, 406, 407, 408, 409, 410, 411, 412, 413, 414, 415, 416,
     417, 418, 421, 422, 423, 424, 425, 426, 428, 429, 431, 451]"

definition Is5XXCode :: "int list" where
  "Is5XXCode = [500, 501, 502, 503, 504, 505, 506, 507, 508, 510, 511]"

lemma code_ranges:
  "c \<in> set Is2XXCode \<Longrightarrow> 200 \<le> c \<and> c < 300"
  "c \<in> set Is4XXCode \<Longrightarrow> 400 \<le> c \<and> c < 500"
  "c \<in> set Is5XXCode \<Longrightarrow> 500 \<le> c \<and> c < 600"
  by (auto simp: Is2XXCode_def Is4XXCode_def Is5XXCode_def)

section \<open>The helper\<close>

record http_options =
  ho_InsecureSkipVerify :: bool
  ho_Timeout :: duration
  ho_RetryCount :: int
  ho_RetryWaitTime :: duration
  ho_RetryMaxWaitTime :: duration

type_synonym http_option = "http_options \<Rightarrow> http_options"

definition TlsInsecureSkipVerify :: "bool \<Rightarrow> http_option" where
  "TlsInsecureSkipVerify skip = (\<lambda>o1. o1\<lparr>ho_InsecureSkipVerify := skip\<rparr>)"

definition http_Timeout :: "duration \<Rightarrow> http_option" where
  "http_Timeout t = (\<lambda>o1. o1\<lparr>ho_Timeout := t\<rparr>)"

definition http_RetryCount :: "int \<Rightarrow> http_option" where
  "http_RetryCount c = (\<lambda>o1. o1\<lparr>ho_RetryCount := c\<rparr>)"

definition http_RetryWaitTime :: "duration \<Rightarrow> http_option" where
  "http_RetryWaitTime t = (\<lambda>o1. o1\<lparr>ho_RetryWaitTime := t\<rparr>)"

definition http_RetryMaxWaitTime :: "duration \<Rightarrow> http_option" where
  "http_RetryMaxWaitTime t = (\<lambda>o1. o1\<lparr>ho_RetryMaxWaitTime := t\<rparr>)"

definition http_genDefaultOptions :: http_options where
  "http_genDefaultOptions = \<lparr>ho_InsecureSkipVerify = True, ho_Timeout = 10 * Second, ho_RetryCount = 3,
     ho_RetryWaitTime = 2 * Second, ho_RetryMaxWaitTime = 5 * Second\<rparr>"

fun http_init_loop :: "http_options \<Rightarrow> http_option list \<Rightarrow> http_options" where
  "http_init_loop options [] = options"
| "http_init_loop options (o1 # opts) = http_init_loop (o1 options) opts"

definition http_initOptions :: "http_option list \<Rightarrow> http_options" where
  "http_initOptions opts = http_init_loop http_genDefaultOptions opts"

lemma http_init_loop_eq: "http_init_loop o0 opts = apply_options opts o0"
  by (induction opts arbitrary: o0) simp_all

interpretation http_opts: func_options http_initOptions http_genDefaultOptions
  by unfold_locales (simp_all add: http_initOptions_def http_init_loop_eq)

text \<open>
  A response, with what resty decoded into the value that was registered for it, and a request:
  method, headers, body and URL.
\<close>

record Resp =
  rs_StatusCode :: int
  rs_IsError :: bool
  rs_Body :: string
  rs_Result :: json

type_synonym 'w request = "string \<Rightarrow> (string \<times> string) list \<Rightarrow> string option \<Rightarrow> string \<Rightarrow> ('w, Resp res) state"

text \<open>The settings of a resty client, in the order \<open>NewHelper\<close> makes them.\<close>

datatype resty_setting =
    SetTLSClientConfig bool
  | SetTimeout duration
  | SetRetryCount int
  | SetRetryWaitTime duration
  | SetRetryMaxWaitTime duration

record 'w HttpHelper =
  hh_Client :: "'w request"
  hh_Options :: http_options

definition http_NewHelper ::
  "(resty_setting list \<Rightarrow> 'w request) \<Rightarrow> http_option list \<Rightarrow> 'w HttpHelper option res" where
  "http_NewHelper resty_New opts = (let initedOpts = http_initOptions opts in
     (Some \<lparr>hh_Client = resty_New [SetTLSClientConfig (ho_InsecureSkipVerify initedOpts),
        SetTimeout (ho_Timeout initedOpts), SetRetryCount (ho_RetryCount initedOpts),
        SetRetryWaitTime (ho_RetryWaitTime initedOpts),
        SetRetryMaxWaitTime (ho_RetryMaxWaitTime initedOpts)], hh_Options = initedOpts\<rparr>, None))"

definition http_NewGlobalHelper :: "(resty_setting list \<Rightarrow> 'v request) \<Rightarrow> http_option list
    \<Rightarrow> ('v HttpHelper globals \<times> 'w, go_error option) state" where
  "http_NewGlobalHelper resty_New opts = do {
     err \<leftarrow> once_Do (State_Monad.return (http_NewHelper resty_New opts));
     on_err err (State_Monad.return None) Some
   }"

definition http_GetGlobalHelper :: "'v HttpHelper globals \<Rightarrow> 'v HttpHelper option" where
  "http_GetGlobalHelper g = helper g"

interpretation http_global: global_helper
  "http_NewGlobalHelper resty_New" "\<lambda>opts. State_Monad.return (http_NewHelper resty_New opts)" http_GetGlobalHelper
  by unfold_locales
    (auto simp: http_NewGlobalHelper_def http_GetGlobalHelper_def on_err_def split: option.splits)

end
