(* ===== verification/RancherTypes.thy ===== *)
theory RancherTypes
  imports GoStrings
begin

text \<open>
  Package rancher: the structs of its requests and answers, one record each with the fields in the
  order of the source, and what \<open>encoding/json\<close> makes of them: the struct tags as keys, an embedded
  struct under the key of its tag, and \<open>omitempty\<close>, which drops an empty string, number, boolean,
  slice or map but never a struct. A slice or map is \<open>None\<close> when nil; a map lists its entries by
  sorted keys. A decoded object is read by its exact keys, and a field of another kind, which the
  REST client reports as an error of its own, is the zero value.
\<close>

section \<open>Encoding and decoding of fields\<close>

definition slice_json :: "('a \<Rightarrow> json) \<Rightarrow> 'a list option \<Rightarrow> json" where
  "slice_json f xs = (case xs of None \<Rightarrow> JNull | Some xs \<Rightarrow> JArr (map f xs))"

definition map_json :: "('a \<Rightarrow> json) \<Rightarrow> (string \<times> 'a) list option \<Rightarrow> json" where
  "map_json f m = (case m of None \<Rightarrow> JNull | Some kvs \<Rightarrow> JObj (map (\<lambda>(k, v). (k, f v)) kvs))"

definition pointer_json :: "('a \<Rightarrow> json) \<Rightarrow> 'a option \<Rightarrow> json" where
  "pointer_json f p = (case p of None \<Rightarrow> JNull | Some x \<Rightarrow> f x)"

definition json_str :: "json \<Rightarrow> string" where
  "json_str j = (case j of JStr s \<Rightarrow> s | _ \<Rightarrow> [])"

definition json_bool :: "json \<Rightarrow> bool" where
  "json_bool j = (case j of JBool b \<Rightarrow> b | _ \<Rightarrow> False)"

definition json_num :: "json \<Rightarrow> int" where
  "json_num j = (case j of JNum n \<Rightarrow> n | _ \<Rightarrow> 0)"

definition json_slice :: "(json \<Rightarrow> 'a) \<Rightarrow> json \<Rightarrow> 'a list option" where
  "json_slice f j = (case j of JArr xs \<Rightarrow> Some (map f xs) | _ \<Rightarrow> None)"

definition json_map :: "(json \<Rightarrow> 'a) \<Rightarrow> json \<Rightarrow> (string \<times> 'a) list option" where
  "json_map f j = (case j of JObj kvs \<Rightarrow> Some (map (\<lambda>(k, v). (k, f v)) kvs) | _ \<Rightarrow> None)"

text \<open>A field with \<open>omitempty\<close>: left out when it is the given kind of empty.\<close>

definition omitempty :: "bool \<Rightarrow> string \<Rightarrow> json \<Rightarrow> (string \<times> json) list" where
  "omitempty e k v = (if e then [] else [(k, v)])"

definition empty_slice :: "'a list option \<Rightarrow> bool" where
  "empty_slice xs = (case xs of None \<Rightarrow> True | Some xs \<Rightarrow> xs = [])"

lemma json_read_write [simp]:
  "json_str (JStr s) = s" "json_bool (JBool b) = b" "json_num (JNum n) = n"
  "json_str JNull = []" "json_bool JNull = False" "json_num JNull = 0"
  by (simp_all add: json_str_def json_bool_def json_num_def)

lemma json_slice_slice [simp]: "(\<And>x. g (f x) = x) \<Longrightarrow> json_slice g (slice_json f xs) = xs"
  by (cases xs) (simp_all add: json_slice_def slice_json_def comp_def)

lemma json_map_map [simp]: "(\<And>x. g (f x) = x) \<Longrightarrow> json_map g (map_json f m) = m"
  by (cases m) (simp_all add: json_map_def map_json_def comp_def case_prod_unfold)

lemma json_absent [simp]: "json_slice g JNull = None" "json_map g JNull = None"
  by (simp_all add: json_slice_def json_map_def)

text \<open>Ranging over a slice: nil has no elements.\<close>

definition elements :: "'a list option \<Rightarrow> 'a list" where
  "elements xs = (case xs of None \<Rightarrow> [] | Some xs \<Rightarrow> xs)"

section \<open>The structs\<close>

record rancher_Annotations =
  Annotations_ProvisioningCattleIoDriver :: string

definition Annotations_json :: "rancher_Annotations \<Rightarrow> json" where
  "Annotations_json x = JObj (omitempty (Annotations_ProvisioningCattleIoDriver x = []) ''provisioning.cattle.io/driver'' (JStr (Annotations_ProvisioningCattleIoDriver x)))"

definition to_Annotations :: "json \<Rightarrow> rancher_Annotations" where
  "to_Annotations j = \<lparr>Annotations_ProvisioningCattleIoDriver = json_str (get_field ''provisioning.cattle.io/driver'' j)\<rparr>"

record rancher_Metadata =
  Metadata_Name :: string
  Metadata_Annotations :: rancher_Annotations
  Metadata_Finalizers :: "string list option"
  Metadata_GenerateName :: string
  Metadata_Labels :: "(string \<times> string) list option"
  Metadata_ManagedFields :: "json list option"
  Metadata_Namespace :: string
  Metadata_OwnerReferences :: "string list option"

definition Metadata_json :: "rancher_Metadata \<Rightarrow> json" where
  "Metadata_json x = JObj ([(''name'', JStr (Metadata_Name x)),
     (''annotations'', Annotations_json (Metadata_Annotations x))] @
    omitempty (empty_slice (Metadata_Finalizers x)) ''finalizers'' (slice_json JStr (Metadata_Finalizers x)) @
    omitempty (Metadata_GenerateName x = []) ''generateName'' (JStr (Metadata_GenerateName x)) @
    [(''labels'', map_json JStr (Metadata_Labels x))] @
    omitempty (empty_slice (Metadata_ManagedFields x)) ''managedFields'' (slice_json id (Metadata_ManagedFields x)) @
    [(''namespace'', JStr (Metadata_Namespace x))] @
    omitempty (empty_slice (Metadata_OwnerReferences x)) ''ownerReferences'' (slice_json JStr (Metadata_OwnerReferences x)))"

definition to_Metadata :: "json \<Rightarrow> rancher_Metadata" where
  "to_Metadata j = \<lparr>Metadata_Name = json_str (get_field ''name'' j),
     Metadata_Annotations = to_Annotations (get_field ''annotations'' j),
     Metadata_Finalizers = json_slice json_str (get_field ''finalizers'' j),
     Metadata_GenerateName = json_str (get_field ''generateName'' j),
     Metadata_Labels = json_map json_str (get_field ''labels'' j),
     Metadata_ManagedFields = json_slice id (get_field ''managedFields'' j),
     Metadata_Namespace = json_str (get_field ''namespace'' j),
     Metadata_OwnerReferences = json_slice json_str (get_field ''ownerReferences'' j)\<rparr>"

record rancher_OpenstackMachine =
  OpenstackMachine_ActiveTimeout :: string
  OpenstackMachine_AuthUrl :: string
  OpenstackMachine_EndpointType :: string
  OpenstackMachine_FlavorName :: string
  OpenstackMachine_FloatingipPool :: string
  OpenstackMachine_ImageName :: string
  OpenstackMachine_Insecure :: bool
  OpenstackMachine_IpVersion :: string
  OpenstackMachine_Metadata :: rancher_Metadata
  OpenstackMachine_NetId :: string
  OpenstackMachine_SecGroups :: string
  OpenstackMachine_SshPort :: string
  OpenstackMachine_SshUser :: string
  OpenstackMachine_TenantId :: string
  OpenstackMachine_UserId :: string
  OpenstackMachine_UserDataFile :: string
  OpenstackMachine_Type :: string

definition OpenstackMachine_json :: "rancher_OpenstackMachine \<Rightarrow> json" where
  "OpenstackMachine_json x = JObj ([(''activeTimeout'', JStr (OpenstackMachine_ActiveTimeout x)),
     (''authUrl'', JStr (OpenstackMachine_AuthUrl x)),
     (''endpointType'', JStr (OpenstackMachine_EndpointType x)),
     (''flavorName'', JStr (OpenstackMachine_FlavorName x)),
     (''floatingipPool'', JStr (OpenstackMachine_FloatingipPool x)),
     (''imageName'', JStr (OpenstackMachine_ImageName x)),
     (''insecure'', JBool (OpenstackMachine_Insecure x)),
     (''ipVersion'', JStr (OpenstackMachine_IpVersion x)),
     (''metadata'', Metadata_json (OpenstackMachine_Metadata x)),
     (''netId'', JStr (OpenstackMachine_NetId x)),
     (''secGroups'', JStr (OpenstackMachine_SecGroups x)),
     (''sshPort'', JStr (OpenstackMachine_SshPort x)),
     (''sshUser'', JStr (OpenstackMachine_SshUser x)),
     (''tenantId'', JStr (OpenstackMachine_TenantId x)),
     (''userId'', JStr (OpenstackMachine_UserId x))] @
    omitempty (OpenstackMachine_UserDataFile x = []) ''userDataFile'' (JStr (OpenstackMachine_UserDataFile x)) @
    [(''type'', JStr (OpenstackMachine_Type x))])"

record rancher_OpenstackMachineResponse =
  OpenstackMachineResponse_Id :: string
  OpenstackMachineResponse_Type :: string
  OpenstackMachineResponse_Metadata :: rancher_Metadata

definition to_OpenstackMachineResponse :: "json \<Rightarrow> rancher_OpenstackMachineResponse" where
  "to_OpenstackMachineResponse j = \<lparr>OpenstackMachineResponse_Id = json_str (get_field ''id'' j),
     OpenstackMachineResponse_Type = json_str (get_field ''type'' j),
     OpenstackMachineResponse_Metadata = to_Metadata (get_field ''metadata'' j)\<rparr>"

record rancher_OpenstackCredentialConfig =
  OpenstackCredentialConfig_Password :: string

definition OpenstackCredentialConfig_json :: "rancher_OpenstackCredentialConfig \<Rightarrow> json" where
  "OpenstackCredentialConfig_json x = JObj ([(''password'', JStr (OpenstackCredentialConfig_Password x))])"

definition to_OpenstackCredentialConfig :: "json \<Rightarrow> rancher_OpenstackCredentialConfig" where
  "to_OpenstackCredentialConfig j = \<lparr>OpenstackCredentialConfig_Password = json_str (get_field ''password'' j)\<rparr>"

record rancher_CloudCredential =
  CloudCredential_Id :: string
  CloudCredential_Uuid :: string
  CloudCredential_Name :: string
  CloudCredential_Type :: string
  CloudCredential_BaseType :: string
  CloudCredential_Metadata :: rancher_Metadata
  CloudCredential_Annotations :: rancher_Annotations
  CloudCredential_OpenstackCredentialConfig :: rancher_OpenstackCredentialConfig
  CloudCredential_Created :: string

definition CloudCredential_json :: "rancher_CloudCredential \<Rightarrow> json" where
  "CloudCredential_json x = JObj ([(''id'', JStr (CloudCredential_Id x)),
     (''uuid'', JStr (CloudCredential_Uuid x)),
     (''name'', JStr (CloudCredential_Name x)),
     (''type'', JStr (CloudCredential_Type x)),
     (''baseType'', JStr (CloudCredential_BaseType x)),
     (''metadata'', Metadata_json (CloudCredential_Metadata x)),
     (''annotations'', Annotations_json (CloudCredential_Annotations x)),
     (''openstackcredentialConfig'', OpenstackCredentialConfig_json (CloudCredential_OpenstackCredentialConfig x)),
     (''created'', JStr (CloudCredential_Created x))])"

definition to_CloudCredential :: "json \<Rightarrow> rancher_CloudCredential" where
  "to_CloudCredential j = \<lparr>CloudCredential_Id = json_str (get_field ''id'' j),
     CloudCredential_Uuid = json_str (get_field ''uuid'' j),
     CloudCredential_Name = json_str (get_field ''name'' j),
     CloudCredential_Type = json_str (get_field ''type'' j),
     CloudCredential_BaseType = json_str (get_field ''baseType'' j),
     CloudCredential_Metadata = to_Metadata (get_field ''metadata'' j),
     CloudCredential_Annotations = to_Annotations (get_field ''annotations'' j),
     CloudCredential_OpenstackCredentialConfig = to_OpenstackCredentialConfig (get_field ''openstackcredentialConfig'' j),
     CloudCredential_Created = json_str (get_field ''created'' j)\<rparr>"

record rancher_Data =
  Data_Username :: string
  Data_Password :: string

definition Data_json :: "rancher_Data \<Rightarrow> json" where
  "Data_json x = JObj ([(''username'', JStr (Data_Username x)),
     (''password'', JStr (Data_Password x))])"

record rancher_Secret =
  Secret_Type :: string
  Secret_Metadata :: rancher_Metadata
  Secret_Data :: rancher_Data

definition Secret_json :: "rancher_Secret \<Rightarrow> json" where
  "Secret_json x = JObj ([(''type'', JStr (Secret_Type x)),
     (''metadata'', Metadata_json (Secret_Metadata x)),
     (''data'', Data_json (Secret_Data x))])"

record rancher_SecretResponse =
  SecretResponse_Metadata :: rancher_Metadata

definition to_SecretResponse :: "json \<Rightarrow> rancher_SecretResponse" where
  "to_SecretResponse j = \<lparr>SecretResponse_Metadata = to_Metadata (get_field ''metadata'' j)\<rparr>"

record rancher_SecretRef =
  SecretRef_Namespace :: string
  SecretRef_Name :: string

definition SecretRef_json :: "rancher_SecretRef \<Rightarrow> json" where
  "SecretRef_json x = JObj ([(''namespace'', JStr (SecretRef_Namespace x)),
     (''name'', JStr (SecretRef_Name x))])"

record rancher_RepoSpec =
  RepoSpec_Url :: string
  RepoSpec_ClientSecret :: rancher_SecretRef
  RepoSpec_InsecurePlainHttp :: bool
  RepoSpec_InsecureSkipTlsVerify :: bool

definition RepoSpec_json :: "rancher_RepoSpec \<Rightarrow> json" where
  "RepoSpec_json x = JObj ([(''url'', JStr (RepoSpec_Url x)),
     (''clientSecret'', SecretRef_json (RepoSpec_ClientSecret x)),
     (''insecurePlainHttp'', JBool (RepoSpec_InsecurePlainHttp x)),
     (''insecureSkipTLSVerify'', JBool (RepoSpec_InsecureSkipTlsVerify x))])"

record rancher_Repo =
  Repo_Type :: string
  Repo_Metadata :: rancher_Metadata
  Repo_Spec :: rancher_RepoSpec

definition Repo_json :: "rancher_Repo \<Rightarrow> json" where
  "Repo_json x = JObj ([(''type'', JStr (Repo_Type x)),
     (''metadata'', Metadata_json (Repo_Metadata x)),
     (''spec'', RepoSpec_json (Repo_Spec x))])"

record rancher_RepoResponse =
  RepoResponse_Metadata :: rancher_Metadata

definition to_RepoResponse :: "json \<Rightarrow> rancher_RepoResponse" where
  "to_RepoResponse j = \<lparr>RepoResponse_Metadata = to_Metadata (get_field ''metadata'' j)\<rparr>"

record rancher_Ipv6 =
  Ipv6_Enabled :: bool

definition Ipv6_json :: "rancher_Ipv6 \<Rightarrow> json" where
  "Ipv6_json x = JObj ([(''enabled'', JBool (Ipv6_Enabled x))])"

record rancher_Cilium =
  Cilium_Ipv6 :: rancher_Ipv6

definition Cilium_json :: "rancher_Cilium \<Rightarrow> json" where
  "Cilium_json x = JObj ([(''ipv6'', Ipv6_json (Cilium_Ipv6 x))])"

record rancher_Rke2Cilium =
  Rke2Cilium_MTU :: int
  Rke2Cilium_Cilium :: rancher_Cilium

definition Rke2Cilium_json :: "rancher_Rke2Cilium \<Rightarrow> json" where
  "Rke2Cilium_json x = JObj (omitempty (Rke2Cilium_MTU x = 0) ''mtu'' (JNum (Rke2Cilium_MTU x)) @
    [(''cilium'', Cilium_json (Rke2Cilium_Cilium x))])"

record rancher_ChartValues =
  ChartValues_Rke2Cilium :: rancher_Rke2Cilium

definition ChartValues_json :: "rancher_ChartValues \<Rightarrow> json" where
  "ChartValues_json x = JObj ([(''rke2-cilium'', Rke2Cilium_json (ChartValues_Rke2Cilium x))])"

record rancher_ControlPlaneDrainOptions =
  ControlPlaneDrainOptions_DeleteEmptyDirData :: bool
  ControlPlaneDrainOptions_DisableEviction :: bool
  ControlPlaneDrainOptions_Enabled :: bool
  ControlPlaneDrainOptions_Force :: bool
  ControlPlaneDrainOptions_GracePeriod :: int
  ControlPlaneDrainOptions_IgnoreDaemonSets :: bool
  ControlPlaneDrainOptions_SkipWaitForDeleteTimeoutSecs :: int
  ControlPlaneDrainOptions_Timeout :: int

definition ControlPlaneDrainOptions_json :: "rancher_ControlPlaneDrainOptions \<Rightarrow> json" where
  "ControlPlaneDrainOptions_json x = JObj ([(''deleteEmptyDirData'', JBool (ControlPlaneDrainOptions_DeleteEmptyDirData x)),
     (''disableEviction'', JBool (ControlPlaneDrainOptions_DisableEviction x)),
     (''enabled'', JBool (ControlPlaneDrainOptions_Enabled x)),
     (''force'', JBool (ControlPlaneDrainOptions_Force x)),
     (''gracePeriod'', JNum (ControlPlaneDrainOptions_GracePeriod x)),
     (''ignoreDaemonSets'', JBool (ControlPlaneDrainOptions_IgnoreDaemonSets x)),
     (''skipWaitForDeleteTimeoutSeconds'', JNum (ControlPlaneDrainOptions_SkipWaitForDeleteTimeoutSecs x)),
     (''timeout'', JNum (ControlPlaneDrainOptions_Timeout x))])"

record rancher_WorkerDrainOptions =
  WorkerDrainOptions_DeleteEmptyDirData :: bool
  WorkerDrainOptions_DisableEviction :: bool
  WorkerDrainOptions_Enabled :: bool
  WorkerDrainOptions_Force :: bool
  WorkerDrainOptions_GracePeriod :: int
  WorkerDrainOptions_IgnoreDaemonSets :: bool
  WorkerDrainOptions_SkipWaitForDeleteTimeoutSecs :: int
  WorkerDrainOptions_Timeout :: int

definition WorkerDrainOptions_json :: "rancher_WorkerDrainOptions \<Rightarrow> json" where
  "WorkerDrainOptions_json x = JObj ([(''deleteEmptyDirData'', JBool (WorkerDrainOptions_DeleteEmptyDirData x)),
     (''disableEviction'', JBool (WorkerDrainOptions_DisableEviction x)),
     (''enabled'', JBool (WorkerDrainOptions_Enabled x)),
     (''force'', JBool (WorkerDrainOptions_Force x)),
     (''gracePeriod'', JNum (WorkerDrainOptions_GracePeriod x)),
     (''ignoreDaemonSets'', JBool (WorkerDrainOptions_IgnoreDaemonSets x)),
     (''skipWaitForDeleteTimeoutSeconds'', JNum (WorkerDrainOptions_SkipWaitForDeleteTimeoutSecs x)),
     (''timeout'', JNum (WorkerDrainOptions_Timeout x))])"

record rancher_UpgradeStrategy =
  UpgradeStrategy_ControlPlaneConcurrency :: string
  UpgradeStrategy_ControlPlaneDrainOptions :: rancher_ControlPlaneDrainOptions
  UpgradeStrategy_WorkerConcurrency :: string
  UpgradeStrategy_WorkerDrainOptions :: rancher_WorkerDrainOptions

definition UpgradeStrategy_json :: "rancher_UpgradeStrategy \<Rightarrow> json" where
  "UpgradeStrategy_json x = JObj ([(''controlPlaneConcurrency'', JStr (UpgradeStrategy_ControlPlaneConcurrency x)),
     (''controlPlaneDrainOptions'', ControlPlaneDrainOptions_json (UpgradeStrategy_ControlPlaneDrainOptions x)),
     (''workerConcurrency'', JStr (UpgradeStrategy_WorkerConcurrency x)),
     (''workerDrainOptions'', WorkerDrainOptions_json (UpgradeStrategy_WorkerDrainOptions x))])"

record rancher_DataDirectories =
  DataDirectories_SystemAgent :: string
  DataDirectories_Provisioning :: string
  DataDirectories_K8sDistro :: string

definition DataDirectories_json :: "rancher_DataDirectories \<Rightarrow> json" where
  "DataDirectories_json x = JObj ([(''systemAgent'', JStr (DataDirectories_SystemAgent x)),
     (''provisioning'', JStr (DataDirectories_Provisioning x)),
     (''k8sDistro'', JStr (DataDirectories_K8sDistro x))])"

record rancher_MachineGlobalConfig =
  MachineGlobalConfig_Cni :: string
  MachineGlobalConfig_DisableKubeProxy :: bool
  MachineGlobalConfig_EtcdExposeMetrics :: bool

definition MachineGlobalConfig_json :: "rancher_MachineGlobalConfig \<Rightarrow> json" where
  "MachineGlobalConfig_json x = JObj ([(''cni'', JStr (MachineGlobalConfig_Cni x)),
     (''disable-kube-proxy'', JBool (MachineGlobalConfig_DisableKubeProxy x)),
     (''etcd-expose-metrics'', JBool (MachineGlobalConfig_EtcdExposeMetrics x))])"

record rancher_Config =
  Config_ProtectKernelDefaults :: bool

definition Config_json :: "rancher_Config \<Rightarrow> json" where
  "Config_json x = JObj (omitempty (\<not> Config_ProtectKernelDefaults x) ''protect-kernel-defaults'' (JBool (Config_ProtectKernelDefaults x)))"

record rancher_MachineSelectorConfig =
  MachineSelectorConfig_Config :: rancher_Config

definition MachineSelectorConfig_json :: "rancher_MachineSelectorConfig \<Rightarrow> json" where
  "MachineSelectorConfig_json x = JObj ([(''config'', Config_json (MachineSelectorConfig_Config x))])"

type_synonym rancher_S3 = unit

definition S3_json :: "rancher_S3 \<Rightarrow> json" where
  "S3_json x = JObj ([])"

record rancher_Etcd =
  Etcd_DisableSnapshots :: bool
  Etcd_S3 :: "rancher_S3 option"
  Etcd_SnapshotRetention :: int
  Etcd_SnapshotScheduleCron :: string

definition Etcd_json :: "rancher_Etcd \<Rightarrow> json" where
  "Etcd_json x = JObj ([(''disableSnapshots'', JBool (Etcd_DisableSnapshots x)),
     (''s3'', pointer_json S3_json (Etcd_S3 x)),
     (''snapshotRetention'', JNum (Etcd_SnapshotRetention x)),
     (''snapshotScheduleCron'', JStr (Etcd_SnapshotScheduleCron x))])"

record rancher_Registry =
  Registry_AuthConfigSecretName :: string
  Registry_CaBundle :: string
  Registry_InsecureSkipVerify :: bool

definition Registry_json :: "rancher_Registry \<Rightarrow> json" where
  "Registry_json x = JObj ([(''authConfigSecretName'', JStr (Registry_AuthConfigSecretName x)),
     (''caBundle'', JStr (Registry_CaBundle x)),
     (''insecureSkipVerify'', JBool (Registry_InsecureSkipVerify x))])"

record rancher_MirrorTo =
  MirrorTo_Endpoint :: "string list option"
  MirrorTo_Rewrite :: "(string \<times> string) list option"

definition MirrorTo_json :: "rancher_MirrorTo \<Rightarrow> json" where
  "MirrorTo_json x = JObj ([(''endpoint'', slice_json JStr (MirrorTo_Endpoint x)),
     (''rewrite'', map_json JStr (MirrorTo_Rewrite x))])"

record rancher_Registries =
  Registries_Configs :: "(string \<times> rancher_Registry) list option"
  Registries_Mirrors :: "(string \<times> rancher_MirrorTo) list option"

definition Registries_json :: "rancher_Registries \<Rightarrow> json" where
  "Registries_json x = JObj ([(''configs'', map_json Registry_json (Registries_Configs x)),
     (''mirrors'', map_json MirrorTo_json (Registries_Mirrors x))])"

type_synonym rancher_Labels = unit

definition Labels_json :: "rancher_Labels \<Rightarrow> json" where
  "Labels_json x = JObj ([])"

record rancher_MachineConfigRef =
  MachineConfigRef_Kind :: string
  MachineConfigRef_Name :: string

definition MachineConfigRef_json :: "rancher_MachineConfigRef \<Rightarrow> json" where
  "MachineConfigRef_json x = JObj ([(''kind'', JStr (MachineConfigRef_Kind x)),
     (''name'', JStr (MachineConfigRef_Name x))])"

record rancher_MachinePool =
  MachinePool_Name :: string
  MachinePool_EtcdRole :: bool
  MachinePool_ControlPlaneRole :: bool
  MachinePool_WorkerRole :: bool
  MachinePool_HostnamePrefix :: string
  MachinePool_Labels :: rancher_Labels
  MachinePool_Quantity :: int
  MachinePool_UnhealthyNodeTime :: string
  MachinePool_MachineConfigRef :: rancher_MachineConfigRef
  MachinePool_DrainBeforeDelete :: bool

definition MachinePool_json :: "rancher_MachinePool \<Rightarrow> json" where
  "MachinePool_json x = JObj ([(''name'', JStr (MachinePool_Name x)),
     (''etcdRole'', JBool (MachinePool_EtcdRole x)),
     (''controlPlaneRole'', JBool (MachinePool_ControlPlaneRole x)),
     (''workerRole'', JBool (MachinePool_WorkerRole x)),
     (''hostnamePrefix'', JStr (MachinePool_HostnamePrefix x)),
     (''labels'', Labels_json (MachinePool_Labels x)),
     (''quantity'', JNum (MachinePool_Quantity x)),
     (''unhealthyNodeTimeout'', JStr (MachinePool_UnhealthyNodeTime x)),
     (''machineConfigRef'', MachineConfigRef_json (MachinePool_MachineConfigRef x)),
     (''drainBeforeDelete'', JBool (MachinePool_DrainBeforeDelete x))])"

record rancher_RkeConfig =
  RkeConfig_ChartValues :: rancher_ChartValues
  RkeConfig_UpgradeStrategy :: rancher_UpgradeStrategy
  RkeConfig_DataDirectories :: rancher_DataDirectories
  RkeConfig_MachineGlobalConfig :: rancher_MachineGlobalConfig
  RkeConfig_MachineSelectorConfig :: "rancher_MachineSelectorConfig list option"
  RkeConfig_Etcd :: rancher_Etcd
  RkeConfig_Registries :: rancher_Registries
  RkeConfig_MachinePools :: "rancher_MachinePool list option"

definition RkeConfig_json :: "rancher_RkeConfig \<Rightarrow> json" where
  "RkeConfig_json x = JObj ([(''chartValues'', ChartValues_json (RkeConfig_ChartValues x)),
     (''upgradeStrategy'', UpgradeStrategy_json (RkeConfig_UpgradeStrategy x)),
     (''dataDirectories'', DataDirectories_json (RkeConfig_DataDirectories x)),
     (''machineGlobalConfig'', MachineGlobalConfig_json (RkeConfig_MachineGlobalConfig x)),
     (''machineSelectorConfig'', slice_json MachineSelectorConfig_json (RkeConfig_MachineSelectorConfig x)),
     (''etcd'', Etcd_json (RkeConfig_Etcd x)),
     (''registries'', Registries_json (RkeConfig_Registries x)),
     (''machinePools'', slice_json MachinePool_json (RkeConfig_MachinePools x))])"

record rancher_LocalClusterAuthEndpoint =
  LocalClusterAuthEndpoint_Enabled :: bool
  LocalClusterAuthEndpoint_CaCerts :: string
  LocalClusterAuthEndpoint_Fqdn :: string

definition LocalClusterAuthEndpoint_json :: "rancher_LocalClusterAuthEndpoint \<Rightarrow> json" where
  "LocalClusterAuthEndpoint_json x = JObj ([(''enabled'', JBool (LocalClusterAuthEndpoint_Enabled x)),
     (''caCerts'', JStr (LocalClusterAuthEndpoint_CaCerts x)),
     (''fqdn'', JStr (LocalClusterAuthEndpoint_Fqdn x))])"

record rancher_Spec =
  Spec_RkeConfig :: rancher_RkeConfig
  Spec_MachineSelectorConfig :: "rancher_MachineSelectorConfig list option"
  Spec_KubernetesVersion :: string
  Spec_DefaultPodSecurityPolicyTemplateName :: string
  Spec_DefaultPodSecurityAdmissionConfigurationTemplateName :: string
  Spec_CloudCredentialSecretName :: string
  Spec_LocalClusterAuthEndpoint :: rancher_LocalClusterAuthEndpoint

definition Spec_json :: "rancher_Spec \<Rightarrow> json" where
  "Spec_json x = JObj ([(''rkeConfig'', RkeConfig_json (Spec_RkeConfig x)),
     (''machineSelectorConfig'', slice_json MachineSelectorConfig_json (Spec_MachineSelectorConfig x)),
     (''kubernetesVersion'', JStr (Spec_KubernetesVersion x)),
     (''defaultPodSecurityPolicyTemplateName'', JStr (Spec_DefaultPodSecurityPolicyTemplateName x)),
     (''defaultPodSecurityAdmissionConfigurationTemplateName'', JStr (Spec_DefaultPodSecurityAdmissionConfigurationTemplateName x)),
     (''cloudCredentialSecretName'', JStr (Spec_CloudCredentialSecretName x)),
     (''localClusterAuthEndpoint'', LocalClusterAuthEndpoint_json (Spec_LocalClusterAuthEndpoint x))])"

record rancher_Cluster =
  Cluster_Type :: string
  Cluster_Metadata :: rancher_Metadata
  Cluster_Spec :: rancher_Spec

definition Cluster_json :: "rancher_Cluster \<Rightarrow> json" where
  "Cluster_json x = JObj ([(''type'', JStr (Cluster_Type x)),
     (''metadata'', Metadata_json (Cluster_Metadata x)),
     (''spec'', Spec_json (Cluster_Spec x))])"

record rancher_Version =
  Version_GitVersion :: string

definition to_Version :: "json \<Rightarrow> rancher_Version" where
  "to_Version j = \<lparr>Version_GitVersion = json_str (get_field ''gitVersion'' j)\<rparr>"

record rancher_ListClusterData =
  ListClusterData_Id :: string
  ListClusterData_Name :: string
  ListClusterData_Provider :: string
  ListClusterData_NodeCount :: int
  ListClusterData_State :: string
  ListClusterData_Version :: rancher_Version
  ListClusterData_Labels :: "(string \<times> string) list option"
  ListClusterData_Created :: string

definition to_ListClusterData :: "json \<Rightarrow> rancher_ListClusterData" where
  "to_ListClusterData j = \<lparr>ListClusterData_Id = json_str (get_field ''id'' j),
     ListClusterData_Name = json_str (get_field ''name'' j),
     ListClusterData_Provider = json_str (get_field ''provider'' j),
     ListClusterData_NodeCount = json_num (get_field ''nodeCount'' j),
     ListClusterData_State = json_str (get_field ''state'' j),
     ListClusterData_Version = to_Version (get_field ''version'' j),
     ListClusterData_Labels = json_map json_str (get_field ''labels'' j),
     ListClusterData_Created = json_str (get_field ''created'' j)\<rparr>"

record rancher_ListClusterResponse =
  ListClusterResponse_Data :: "rancher_ListClusterData list option"

definition to_ListClusterResponse :: "json \<Rightarrow> rancher_ListClusterResponse" where
  "to_ListClusterResponse j = \<lparr>ListClusterResponse_Data = json_slice to_ListClusterData (get_field ''data'' j)\<rparr>"

record rancher_ClusterResponse =
  ClusterResponse_Id :: string
  ClusterResponse_Type :: string
  ClusterResponse_Metadata :: rancher_Metadata

definition to_ClusterResponse :: "json \<Rightarrow> rancher_ClusterResponse" where
  "to_ClusterResponse j = \<lparr>ClusterResponse_Id = json_str (get_field ''id'' j),
     ClusterResponse_Type = json_str (get_field ''type'' j),
     ClusterResponse_Metadata = to_Metadata (get_field ''metadata'' j)\<rparr>"

record rancher_Status =
  Status_ClusterName :: string
  Status_AgentDeployed :: bool
  Status_Ready :: bool

definition to_Status :: "json \<Rightarrow> rancher_Status" where
  "to_Status j = \<lparr>Status_ClusterName = json_str (get_field ''clusterName'' j),
     Status_AgentDeployed = json_bool (get_field ''agentDeployed'' j),
     Status_Ready = json_bool (get_field ''ready'' j)\<rparr>"

record rancher_StatusResponse =
  StatusResponse_Kind :: string
  StatusResponse_Status :: rancher_Status

definition to_StatusResponse :: "json \<Rightarrow> rancher_StatusResponse" where
  "to_StatusResponse j = \<lparr>StatusResponse_Kind = json_str (get_field ''kind'' j),
     StatusResponse_Status = to_Status (get_field ''status'' j)\<rparr>"

record rancher_NodeDriver =
  NodeDriver_Name :: string
  NodeDriver_State :: string

definition to_NodeDriver :: "json \<Rightarrow> rancher_NodeDriver" where
  "to_NodeDriver j = \<lparr>NodeDriver_Name = json_str (get_field ''name'' j),
     NodeDriver_State = json_str (get_field ''state'' j)\<rparr>"

record rancher_NodeDriversResp =
  NodeDriversResp_NodeDrivers :: "rancher_NodeDriver list option"

definition to_NodeDriversResp :: "json \<Rightarrow> rancher_NodeDriversResp" where
  "to_NodeDriversResp j = \<lparr>NodeDriversResp_NodeDrivers = json_slice to_NodeDriver (get_field ''data'' j)\<rparr>"

section \<open>The bodies of the requests\<close>

text \<open>
  \<open>Bytes\<close> of a nil pointer is the JSON null: the encoder does not panic on it. Values of these
  structs always encode.
\<close>

definition CloudCredential_Bytes :: "rancher_CloudCredential option \<Rightarrow> string res" where
  "CloudCredential_Bytes p = (json_Marshal (pointer_json CloudCredential_json p), None)"

definition OpenstackMachine_Bytes :: "rancher_OpenstackMachine option \<Rightarrow> string res" where
  "OpenstackMachine_Bytes p = (json_Marshal (pointer_json OpenstackMachine_json p), None)"

definition Secret_Bytes :: "rancher_Secret option \<Rightarrow> string res" where
  "Secret_Bytes p = (json_Marshal (pointer_json Secret_json p), None)"

definition Repo_Bytes :: "rancher_Repo option \<Rightarrow> string res" where
  "Repo_Bytes p = (json_Marshal (pointer_json Repo_json p), None)"

definition Cluster_Bytes :: "rancher_Cluster option \<Rightarrow> string res" where
  "Cluster_Bytes p = (json_Marshal (pointer_json Cluster_json p), None)"

section \<open>What a server gets back out of a request\<close>

text \<open>
  Decoding an encoded credential gives it back, except that a slice which is empty but not nil is
  dropped and read as nil.
\<close>

definition drop_empty :: "'a list option \<Rightarrow> 'a list option" where
  "drop_empty xs = (if empty_slice xs then None else xs)"

definition Metadata_normal :: "rancher_Metadata \<Rightarrow> rancher_Metadata" where
  "Metadata_normal m = m\<lparr>Metadata_Finalizers := drop_empty (Metadata_Finalizers m),
     Metadata_ManagedFields := drop_empty (Metadata_ManagedFields m),
     Metadata_OwnerReferences := drop_empty (Metadata_OwnerReferences m)\<rparr>"

lemma get_field_Cons [simp]: "get_field k (JObj ((k', v) # kvs)) = (if k = k' then v else get_field k (JObj kvs))"
  by (simp add: get_field_def)

lemma get_field_Nil [simp]: "get_field k (JObj []) = JNull"
  by (simp add: get_field_def)

lemma get_field_omitempty [simp]:
  "get_field k (JObj (omitempty e k' v @ kvs)) = (if k = k' \<and> \<not> e then v else get_field k (JObj kvs))"
  by (simp add: omitempty_def)

lemma get_field_omitempty_last [simp]:
  "get_field k (JObj (omitempty e k' v)) = (if k = k' \<and> \<not> e then v else JNull)"
  by (simp add: omitempty_def)

lemma drop_empty_if: "(if \<not> empty_slice xs then xs else None) = drop_empty xs"
  by (simp add: drop_empty_def)

lemma to_Annotations_json [simp]: "to_Annotations (Annotations_json x) = x"
  by (simp add: to_Annotations_def Annotations_json_def)

lemma to_OpenstackCredentialConfig_json [simp]:
  "to_OpenstackCredentialConfig (OpenstackCredentialConfig_json x) = x"
  by (simp add: to_OpenstackCredentialConfig_def OpenstackCredentialConfig_json_def)

lemma to_Metadata_json: "to_Metadata (Metadata_json x) = Metadata_normal x"
  by (simp add: to_Metadata_def Metadata_json_def Metadata_normal_def drop_empty_def if_distrib)

definition CloudCredential_normal :: "rancher_CloudCredential \<Rightarrow> rancher_CloudCredential" where
  "CloudCredential_normal c = c\<lparr>CloudCredential_Metadata := Metadata_normal (CloudCredential_Metadata c)\<rparr>"

lemma to_CloudCredential_json: "to_CloudCredential (CloudCredential_json c) = CloudCredential_normal c"
  by (simp add: to_CloudCredential_def CloudCredential_json_def CloudCredential_normal_def to_Metadata_json)

end
