(* ===== verification/Rancher.thy ===== *)
theory Rancher
  imports Loops GoUrl Http RancherTypes
begin

text \<open>
  Package rancher: the requests to a Rancher server (cloud credentials, node drivers, machine
  configurations, secrets, repositories, clusters), the three polling loops, and the extraction of a
  cluster's configuration. Requests go through the helper of package http; \<open>url.Parse\<close> and the YAML
  coder are parameters. The REST client decodes an answer to a JSON tree, which is read into the
  struct that was registered for it. What is shown: the polls stop at the first answer that satisfies them and otherwise fail
  after their budget, and one listing hides the error of the server.
\<close>

section \<open>Options and helper\<close>

record rancher_options =
  ro_Url :: string
  ro_Token :: string

type_synonym rancher_option = "rancher_options \<Rightarrow> rancher_options"

definition rancher_zero :: rancher_options where
  "rancher_zero = \<lparr>ro_Url = [], ro_Token = []\<rparr>"

definition rancher_Url :: "string \<Rightarrow> rancher_option" where
  "rancher_Url url = (\<lambda>o1. o1\<lparr>ro_Url := url\<rparr>)"

definition rancher_AuthToken :: "string \<Rightarrow> rancher_option" where
  "rancher_AuthToken token = (\<lambda>o1. o1\<lparr>ro_Token := token\<rparr>)"

fun rancher_sync_loop :: "rancher_options \<Rightarrow> rancher_option list \<Rightarrow> rancher_options" where
  "rancher_sync_loop options [] = options"
| "rancher_sync_loop options (o1 # opts) = rancher_sync_loop (o1 options) opts"

definition rancher_syncOptions :: "rancher_option list \<Rightarrow> rancher_options" where
  "rancher_syncOptions opts = rancher_sync_loop rancher_zero opts"

lemma rancher_sync_loop_eq: "rancher_sync_loop o0 opts = apply_options opts o0"
  by (induction opts arbitrary: o0) simp_all

interpretation rancher_opts: func_options rancher_syncOptions rancher_zero
  by unfold_locales (simp_all add: rancher_syncOptions_def rancher_sync_loop_eq)

record 'w RancherHelper =
  rh_Http :: "'w HttpHelper"
  rh_Options :: rancher_options

definition rancher_NewHelper ::
  "(resty_setting list \<Rightarrow> 'w request) \<Rightarrow> rancher_option list \<Rightarrow> 'w RancherHelper option res" where
  "rancher_NewHelper resty_New opts =
     (let syncedOpts = rancher_syncOptions opts in
      case http_NewHelper resty_New [TlsInsecureSkipVerify True] of
        (_, Some e) \<Rightarrow> (None, Some e)
      | (c, None) \<Rightarrow> (Some \<lparr>rh_Http = the c, rh_Options = syncedOpts\<rparr>, None))"

definition rancher_NewGlobalHelper :: "(resty_setting list \<Rightarrow> 'v request) \<Rightarrow> rancher_option list
    \<Rightarrow> ('v RancherHelper globals \<times> 'w, go_error option) state" where
  "rancher_NewGlobalHelper resty_New opts = do {
     err \<leftarrow> once_Do (State_Monad.return (rancher_NewHelper resty_New opts));
     on_err err (State_Monad.return None) Some
   }"

definition rancher_GetGlobalHelper :: "'v RancherHelper globals \<Rightarrow> 'v RancherHelper option" where
  "rancher_GetGlobalHelper g = helper g"

interpretation rancher_global: global_helper
  "rancher_NewGlobalHelper resty_New" "\<lambda>opts. State_Monad.return (rancher_NewHelper resty_New opts)"
  rancher_GetGlobalHelper
  by unfold_locales
    (auto simp: rancher_NewGlobalHelper_def rancher_GetGlobalHelper_def on_err_def split: option.splits)

definition GenAuthHeaders :: "string \<Rightarrow> (string \<times> string) list" where
  "GenAuthHeaders token =
     [(''content-type'', ''application/json''), (''Authorization'', ''Bearer '' @ token)]"

section \<open>Requests\<close>

text \<open>
  \<open>at_path\<close> is the beginning every operation shares: the configured URL is parsed and its path (and
  for two operations its query) replaced. \<open>call\<close> makes the request with the authorization headers.
\<close>

definition at_path :: "(string \<Rightarrow> URL res) \<Rightarrow> 'w RancherHelper \<Rightarrow> string \<Rightarrow> URL res" where
  "at_path Parse h path = (case Parse (ro_Url (rh_Options h)) of
       (u, Some e) \<Rightarrow> (u, Some e)
     | (u, None) \<Rightarrow> (u\<lparr>url_Path := path\<rparr>, None))"

definition call :: "'w RancherHelper \<Rightarrow> string \<Rightarrow> string option \<Rightarrow> URL \<Rightarrow> ('w, Resp res) state" where
  "call h verb body u =
     hh_Client (rh_Http h) verb (GenAuthHeaders (ro_Token (rh_Options h))) body (URL_String u)"

definition resp_text :: "Resp \<Rightarrow> string" where
  "resp_text resp = Itoa (rs_StatusCode resp) @ '' '' @ rs_Body resp"

text \<open>The six operations that create a resource differ in the path and the text of the error.\<close>

definition create_resource ::
  "(string \<Rightarrow> URL res) \<Rightarrow> 'w RancherHelper \<Rightarrow> string \<Rightarrow> string res \<Rightarrow> (json \<Rightarrow> 'a) \<Rightarrow> string
    \<Rightarrow> ('w, 'a option res) state" where
  "create_resource Parse h path bytes decode msg =
     (case at_path Parse h path of
        (_, Some e) \<Rightarrow> State_Monad.return (None, Some e)
      | (u, None) \<Rightarrow>
          (case bytes of
             (_, Some e) \<Rightarrow> State_Monad.return (None, Some e)
           | (b, None) \<Rightarrow> do {
               (resp, err) \<leftarrow> call h ''POST'' (Some b) u;
               on_err err
                 (State_Monad.return
                   (if \<not> rs_IsError resp then (Some (decode (rs_Result resp)), None)
                    else (None, Some (ErrText (msg @ ''('' @ resp_text resp @ '')'')))))
                 (\<lambda>e. (None, Some e))
             }))"

text \<open>The encoder of package yaml.\<close>

type_synonym marshal = "json \<Rightarrow> string res"

definition CreateCloudCredential ::
  "(string \<Rightarrow> URL res) \<Rightarrow> 'w RancherHelper \<Rightarrow> rancher_CloudCredential option
    \<Rightarrow> ('w, rancher_CloudCredential option res) state" where
  "CreateCloudCredential Parse h credential =
     create_resource Parse h ''/v3/cloudcredentials'' (CloudCredential_Bytes credential) to_CloudCredential ''failed to create cloud credential''"

definition CreateOpenstackMachine ::
  "(string \<Rightarrow> URL res) \<Rightarrow> 'w RancherHelper \<Rightarrow> rancher_OpenstackMachine option
    \<Rightarrow> ('w, rancher_OpenstackMachineResponse option res) state" where
  "CreateOpenstackMachine Parse h provider =
     create_resource Parse h ''/v1/rke-machine-config.cattle.io.openstackconfigs/fleet-default''
       (OpenstackMachine_Bytes provider) to_OpenstackMachineResponse ''failed to create openstack machine ''"

definition CreateClusterRepo ::
  "(string \<Rightarrow> URL res) \<Rightarrow> 'w RancherHelper \<Rightarrow> string \<Rightarrow> rancher_Repo option
    \<Rightarrow> ('w, rancher_RepoResponse option res) state" where
  "CreateClusterRepo Parse h clusterId repo =
     create_resource Parse h (''/k8s/clusters/'' @ clusterId @ ''/v1/catalog.cattle.io.clusterrepos'')
       (Repo_Bytes repo) to_RepoResponse ''failed to create cluster repo ''"

definition CreateRancherSecret ::
  "(string \<Rightarrow> URL res) \<Rightarrow> 'w RancherHelper \<Rightarrow> rancher_Secret option
    \<Rightarrow> ('w, rancher_SecretResponse option res) state" where
  "CreateRancherSecret Parse h secret =
     create_resource Parse h ''/v1/secrets/fleet-default'' (Secret_Bytes secret) to_SecretResponse ''failed to create secret ''"

definition CreateClusterSecret ::
  "(string \<Rightarrow> URL res) \<Rightarrow> 'w RancherHelper \<Rightarrow> string \<Rightarrow> rancher_Secret option
    \<Rightarrow> ('w, rancher_SecretResponse option res) state" where
  "CreateClusterSecret Parse h clusterId secret =
     create_resource Parse h (''/k8s/clusters/'' @ clusterId @ ''/v1/secrets/cattle-system'')
       (Secret_Bytes secret) to_SecretResponse ''failed to create secret ''"

definition CreateKubernetes ::
  "(string \<Rightarrow> URL res) \<Rightarrow> 'w RancherHelper \<Rightarrow> rancher_Cluster option
    \<Rightarrow> ('w, rancher_ClusterResponse option res) state" where
  "CreateKubernetes Parse h cluster =
     create_resource Parse h ''/v1/provisioning.cattle.io.clusters'' (Cluster_Bytes cluster) to_ClusterResponse
       ''failed to create create kubernetes ''"

definition ListKubernetes ::
  "(string \<Rightarrow> URL res) \<Rightarrow> 'w RancherHelper \<Rightarrow> ('w, rancher_ListClusterResponse option res) state" where
  "ListKubernetes Parse h =
     (case at_path Parse h ''/v3/clusters'' of
        (_, Some e) \<Rightarrow> State_Monad.return (None, Some e)
      | (u, None) \<Rightarrow> do {
          (resp, err) \<leftarrow> call h ''GET'' None u;
          on_err err
            (State_Monad.return (if rs_IsError resp then (None, err) else (Some (to_ListClusterResponse (rs_Result resp)), None)))
            (\<lambda>e. (None, Some e))
        })"

definition DeleteKubernetes ::
  "(string \<Rightarrow> URL res) \<Rightarrow> 'w RancherHelper \<Rightarrow> string \<Rightarrow> ('w, go_error option) state" where
  "DeleteKubernetes Parse h name =
     (case at_path Parse h (''/v1/provisioning.cattle.io.clusters/fleet-default/'' @ name) of
        (_, Some e) \<Rightarrow> State_Monad.return (Some e)
      | (u, None) \<Rightarrow> do {
          (resp, err) \<leftarrow> call h ''DELETE'' None u;
          on_err err
            (State_Monad.return (if \<not> rs_IsError resp then None
              else Some (ErrText (''failed to delete kubernetes '' @ name @ '' ('' @ resp_text resp @ '')''))))
            Some
        })"

section \<open>Node drivers\<close>

definition ActivateNodeDriver ::
  "(string \<Rightarrow> URL res) \<Rightarrow> 'w RancherHelper \<Rightarrow> string \<Rightarrow> ('w, go_error option) state" where
  "ActivateNodeDriver Parse h name =
     (case at_path Parse h (''/v3/nodeDrivers/'' @ name) of
        (_, Some e) \<Rightarrow> State_Monad.return (Some e)
      | (u, None) \<Rightarrow> let u = u\<lparr>url_RawQuery := ''action=activate''\<rparr> in do {
          (resp, err) \<leftarrow> call h ''POST'' None u;
          on_err err
            (State_Monad.return (if \<not> rs_IsError resp then None
              else Some (ErrText (''failed to activate node driver '' @ name @ '' ('' @ URL_String u
                @ '' '' @ rs_Body resp @ '')''))))
            Some
        })"

definition IsNodeDriverConfigable ::
  "(string \<Rightarrow> URL res) \<Rightarrow> 'w RancherHelper \<Rightarrow> string \<Rightarrow> ('w, bool res) state" where
  "IsNodeDriverConfigable Parse h driver =
     (case at_path Parse h (''/v1/rke-machine-config.cattle.io.'' @ ToLower driver @ ''configs/fleet-default'') of
        (_, Some e) \<Rightarrow> State_Monad.return (False, Some e)
      | (u, None) \<Rightarrow> do {
          (resp, err) \<leftarrow> call h ''GET'' None u;
          on_err err
            (State_Monad.return (if rs_IsError resp
              then (False, Some (ErrText (''failed to get node driver configs '' @ driver @ '' ('' @ resp_text resp @ '')'')))
              else (True, None)))
            (\<lambda>e. (False, Some e))
        })"

fun isNodeDriverMatchedStatus :: "rancher_NodeDriver list \<Rightarrow> string \<Rightarrow> string \<Rightarrow> bool" where
  "isNodeDriverMatchedStatus [] name state = False"
| "isNodeDriverMatchedStatus (driver # drivers) name state =
     (if NodeDriver_Name driver \<noteq> name then isNodeDriverMatchedStatus drivers name state
      else if EqualFold (NodeDriver_State driver) state then True
      else isNodeDriverMatchedStatus drivers name state)"

definition listed_drivers :: "Resp \<Rightarrow> rancher_NodeDriver list" where
  "listed_drivers resp = elements (NodeDriversResp_NodeDrivers (to_NodeDriversResp (rs_Result resp)))"

text \<open>
  The three polls: \<open>for range n\<close> is a recursion on the number of rounds, none for a negative one;
  each round sleeps before it asks.
\<close>

type_synonym 'w sleep = "duration \<Rightarrow> ('w, unit) state"

fun driver_poll :: "'w sleep \<Rightarrow> ('w, Resp res) state \<Rightarrow> string \<Rightarrow> string \<Rightarrow> nat \<Rightarrow> ('w, go_error option) state" where
  "driver_poll sleep get name state 0 = State_Monad.return
     (Some (ErrText (''failed to wait node driver '' @ name @ '' status '' @ state)))"
| "driver_poll sleep get name state (Suc n) = do {
     _ \<leftarrow> wait_Seconds sleep 1;
     (resp, err) \<leftarrow> get;
     if err \<noteq> None then driver_poll sleep get name state n
     else if rs_IsError resp then driver_poll sleep get name state n
     else if isNodeDriverMatchedStatus (listed_drivers resp) name state then State_Monad.return None
     else driver_poll sleep get name state n
   }"

definition WaitNodeDriverStatus ::
  "(string \<Rightarrow> URL res) \<Rightarrow> 'w sleep \<Rightarrow> 'w RancherHelper \<Rightarrow> string \<Rightarrow> string \<Rightarrow> int \<Rightarrow> ('w, go_error option) state" where
  "WaitNodeDriverStatus Parse sleep h name state timeout =
     (case at_path Parse h ''/v3/nodedrivers'' of
        (_, Some e) \<Rightarrow> State_Monad.return (Some e)
      | (u, None) \<Rightarrow> driver_poll sleep (call h ''GET'' None u) name state (nat timeout))"

section \<open>Clusters\<close>

definition attemptsMax :: nat where
  "attemptsMax = 240"

definition cluster_path :: "string \<Rightarrow> string" where
  "cluster_path name = ''/apis/provisioning.cattle.io/v1/namespaces/fleet-default/clusters/'' @ name"

definition is_ready :: "Resp \<Rightarrow> bool" where
  "is_ready resp = Status_Ready (StatusResponse_Status (to_StatusResponse (rs_Result resp)))"

fun active_poll :: "'w sleep \<Rightarrow> ('w, Resp res) state \<Rightarrow> nat \<Rightarrow> ('w, rancher_StatusResponse option res) state" where
  "active_poll sleep get 0 = State_Monad.return
     (None, Some (ErrText (''kubernetes cluster is not ready until '' @ Itoa (10 * 240) @ '' seconds'')))"
| "active_poll sleep get (Suc n) = do {
     _ \<leftarrow> wait_Seconds sleep 10;
     (resp, err) \<leftarrow> get;
     if err \<noteq> None then active_poll sleep get n
     else if rs_StatusCode resp \<notin> set Is2XXCode then active_poll sleep get n
     else if is_ready resp
     then State_Monad.return (Some (to_StatusResponse (rs_Result resp)), None)
     else active_poll sleep get n
   }"

definition WaitKubernetesActive ::
  "(string \<Rightarrow> URL res) \<Rightarrow> 'w sleep \<Rightarrow> 'w RancherHelper \<Rightarrow> string \<Rightarrow> ('w, rancher_StatusResponse option res) state" where
  "WaitKubernetesActive Parse sleep h name =
     (case at_path Parse h (cluster_path name) of
        (_, Some e) \<Rightarrow> State_Monad.return (None, Some e)
      | (u, None) \<Rightarrow> active_poll sleep (call h ''GET'' None u) attemptsMax)"

fun deleted_poll :: "'w sleep \<Rightarrow> ('w, Resp res) state \<Rightarrow> string \<Rightarrow> nat \<Rightarrow> ('w, go_error option) state" where
  "deleted_poll sleep get name 0 = State_Monad.return
     (Some (ErrText (''failed to delete kubernetes '' @ name @ '' until '' @ Itoa (10 * 240) @ '' seconds'')))"
| "deleted_poll sleep get name (Suc n) = do {
     _ \<leftarrow> wait_Seconds sleep 10;
     (resp, err) \<leftarrow> get;
     if err \<noteq> None then deleted_poll sleep get name n
     else if rs_StatusCode resp = 404 then State_Monad.return None
     else deleted_poll sleep get name n
   }"

definition WaitKubernetesDeleted ::
  "(string \<Rightarrow> URL res) \<Rightarrow> 'w sleep \<Rightarrow> 'w RancherHelper \<Rightarrow> string \<Rightarrow> ('w, go_error option) state" where
  "WaitKubernetesDeleted Parse sleep h name =
     (case at_path Parse h (cluster_path name) of
        (_, Some e) \<Rightarrow> State_Monad.return (Some e)
      | (u, None) \<Rightarrow> deleted_poll sleep (call h ''GET'' None u) name attemptsMax)"

definition GetKubernetesConfig ::
  "(string \<Rightarrow> URL res) \<Rightarrow> (string \<Rightarrow> (string \<times> json) list res) \<Rightarrow> marshal \<Rightarrow> 'w RancherHelper \<Rightarrow> string
    \<Rightarrow> ('w, string option res) state" where
  "GetKubernetesConfig Parse yaml_Unmarshal yaml_Marshal h name =
     (case at_path Parse h (''/v3/clusters/'' @ name) of
        (_, Some e) \<Rightarrow> State_Monad.return (None, Some e)
      | (u, None) \<Rightarrow> do {
          (resp, err) \<leftarrow> call h ''POST'' None (u\<lparr>url_RawQuery := ''action=generateKubeconfig''\<rparr>);
          on_err err
            (State_Monad.return
              (if rs_IsError resp
               then (None, Some (ErrText (''failed to generate kubernetes config('' @ resp_text resp @ '')'')))
               else (case yaml_Unmarshal (rs_Body resp) of
                   (_, Some e) \<Rightarrow> (None, Some e)
                 | (rawConf, None) \<Rightarrow>
                     (case map_of rawConf ''config'' of
                        None \<Rightarrow> (None, Some (ErrText (''failed to find rke cluster config('' @ name @ '')'')))
                      | Some conf \<Rightarrow>
                          (case yaml_Marshal conf of
                             (_, Some e) \<Rightarrow> (None, Some e)
                           | (bytes, None) \<Rightarrow> (Some bytes, None))))))
            (\<lambda>e. (None, Some e))
        })"

section \<open>The polls are bounded retries\<close>

text \<open>One round: sleep, ask, and either finish with a value or ask again.\<close>

definition poll_round :: "'w sleep \<Rightarrow> duration \<Rightarrow> ('w, Resp res) state \<Rightarrow> (Resp \<Rightarrow> 'r option) \<Rightarrow> unit
    \<Rightarrow> ('w, unit + 'r) state" where
  "poll_round sleep secs get done _ = do {
     _ \<leftarrow> wait_Seconds sleep secs;
     (resp, err) \<leftarrow> get;
     State_Monad.return (if err \<noteq> None then Inl () else (case done resp of None \<Rightarrow> Inl () | Some r \<Rightarrow> Inr r))
   }"

definition driver_done :: "string \<Rightarrow> string \<Rightarrow> Resp \<Rightarrow> go_error option option" where
  "driver_done name state resp = (if \<not> rs_IsError resp
     \<and> isNodeDriverMatchedStatus (listed_drivers resp) name state then Some None else None)"

definition active_done :: "Resp \<Rightarrow> rancher_StatusResponse option res option" where
  "active_done resp = (if rs_StatusCode resp \<in> set Is2XXCode
     \<and> is_ready resp then Some (Some (to_StatusResponse (rs_Result resp)), None) else None)"

definition deleted_done :: "Resp \<Rightarrow> go_error option option" where
  "deleted_done resp = (if rs_StatusCode resp = 404 then Some None else None)"

interpretation driver_polls: bounded_retry
  "\<lambda>n _. driver_poll sleep get name state n" "poll_round sleep 1 get (driver_done name state)"
  "\<lambda>_. Some (ErrText (''failed to wait node driver '' @ name @ '' status '' @ state))" for sleep get name state
  by unfold_locales
    (auto intro!: state.expand ext simp: poll_round_def driver_done_def split: prod.splits)

interpretation active_polls: bounded_retry
  "\<lambda>n _. active_poll sleep get n" "poll_round sleep 10 get active_done"
  "\<lambda>_. (None, Some (ErrText (''kubernetes cluster is not ready until '' @ Itoa (10 * 240) @ '' seconds'')))"
  for sleep get
  by unfold_locales
    (auto intro!: state.expand ext simp: poll_round_def active_done_def split: prod.splits)

interpretation deleted_polls: bounded_retry
  "\<lambda>n _. deleted_poll sleep get name n" "poll_round sleep 10 get deleted_done"
  "\<lambda>_. Some (ErrText (''failed to delete kubernetes '' @ name @ '' until '' @ Itoa (10 * 240) @ '' seconds''))"
  for sleep get name
  by unfold_locales
    (auto intro!: state.expand ext simp: poll_round_def deleted_done_def split: prod.splits)

text \<open>
  \<open>asked n sleep secs get done w\<close> is the world after \<open>n\<close> rounds in which no answer was what the poll
  waits for, and \<open>None\<close> when one was.
\<close>

fun asked :: "nat \<Rightarrow> 'w sleep \<Rightarrow> duration \<Rightarrow> ('w, Resp res) state \<Rightarrow> (Resp \<Rightarrow> 'r option) \<Rightarrow> 'w \<Rightarrow> 'w option" where
  "asked 0 sleep secs get done w = Some w"
| "asked (Suc n) sleep secs get done w =
     (case run_state get (snd (run_state (wait_Seconds sleep secs) w)) of
        ((resp, err), w') \<Rightarrow> if err = None \<and> done resp \<noteq> None then None else asked n sleep secs get done w')"

lemma run_poll_round: "run_state (poll_round sleep secs get done u) w =
    (case run_state get (snd (run_state (wait_Seconds sleep secs) w)) of
       ((resp, err), w') \<Rightarrow> (if err \<noteq> None then Inl () else case done resp of None \<Rightarrow> Inl () | Some r \<Rightarrow> Inr r, w'))"
  by (simp add: poll_round_def split: prod.splits)

lemma failing_asked: "failing n (poll_round sleep secs get done) () w = map_option (Pair ()) (asked n sleep secs get done w)"
  by (induction n arbitrary: w) (auto simp: run_poll_round split: prod.splits option.splits)

section \<open>Properties\<close>

text \<open>
  C20. \<open>WaitKubernetesActive\<close> asks every ten seconds, at most 240 times. The first answer with a success
  code and a ready status is the result, failed requests and other answers only use up a round, and
  after 240 of them the result is an error.
\<close>

theorem WaitKubernetesActive_first_ready:
  assumes "Parse (ro_Url (rh_Options h)) = (u, None)"
    and "get = call h ''GET'' None (u\<lparr>url_Path := cluster_path name\<rparr>)"
  shows "(\<forall>w'. asked 240 sleep 10 get active_done w = Some w' \<longrightarrow>
      (\<exists>e. run_state (WaitKubernetesActive Parse sleep h name) w = ((None, Some e), w')))
    \<and> (\<forall>k w1 resp w2. k < 240 \<longrightarrow> asked k sleep 10 get active_done w = Some w1 \<longrightarrow>
      run_state get (snd (run_state (sleep (10 * Second)) w1)) = ((resp, None), w2) \<longrightarrow>
      rs_StatusCode resp \<in> set Is2XXCode \<longrightarrow> is_ready resp \<longrightarrow>
      run_state (WaitKubernetesActive Parse sleep h name) w = ((Some (to_StatusResponse (rs_Result resp)), None), w2))"
proof -
  have run: "run_state (WaitKubernetesActive Parse sleep h name) w = run_state (active_poll sleep get 240) w"
    using assms by (simp add: WaitKubernetesActive_def at_path_def attemptsMax_def)
  show ?thesis
    unfolding run
    using active_polls.loop_all_fail [where n = 240 and sleep = sleep and get = get and e = "()" and w = w]
      active_polls.loop_first_success [where n = 240 and sleep = sleep and get = get and e = "()" and w = w]
    by (auto simp: failing_asked run_poll_round wait_Seconds_def active_done_def simp del: active_poll.simps)
qed

definition demo_status :: "bool \<Rightarrow> json" where
  "demo_status ready = JObj [(''status'', JObj [(''ready'', JBool ready)])]"

definition demo_rancher :: "nat RancherHelper" where
  "demo_rancher = \<lparr>rh_Http = \<lparr>hh_Client = \<lambda>_ _ _ _. State (\<lambda>n. ((\<lparr>rs_StatusCode = if n = 0 then 503 else 200,
       rs_IsError = (n = 0), rs_Body = [], rs_Result = demo_status (2 \<le> n)\<rparr>, None), n + 1)),
     hh_Options = http_genDefaultOptions\<rparr>, rh_Options = \<lparr>ro_Url = ''https://r'', ro_Token = ''t''\<rparr>\<rparr>"

lemma WaitKubernetesActive_first_ready_witness:
  "run_state (WaitKubernetesActive (\<lambda>_. (empty_URL, None)) (\<lambda>_. State_Monad.return ()) demo_rancher ''c'') 0
     = ((Some (to_StatusResponse (demo_status True)), None), 3)"
proof -
  let ?get = "call demo_rancher ''GET'' None (empty_URL\<lparr>url_Path := cluster_path ''c''\<rparr>)"
  note law = conjunct2 [OF WaitKubernetesActive_first_ready
      [where Parse = "\<lambda>_. (empty_URL, None)" and h = demo_rancher and name = "''c''" and w = 0
        and sleep = "\<lambda>_. State_Monad.return ()", OF refl refl], rule_format]
  have get: "run_state ?get n = ((\<lparr>rs_StatusCode = if n = 0 then 503 else 200,
       rs_IsError = (n = 0), rs_Body = [], rs_Result = demo_status (2 \<le> n)\<rparr>, None), n + 1)" for n
    by (simp add: call_def demo_rancher_def)
  have asked: "asked 2 (\<lambda>_. State_Monad.return ()) 10 ?get active_done 0 = Some 2"
    by (simp add: numeral_2_eq_2 get wait_Seconds_def active_done_def Is2XXCode_def demo_status_def
        is_ready_def to_StatusResponse_def to_Status_def)
  show ?thesis
    using law [of 2 2 "\<lparr>rs_StatusCode = 200, rs_IsError = False, rs_Body = [], rs_Result = demo_status True\<rparr>" 3]
    by (simp add: asked get Is2XXCode_def demo_status_def is_ready_def to_StatusResponse_def to_Status_def)
qed

text \<open>
  \<open>ListKubernetes\<close> never reports what the server refuses: an answer with an error status is returned
  as no clusters and no error, since the error it passes on is the nil one of the request.
\<close>

theorem ListKubernetes_hides_refusal:
  assumes "Parse (ro_Url (rh_Options h)) = (u, None)"
    and "run_state (call h ''GET'' None (u\<lparr>url_Path := ''/v3/clusters''\<rparr>)) w = ((resp, None), w')"
  shows "run_state (ListKubernetes Parse h) w =
      ((if rs_IsError resp then None else Some (to_ListClusterResponse (rs_Result resp)), None), w')"
  using assms by (simp add: ListKubernetes_def at_path_def)

lemma ListKubernetes_hides_refusal_witness:
  "run_state (ListKubernetes (\<lambda>_. (empty_URL, None)) demo_rancher) 0 = ((None, None), 1)"
  using ListKubernetes_hides_refusal [of "\<lambda>_. (empty_URL, None)" demo_rancher empty_URL 0
      "\<lparr>rs_StatusCode = 503, rs_IsError = True, rs_Body = [], rs_Result = demo_status False\<rparr>" 1]
  by (simp add: call_def demo_rancher_def)

end
