(* ===== verification/RancherLaws.thy ===== *)
theory RancherLaws
  imports Rancher
begin

text \<open>
  Packages rancher and http together: what every request of every Rancher operation looks like. The
  REST client records its requests, with the settings it was made with, in a log beside an arbitrary
  world; what it answers is arbitrary. Shown: a request goes to the configured server, carries the
  token, and is made by a client that does not verify the certificate of the server.
\<close>

record sent =
  se_Settings :: "resty_setting list"
  se_Verb :: string
  se_Headers :: "(string \<times> string) list"
  se_URL :: string

definition recording :: "'w request \<Rightarrow> resty_setting list \<Rightarrow> (sent list \<times> 'w) request" where
  "recording answer settings verb headers body url = State (\<lambda>(log, w).
     case run_state (answer verb headers body url) w of
       (r, w') \<Rightarrow> (r, (log @ [\<lparr>se_Settings = settings, se_Verb = verb, se_Headers = headers, se_URL = url\<rparr>], w')))"

section \<open>Computations that only send requests of a kind\<close>

definition sends_only :: "(sent \<Rightarrow> bool) \<Rightarrow> (sent list \<times> 'w, 'a) state \<Rightarrow> bool" where
  "sends_only P m \<longleftrightarrow> (\<forall>log w r log' w'. run_state m (log, w) = (r, (log', w')) \<longrightarrow>
     (\<exists>new. log' = log @ new \<and> list_all P new))"

named_theorems sending

lemma sends_only_return [sending]: "sends_only P (State_Monad.return x)"
  by (simp add: sends_only_def)

lemma sends_only_bind [sending]:
  assumes "sends_only P m" and "\<And>x. sends_only P (f x)"
  shows "sends_only P (State_Monad.bind m f)"
  unfolding sends_only_def
proof (intro allI impI)
  fix log w r log' w'
  assume run: "run_state (State_Monad.bind m f) (log, w) = (r, log', w')"
  obtain x log1 w1 where m: "run_state m (log, w) = (x, log1, w1)" by (metis prod.exhaust)
  with run have "run_state (f x) (log1, w1) = (r, log', w')" by simp
  with assms(2) obtain ys where "log' = log1 @ ys \<and> list_all P ys" unfolding sends_only_def by blast
  moreover from assms(1) m obtain xs where "log1 = log @ xs \<and> list_all P xs" unfolding sends_only_def by blast
  ultimately show "\<exists>new. log' = log @ new \<and> list_all P new" by auto
qed

lemma sends_only_on_err [sending]: "sends_only P m \<Longrightarrow> sends_only P (on_err err m bad)"
  by (cases err) (simp_all add: sending)

lemma sends_only_if [sending]: "sends_only P m \<Longrightarrow> sends_only P m' \<Longrightarrow> sends_only P (if b then m else m')"
  by simp

lemma sends_only_case_pair [sending]: "(\<And>a b. sends_only P (f a b)) \<Longrightarrow> sends_only P (case x of (a, b) \<Rightarrow> f a b)"
  by (cases x) simp

section \<open>The operations\<close>

datatype rancher_op =
    OpCreateCloudCredential "rancher_CloudCredential option"
  | OpCreateOpenstackMachine "rancher_OpenstackMachine option"
  | OpCreateClusterRepo string "rancher_Repo option"
  | OpCreateRancherSecret "rancher_Secret option"
  | OpCreateClusterSecret string "rancher_Secret option"
  | OpCreateKubernetes "rancher_Cluster option"
  | OpListKubernetes
  | OpDeleteKubernetes string
  | OpActivateNodeDriver string
  | OpIsNodeDriverConfigable string
  | OpWaitNodeDriverStatus string string int
  | OpWaitKubernetesActive string
  | OpWaitKubernetesDeleted string
  | OpGetKubernetesConfig string

text \<open>What an operation does to the log and the world; its result is not looked at.\<close>

definition done_with :: "('w, 'a) state \<Rightarrow> ('w, unit) state" where
  "done_with m = State_Monad.bind m (\<lambda>_. State_Monad.return ())"

fun rancher_exec ::
  "(string \<Rightarrow> URL res) \<Rightarrow> 'w sleep \<Rightarrow> (string \<Rightarrow> (string \<times> json) list res) \<Rightarrow> marshal
    \<Rightarrow> 'w RancherHelper \<Rightarrow> rancher_op \<Rightarrow> ('w, unit) state" where
  "rancher_exec Parse sleep yu ym h (OpCreateCloudCredential c) = done_with (CreateCloudCredential Parse h c)"
| "rancher_exec Parse sleep yu ym h (OpCreateOpenstackMachine p) = done_with (CreateOpenstackMachine Parse h p)"
| "rancher_exec Parse sleep yu ym h (OpCreateClusterRepo i r) = done_with (CreateClusterRepo Parse h i r)"
| "rancher_exec Parse sleep yu ym h (OpCreateRancherSecret s) = done_with (CreateRancherSecret Parse h s)"
| "rancher_exec Parse sleep yu ym h (OpCreateClusterSecret i s) = done_with (CreateClusterSecret Parse h i s)"
| "rancher_exec Parse sleep yu ym h (OpCreateKubernetes c) = done_with (CreateKubernetes Parse h c)"
| "rancher_exec Parse sleep yu ym h OpListKubernetes = done_with (ListKubernetes Parse h)"
| "rancher_exec Parse sleep yu ym h (OpDeleteKubernetes n) = done_with (DeleteKubernetes Parse h n)"
| "rancher_exec Parse sleep yu ym h (OpActivateNodeDriver n) = done_with (ActivateNodeDriver Parse h n)"
| "rancher_exec Parse sleep yu ym h (OpIsNodeDriverConfigable d) = done_with (IsNodeDriverConfigable Parse h d)"
| "rancher_exec Parse sleep yu ym h (OpWaitNodeDriverStatus n s t) = done_with (WaitNodeDriverStatus Parse sleep h n s t)"
| "rancher_exec Parse sleep yu ym h (OpWaitKubernetesActive n) = done_with (WaitKubernetesActive Parse sleep h n)"
| "rancher_exec Parse sleep yu ym h (OpWaitKubernetesDeleted n) = done_with (WaitKubernetesDeleted Parse sleep h n)"
| "rancher_exec Parse sleep yu ym h (OpGetKubernetesConfig n) = done_with (GetKubernetesConfig Parse yu ym h n)"

section \<open>Every request is of one kind\<close>

text \<open>Scheme, host and user are those of the parsed URL \<open>u\<close>; a path and a query are the operation's.\<close>

definition to_server :: "URL \<Rightarrow> string \<Rightarrow> sent \<Rightarrow> bool" where
  "to_server u token s \<longleftrightarrow>
     (\<exists>p q. se_URL s = URL_String (u\<lparr>url_Path := p, url_RawQuery := q\<rparr>))
     \<and> (''Authorization'', ''Bearer '' @ token) \<in> set (se_Headers s)
     \<and> SetTLSClientConfig True \<in> set (se_Settings s)"

text \<open>A pause is no request.\<close>

definition quiet :: "(sent list \<times> 'w) sleep \<Rightarrow> bool" where
  "quiet sleep \<longleftrightarrow> (\<forall>d P. sends_only P (sleep d))"

lemma sends_only_wait [sending]: "quiet sleep \<Longrightarrow> sends_only P (wait_Seconds sleep s)"
  by (simp add: quiet_def wait_Seconds_def)

definition client_settings :: "http_options \<Rightarrow> resty_setting list" where
  "client_settings o1 = [SetTLSClientConfig (ho_InsecureSkipVerify o1), SetTimeout (ho_Timeout o1),
     SetRetryCount (ho_RetryCount o1), SetRetryWaitTime (ho_RetryWaitTime o1), SetRetryMaxWaitTime (ho_RetryMaxWaitTime o1)]"

text \<open>The helper that \<open>NewHelper\<close> returns, which never fails.\<close>

definition made_helper :: "'w request \<Rightarrow> rancher_option list \<Rightarrow> (sent list \<times> 'w) RancherHelper" where
  "made_helper answer opts = the (fst (rancher_NewHelper (recording answer) opts))"

lemma made_helper_simps [simp]:
  "rancher_NewHelper (recording answer) opts = (Some (made_helper answer opts), None)"
  "rh_Options (made_helper answer opts) = rancher_syncOptions opts"
  by (simp_all add: made_helper_def rancher_NewHelper_def http_NewHelper_def Let_def)

locale recorded_helper =
  fixes answer :: "'w request" and settings :: "resty_setting list" and h :: "(sent list \<times> 'w) RancherHelper"
  assumes client: "hh_Client (rh_Http h) = recording answer settings"
    and unverified: "SetTLSClientConfig True \<in> set settings"
begin

abbreviation ok :: "URL \<Rightarrow> sent \<Rightarrow> bool" where
  "ok u \<equiv> to_server u (ro_Token (rh_Options h))"

lemma sends_only_call: "sends_only (ok u) (call h verb body (u\<lparr>url_Path := p\<rparr>))"
  "sends_only (ok u) (call h verb body (u\<lparr>url_Path := p, url_RawQuery := q\<rparr>))"
proof -
  have "u\<lparr>url_Path := p\<rparr> = u\<lparr>url_Path := p, url_RawQuery := url_RawQuery u\<rparr>" by simp
  then have "\<exists>p' q. URL_String (u\<lparr>url_Path := p\<rparr>) = URL_String (u\<lparr>url_Path := p', url_RawQuery := q\<rparr>)" by metis
  then show "sends_only (ok u) (call h verb body (u\<lparr>url_Path := p\<rparr>))"
    using unverified
    by (auto simp: sends_only_def call_def client recording_def to_server_def GenAuthHeaders_def split: prod.splits)
  show "sends_only (ok u) (call h verb body (u\<lparr>url_Path := p, url_RawQuery := q\<rparr>))"
    using unverified
    by (auto simp: sends_only_def call_def client recording_def to_server_def GenAuthHeaders_def split: prod.splits)
qed

lemma create_sends:
  assumes "Parse (ro_Url (rh_Options h)) = (u, None)"
  shows "sends_only (ok u) (create_resource Parse h p b d m)"
  by (auto simp: create_resource_def at_path_def assms intro!: sending sends_only_call split: prod.split option.split)

lemma polls_send:
  assumes "quiet sleep" and "sends_only (ok u) get"
  shows "sends_only (ok u) (driver_poll sleep get name st n)"
    and "sends_only (ok u) (active_poll sleep get n)"
    and "sends_only (ok u) (deleted_poll sleep get name n)"
proof -
  show "sends_only (ok u) (driver_poll sleep get name st n)"
    by (induction n) (auto intro!: sending assms)
  show "sends_only (ok u) (active_poll sleep get n)"
    by (induction n) (auto intro!: sending assms)
  show "sends_only (ok u) (deleted_poll sleep get name n)"
    by (induction n) (auto intro!: sending assms)
qed

lemma exec_sends:
  assumes "Parse (ro_Url (rh_Options h)) = (u, None)" and "quiet sleep"
  shows "sends_only (ok u) (rancher_exec Parse sleep yu ym h op)"
  by (cases op)
    (auto simp: done_with_def CreateCloudCredential_def CreateOpenstackMachine_def CreateClusterRepo_def
      CreateRancherSecret_def CreateClusterSecret_def CreateKubernetes_def ListKubernetes_def DeleteKubernetes_def
      ActivateNodeDriver_def IsNodeDriverConfigable_def WaitNodeDriverStatus_def WaitKubernetesActive_def
      WaitKubernetesDeleted_def GetKubernetesConfig_def at_path_def Let_def assms
      intro!: sending create_sends sends_only_call polls_send)

end

interpretation made_helper: recorded_helper
  answer "client_settings (http_initOptions [TlsInsecureSkipVerify True])" "made_helper answer opts" for answer opts
  by unfold_locales (simp_all add: made_helper_def rancher_NewHelper_def http_NewHelper_def client_settings_def
    http_opts.init_eq TlsInsecureSkipVerify_def Let_def)

section \<open>Properties\<close>

text \<open>
  C11. Every request of every operation of a Rancher helper goes to the scheme, host and user of the
  configured URL, carries the configured token as a bearer token, and is made by a client that was
  told not to verify certificates: no option of the package turns the verification on.
\<close>

theorem rancher_requests_unverified:
  assumes "rancher_NewHelper (recording answer) opts = (Some h, None)"
    and "Parse (ro_Url (rancher_syncOptions opts)) = (u, None)" and "quiet sleep"
    and "run_state (rancher_exec Parse sleep yu ym h op) (log, w) = (r, (log', w'))"
  shows "\<exists>new. log' = log @ new \<and> list_all (to_server u (ro_Token (rancher_syncOptions opts))) new"
proof -
  from assms(1) have h: "h = made_helper answer opts" by simp
  have "sends_only (to_server u (ro_Token (rancher_syncOptions opts))) (rancher_exec Parse sleep yu ym h op)"
    using made_helper.exec_sends [where opts = opts, OF _ assms(3)] assms(2) by (simp add: h)
  with assms(4) show ?thesis unfolding sends_only_def by blast
qed

definition refusing :: "unit request" where
  "refusing = (\<lambda>_ _ _ _. State_Monad.return
     (\<lparr>rs_StatusCode = 401, rs_IsError = True, rs_Body = [], rs_Result = JNull\<rparr>, None))"

lemma rancher_requests_unverified_witness:
  "list_all (to_server empty_URL ''secret'')
    [\<lparr>se_Settings = client_settings (http_initOptions [TlsInsecureSkipVerify True]), se_Verb = ''DELETE'',
      se_Headers = GenAuthHeaders ''secret'',
      se_URL = ''/v1/provisioning.cattle.io.clusters/fleet-default/c1''\<rparr>]"
proof -
  let ?opts = "[rancher_AuthToken ''secret'']"
  have o1: "ro_Token (rancher_syncOptions ?opts) = ''secret''"
    by (simp add: rancher_opts.init_eq rancher_AuthToken_def)
  have "URL_String (empty_URL\<lparr>url_Path := ''/v1/provisioning.cattle.io.clusters/fleet-default/c1''\<rparr>)
      = ''/v1/provisioning.cattle.io.clusters/fleet-default/c1''"
    by code_simp
  then have "run_state (rancher_exec (\<lambda>_. (empty_URL, None)) (\<lambda>_. State_Monad.return ()) (\<lambda>_. ([], None))
      (\<lambda>_. ([], None)) (made_helper refusing ?opts) (OpDeleteKubernetes ''c1'')) ([], ())
    = ((), ([\<lparr>se_Settings = client_settings (http_initOptions [TlsInsecureSkipVerify True]), se_Verb = ''DELETE'',
      se_Headers = GenAuthHeaders ''secret'',
      se_URL = ''/v1/provisioning.cattle.io.clusters/fleet-default/c1''\<rparr>], ()))"
    by (simp add: done_with_def DeleteKubernetes_def at_path_def call_def made_helper.client recording_def refusing_def o1)
  from rancher_requests_unverified [OF made_helper_simps(1) _ _ this] show ?thesis
    by (simp add: o1 quiet_def sends_only_return)
qed

end
