(* ===== verification/Helm.thy ===== *)
theory Helm
  imports Kubernetes Wait
begin

text \<open>
  Package helm: the options, the choice of the cluster credentials, the preparation of the actions
  (install, upgrade, get, uninstall), the loading of charts and values, and \<open>Apply\<close>, which installs a
  release or upgrades it. Helm's SDK, the file system, the network and the YAML decoder are
  parameters. \<open>InstallClient\<close> and \<open>InstallClientPtr\<close> are always set together to one action, which one
  field stands for, so that a namespace set through the pointer is seen by the client. An action reads
  the cluster settings when it runs, through the pointer it shares with \<open>EnvConfig\<close>, so every run is
  given the settings of that moment; \<open>SetAuth\<close>, which makes a new settings object, is taken to be called
  before the actions are prepared, as \<open>NewHelper\<close> does. Log output is left out.
\<close>

section \<open>Options and helper\<close>

text \<open>The description of a chart, which the callers of the package keep.\<close>

record Tgz =
  tgz_Remote :: string
  tgz_Local :: string

record helm_Chart =
  ch_Type :: string
  ch_Release :: string
  ch_Version :: string
  ch_Namespace :: string
  ch_Tgz :: Tgz
  ch_CustomizedValues :: "json option"
  ch_ClusterRolesToPatch :: "string list option"

text \<open>\<open>cli.EnvSettings\<close> as far as the package sets it.\<close>

record EnvSettings =
  es_KubeAPIServer :: string
  es_KubeToken :: string
  es_KubeCaFile :: string
  es_KubeConfig :: string
  es_namespace :: string
  es_rest :: json

record helm_options =
  hm_Release :: string
  hm_ChartPath :: string
  hm_Chart :: "json option"
  hm_Values :: json
  hm_CreateNamespace :: bool
  hm_EnvConfig :: "EnvSettings option"
  hm_ActionConfig :: "json option"
  hm_KubeConfig :: kube_options

type_synonym helm_option = "helm_options \<Rightarrow> helm_options"

definition helm_zero :: helm_options where
  "helm_zero = \<lparr>hm_Release = [], hm_ChartPath = [], hm_Chart = None, hm_Values = JNull,
     hm_CreateNamespace = False, hm_EnvConfig = None, hm_ActionConfig = None,
     hm_KubeConfig = kubernetes_zero\<rparr>"

definition helm_Release :: "string \<Rightarrow> helm_option" where
  "helm_Release name = (\<lambda>o1. o1\<lparr>hm_Release := name\<rparr>)"

definition helm_ChartPath :: "string \<Rightarrow> helm_option" where
  "helm_ChartPath path = (\<lambda>o1. o1\<lparr>hm_ChartPath := path\<rparr>)"

definition helm_CreateNamespace :: "bool \<Rightarrow> helm_option" where
  "helm_CreateNamespace enabled = (\<lambda>o1. o1\<lparr>hm_CreateNamespace := enabled\<rparr>)"

definition helm_EnvConfig :: "EnvSettings option \<Rightarrow> helm_option" where
  "helm_EnvConfig env = (\<lambda>o1. o1\<lparr>hm_EnvConfig := env\<rparr>)"

definition helm_ActionConfig :: "json option \<Rightarrow> helm_option" where
  "helm_ActionConfig action = (\<lambda>o1. o1\<lparr>hm_ActionConfig := action\<rparr>)"

definition helm_KubeConfig :: "kube_options \<Rightarrow> helm_option" where
  "helm_KubeConfig kube = (\<lambda>o1. o1\<lparr>hm_KubeConfig := kube\<rparr>)"

definition helm_AuthType :: "string \<Rightarrow> helm_option" where
  "helm_AuthType authType = (\<lambda>o1. o1\<lparr>hm_KubeConfig := kubernetes_AuthType authType (hm_KubeConfig o1)\<rparr>)"

definition helm_AuthFile :: "string \<Rightarrow> helm_option" where
  "helm_AuthFile path = (\<lambda>o1. o1\<lparr>hm_KubeConfig := kubernetes_AuthFile path (hm_KubeConfig o1)\<rparr>)"

fun helm_overrideOptions :: "helm_options \<Rightarrow> helm_option list \<Rightarrow> helm_options" where
  "helm_overrideOptions opts [] = opts"
| "helm_overrideOptions opts (opt # options) = helm_overrideOptions (opt opts) options"

definition helm_initOptions :: "helm_option list \<Rightarrow> helm_options" where
  "helm_initOptions opts = helm_overrideOptions helm_zero opts"

lemma helm_overrideOptions_eq: "helm_overrideOptions o0 opts = apply_options opts o0"
  by (induction opts arbitrary: o0) simp_all

interpretation helm_opts: func_options helm_initOptions helm_zero
  by unfold_locales (simp_all add: helm_initOptions_def helm_overrideOptions_eq)

text \<open>The actions carry the configuration they were made with; the settings are given when they run.\<close>

record InstallAction =
  ia_Config :: json
  ia_CreateNamespace :: bool
  ia_Namespace :: string
  ia_ReleaseName :: string

record UpgradeAction =
  ua_Config :: json
  ua_MaxHistory :: int

record HelmHelper =
  hl_Get :: "json option"
  hl_Install :: "InstallAction option"
  hl_Upgrade :: "UpgradeAction option"
  hl_Uninstall :: "json option"
  hl_Options :: helm_options

record 'w HelmSdk =
  cli_New :: "('w, EnvSettings) state"
  ActionInit :: "EnvSettings \<Rightarrow> string \<Rightarrow> string \<Rightarrow> ('w, json res) state"
  HELM_DRIVER :: string
  GetRun :: "EnvSettings option \<Rightarrow> json \<Rightarrow> string \<Rightarrow> ('w, string option res) state"
  InstallRun :: "EnvSettings option \<Rightarrow> ctx \<Rightarrow> InstallAction \<Rightarrow> json option \<Rightarrow> json \<Rightarrow> ('w, go_error option) state"
  UpgradeRun :: "EnvSettings option \<Rightarrow> ctx \<Rightarrow> UpgradeAction \<Rightarrow> string \<Rightarrow> json option \<Rightarrow> json \<Rightarrow> ('w, go_error option) state"
  UninstallRun :: "EnvSettings option \<Rightarrow> json \<Rightarrow> string \<Rightarrow> ('w, go_error option) state"
  loader_Load :: "string \<Rightarrow> ('w, json option res) state"
  loader_LoadArchive :: "string \<Rightarrow> ('w, json option res) state"
  http_Get :: "string \<Rightarrow> ('w, json res) state"
  io_ReadAll :: "json \<Rightarrow> ('w, string res) state"
  body_Close :: "json \<Rightarrow> ('w, unit) state"
  os_ReadFile :: "string \<Rightarrow> ('w, string res) state"
  MergeValues :: "json \<Rightarrow> EnvSettings option \<Rightarrow> ('w, json res) state"

text \<open>
  \<open>SetAuth\<close> starts from fresh settings, whatever \<open>EnvConfig\<close> option was given. Methods that change
  the helper return it with their result.
\<close>

definition helm_SetAuth :: "'w HelmSdk \<Rightarrow> HelmHelper \<Rightarrow> ('w, go_error option \<times> HelmHelper) state" where
  "helm_SetAuth sdk h = do {
     env \<leftarrow> cli_New sdk;
     let kube = hm_KubeConfig (hl_Options h);
     let auth = ko_Auth kube;
     let keep = (\<lambda>env. h\<lparr>hl_Options := (hl_Options h)\<lparr>hm_EnvConfig := Some env\<rparr>\<rparr>);
     State_Monad.return
       (if au_Type auth = ''inCluster''
        then (None, keep (env\<lparr>es_KubeAPIServer := ko_URL kube, es_KubeToken := au_Token auth,
          es_KubeCaFile := au_CAFile auth\<rparr>))
        else if au_Type auth = ''outOfCluster''
        then (None, keep (env\<lparr>es_KubeConfig := au_FilePath auth\<rparr>))
        else (Some (ErrText (''unsupported auth type: '' @ au_Type auth)), keep env))
   }"

definition helm_NewHelper :: "'w HelmSdk \<Rightarrow> helm_option list \<Rightarrow> ('w, HelmHelper option res) state" where
  "helm_NewHelper sdk opts = do {
     (err, h) \<leftarrow> helm_SetAuth sdk \<lparr>hl_Get = None, hl_Install = None, hl_Upgrade = None,
       hl_Uninstall = None, hl_Options = helm_initOptions opts\<rparr>;
     on_err err (State_Monad.return (Some h, None))
       (\<lambda>e. (None, Some (ErrText (''failed to set auth ('' @ err_msg e @ '')''))))
   }"

definition OverrideDefaultValues ::
  "'w HelmSdk \<Rightarrow> HelmHelper \<Rightarrow> json \<Rightarrow> ('w, go_error option \<times> HelmHelper) state" where
  "OverrideDefaultValues sdk h valuesToOverride = do {
     (vals, err) \<leftarrow> MergeValues sdk valuesToOverride (hm_EnvConfig (hl_Options h));
     State_Monad.return (err, h\<lparr>hl_Options := (hl_Options h)\<lparr>hm_Values := vals\<rparr>\<rparr>)
   }"

section \<open>Actions\<close>

definition InitOperator ::
  "'w HelmSdk \<Rightarrow> HelmHelper \<Rightarrow> string \<Rightarrow> ('w, (go_error option \<times> HelmHelper) outcome) state" where
  "InitOperator sdk h opType = deref (hm_EnvConfig (hl_Options h)) (\<lambda>env. do {
     (config, err) \<leftarrow> ActionInit sdk env ''default'' (HELM_DRIVER sdk);
     let h = h\<lparr>hl_Options := (hl_Options h)\<lparr>hm_ActionConfig := Some config\<rparr>\<rparr>;
     let op = ToLower opType;
     on_err err
       (State_Monad.return (Return
         (if op = ''install'' then (None, h\<lparr>hl_Install := Some \<lparr>ia_Config = config,
            ia_CreateNamespace = hm_CreateNamespace (hl_Options h), ia_Namespace = [], ia_ReleaseName = []\<rparr>\<rparr>)
          else if op = ''upgrade'' then (None, h\<lparr>hl_Upgrade := Some \<lparr>ua_Config = config, ua_MaxHistory = 3\<rparr>\<rparr>)
          else if op = ''get'' then (None, h\<lparr>hl_Get := Some config\<rparr>)
          else if op = ''uninstall'' then (None, h\<lparr>hl_Uninstall := Some config\<rparr>)
          else (Some (ErrText (''unsupported helm operation for helm: '' @ opType)), h))))
       (\<lambda>e. Return (Some (ErrText (''failed to init action configuration('' @ err_msg e @ '')'')), h))
   })"

definition init_step :: "'w HelmSdk \<Rightarrow> string \<Rightarrow> HelmHelper
    \<Rightarrow> (HelmHelper \<Rightarrow> ('w, (go_error option \<times> HelmHelper) outcome) state)
    \<Rightarrow> ('w, (go_error option \<times> HelmHelper) outcome) state" where
  "init_step sdk op h next_step = do {
     r \<leftarrow> InitOperator sdk h op;
     proceed r (\<lambda>(err, h). on_err err (next_step h)
       (\<lambda>e. Return (Some (ErrText (''failed to init '' @ op @ '' operator('' @ err_msg e @ '')'')), h)))
   }"

definition InitApplyOperator ::
  "'w HelmSdk \<Rightarrow> HelmHelper \<Rightarrow> ('w, (go_error option \<times> HelmHelper) outcome) state" where
  "InitApplyOperator sdk h =
     init_step sdk ''install'' h (\<lambda>h. init_step sdk ''upgrade'' h (\<lambda>h. init_step sdk ''get'' h
       (\<lambda>h. State_Monad.return (Return (None, h)))))"

definition LoadChart :: "'w HelmSdk \<Rightarrow> HelmHelper \<Rightarrow> string \<Rightarrow> ('w, go_error option \<times> HelmHelper) state" where
  "LoadChart sdk h chartPath = do {
     (chart, err) \<leftarrow> loader_Load sdk chartPath;
     let h = h\<lparr>hl_Options := (hl_Options h)\<lparr>hm_Chart := chart\<rparr>\<rparr>;
     on_err err (State_Monad.return (None, h))
       (\<lambda>e. (Some (ErrText (''failed to load chart from path: '' @ chartPath)), h))
   }"

definition LoadRemoteChartTgz ::
  "'w HelmSdk \<Rightarrow> HelmHelper \<Rightarrow> string \<Rightarrow> ('w, go_error option \<times> HelmHelper) state" where
  "LoadRemoteChartTgz sdk h url = do {
     (body, err) \<leftarrow> http_Get sdk url;
     on_err err (do {
       (data, err) \<leftarrow> io_ReadAll sdk body;
       r \<leftarrow> on_err err (do {
         (chart, err) \<leftarrow> loader_LoadArchive sdk data;
         let h = h\<lparr>hl_Options := (hl_Options h)\<lparr>hm_Chart := chart\<rparr>\<rparr>;
         on_err err (State_Monad.return (None, h))
           (\<lambda>e. (Some (ErrText (''failed to load chart from url '' @ url @ ''('' @ err_msg e @ '')'')), h))
       }) (\<lambda>e. (Some (ErrText (''failed to read response body from url '' @ url @ ''('' @ err_msg e @ '')'')), h));
       _ \<leftarrow> body_Close sdk body;
       State_Monad.return r
     }) (\<lambda>e. (Some (ErrText (''failed to get response from url '' @ url @ ''('' @ err_msg e @ '')'')), h))
   }"

definition LoadLocalChartTgz :: "'w HelmSdk \<Rightarrow> HelmHelper \<Rightarrow> string \<Rightarrow> ('w, go_error option \<times> HelmHelper) state" where
  "LoadLocalChartTgz sdk h path = do {
     (chart, err) \<leftarrow> loader_Load sdk path;
     let h = h\<lparr>hl_Options := (hl_Options h)\<lparr>hm_Chart := chart\<rparr>\<rparr>;
     on_err err (State_Monad.return (None, h))
       (\<lambda>e. (Some (ErrText (''failed to load chart from path '' @ path @ ''('' @ err_msg e @ '')'')), h))
   }"

definition LoadValueFromFile ::
  "'w HelmSdk \<Rightarrow> (string \<Rightarrow> json res) \<Rightarrow> string \<Rightarrow> ('w, json option res) state" where
  "LoadValueFromFile sdk yaml_Unmarshal path = do {
     (b, err) \<leftarrow> os_ReadFile sdk path;
     on_err err
       (State_Monad.return (case yaml_Unmarshal b of
          (_, Some e) \<Rightarrow> (None, Some (ErrText (''failed to unmarshal values from file '' @ path @ ''('' @ err_msg e @ '')'')))
        | (vals, None) \<Rightarrow> (Some vals, None)))
       (\<lambda>e. (None, Some (ErrText (''failed to read file '' @ path @ ''('' @ err_msg e @ '')''))))
   }"

definition helm_SetNamespace :: "HelmHelper \<Rightarrow> string \<Rightarrow> HelmHelper outcome" where
  "helm_SetNamespace h namespace =
     (case hl_Install h of
        None \<Rightarrow> Panic NilDereference
      | Some inst \<Rightarrow>
          (case hm_EnvConfig (hl_Options h) of
             None \<Rightarrow> Panic NilDereference
           | Some env \<Rightarrow> Return (h\<lparr>hl_Install := Some (inst\<lparr>ia_Namespace := namespace\<rparr>),
               hl_Options := (hl_Options h)\<lparr>hm_EnvConfig := Some (env\<lparr>es_namespace := namespace\<rparr>)\<rparr>\<rparr>)))"

definition helm_Apply ::
  "'w HelmSdk \<Rightarrow> HelmHelper \<Rightarrow> string \<Rightarrow> string \<Rightarrow> ('w, (go_error option \<times> HelmHelper) outcome) state" where
  "helm_Apply sdk h release namespace =
     (let ctx = WithTimeout Background (60 * Second) in
      proceed (helm_SetNamespace h namespace) (\<lambda>h. do {
        r \<leftarrow> on_client (hl_Get h) (\<lambda>c. GetRun sdk (hm_EnvConfig (hl_Options h)) c release);
        proceed r (\<lambda>(rel, err).
          let install = deref (hl_Install h) (\<lambda>inst.
                let inst = inst\<lparr>ia_ReleaseName := release\<rparr> in do {
                  err \<leftarrow> InstallRun sdk (hm_EnvConfig (hl_Options h)) ctx inst
                    (hm_Chart (hl_Options h)) (hm_Values (hl_Options h));
                  State_Monad.return (Return (err, h\<lparr>hl_Install := Some inst\<rparr>))
                });
              upgrade = deref (hl_Upgrade h) (\<lambda>up. do {
                err \<leftarrow> UpgradeRun sdk (hm_EnvConfig (hl_Options h)) ctx up release
                  (hm_Chart (hl_Options h)) (hm_Values (hl_Options h));
                State_Monad.return (Return (err, h))
              })
          in case err of Some _ \<Rightarrow> install
             | None \<Rightarrow> deref rel (\<lambda>name. if name = release then upgrade else install))
      }))"

definition Uninstall :: "'w HelmSdk \<Rightarrow> HelmHelper \<Rightarrow> string \<Rightarrow> ('w, go_error option outcome) state" where
  "Uninstall sdk h releaseName = on_client (hl_Uninstall h) (\<lambda>c. UninstallRun sdk (hm_EnvConfig (hl_Options h)) c releaseName)"

section \<open>Properties\<close>

text \<open>What one preparation leaves, when it succeeds.\<close>

definition with_config :: "json \<Rightarrow> HelmHelper \<Rightarrow> HelmHelper" where
  "with_config config h = h\<lparr>hl_Options := (hl_Options h)\<lparr>hm_ActionConfig := Some config\<rparr>\<rparr>"

lemma InitOperator_ok:
  assumes "run_state (InitOperator sdk h op) w = (Return (None, h1), w1)"
  shows "\<exists>config. (op = ''install'' \<longrightarrow> h1 = (with_config config h)\<lparr>hl_Install := Some \<lparr>ia_Config = config,
        ia_CreateNamespace = hm_CreateNamespace (hl_Options h), ia_Namespace = [], ia_ReleaseName = []\<rparr>\<rparr>)
    \<and> (op = ''upgrade'' \<longrightarrow> h1 = (with_config config h)\<lparr>hl_Upgrade := Some \<lparr>ua_Config = config, ua_MaxHistory = 3\<rparr>\<rparr>)
    \<and> (op = ''get'' \<longrightarrow> h1 = (with_config config h)\<lparr>hl_Get := Some config\<rparr>)
    \<and> hm_EnvConfig (hl_Options h) \<noteq> None"
proof -
  have lower: "ToLower ''install'' = ''install''" "ToLower ''upgrade'' = ''upgrade''" "ToLower ''get'' = ''get''"
    by (simp_all add: ToLower_def lower_char_def)
  obtain env where env: "hm_EnvConfig (hl_Options h) = Some env"
    using assms by (cases "hm_EnvConfig (hl_Options h)") (auto simp: InitOperator_def)
  obtain config err v where c: "run_state (ActionInit sdk env ''default'' (HELM_DRIVER sdk)) w = ((config, err), v)"
    by (metis prod.exhaust)
  with assms env have err: "err = None"
    by (cases err) (auto simp: InitOperator_def Let_def)
  show ?thesis
    using assms unfolding InitOperator_def env deref_simps Let_def
    by (intro exI [of _ config]) (auto simp: c err lower with_config_def env)
qed

lemma init_step_ok:
  assumes "run_state (init_step sdk op h next_step) w = (Return (None, h'), w')"
  obtains h1 w1 where "run_state (InitOperator sdk h op) w = (Return (None, h1), w1)"
    and "run_state (next_step h1) w1 = (Return (None, h'), w')"
  using assms
  by (auto simp: init_step_def on_err_def proceed_def split: prod.splits option.splits outcome.splits)

lemma InitApplyOperator_ok:
  assumes "run_state (InitApplyOperator sdk h0) w0 = (Return (None, h), w)"
  obtains inst up c where "hl_Install h = Some inst" and "ia_CreateNamespace inst = hm_CreateNamespace (hl_Options h0)"
    and "hl_Upgrade h = Some up" and "ua_MaxHistory up = 3" and "hl_Get h = Some c"
    and "hm_EnvConfig (hl_Options h) = hm_EnvConfig (hl_Options h0)" and "hm_EnvConfig (hl_Options h0) \<noteq> None"
    and "hm_Chart (hl_Options h) = hm_Chart (hl_Options h0)" and "hm_Values (hl_Options h) = hm_Values (hl_Options h0)"
proof -
  from assms obtain h1 w1 where 1: "run_state (InitOperator sdk h0 ''install'') w0 = (Return (None, h1), w1)"
    and r1: "run_state (init_step sdk ''upgrade'' h1 (\<lambda>h. init_step sdk ''get'' h
       (\<lambda>h. State_Monad.return (Return (None, h))))) w1 = (Return (None, h), w)"
    unfolding InitApplyOperator_def by (rule init_step_ok)
  from r1 obtain h2 w2 where 2: "run_state (InitOperator sdk h1 ''upgrade'') w1 = (Return (None, h2), w2)"
    and r2: "run_state (init_step sdk ''get'' h2 (\<lambda>h. State_Monad.return (Return (None, h)))) w2 = (Return (None, h), w)"
    by (rule init_step_ok)
  obtain h3 w3 where 3: "run_state (InitOperator sdk h2 ''get'') w2 = (Return (None, h3), w3)" and "h3 = h"
    by (rule init_step_ok [OF r2]) auto
  with InitOperator_ok [OF 1] InitOperator_ok [OF 2] InitOperator_ok [OF 3]
  show ?thesis using that by (auto simp: with_config_def)
qed

text \<open>
  C18. \<open>Apply\<close> after \<open>InitApplyOperator\<close> never panics and makes exactly one change: it upgrades when the
  release is found under its name, keeping three revisions, and otherwise installs it under that name
  in the namespace asked for, also when looking it up failed for any other reason. The lookup and the
  change use the settings of the helper with the namespace asked for. The error is the one of the change.
\<close>

theorem Apply_installs_or_upgrades:
  assumes "run_state (InitApplyOperator sdk h0) w0 = (Return (None, h), w1)"
    and "hl_Get h = Some c" and "hm_EnvConfig (hl_Options h0) = Some settings"
    and "run_state (GetRun sdk (Some (settings\<lparr>es_namespace := namespace\<rparr>)) c release) w = ((rel, err), w')"
    and "err = None \<Longrightarrow> rel \<noteq> None"
  shows "\<exists>inst up h' ctx. ia_Namespace inst = namespace \<and> ia_ReleaseName inst = release
      \<and> ia_CreateNamespace inst = hm_CreateNamespace (hl_Options h0) \<and> ua_MaxHistory up = 3
      \<and> run_state (helm_Apply sdk h release namespace) w =
        (case run_state (if err = None \<and> rel = Some release
            then UpgradeRun sdk (Some (settings\<lparr>es_namespace := namespace\<rparr>)) ctx up release
              (hm_Chart (hl_Options h0)) (hm_Values (hl_Options h0))
            else InstallRun sdk (Some (settings\<lparr>es_namespace := namespace\<rparr>)) ctx inst
              (hm_Chart (hl_Options h0)) (hm_Values (hl_Options h0))) w' of
           (e, w'') \<Rightarrow> (Return (e, h'), w''))"
proof -
  obtain inst up c' where i: "hl_Install h = Some inst" "ia_CreateNamespace inst = hm_CreateNamespace (hl_Options h0)"
    "hl_Upgrade h = Some up" "ua_MaxHistory up = 3" "hm_EnvConfig (hl_Options h) = hm_EnvConfig (hl_Options h0)"
    "hm_Chart (hl_Options h) = hm_Chart (hl_Options h0)" "hm_Values (hl_Options h) = hm_Values (hl_Options h0)"
    by (rule InitApplyOperator_ok [OF assms(1)]) auto
  have env: "hm_EnvConfig (hl_Options h) = Some settings" using i(5) assms(3) by simp
  let ?inst = "inst\<lparr>ia_Namespace := namespace, ia_ReleaseName := release\<rparr>"
  let ?h = "h\<lparr>hl_Install := Some (inst\<lparr>ia_Namespace := namespace\<rparr>),
      hl_Options := (hl_Options h)\<lparr>hm_EnvConfig := Some (settings\<lparr>es_namespace := namespace\<rparr>)\<rparr>\<rparr>"
  have "helm_SetNamespace h namespace = Return ?h" by (simp add: helm_SetNamespace_def i(1) env)
  note run = helm_Apply_def Let_def this assms(2,4) i
  show ?thesis
  proof (cases "err = None \<and> rel = Some release")
    case True
    then show ?thesis
      by (intro exI [of _ ?inst] exI [of _ up] exI [of _ ?h] exI [of _ "WithTimeout Background (60 * Second)"])
        (simp add: run split: prod.splits)
  next
    case False
    then consider e where "err = Some e" | name where "err = None" "rel = Some name" "name \<noteq> release"
      using assms(5) by (cases err) auto
    then show ?thesis
      by cases (intro exI [of _ ?inst] exI [of _ up] exI [of _ "?h\<lparr>hl_Install := Some ?inst\<rparr>"]
            exI [of _ "WithTimeout Background (60 * Second)"], simp add: run split: prod.splits)+
  qed
qed

definition demo_helm :: "string list HelmSdk" where
  "demo_helm = \<lparr>cli_New = State_Monad.return \<lparr>es_KubeAPIServer = [], es_KubeToken = [], es_KubeCaFile = [],
       es_KubeConfig = [], es_namespace = [], es_rest = JNull\<rparr>,
     ActionInit = \<lambda>_ _ _. State_Monad.return (JNull, None), HELM_DRIVER = [],
     GetRun = \<lambda>_ _ _. State_Monad.return (None, Some (ErrText ''release: not found'')),
     InstallRun = \<lambda>env _ inst _ _. State (\<lambda>w. (None, w @ [ia_ReleaseName inst @ '' in '' @ ia_Namespace inst
       @ '' as '' @ (case env of None \<Rightarrow> [] | Some s \<Rightarrow> es_namespace s)])),
     UpgradeRun = \<lambda>_ _ _ _ _ _. State_Monad.return None, UninstallRun = \<lambda>_ _ _. State_Monad.return None,
     loader_Load = \<lambda>_. State_Monad.return (None, None), loader_LoadArchive = \<lambda>_. State_Monad.return (None, None),
     http_Get = \<lambda>_. State_Monad.return (JNull, None), io_ReadAll = \<lambda>_. State_Monad.return ([], None),
     body_Close = \<lambda>_. State_Monad.return (), os_ReadFile = \<lambda>_. State_Monad.return ([], None),
     MergeValues = \<lambda>v _. State_Monad.return (v, None)\<rparr>"

lemma Apply_installs_or_upgrades_witness:
  "\<exists>h0 h w1 h'. run_state (helm_NewHelper demo_helm [helm_AuthType ''inCluster'']) [] = ((Some h0, None), [])
     \<and> run_state (InitApplyOperator demo_helm h0) [] = (Return (None, h), w1)
     \<and> run_state (helm_Apply demo_helm h ''web'' ''prod'') [] = (Return (None, h'), [''web in prod as prod''])"
proof -
  obtain h0 where h0: "run_state (helm_NewHelper demo_helm [helm_AuthType ''inCluster'']) [] = ((Some h0, None), [])"
    and env: "hm_EnvConfig (hl_Options h0) \<noteq> None"
    by (simp add: helm_NewHelper_def helm_SetAuth_def demo_helm_def helm_initOptions_def helm_AuthType_def
        kubernetes_AuthType_def helm_zero_def kubernetes_zero_def Let_def)
  have step: "\<exists>h1. run_state (InitOperator demo_helm h op) [] = (Return (None, h1), [])
      \<and> hm_EnvConfig (hl_Options h1) \<noteq> None"
    if "hm_EnvConfig (hl_Options h) \<noteq> None" "op \<in> {''install'', ''upgrade'', ''get''}" for h op
    using that by (auto simp: InitOperator_def demo_helm_def Let_def ToLower_def lower_char_def)
  obtain h1 where 1: "run_state (InitOperator demo_helm h0 ''install'') [] = (Return (None, h1), [])"
    "hm_EnvConfig (hl_Options h1) \<noteq> None" using step [OF env] by blast
  obtain h2 where 2: "run_state (InitOperator demo_helm h1 ''upgrade'') [] = (Return (None, h2), [])"
    "hm_EnvConfig (hl_Options h2) \<noteq> None" using step [OF 1(2)] by blast
  obtain h where 3: "run_state (InitOperator demo_helm h2 ''get'') [] = (Return (None, h), [])"
    using step [OF 2(2)] by blast
  have init: "run_state (InitApplyOperator demo_helm h0) [] = (Return (None, h), [])"
    using 1 2 3 by (simp add: InitApplyOperator_def init_step_def)
  obtain c where c: "hl_Get h = Some c" by (rule InitApplyOperator_ok [OF init]) auto
  from env obtain settings where settings: "hm_EnvConfig (hl_Options h0) = Some settings" by auto
  have get: "run_state (GetRun demo_helm (Some (settings\<lparr>es_namespace := ''prod''\<rparr>)) c ''web'') [] = ((None, Some (ErrText ''release: not found'')), [])"
    by (simp add: demo_helm_def)
  obtain h' where "run_state (helm_Apply demo_helm h ''web'' ''prod'') [] = (Return (None, h'), [''web in prod as prod''])"
    using Apply_installs_or_upgrades [OF init c settings get] by (auto simp: demo_helm_def)
  with h0 init show ?thesis by blast
qed

end
