(* ===== verification/Ssh.thy ===== *)
theory Ssh
  imports Prelude Wait
begin

text \<open>
  Package ssh: the helper that holds a connection, one session and one SFTP client on it, with the
  operations that run a command, copy files in both directions and close what is open. The SSH and
  SFTP libraries and the local file system are parameters; connections, sessions and files are known
  by numbers. An interface field may be nil, or hold a pointer that is nil: the two are told apart,
  since only the first is caught by a comparison with nil. Deferred calls run on every way out of a
  function, a panic included. Log output is left out.
\<close>

section \<open>Options\<close>

record ssh_options =
  so_Host :: string
  so_User :: string
  so_AuthMethod :: json
  so_HostKeyCallback :: json
  so_Timeout :: duration

type_synonym ssh_option = "ssh_options \<Rightarrow> ssh_options"

definition ssh_default :: ssh_options where
  "ssh_default = \<lparr>so_Host = [], so_User = [], so_AuthMethod = JNull, so_HostKeyCallback = JNull, so_Timeout = 30 * Second\<rparr>"

definition ssh_Host :: "string \<Rightarrow> ssh_option" where
  "ssh_Host host = (\<lambda>o1. o1\<lparr>so_Host := host\<rparr>)"

definition ssh_User :: "string \<Rightarrow> ssh_option" where
  "ssh_User user = (\<lambda>o1. o1\<lparr>so_User := user\<rparr>)"

definition ssh_HostKeyCallback :: "json \<Rightarrow> ssh_option" where
  "ssh_HostKeyCallback callback = (\<lambda>o1. o1\<lparr>so_HostKeyCallback := callback\<rparr>)"

definition ssh_Timeout :: "duration \<Rightarrow> ssh_option" where
  "ssh_Timeout timeout = (\<lambda>o1. o1\<lparr>so_Timeout := timeout\<rparr>)"

definition ssh_AuthMethod :: "json \<Rightarrow> ssh_option" where
  "ssh_AuthMethod meth = (\<lambda>o1. o1\<lparr>so_AuthMethod := meth\<rparr>)"

fun ssh_init_loop :: "ssh_options \<Rightarrow> ssh_option list \<Rightarrow> ssh_options" where
  "ssh_init_loop options [] = options"
| "ssh_init_loop options (o1 # opts) = ssh_init_loop (o1 options) opts"

definition ssh_initOptions :: "ssh_option list \<Rightarrow> ssh_options" where
  "ssh_initOptions opts = ssh_init_loop ssh_default opts"

lemma ssh_init_loop_eq: "ssh_init_loop o0 opts = apply_options opts o0"
  by (induction opts arbitrary: o0) simp_all

interpretation ssh_opts: func_options ssh_initOptions ssh_default
  by unfold_locales (simp_all add: ssh_initOptions_def ssh_init_loop_eq)

section \<open>The helper\<close>

datatype 'a iface = NilIface | Typed "'a option"

definition via :: "'a iface \<Rightarrow> ('a \<Rightarrow> ('w, 'r) state) \<Rightarrow> ('w, 'r outcome) state" where
  "via i f = (case i of NilIface \<Rightarrow> State_Monad.return (Panic NilDereference) | Typed p \<Rightarrow> on_client p f)"

lemma via_simps [simp]:
  "via NilIface f = State_Monad.return (Panic NilDereference)" "via (Typed p) f = on_client p f"
  by (simp_all add: via_def)

record ClientConfig =
  cc_User :: string
  cc_Auth :: "json list"
  cc_HostKeyCallback :: json
  cc_Timeout :: duration

record SshHelper =
  sp_SshClientPtr :: "nat option"
  sp_DialClient :: "nat iface"
  sp_SessionClient :: "nat iface"
  sp_SftpClient :: "nat iface"
  sp_Options :: ssh_options

record 'w SshSdk =
  ssh_Dial :: "string \<Rightarrow> string \<Rightarrow> ClientConfig \<Rightarrow> ('w, nat option res) state"
  conn_NewSession :: "nat \<Rightarrow> ('w, nat option res) state"
  conn_Close :: "nat \<Rightarrow> ('w, go_error option) state"
  session_Run :: "nat \<Rightarrow> string \<Rightarrow> ('w, go_error option) state"
  session_Close :: "nat \<Rightarrow> ('w, go_error option) state"
  sftp_NewClient :: "nat option \<Rightarrow> ('w, nat option res) state"
  sftp_Create :: "nat \<Rightarrow> string \<Rightarrow> ('w, nat res) state"
  sftp_Open :: "nat \<Rightarrow> string \<Rightarrow> ('w, nat res) state"
  file_Open :: "string \<Rightarrow> ('w, nat res) state"
  file_Create :: "string \<Rightarrow> ('w, nat res) state"
  file_Copy :: "nat \<Rightarrow> nat \<Rightarrow> ('w, int res) state"
  file_Close :: "nat \<Rightarrow> ('w, unit) state"

text \<open>
  \<open>SetClients\<close> stores what each constructor returns before it looks at the error, so a constructor
  that fails leaves a nil pointer inside the interface.
\<close>

definition SetClients ::
  "'w SshSdk \<Rightarrow> SshHelper \<Rightarrow> ('w, (go_error option \<times> SshHelper) outcome) state" where
  "SetClients sdk h =
     (let o1 = sp_Options h;
          config = \<lparr>cc_User = so_User o1, cc_Auth = [so_AuthMethod o1],
            cc_HostKeyCallback = so_HostKeyCallback o1, cc_Timeout = so_Timeout o1\<rparr>
      in do {
        (ptr, err) \<leftarrow> ssh_Dial sdk ''tcp'' (so_Host o1) config;
        let h = h\<lparr>sp_SshClientPtr := ptr\<rparr>;
        on_err err (do {
          let h = h\<lparr>sp_DialClient := Typed ptr\<rparr>;
          r \<leftarrow> via (sp_DialClient h) (\<lambda>c. conn_NewSession sdk c);
          proceed r (\<lambda>(session, err). let h = h\<lparr>sp_SessionClient := Typed session\<rparr> in
            on_err err (do {
              (sftp, err) \<leftarrow> sftp_NewClient sdk (sp_SshClientPtr h);
              let h = h\<lparr>sp_SftpClient := Typed sftp\<rparr>;
              State_Monad.return (Return (err, h))
            }) (\<lambda>e. Return (Some e, h)))
        }) (\<lambda>e. Return (Some e, h))
      })"

definition ssh_new :: "ssh_option list \<Rightarrow> SshHelper" where
  "ssh_new opts = \<lparr>sp_SshClientPtr = None, sp_DialClient = NilIface, sp_SessionClient = NilIface,
     sp_SftpClient = NilIface, sp_Options = ssh_initOptions opts\<rparr>"

definition ssh_NewHelper :: "'w SshSdk \<Rightarrow> ssh_option list \<Rightarrow> ('w, SshHelper option res outcome) state" where
  "ssh_NewHelper sdk opts = do {
     r \<leftarrow> SetClients sdk (ssh_new opts);
     proceed r (\<lambda>(err, h). on_err err (State_Monad.return (Return (Some h, None)))
       (\<lambda>e. Return (None, Some e)))
   }"

text \<open>
  The global helper: the assignment in \<open>once.Do\<close> is not made when \<open>NewHelper\<close> panics, but the once is
  used up; a panic leaves the call with the globals it had otherwise.
\<close>

definition ssh_NewGlobalHelper ::
  "'w SshSdk \<Rightarrow> ssh_option list \<Rightarrow> (SshHelper globals \<times> 'w, go_error option outcome) state" where
  "ssh_NewGlobalHelper sdk opts = State (\<lambda>(g, w).
     if once_done g then (Return None, (g, w))
     else (case run_state (ssh_NewHelper sdk opts) w of
             (Panic p, w') \<Rightarrow> (Panic p, (g\<lparr>once_done := True\<rparr>, w'))
           | (Return (h, err), w') \<Rightarrow> (Return err, (g\<lparr>once_done := True, helper := h\<rparr>, w'))))"

definition ssh_GetGlobalHelper :: "SshHelper globals \<Rightarrow> SshHelper option" where
  "ssh_GetGlobalHelper g = helper g"

section \<open>Operations\<close>

definition ssh_Run :: "'w SshSdk \<Rightarrow> SshHelper \<Rightarrow> string \<Rightarrow> ('w, go_error option outcome) state" where
  "ssh_Run sdk h cmd =
     (if sp_SessionClient h = NilIface
      then State_Monad.return (Return (Some (ErrText ''session client is not initialized'')))
      else via (sp_SessionClient h) (\<lambda>s. session_Run sdk s cmd))"

definition closing :: "'w SshSdk \<Rightarrow> nat \<Rightarrow> ('w, 'r) state \<Rightarrow> ('w, 'r) state" where
  "closing sdk f body = do {
     r \<leftarrow> body;
     _ \<leftarrow> file_Close sdk f;
     State_Monad.return r
   }"

definition copy_into :: "'w SshSdk \<Rightarrow> nat \<Rightarrow> nat \<Rightarrow> ('w, go_error option outcome) state" where
  "copy_into sdk dstFile srcFile = closing sdk dstFile (do {
     (_, err) \<leftarrow> file_Copy sdk dstFile srcFile;
     State_Monad.return (Return err)
   })"

definition ssh_Copy :: "'w SshSdk \<Rightarrow> SshHelper \<Rightarrow> string \<Rightarrow> string \<Rightarrow> ('w, go_error option outcome) state" where
  "ssh_Copy sdk h srcPath dstPath = do {
     (srcFile, err) \<leftarrow> file_Open sdk srcPath;
     on_err err (closing sdk srcFile (do {
       r \<leftarrow> via (sp_SftpClient h) (\<lambda>c. sftp_Create sdk c dstPath);
       proceed r (\<lambda>(dstFile, err). on_err err (copy_into sdk dstFile srcFile) (\<lambda>e. Return (Some e)))
     })) (\<lambda>e. Return (Some e))
   }"

definition ssh_CopyFrom :: "'w SshSdk \<Rightarrow> SshHelper \<Rightarrow> string \<Rightarrow> string \<Rightarrow> ('w, go_error option outcome) state" where
  "ssh_CopyFrom sdk h srcPath dstPath = do {
     r \<leftarrow> via (sp_SftpClient h) (\<lambda>c. sftp_Open sdk c srcPath);
     proceed r (\<lambda>(srcFile, err). on_err err (closing sdk srcFile (do {
       (dstFile, err) \<leftarrow> file_Create sdk dstPath;
       on_err err (copy_into sdk dstFile srcFile) (\<lambda>e. Return (Some e))
     })) (\<lambda>e. Return (Some e)))
   }"

definition ssh_Close :: "'w SshSdk \<Rightarrow> SshHelper \<Rightarrow> ('w, unit outcome) state" where
  "ssh_Close sdk h = do {
     r \<leftarrow> (if sp_SessionClient h \<noteq> NilIface then via (sp_SessionClient h) (session_Close sdk)
          else State_Monad.return (Return None));
     proceed r (\<lambda>_. do {
       r \<leftarrow> (if sp_DialClient h \<noteq> NilIface then via (sp_DialClient h) (conn_Close sdk)
            else State_Monad.return (Return None));
       proceed r (\<lambda>_. case sp_SshClientPtr h of
         None \<Rightarrow> State_Monad.return (Return ())
       | Some c \<Rightarrow> do { _ \<leftarrow> conn_Close sdk c; State_Monad.return (Return ()) })
     })
   }"

end
