(* ===== verification/SshLaws.thy ===== *)
theory SshLaws
  imports Ssh
begin

text \<open>
  What package ssh promises: a helper \<open>NewHelper\<close> returns never makes its methods panic, in any order
  of use; and what it does not: a connection is kept open when a later step of \<open>NewHelper\<close> fails, and
  a helper runs one command only.
\<close>

section \<open>Using a helper\<close>

datatype ssh_op = OpRun string | OpCopy string string | OpCopyFrom string string | OpClose

fun ssh_exec :: "'w SshSdk \<Rightarrow> SshHelper \<Rightarrow> ssh_op \<Rightarrow> ('w, go_error option outcome) state" where
  "ssh_exec sdk h (OpRun cmd) = ssh_Run sdk h cmd"
| "ssh_exec sdk h (OpCopy src dst) = ssh_Copy sdk h src dst"
| "ssh_exec sdk h (OpCopyFrom src dst) = ssh_CopyFrom sdk h src dst"
| "ssh_exec sdk h OpClose = do {
     r \<leftarrow> ssh_Close sdk h;
     proceed r (\<lambda>_. State_Monad.return (Return None))
   }"

text \<open>
  A trace of a helper: the operations made one after the other, with their results. A caller goes on
  after an error, but not after a panic.
\<close>

inductive ssh_trace :: "'w SshSdk \<Rightarrow> SshHelper \<Rightarrow> 'w \<Rightarrow> ssh_op list \<Rightarrow> go_error option outcome list \<Rightarrow> 'w \<Rightarrow> bool"
  for sdk and h where
  stop: "ssh_trace sdk h w [] [] w"
| panic: "run_state (ssh_exec sdk h op) w = (Panic p, w') \<Longrightarrow> ssh_trace sdk h w (op # ops) [Panic p] w'"
| go: "run_state (ssh_exec sdk h op) w = (Return e, w') \<Longrightarrow> ssh_trace sdk h w' ops rs w'' \<Longrightarrow>
    ssh_trace sdk h w (op # ops) (Return e # rs) w''"

inductive_cases ssh_trace_NilE [elim!]: "ssh_trace sdk h w [] rs w'"

inductive_cases ssh_trace_ConsE: "ssh_trace sdk h w (op # ops) rs w'"

inductive_simps ssh_trace_Nil [simp]: "ssh_trace sdk h w [] rs w'"

definition connected :: "SshHelper \<Rightarrow> bool" where
  "connected h \<longleftrightarrow> (\<exists>c s f. sp_SshClientPtr h = Some c \<and> sp_DialClient h = Typed (Some c)
     \<and> sp_SessionClient h = Typed (Some s) \<and> sp_SftpClient h = Typed (Some f))"

text \<open>What the libraries document: a constructor that reports no error returns a pointer.\<close>

definition gives_pointers :: "'w SshSdk \<Rightarrow> bool" where
  "gives_pointers sdk \<longleftrightarrow>
     (\<forall>net host conf w p w'. run_state (ssh_Dial sdk net host conf) w = ((p, None), w') \<longrightarrow> p \<noteq> None)
     \<and> (\<forall>c w p w'. run_state (conn_NewSession sdk c) w = ((p, None), w') \<longrightarrow> p \<noteq> None)
     \<and> (\<forall>c w p w'. run_state (sftp_NewClient sdk c) w = ((p, None), w') \<longrightarrow> p \<noteq> None)"

lemma SetClients_connected:
  assumes "gives_pointers sdk" and "run_state (SetClients sdk h0) w = (Return (None, h), w')"
  shows "connected h"
proof -
  obtain conf p e v where dial: "run_state (ssh_Dial sdk ''tcp'' (so_Host (sp_Options h0)) conf) w = ((p, e), v)"
    and conf: "conf = \<lparr>cc_User = so_User (sp_Options h0), cc_Auth = [so_AuthMethod (sp_Options h0)],
      cc_HostKeyCallback = so_HostKeyCallback (sp_Options h0), cc_Timeout = so_Timeout (sp_Options h0)\<rparr>"
    by (metis prod.exhaust)
  have e: "e = None" using assms(2) dial conf by (cases e) (auto simp: SetClients_def Let_def)
  with dial assms(1) obtain c where c: "p = Some c" unfolding gives_pointers_def by blast
  obtain s e2 v2 where sess: "run_state (conn_NewSession sdk c) v = ((s, e2), v2)" by (metis prod.exhaust)
  have e2: "e2 = None" using assms(2) dial conf e c sess by (cases e2) (auto simp: SetClients_def Let_def)
  with sess assms(1) obtain s' where s: "s = Some s'" unfolding gives_pointers_def by blast
  obtain f e3 v3 where sftp: "run_state (sftp_NewClient sdk (Some c)) v2 = ((f, e3), v3)" by (metis prod.exhaust)
  have e3: "e3 = None" using assms(2) dial conf e c sess e2 s sftp by (auto simp: SetClients_def Let_def)
  with sftp assms(1) obtain f' where f: "f = Some f'" unfolding gives_pointers_def by blast
  show ?thesis
    using assms(2) dial conf e c sess e2 s sftp e3 f by (auto simp: SetClients_def Let_def connected_def)
qed

lemma run_closing [simp]: "run_state (closing sdk f body) w =
    (case run_state body w of (r, w') \<Rightarrow> (r, snd (run_state (file_Close sdk f) w')))"
  by (simp add: closing_def split: prod.splits)

lemma copy_into_returns: "\<exists>e w'. run_state (copy_into sdk d s) w = (Return e, w')"
  by (auto simp: copy_into_def split: prod.splits)

lemma connected_exec:
  assumes "connected h"
  shows "\<exists>e w'. run_state (ssh_exec sdk h op) w = (Return e, w')"
proof (cases op)
  case (OpRun cmd)
  with assms show ?thesis by (auto simp: connected_def ssh_Run_def split: prod.splits)
next
  case (OpCopy src dst)
  obtain f e v where "run_state (file_Open sdk src) w = ((f, e), v)" by (metis prod.exhaust)
  with OpCopy assms copy_into_returns [of sdk] show ?thesis
    by (cases e) (auto simp: connected_def ssh_Copy_def on_err_def split: prod.splits option.splits,
        (metis prod.inject)+)
next
  case (OpCopyFrom src dst)
  with assms copy_into_returns [of sdk] show ?thesis
    by (auto simp: connected_def ssh_CopyFrom_def on_err_def split: prod.splits option.splits)
      (metis prod.inject)+
next
  case OpClose
  with assms show ?thesis by (auto simp: connected_def ssh_Close_def split: prod.splits)
qed

text \<open>
  C10. A helper that \<open>NewHelper\<close> returned has all its clients, and whatever sequence of commands, copies
  and closings it is used for, in any order and after any errors, none of them panics: every
  operation of the sequence is made and returns.
\<close>

theorem NewHelper_never_panics:
  assumes "gives_pointers sdk" and "run_state (ssh_NewHelper sdk opts) w0 = (Return (Some h, None), w1)"
    and "ssh_trace sdk h w ops rs w'"
  shows "connected h \<and> length rs = length ops \<and> (\<forall>r \<in> set rs. \<exists>e. r = Return e)"
proof -
  from assms(2) have "\<exists>w2. run_state (SetClients sdk (ssh_new opts)) w0 = (Return (None, h), w2)"
    by (auto simp: ssh_NewHelper_def proceed_def on_err_def split: prod.splits outcome.splits option.splits)
  then have "connected h" using SetClients_connected [OF assms(1)] by blast
  with assms(3) show ?thesis
  proof (induction rule: ssh_trace.induct)
    case (panic op w p w' ops)
    with connected_exec [of h sdk op w] show ?case by auto
  qed auto
qed

text \<open>A network to try it on: it counts what is open, and a session runs one command.\<close>

record demo_net =
  dn_open :: nat
  dn_used :: bool

definition demo_ssh :: "bool \<Rightarrow> demo_net SshSdk" where
  "demo_ssh sftp = \<lparr>ssh_Dial = \<lambda>_ _ _. State (\<lambda>w. ((Some 1, None), w\<lparr>dn_open := dn_open w + 1\<rparr>)),
     conn_NewSession = \<lambda>_. State (\<lambda>w. ((Some 2, None), w\<lparr>dn_open := dn_open w + 1\<rparr>)),
     conn_Close = \<lambda>_. State (\<lambda>w. (None, w\<lparr>dn_open := 0\<rparr>)),
     session_Run = \<lambda>_ _. State (\<lambda>w. (if dn_used w then Some (ErrText ''ssh: session already started'') else None,
       w\<lparr>dn_used := True\<rparr>)),
     session_Close = \<lambda>_. State_Monad.return None,
     sftp_NewClient = \<lambda>_. State_Monad.return (if sftp then (Some 3, None)
       else (None, Some (ErrText ''ssh: subsystem request failed''))),
     sftp_Create = \<lambda>_ _. State_Monad.return (4, None), sftp_Open = \<lambda>_ _. State_Monad.return (5, None),
     file_Open = \<lambda>_. State_Monad.return (6, None), file_Create = \<lambda>_. State_Monad.return (7, None),
     file_Copy = \<lambda>_ _. State_Monad.return (0, None), file_Close = \<lambda>_. State_Monad.return ()\<rparr>"

definition demo_off :: demo_net where
  "demo_off = \<lparr>dn_open = 0, dn_used = False\<rparr>"

definition demo_connected :: SshHelper where
  "demo_connected = (ssh_new [])\<lparr>sp_SshClientPtr := Some 1, sp_DialClient := Typed (Some 1),
     sp_SessionClient := Typed (Some 2), sp_SftpClient := Typed (Some 3)\<rparr>"

lemma demo_NewHelper:
  "run_state (ssh_NewHelper (demo_ssh True) []) demo_off
     = (Return (Some demo_connected, None), \<lparr>dn_open = 2, dn_used = False\<rparr>)"
  by (simp add: ssh_NewHelper_def SetClients_def demo_ssh_def demo_off_def Let_def demo_connected_def)

lemma demo_gives_pointers: "gives_pointers (demo_ssh b)"
  by (auto simp: gives_pointers_def demo_ssh_def split: if_splits)

lemma demo_trace:
  "ssh_trace (demo_ssh True) demo_connected \<lparr>dn_open = 2, dn_used = False\<rparr>
     [OpRun ''ls'', OpRun ''ls'', OpClose, OpCopy ''a'' ''b'']
     [Return None, Return (Some (ErrText ''ssh: session already started'')), Return None, Return None]
     \<lparr>dn_open = 0, dn_used = True\<rparr>"
  by (intro ssh_trace.intros)
    (auto simp: ssh_Run_def ssh_Close_def ssh_Copy_def copy_into_def demo_ssh_def demo_connected_def)

lemma NewHelper_never_panics_witness:
  "connected demo_connected \<and> length [Return None, Return (Some (ErrText ''ssh: session already started'')),
     Return None, Return (None :: go_error option)] = 4"
  using NewHelper_never_panics [OF demo_gives_pointers demo_NewHelper demo_trace] by simp

text \<open>
  When the session or the SFTP client cannot be made, \<open>NewHelper\<close> returns the error and no helper, and
  leaves the world as that step left it: the connection it dialled, and the session, stay open with
  nobody to close them.
\<close>

theorem NewHelper_leaks_connection:
  assumes "conf = \<lparr>cc_User = so_User (ssh_initOptions opts), cc_Auth = [so_AuthMethod (ssh_initOptions opts)],
      cc_HostKeyCallback = so_HostKeyCallback (ssh_initOptions opts), cc_Timeout = so_Timeout (ssh_initOptions opts)\<rparr>"
    and "run_state (ssh_Dial sdk ''tcp'' (so_Host (ssh_initOptions opts)) conf) w = ((Some c, None), w1)"
  shows "(\<forall>s e w2. run_state (conn_NewSession sdk c) w1 = ((s, Some e), w2) \<longrightarrow>
      run_state (ssh_NewHelper sdk opts) w = (Return (None, Some e), w2))
    \<and> (\<forall>s w2 f e w3. run_state (conn_NewSession sdk c) w1 = ((s, None), w2) \<longrightarrow>
      run_state (sftp_NewClient sdk (Some c)) w2 = ((f, Some e), w3) \<longrightarrow>
      run_state (ssh_NewHelper sdk opts) w = (Return (None, Some e), w3))"
  using assms by (simp add: ssh_NewHelper_def SetClients_def ssh_new_def Let_def)

lemma NewHelper_leaks_connection_witness:
  "run_state (ssh_NewHelper (demo_ssh False) []) demo_off
     = (Return (None, Some (ErrText ''ssh: subsystem request failed'')), \<lparr>dn_open = 2, dn_used = False\<rparr>)"
  using NewHelper_leaks_connection [OF refl, of "demo_ssh False" "[]" demo_off 1 "\<lparr>dn_open = 1, dn_used = False\<rparr>"]
  by (simp add: demo_ssh_def demo_off_def)

text \<open>The rule of the library: a session runs one command, whatever becomes of it.\<close>

definition one_command :: "'w SshSdk \<Rightarrow> ('w \<Rightarrow> nat set) \<Rightarrow> bool" where
  "one_command sdk used \<longleftrightarrow> (\<forall>s cmd w. s \<in> used (snd (run_state (session_Run sdk s cmd) w))
     \<and> (s \<in> used w \<longrightarrow> fst (run_state (session_Run sdk s cmd) w) \<noteq> None))"

lemma runs_refused:
  assumes "one_command sdk used" and "sp_SessionClient h = Typed (Some s)"
    and "ssh_trace sdk h w (map OpRun cmds) rs w'" and "s \<in> used w"
  shows "Return None \<notin> set rs"
  using assms(3,4)
proof (induction cmds arbitrary: w rs)
  case Nil
  then show ?case by auto
next
  case (Cons cmd cmds)
  obtain e v where run: "run_state (session_Run sdk s cmd) w = (e, v)" by (metis prod.exhaust)
  from assms(1) [unfolded one_command_def, rule_format, of s cmd w] run Cons.prems(2)
  have ev: "e \<noteq> None" "s \<in> used v" by simp_all
  have "run_state (ssh_exec sdk h (OpRun cmd)) w = (Return e, v)"
    using assms(2) run by (simp add: ssh_Run_def)
  with Cons.prems(1) obtain rs' where "rs = Return e # rs'" "ssh_trace sdk h v (map OpRun cmds) rs' w'"
    by (auto elim!: ssh_trace_ConsE)
  with Cons.IH [of v rs'] ev show ?case by auto
qed

text \<open>
  C19. A helper runs one command: it keeps a single session, and the library lets a session run once, so
  of any sequence of \<open>Run\<close> calls only the first can succeed.
\<close>

theorem only_first_Run_succeeds:
  assumes "one_command sdk used" and "connected h" and "ssh_trace sdk h w (map OpRun cmds) rs w'"
  shows "Return None \<notin> set (tl rs)"
proof (cases cmds)
  case Nil
  with assms(3) show ?thesis by auto
next
  case (Cons cmd rest)
  obtain s where s: "sp_SessionClient h = Typed (Some s)" using assms(2) by (auto simp: connected_def)
  obtain e v where run: "run_state (session_Run sdk s cmd) w = (e, v)" by (metis prod.exhaust)
  from assms(1) [unfolded one_command_def, rule_format, of s cmd w] run have "s \<in> used v" by simp
  moreover have "run_state (ssh_exec sdk h (OpRun cmd)) w = (Return e, v)"
    using s run by (simp add: ssh_Run_def)
  with assms(3) Cons obtain rs' where "rs = Return e # rs'" "ssh_trace sdk h v (map OpRun rest) rs' w'"
    by (auto elim!: ssh_trace_ConsE)
  ultimately show ?thesis using runs_refused [OF assms(1) s] by auto
qed

lemma only_first_Run_succeeds_witness:
  "Return None \<notin> set (tl [Return None, Return (Some (ErrText ''ssh: session already started''))])"
proof (rule only_first_Run_succeeds)
  show "one_command (demo_ssh True) (\<lambda>w. if dn_used w then UNIV else {})"
    by (simp add: one_command_def demo_ssh_def)
  show "connected demo_connected" by (simp add: connected_def demo_connected_def)
  show "ssh_trace (demo_ssh True) demo_connected \<lparr>dn_open = 2, dn_used = False\<rparr> (map OpRun [''ls'', ''ls''])
      [Return None, Return (Some (ErrText ''ssh: session already started''))] \<lparr>dn_open = 2, dn_used = True\<rparr>"
    by (simp, intro ssh_trace.intros) (auto simp: ssh_Run_def demo_ssh_def demo_connected_def)
qed

end
