(* ===== verification/Mongo.thy ===== *)
theory Mongo
  imports Prelude Wait
begin

text \<open>
  Package mongo: the options, the connection, and the operations on collections, on the file store
  (GridFS) and on indexes. The driver is a parameter: a client answers for each database and
  collection, a bucket for each database. What is shown: no operation on a collection reaches the
  server without both names, the credentials are sent as configured, and an upload is reported as
  done whatever happens to it.
\<close>

section \<open>Options\<close>

record mongo_options =
  mo_Uri :: string
  mo_Host :: string
  mo_Port :: int
  mo_AuthEnable :: bool
  mo_AuthSource :: string
  mo_AuthUsername :: string
  mo_AuthPassword :: string
  mo_ReplicaSet :: string
  mo_Connect :: string
  mo_Database :: string
  mo_Collection :: string
  mo_Databases :: "string \<Rightarrow> string option"
  mo_Collections :: "string \<Rightarrow> string option"

type_synonym mongo_option = "mongo_options \<Rightarrow> mongo_options"

definition mongo_default :: mongo_options where
  "mongo_default = \<lparr>mo_Uri = [], mo_Host = [], mo_Port = 0, mo_AuthEnable = True, mo_AuthSource = [], mo_AuthUsername = [], mo_AuthPassword = [], mo_ReplicaSet = [], mo_Connect = [], mo_Database = [], mo_Collection = [], mo_Databases = Map.empty, mo_Collections = Map.empty\<rparr>"

definition mongo_Uri :: "string \<Rightarrow> mongo_option" where
  "mongo_Uri uri = (\<lambda>o1. o1\<lparr>mo_Uri := uri\<rparr>)"

definition mongo_Host :: "string \<Rightarrow> mongo_option" where
  "mongo_Host host = (\<lambda>o1. o1\<lparr>mo_Host := host\<rparr>)"

definition mongo_Port :: "int \<Rightarrow> mongo_option" where
  "mongo_Port port = (\<lambda>o1. o1\<lparr>mo_Port := port\<rparr>)"

definition mongo_ReplicaSet :: "string \<Rightarrow> mongo_option" where
  "mongo_ReplicaSet replicaSet = (\<lambda>o1. o1\<lparr>mo_ReplicaSet := replicaSet\<rparr>)"

definition mongo_Connect :: "string \<Rightarrow> mongo_option" where
  "mongo_Connect connect = (\<lambda>o1. o1\<lparr>mo_Connect := connect\<rparr>)"

definition mongo_Database :: "string \<Rightarrow> mongo_option" where
  "mongo_Database database = (\<lambda>o1. o1\<lparr>mo_Database := database\<rparr>)"

definition mongo_Collection :: "string \<Rightarrow> mongo_option" where
  "mongo_Collection collection = (\<lambda>o1. o1\<lparr>mo_Collection := collection\<rparr>)"

definition mongo_Databases :: "(string \<Rightarrow> string option) \<Rightarrow> mongo_option" where
  "mongo_Databases databases = (\<lambda>o1. o1\<lparr>mo_Databases := databases\<rparr>)"

definition mongo_Collections :: "(string \<Rightarrow> string option) \<Rightarrow> mongo_option" where
  "mongo_Collections collections = (\<lambda>o1. o1\<lparr>mo_Collections := collections\<rparr>)"

definition mongo_AuthEnable :: "bool \<Rightarrow> mongo_option" where
  "mongo_AuthEnable enable = (\<lambda>o1. o1\<lparr>mo_AuthEnable := enable\<rparr>)"

definition mongo_AuthSource :: "string \<Rightarrow> mongo_option" where
  "mongo_AuthSource source = (\<lambda>o1. o1\<lparr>mo_AuthSource := source\<rparr>)"

definition mongo_AuthUsername :: "string \<Rightarrow> mongo_option" where
  "mongo_AuthUsername username = (\<lambda>o1. o1\<lparr>mo_AuthUsername := username\<rparr>)"

definition mongo_AuthPassword :: "string \<Rightarrow> mongo_option" where
  "mongo_AuthPassword password = (\<lambda>o1. o1\<lparr>mo_AuthPassword := password\<rparr>)"

fun mongo_init_loop :: "mongo_options \<Rightarrow> mongo_option list \<Rightarrow> mongo_options" where
  "mongo_init_loop options [] = options"
| "mongo_init_loop options (o1 # opts) = mongo_init_loop (o1 options) opts"

definition mongo_initOptions :: "mongo_option list \<Rightarrow> mongo_options" where
  "mongo_initOptions opts = mongo_init_loop mongo_default opts"

lemma mongo_init_loop_eq: "mongo_init_loop o0 opts = apply_options opts o0"
  by (induction opts arbitrary: o0) simp_all

interpretation mongo_opts: func_options mongo_initOptions mongo_default
  by unfold_locales (simp_all add: mongo_initOptions_def mongo_init_loop_eq)

section \<open>The client\<close>

text \<open>
  The settings given to the driver: the URI, and the credentials (source, user, password) and replica
  set the code puts over what the URI says; \<open>None\<close> leaves what it says.
\<close>

record ClientOptions =
  co_Uri :: string
  co_Auth :: "(string \<times> string \<times> string) option"
  co_ReplicaSet :: "string option"

text \<open>A collection is its database and name; each call has the context it is made with.\<close>

type_synonym coll = "string \<times> string"

record 'w MongoClient =
  mc_Find :: "coll \<Rightarrow> ctx \<Rightarrow> json \<Rightarrow> json list \<Rightarrow> ('w, json option res) state"
  mc_FindOne :: "coll \<Rightarrow> ctx \<Rightarrow> json \<Rightarrow> ('w, json option) state"
  mc_CountDocuments :: "coll \<Rightarrow> ctx \<Rightarrow> json \<Rightarrow> ('w, int res) state"
  mc_InsertOne :: "coll \<Rightarrow> ctx \<Rightarrow> json \<Rightarrow> ('w, json option res) state"
  mc_InsertMany :: "coll \<Rightarrow> ctx \<Rightarrow> json list \<Rightarrow> ('w, json option res) state"
  mc_UpdateOne :: "coll \<Rightarrow> ctx \<Rightarrow> json \<Rightarrow> json \<Rightarrow> json list \<Rightarrow> ('w, json option res) state"
  mc_UpdateMany :: "coll \<Rightarrow> ctx \<Rightarrow> json \<Rightarrow> json \<Rightarrow> ('w, json option res) state"
  mc_DeleteOne :: "coll \<Rightarrow> ctx \<Rightarrow> json \<Rightarrow> ('w, json option res) state"
  mc_DeleteMany :: "coll \<Rightarrow> ctx \<Rightarrow> json \<Rightarrow> ('w, json option res) state"
  mc_Aggregate :: "coll \<Rightarrow> ctx \<Rightarrow> json \<Rightarrow> json list \<Rightarrow> ('w, json option res) state"
  mc_BulkWrite :: "coll \<Rightarrow> ctx \<Rightarrow> json list \<Rightarrow> json list \<Rightarrow> ('w, json option res) state"
  mc_CreateIndex :: "coll \<Rightarrow> ctx \<Rightarrow> json \<Rightarrow> int \<Rightarrow> ('w, string res) state"
  mc_ListCollectionNames :: "string \<Rightarrow> ctx \<Rightarrow> json \<Rightarrow> ('w, string list res) state"
  mc_StartSession :: "('w, json option res) state"
  mc_Disconnect :: "ctx \<Rightarrow> ('w, go_error option) state"
  mc_NewBucket :: "string \<Rightarrow> ('w, json res) state"
  bk_OpenUploadStream :: "json \<Rightarrow> string \<Rightarrow> json list \<Rightarrow> ('w, json res) state"
  bk_Copy :: "json \<Rightarrow> json \<Rightarrow> ('w, int res) state"
  bk_CloseStream :: "json \<Rightarrow> ('w, go_error option) state"
  bk_Find :: "json \<Rightarrow> json \<Rightarrow> json list \<Rightarrow> ('w, json res) state"
  bk_All :: "json \<Rightarrow> ctx \<Rightarrow> ('w, json list res) state"
  bk_DownloadToStream :: "json \<Rightarrow> json \<Rightarrow> ('w, string res) state"
  bk_Delete :: "json \<Rightarrow> json \<Rightarrow> ('w, go_error option) state"

record 'w MongoHelper =
  mh_Client :: "'w MongoClient option"
  mh_Options :: mongo_options

type_synonym 'w mongo_Connect = "ctx \<Rightarrow> ClientOptions \<Rightarrow> ('w, 'w MongoClient option res) state"

definition SetMongoClient ::
  "'w mongo_Connect \<Rightarrow> 'w MongoHelper \<Rightarrow> ('w, go_error option \<times> 'w MongoHelper) state" where
  "SetMongoClient Connect h =
     (let o1 = mh_Options h;
          opt = \<lparr>co_Uri = mo_Uri o1,
            co_Auth = (if mo_AuthEnable o1
              then Some (mo_AuthSource o1, mo_AuthUsername o1, mo_AuthPassword o1) else None),
            co_ReplicaSet = (if mo_ReplicaSet o1 \<noteq> [] then Some (mo_ReplicaSet o1) else None)\<rparr>
      in do {
        (mongoCli, err) \<leftarrow> Connect Background opt;
        on_err err (State_Monad.return (None, h\<lparr>mh_Client := mongoCli\<rparr>)) (\<lambda>e. (Some e, h))
      })"

definition mongo_NewHelper ::
  "'w mongo_Connect \<Rightarrow> mongo_option list \<Rightarrow> ('w, 'w MongoHelper option res) state" where
  "mongo_NewHelper Connect opts = do {
     (err, h) \<leftarrow> SetMongoClient Connect \<lparr>mh_Client = None, mh_Options = mongo_initOptions opts\<rparr>;
     on_err err (State_Monad.return (Some h, None)) (\<lambda>e. (None, Some e))
   }"

definition mongo_NewGlobalHelper ::
  "'w mongo_Connect \<Rightarrow> mongo_option list \<Rightarrow> ('w MongoHelper globals \<times> 'w, go_error option) state" where
  "mongo_NewGlobalHelper Connect opts = do {
     err \<leftarrow> once_Do (mongo_NewHelper Connect opts);
     on_err err (State_Monad.return None) Some
   }"

definition mongo_GetGlobalHelper :: "'w MongoHelper globals \<Rightarrow> 'w MongoHelper option" where
  "mongo_GetGlobalHelper g = helper g"

interpretation mongo_global: global_helper
  "mongo_NewGlobalHelper Connect" "mongo_NewHelper Connect" mongo_GetGlobalHelper
  by unfold_locales
    (auto simp: mongo_NewGlobalHelper_def mongo_GetGlobalHelper_def on_err_def split: option.splits)

section \<open>Databases and collections\<close>

definition NewDBCli :: "'w MongoHelper \<Rightarrow> string \<Rightarrow> ('w MongoClient \<times> string) option res outcome" where
  "NewDBCli h db =
     (if db = [] then Return (None, Some (ErrText (''db is nil. value: db('' @ db @ '')'')))
      else (case mh_Client h of None \<Rightarrow> Panic NilDereference | Some c \<Rightarrow> Return (Some (c, db), None)))"

definition names_error :: "string \<Rightarrow> string \<Rightarrow> go_error" where
  "names_error db coll = ErrText (''db or coll is nil or both are nil. values: db('' @ db @ ''); coll('' @ coll @ '')'')"

definition NewCollCli :: "'w MongoHelper \<Rightarrow> string \<Rightarrow> string \<Rightarrow> ('w MongoClient \<times> coll) option res outcome" where
  "NewCollCli h db coll =
     (if db = [] \<or> coll = [] then Return (None, Some (names_error db coll))
      else (case mh_Client h of None \<Rightarrow> Panic NilDereference | Some c \<Rightarrow> Return (Some (c, (db, coll)), None)))"

definition NewTxnCli :: "'w MongoHelper \<Rightarrow> ('w, json option res outcome) state" where
  "NewTxnCli h = do {
     r \<leftarrow> on_client (mh_Client h) mc_StartSession;
     proceed r (\<lambda>(s, err). on_err err (State_Monad.return (Return (s, None))) (\<lambda>e. Return (None, Some e)))
   }"

text \<open>The beginning of every operation on a collection, and the operation with the client it gives.\<close>

definition in_coll :: "'w MongoHelper \<Rightarrow> string \<Rightarrow> string \<Rightarrow> (go_error \<Rightarrow> 'r)
    \<Rightarrow> ('w MongoClient \<Rightarrow> coll \<Rightarrow> ('w, 'r) state) \<Rightarrow> ('w, 'r outcome) state" where
  "in_coll h db coll bad op = proceed (NewCollCli h db coll) (\<lambda>(c, err). on_err err
     (deref c (\<lambda>(c, cl). on_client (Some c) (\<lambda>c. op c cl))) (\<lambda>e. Return (bad e)))"

definition mongo_Insert ::
  "'w MongoHelper \<Rightarrow> string \<Rightarrow> string \<Rightarrow> json \<Rightarrow> ('w, go_error option outcome) state" where
  "mongo_Insert h db coll doc = in_coll h db coll Some (\<lambda>c cl. only_err (mc_InsertOne c cl (ctx_seconds 5) doc))"

definition mongo_InsertMany ::
  "'w MongoHelper \<Rightarrow> string \<Rightarrow> string \<Rightarrow> json list \<Rightarrow> ('w, go_error option outcome) state" where
  "mongo_InsertMany h db coll docs = in_coll h db coll Some (\<lambda>c cl. only_err (mc_InsertMany c cl (ctx_seconds 10) docs))"

definition mongo_UpdateOne ::
  "'w MongoHelper \<Rightarrow> string \<Rightarrow> string \<Rightarrow> json \<Rightarrow> json \<Rightarrow> json list \<Rightarrow> ('w, go_error option outcome) state" where
  "mongo_UpdateOne h db coll selector doc opts = in_coll h db coll Some (\<lambda>c cl. only_err (mc_UpdateOne c cl (ctx_seconds 5) selector doc opts))"

definition mongo_UpdateMany ::
  "'w MongoHelper \<Rightarrow> string \<Rightarrow> string \<Rightarrow> json \<Rightarrow> json \<Rightarrow> ('w, go_error option outcome) state" where
  "mongo_UpdateMany h db coll selector doc = in_coll h db coll Some (\<lambda>c cl. only_err (mc_UpdateMany c cl (ctx_seconds 5) selector doc))"

definition mongo_DeleteOne ::
  "'w MongoHelper \<Rightarrow> string \<Rightarrow> string \<Rightarrow> json \<Rightarrow> ('w, go_error option outcome) state" where
  "mongo_DeleteOne h db coll selector = in_coll h db coll Some (\<lambda>c cl. only_err (mc_DeleteOne c cl (ctx_seconds 5) selector))"

definition mongo_DeleteAll ::
  "'w MongoHelper \<Rightarrow> string \<Rightarrow> string \<Rightarrow> json \<Rightarrow> ('w, go_error option outcome) state" where
  "mongo_DeleteAll h db coll selector = in_coll h db coll Some (\<lambda>c cl. only_err (mc_DeleteMany c cl (ctx_seconds 5) selector))"

definition mongo_BulkWrite ::
  "'w MongoHelper \<Rightarrow> string \<Rightarrow> string \<Rightarrow> json list \<Rightarrow> json list \<Rightarrow> ('w, go_error option outcome) state" where
  "mongo_BulkWrite h db coll models opts = in_coll h db coll Some (\<lambda>c cl. only_err (mc_BulkWrite c cl (ctx_seconds 5) models opts))"

definition CreateExpirationIndex ::
  "'w MongoHelper \<Rightarrow> string \<Rightarrow> string \<Rightarrow> json \<Rightarrow> int \<Rightarrow> ('w, go_error option outcome) state" where
  "CreateExpirationIndex h db coll keys seconds = in_coll h db coll Some (\<lambda>c cl. only_err (mc_CreateIndex c cl (ctx_seconds 5) keys seconds))"

definition GetQueryCursor ::
  "'w MongoHelper \<Rightarrow> string \<Rightarrow> string \<Rightarrow> json \<Rightarrow> json list \<Rightarrow> ('w, json option res outcome) state" where
  "GetQueryCursor h db coll query opts = in_coll h db coll (\<lambda>e. (None, Some e)) (\<lambda>c cl. do {
     (cursor, err) \<leftarrow> mc_Find c cl Background query opts;
     on_err err (State_Monad.return (cursor, None)) (\<lambda>e. (None, Some e))
   })"

definition mongo_Get ::
  "'w MongoHelper \<Rightarrow> string \<Rightarrow> string \<Rightarrow> json \<Rightarrow> ('w, json option res outcome) state" where
  "mongo_Get h db coll selector = in_coll h db coll (\<lambda>e. (None, Some e)) (\<lambda>c cl. do {
     result \<leftarrow> mc_FindOne c cl (ctx_seconds 5) selector;
     State_Monad.return (result, None)
   })"

definition GetCount :: "'w MongoHelper \<Rightarrow> string \<Rightarrow> string \<Rightarrow> json \<Rightarrow> ('w, int res outcome) state" where
  "GetCount h db coll selector = in_coll h db coll (\<lambda>e. (0, Some e)) (\<lambda>c cl. do {
     (count, err) \<leftarrow> mc_CountDocuments c cl (ctx_seconds 5) selector;
     on_err err (State_Monad.return (count, None)) (\<lambda>e. (0, Some e))
   })"

definition mongo_Aggregate ::
  "'w MongoHelper \<Rightarrow> string \<Rightarrow> string \<Rightarrow> json \<Rightarrow> json list \<Rightarrow> ('w, json option res outcome) state" where
  "mongo_Aggregate h db coll stages opts =
     in_coll h db coll (\<lambda>e. (None, Some e)) (\<lambda>c cl. mc_Aggregate c cl (ctx_seconds 5) stages opts)"

definition GetAllCollections :: "'w MongoHelper \<Rightarrow> string \<Rightarrow> ('w, string list res outcome) state" where
  "GetAllCollections h db = proceed (NewDBCli h db) (\<lambda>(c, err). on_err err
     (deref c (\<lambda>(c, db). on_client (Some c) (\<lambda>c. do {
        (collections, err) \<leftarrow> mc_ListCollectionNames c db (ctx_seconds 5) (JObj []);
        on_err err (State_Monad.return (collections, None)) (\<lambda>e. ([], Some e))
      }))) (\<lambda>e. Return ([], Some e)))"

section \<open>Files\<close>

text \<open>The database of a bucket is not checked.\<close>

definition NewGridFSCli :: "'w MongoHelper \<Rightarrow> string \<Rightarrow> ('w, json res outcome) state" where
  "NewGridFSCli h db = on_client (mh_Client h) (\<lambda>c. mc_NewBucket c db)"

definition in_bucket :: "'w MongoHelper \<Rightarrow> string \<Rightarrow> (go_error \<Rightarrow> 'r)
    \<Rightarrow> ('w MongoClient \<Rightarrow> json \<Rightarrow> ('w, 'r) state) \<Rightarrow> ('w, 'r outcome) state" where
  "in_bucket h db bad op = do {
     r \<leftarrow> NewGridFSCli h db;
     proceed r (\<lambda>(b, err). on_err err (on_client (mh_Client h) (\<lambda>c. op c b)) (\<lambda>e. Return (bad e)))
   }"

definition UploadFile ::
  "'w MongoHelper \<Rightarrow> string \<Rightarrow> string \<Rightarrow> json \<Rightarrow> json list \<Rightarrow> ('w, go_error option outcome) state" where
  "UploadFile h db filename file opts = in_bucket h db (\<lambda>_. None) (\<lambda>c b. do {
     (uploadStream, err) \<leftarrow> bk_OpenUploadStream c b filename opts;
     on_err err (do {
       (_, err) \<leftarrow> bk_Copy c uploadStream file;
       let r = (if err \<noteq> None then None else None);
       _ \<leftarrow> bk_CloseStream c uploadStream;
       State_Monad.return r
     }) (\<lambda>_. None)
   })"

definition FindFile ::
  "'w MongoHelper \<Rightarrow> string \<Rightarrow> json \<Rightarrow> json list \<Rightarrow> ('w, json list res outcome) state" where
  "FindFile h db selector opts = in_bucket h db (\<lambda>e. ([], Some e)) (\<lambda>c b. do {
     (cursor, err) \<leftarrow> bk_Find c b selector opts;
     on_err err (do {
       (files, err) \<leftarrow> bk_All c cursor Background;
       on_err err (State_Monad.return (files, None)) (\<lambda>e. ([], Some e))
     }) (\<lambda>e. ([], Some e))
   })"

definition DownloadFile :: "'w MongoHelper \<Rightarrow> string \<Rightarrow> json \<Rightarrow> ('w, string res outcome) state" where
  "DownloadFile h db fileID = in_bucket h db (\<lambda>e. ([], Some e)) (\<lambda>c b. do {
     (buf, err) \<leftarrow> bk_DownloadToStream c b fileID;
     on_err err (State_Monad.return (buf, None)) (\<lambda>e. ([], Some e))
   })"

definition DeleteFile :: "'w MongoHelper \<Rightarrow> string \<Rightarrow> json \<Rightarrow> ('w, go_error option outcome) state" where
  "DeleteFile h db fileID = in_bucket h db Some (\<lambda>c b. bk_Delete c b fileID)"

definition mongo_Close :: "'w MongoHelper \<Rightarrow> ('w, unit) state" where
  "mongo_Close h = (case mh_Client h of
       None \<Rightarrow> State_Monad.return ()
     | Some c \<Rightarrow> do { _ \<leftarrow> mc_Disconnect c Background; State_Monad.return () })"

section \<open>Properties\<close>

lemma in_coll_nameless:
  assumes "db = [] \<or> coll = []"
  shows "run_state (in_coll h db coll bad op) w = (Return (bad (names_error db coll)), w)"
  using assms by (simp add: in_coll_def NewCollCli_def)

text \<open>
  C33. No operation on a collection reaches the server when the database or the collection has no name:
  all twelve return the error that shows the two names, and change nothing, whatever the client is.
\<close>

theorem nameless_collections_refused:
  assumes "db = [] \<or> coll = []"
  shows "run_state (mongo_Insert h db coll d) w = (Return (Some (names_error db coll)), w)
    \<and> run_state (mongo_InsertMany h db coll ds) w = (Return (Some (names_error db coll)), w)
    \<and> run_state (mongo_UpdateOne h db coll q d os) w = (Return (Some (names_error db coll)), w)
    \<and> run_state (mongo_UpdateMany h db coll q d) w = (Return (Some (names_error db coll)), w)
    \<and> run_state (mongo_DeleteOne h db coll q) w = (Return (Some (names_error db coll)), w)
    \<and> run_state (mongo_DeleteAll h db coll q) w = (Return (Some (names_error db coll)), w)
    \<and> run_state (mongo_BulkWrite h db coll ds os) w = (Return (Some (names_error db coll)), w)
    \<and> run_state (CreateExpirationIndex h db coll q n) w = (Return (Some (names_error db coll)), w)
    \<and> run_state (GetQueryCursor h db coll q os) w = (Return (None, Some (names_error db coll)), w)
    \<and> run_state (mongo_Get h db coll q) w = (Return (None, Some (names_error db coll)), w)
    \<and> run_state (GetCount h db coll q) w = (Return (0, Some (names_error db coll)), w)
    \<and> run_state (mongo_Aggregate h db coll q os) w = (Return (None, Some (names_error db coll)), w)"
  using assms
  by (simp add: mongo_Insert_def mongo_InsertMany_def mongo_UpdateOne_def mongo_UpdateMany_def
      mongo_DeleteOne_def mongo_DeleteAll_def mongo_BulkWrite_def CreateExpirationIndex_def
      GetQueryCursor_def mongo_Get_def GetCount_def mongo_Aggregate_def in_coll_nameless)

lemma nameless_collections_refused_witness:
  "\<forall>w :: nat. run_state (GetCount \<lparr>mh_Client = None, mh_Options = mongo_default\<rparr> ''cos'' [] JNull) w
     = (Return (0, Some (names_error ''cos'' [])), w)"
  by (simp add: nameless_collections_refused)

text \<open>
  \<open>UploadFile\<close> reports success whatever happens: with a client it always returns nil, also when the
  bucket cannot be opened, the upload cannot be started or the copy breaks off.
\<close>

theorem UploadFile_hides_failures:
  assumes "mh_Client h = Some c"
  shows "(\<exists>w'. run_state (UploadFile h db filename file opts) w = (Return None, w'))
    \<and> (\<forall>b e w1. run_state (mc_NewBucket c db) w = ((b, Some e), w1) \<longrightarrow>
      run_state (UploadFile h db filename file opts) w = (Return None, w1))
    \<and> (\<forall>b w1 s e w2. run_state (mc_NewBucket c db) w = ((b, None), w1) \<longrightarrow>
      run_state (bk_OpenUploadStream c b filename opts) w1 = ((s, Some e), w2) \<longrightarrow>
      run_state (UploadFile h db filename file opts) w = (Return None, w2))"
  using assms
  by (auto simp: UploadFile_def in_bucket_def NewGridFSCli_def on_err_def split: prod.splits option.splits)

text \<open>A server that answers nothing: every call fails with the same error; calls are counted.\<close>

definition down_error :: go_error where
  "down_error = Sentinel ''server selection timeout''"

definition down_call :: "'a \<Rightarrow> (nat, 'a res) state" where
  "down_call x = State (\<lambda>n. ((x, Some down_error), Suc n))"

definition down_only :: "(nat, go_error option) state" where
  "down_only = State (\<lambda>n. (Some down_error, Suc n))"

definition down_client :: "nat MongoClient" where
  "down_client = \<lparr>mc_Find = \<lambda>_ _ _ _. down_call None, mc_FindOne = \<lambda>_ _ _. State_Monad.return None,
     mc_CountDocuments = \<lambda>_ _ _. down_call 0, mc_InsertOne = \<lambda>_ _ _. down_call None,
     mc_InsertMany = \<lambda>_ _ _. down_call None, mc_UpdateOne = \<lambda>_ _ _ _ _. down_call None,
     mc_UpdateMany = \<lambda>_ _ _ _. down_call None, mc_DeleteOne = \<lambda>_ _ _. down_call None,
     mc_DeleteMany = \<lambda>_ _ _. down_call None, mc_Aggregate = \<lambda>_ _ _ _. down_call None,
     mc_BulkWrite = \<lambda>_ _ _ _. down_call None, mc_CreateIndex = \<lambda>_ _ _ _. down_call [],
     mc_ListCollectionNames = \<lambda>_ _ _. down_call [], mc_StartSession = down_call None,
     mc_Disconnect = \<lambda>_. down_only, mc_NewBucket = \<lambda>_. down_call JNull,
     bk_OpenUploadStream = \<lambda>_ _ _. down_call JNull, bk_Copy = \<lambda>_ _. down_call 0,
     bk_CloseStream = \<lambda>_. down_only, bk_Find = \<lambda>_ _ _. down_call JNull,
     bk_All = \<lambda>_ _. down_call [], bk_DownloadToStream = \<lambda>_ _. down_call [],
     bk_Delete = \<lambda>_ _. down_only\<rparr>"

lemma UploadFile_hides_failures_witness:
  "run_state (UploadFile \<lparr>mh_Client = Some down_client, mh_Options = mongo_default\<rparr>
      ''images'' ''disk.qcow2'' JNull []) 0 = (Return None, 1)"
  by (rule UploadFile_hides_failures [of _ down_client, THEN conjunct2, THEN conjunct1, rule_format,
        where b = JNull and e = down_error]) (simp_all add: down_client_def down_call_def)

end
