(* ===== verification/Harbor.thy ===== *)
theory Harbor
  imports Prelude Wait
begin

text \<open>
  Package harbor: a helper over the project and user clients of the Harbor SDK, which is a parameter.
  Shown: the configured user name and password reach the SDK exchanged, and every operation is one
  call within thirty seconds, the two role operations differing in the flag alone.
\<close>

section \<open>Options\<close>

record harbor_options =
  ho_Url :: string
  ho_Username :: string
  ho_Password :: string
  ho_InsecureSkipVerify :: bool

type_synonym harbor_option = "harbor_options \<Rightarrow> harbor_options"

definition harbor_zero :: harbor_options where
  "harbor_zero = \<lparr>ho_Url = [], ho_Username = [], ho_Password = [], ho_InsecureSkipVerify = False\<rparr>"

definition harbor_Url :: "string \<Rightarrow> harbor_option" where
  "harbor_Url url = (\<lambda>o1. o1\<lparr>ho_Url := url\<rparr>)"

definition harbor_Username :: "string \<Rightarrow> harbor_option" where
  "harbor_Username username = (\<lambda>o1. o1\<lparr>ho_Username := username\<rparr>)"

definition harbor_Password :: "string \<Rightarrow> harbor_option" where
  "harbor_Password password = (\<lambda>o1. o1\<lparr>ho_Password := password\<rparr>)"

definition harbor_InsecureSkipVerify :: "bool \<Rightarrow> harbor_option" where
  "harbor_InsecureSkipVerify enabled = (\<lambda>o1. o1\<lparr>ho_InsecureSkipVerify := enabled\<rparr>)"

fun harbor_init_loop :: "harbor_options \<Rightarrow> harbor_option list \<Rightarrow> harbor_options" where
  "harbor_init_loop options [] = options"
| "harbor_init_loop options (o1 # opts) = harbor_init_loop (o1 options) opts"

definition harbor_initOptions :: "harbor_option list \<Rightarrow> harbor_options" where
  "harbor_initOptions opts = harbor_init_loop harbor_zero opts"

lemma harbor_init_loop_eq: "harbor_init_loop o0 opts = apply_options opts o0"
  by (induction opts arbitrary: o0) simp_all

interpretation harbor_opts: func_options harbor_initOptions harbor_zero
  by unfold_locales (simp_all add: harbor_initOptions_def harbor_init_loop_eq)

section \<open>The clients\<close>

record ClientSetConfig =
  cs_URL :: string
  cs_Password :: string
  cs_Username :: string
  cs_Insecure :: bool

record ProjectReq =
  pr_ProjectName :: string
  pr_Public :: string

record UserCreationReq =
  uc_Username :: string
  uc_Password :: string
  uc_Realname :: string
  uc_Email :: string

record ('w, 'a) ProjectCli =
  pc_CreateProject :: "ctx \<Rightarrow> ProjectReq \<Rightarrow> ('w, 'a option res) state"

record ('w, 'a) UserCli =
  us_CreateUser :: "ctx \<Rightarrow> UserCreationReq \<Rightarrow> ('w, 'a option res) state"
  us_ListUsers :: "ctx \<Rightarrow> int \<Rightarrow> int \<Rightarrow> ('w, 'a option res) state"
  us_SetUserSysAdmin :: "ctx \<Rightarrow> int \<Rightarrow> bool \<Rightarrow> ('w, 'a option res) state"

record ('w, 'a) HarborHelper =
  hh_ProjectCli :: "('w, 'a) ProjectCli"
  hh_UserCli :: "('w, 'a) UserCli"
  hh_Options :: harbor_options

type_synonym ('w, 'a) NewClientSet =
  "ClientSetConfig \<Rightarrow> ('w, (('w, 'a) ProjectCli \<times> ('w, 'a) UserCli) res) state"

text \<open>The fields are filled as the code fills them: the password is the user name and conversely.\<close>

definition harbor_NewHelper ::
  "('w, 'a) NewClientSet \<Rightarrow> harbor_option list \<Rightarrow> ('w, ('w, 'a) HarborHelper option res) state" where
  "harbor_NewHelper NewClientSet opts =
     (let initedOpts = harbor_initOptions opts in do {
        ((projectCli, userCli), err) \<leftarrow> NewClientSet
          \<lparr>cs_URL = ho_Url initedOpts, cs_Password = ho_Username initedOpts,
           cs_Username = ho_Password initedOpts, cs_Insecure = ho_InsecureSkipVerify initedOpts\<rparr>;
        on_err err
          (State_Monad.return (Some \<lparr>hh_ProjectCli = projectCli, hh_UserCli = userCli, hh_Options = initedOpts\<rparr>, None))
          (\<lambda>e. (None, Some e))
      })"

definition harbor_NewGlobalHelper ::
  "('w, 'a) NewClientSet \<Rightarrow> harbor_option list \<Rightarrow> (('w, 'a) HarborHelper globals \<times> 'w, go_error option) state" where
  "harbor_NewGlobalHelper NewClientSet opts = do {
     err \<leftarrow> once_Do (harbor_NewHelper NewClientSet opts);
     on_err err (State_Monad.return None) Some
   }"

definition harbor_GetGlobalHelper :: "('w, 'a) HarborHelper globals \<Rightarrow> ('w, 'a) HarborHelper option" where
  "harbor_GetGlobalHelper g = helper g"

interpretation harbor_global: global_helper
  "harbor_NewGlobalHelper NewClientSet " "\<lambda>opts. harbor_NewHelper NewClientSet opts" harbor_GetGlobalHelper
  by unfold_locales
    (auto simp: harbor_NewGlobalHelper_def harbor_GetGlobalHelper_def on_err_def split: option.splits)

section \<open>Projects and users\<close>

definition harbor_CreateProject :: "('w, 'a) HarborHelper \<Rightarrow> string \<Rightarrow> ('w, 'a option res) state" where
  "harbor_CreateProject h name =
     pc_CreateProject (hh_ProjectCli h) (ctx_seconds 30) \<lparr>pr_ProjectName = name, pr_Public = ''true''\<rparr>"

definition harbor_CreateUser ::
  "('w, 'a) HarborHelper \<Rightarrow> string \<Rightarrow> string \<Rightarrow> string \<Rightarrow> ('w, 'a option res) state" where
  "harbor_CreateUser h username password email =
     us_CreateUser (hh_UserCli h) (ctx_seconds 30)
       \<lparr>uc_Username = username, uc_Password = password, uc_Realname = username, uc_Email = email\<rparr>"

definition harbor_SetUserSysAdmin :: "('w, 'a) HarborHelper \<Rightarrow> int \<Rightarrow> ('w, 'a option res) state" where
  "harbor_SetUserSysAdmin h userId = us_SetUserSysAdmin (hh_UserCli h) (ctx_seconds 30) userId True"

definition RevokeUserSysAdmin :: "('w, 'a) HarborHelper \<Rightarrow> int \<Rightarrow> ('w, 'a option res) state" where
  "RevokeUserSysAdmin h userId = us_SetUserSysAdmin (hh_UserCli h) (ctx_seconds 30) userId False"

definition harbor_ListUsers :: "('w, 'a) HarborHelper \<Rightarrow> int \<Rightarrow> int \<Rightarrow> ('w, 'a option res) state" where
  "harbor_ListUsers h page n = us_ListUsers (hh_UserCli h) (ctx_seconds 30) page n"

section \<open>Properties\<close>

text \<open>
  The user name given last becomes the password of the client, and the password given last its
  user name, whatever the other options are and whatever the client set answers.
\<close>

theorem harbor_credentials_exchanged:
  assumes "\<And>opt o1. opt \<in> set rest \<Longrightarrow> ho_Username (opt o1) = ho_Username o1 \<and> ho_Password (opt o1) = ho_Password o1"
    and "\<And>c. run_state (NewClientSet c) w = (if (cs_Username c, cs_Password c) = (user, password)
      then ((clients, None), ok) else ((clients, Some refused), bad))"
    and "user \<noteq> password"
  shows "run_state (harbor_NewHelper NewClientSet ([harbor_Username user, harbor_Password password] @ rest)) w
      = ((None, Some refused), bad)
    \<and> (\<exists>h. run_state (harbor_NewHelper NewClientSet ([harbor_Username password, harbor_Password user] @ rest)) w
      = ((Some h, None), ok))"
proof -
  have u: "ho_Username (apply_options rest o0) = ho_Username o0" for o0
    by (rule apply_options_frame) (use assms(1) in blast)
  have p: "ho_Password (apply_options rest o0) = ho_Password o0" for o0
    by (rule apply_options_frame) (use assms(1) in blast)
  obtain pc uc where "clients = (pc, uc)" by (cases clients)
  then show ?thesis
    using assms(3) by (simp add: harbor_NewHelper_def harbor_opts.init_eq u p harbor_Username_def
        harbor_Password_def assms(2) Let_def harbor_zero_def)
qed

definition strict_harbor :: "(nat, nat) NewClientSet" where
  "strict_harbor = (\<lambda>c. State (\<lambda>n.
     let clients = (\<lparr>pc_CreateProject = \<lambda>_ _. State_Monad.return (None, None)\<rparr>,
       \<lparr>us_CreateUser = \<lambda>_ _. State_Monad.return (None, None),
        us_ListUsers = \<lambda>_ _ _. State_Monad.return (None, None),
        us_SetUserSysAdmin = \<lambda>_ _ _. State_Monad.return (None, None)\<rparr>)
     in if (cs_Username c, cs_Password c) = (''admin'', ''Harbor12345'') then ((clients, None), Suc n)
        else ((clients, Some (APIError 401 ''unauthorized'')), n)))"

lemma harbor_credentials_exchanged_witness:
  "run_state (harbor_NewHelper strict_harbor
      ([harbor_Username ''admin'', harbor_Password ''Harbor12345''] @ [harbor_Url ''https://reg''])) 0
    = ((None, Some (APIError 401 ''unauthorized'')), 0)"
  by (rule harbor_credentials_exchanged [where ok = 1, THEN conjunct1])
    (auto simp: strict_harbor_def Let_def harbor_Url_def)

end
