(* ===== verification/Influx.thy ===== *)
theory Influx
  imports Prelude Wait GoStrings
begin

text \<open>
  Package influx: the options, the helper over the InfluxDB client (a parameter), and the builder of
  Flux queries. Shown: the text of a query is its stages in the order of the calls, parameters are
  pasted without escaping, so that a parameter can hold whole stages, and the package-level query
  panics exactly until a global helper is made.
\<close>

section \<open>Options\<close>

record influx_auth =
  ia_Token :: string

record influx_options =
  io_Url :: string
  io_Protocol :: string
  io_Host :: string
  io_Port :: int
  io_Org :: string
  io_Auth :: influx_auth
  io_TlsInsecureSkipVerify :: bool
  io_Timeout :: nat

type_synonym influx_option = "influx_options \<Rightarrow> influx_options"

definition influx_zero :: influx_options where
  "influx_zero = \<lparr>io_Url = [], io_Protocol = [], io_Host = [], io_Port = 0, io_Org = [], io_Auth = \<lparr>ia_Token = []\<rparr>, io_TlsInsecureSkipVerify = False, io_Timeout = 0\<rparr>"

definition influx_Url :: "string \<Rightarrow> influx_option" where
  "influx_Url url = (\<lambda>o1. o1\<lparr>io_Url := url\<rparr>)"

definition influx_Protocol :: "string \<Rightarrow> influx_option" where
  "influx_Protocol protocol = (\<lambda>o1. o1\<lparr>io_Protocol := protocol\<rparr>)"

definition influx_Host :: "string \<Rightarrow> influx_option" where
  "influx_Host host = (\<lambda>o1. o1\<lparr>io_Host := host\<rparr>)"

definition influx_Port :: "int \<Rightarrow> influx_option" where
  "influx_Port port = (\<lambda>o1. o1\<lparr>io_Port := port\<rparr>)"

definition influx_Org :: "string \<Rightarrow> influx_option" where
  "influx_Org org = (\<lambda>o1. o1\<lparr>io_Org := org\<rparr>)"

definition influx_AuthToken :: "string \<Rightarrow> influx_option" where
  "influx_AuthToken token = (\<lambda>o1. o1\<lparr>io_Auth := (io_Auth o1)\<lparr>ia_Token := token\<rparr>\<rparr>)"

definition influx_TlsInsecureSkipVerify :: "bool \<Rightarrow> influx_option" where
  "influx_TlsInsecureSkipVerify skip = (\<lambda>o1. o1\<lparr>io_TlsInsecureSkipVerify := skip\<rparr>)"

fun influx_init_loop :: "influx_options \<Rightarrow> influx_option list \<Rightarrow> influx_options" where
  "influx_init_loop options [] = options"
| "influx_init_loop options (o1 # opts) = influx_init_loop (o1 options) opts"

definition influx_initOptions :: "influx_option list \<Rightarrow> influx_options" where
  "influx_initOptions opts = influx_init_loop influx_zero opts"

lemma influx_init_loop_eq: "influx_init_loop o0 opts = apply_options opts o0"
  by (induction opts arbitrary: o0) simp_all

interpretation influx_opts: func_options influx_initOptions influx_zero
  by unfold_locales (simp_all add: influx_initOptions_def influx_init_loop_eq)

section \<open>The helper\<close>

record 'w QueryApiClient =
  qa_Query :: "ctx \<Rightarrow> string \<Rightarrow> ('w, json option res) state"

record 'w ConnectClient =
  cc_QueryAPI :: "string \<Rightarrow> 'w QueryApiClient"
  cc_Close :: "('w, unit) state"

record 'w InfluxHelper =
  ih_ConnectClient :: "'w ConnectClient option"
  ih_QueryApiClient :: "'w QueryApiClient option"
  ih_Options :: influx_options

text \<open>\<open>influxv2.NewClient\<close>, which connects only when it is used.\<close>

type_synonym 'w influx_NewClient = "string \<Rightarrow> string \<Rightarrow> 'w ConnectClient"

definition influx_NewHelper ::
  "'w influx_NewClient \<Rightarrow> influx_option list \<Rightarrow> ('w, 'w InfluxHelper option res) state" where
  "influx_NewHelper NewClient opts =
     (let initedOpts = influx_initOptions opts;
          h = \<lparr>ih_ConnectClient = None, ih_QueryApiClient = None, ih_Options = initedOpts\<rparr>;
          c = NewClient (io_Url (ih_Options h)) (ia_Token (io_Auth (ih_Options h)));
          h = h\<lparr>ih_ConnectClient := Some c\<rparr>;
          h = h\<lparr>ih_QueryApiClient := Some (cc_QueryAPI c (io_Org (ih_Options h)))\<rparr>
      in State_Monad.return (Some h, None))"

definition influx_NewGlobalHelper ::
  "'w influx_NewClient \<Rightarrow> influx_option list \<Rightarrow> ('w InfluxHelper globals \<times> 'w, go_error option) state" where
  "influx_NewGlobalHelper NewClient opts = do {
     err \<leftarrow> once_Do (influx_NewHelper NewClient opts);
     on_err err (State_Monad.return None) Some
   }"

definition influx_GetGlobalHelper :: "'w InfluxHelper globals \<Rightarrow> 'w InfluxHelper option" where
  "influx_GetGlobalHelper g = helper g"

interpretation influx_global: global_helper
  "influx_NewGlobalHelper NewClient " "\<lambda>opts. influx_NewHelper NewClient opts" influx_GetGlobalHelper
  by unfold_locales
    (auto simp: influx_NewGlobalHelper_def influx_GetGlobalHelper_def on_err_def split: option.splits)

text \<open>
  The query of the package goes to the global helper and also returns the function that cancels its
  context; the context is its own name here.
\<close>

definition influx_GetQueryCursor ::
  "'w InfluxHelper globals \<Rightarrow> string \<Rightarrow> ('w, (json option \<times> ctx \<times> go_error option) outcome) state" where
  "influx_GetQueryCursor g stmt =
     (let ctx = ctx_seconds 60 in
      deref (helper g) (\<lambda>h. on_client (ih_QueryApiClient h) (\<lambda>q. do {
        (c, err) \<leftarrow> qa_Query q ctx stmt;
        State_Monad.return (c, ctx, err)
      })))"

definition influx_Close :: "'w InfluxHelper \<Rightarrow> ('w, unit) state" where
  "influx_Close h = (case ih_ConnectClient h of None \<Rightarrow> State_Monad.return () | Some c \<Rightarrow> cc_Close c)"

section \<open>Queries\<close>

record flux_query =
  stages :: "string list"

definition add_stage :: "string \<Rightarrow> flux_query \<Rightarrow> flux_query" where
  "add_stage s q = q\<lparr>stages := stages q @ [s]\<rparr>"

definition flux_Bucket :: "string \<Rightarrow> flux_query \<Rightarrow> flux_query" where
  "flux_Bucket params q = add_stage (''from(bucket: '' @ [CHR 0x22] @ params @ [CHR 0x22] @ '')'') q"

definition flux_Range :: "string \<Rightarrow> flux_query \<Rightarrow> flux_query" where
  "flux_Range params q = add_stage (''|> range('' @ params @ '')'') q"

definition flux_Measurement :: "string \<Rightarrow> flux_query \<Rightarrow> flux_query" where
  "flux_Measurement params q = add_stage (''|> filter(fn: (r) => r._measurement == '' @ [CHR 0x22] @ params @ [CHR 0x22] @ '')'') q"

definition flux_Filter :: "string \<Rightarrow> flux_query \<Rightarrow> flux_query" where
  "flux_Filter params q = add_stage (''|> filter('' @ params @ '')'') q"

definition flux_Pivot :: "string \<Rightarrow> flux_query \<Rightarrow> flux_query" where
  "flux_Pivot params q = add_stage (''|> pivot('' @ params @ '')'') q"

definition flux_Group :: "string \<Rightarrow> flux_query \<Rightarrow> flux_query" where
  "flux_Group params q =
     (if params = [] then add_stage ''|> group()'' q else add_stage (''|> group('' @ params @ '')'') q)"

definition flux_Sort :: "string \<Rightarrow> flux_query \<Rightarrow> flux_query" where
  "flux_Sort params q = add_stage (''|> sort('' @ params @ '')'') q"

definition flux_Limit :: "string \<Rightarrow> flux_query \<Rightarrow> flux_query" where
  "flux_Limit params q = add_stage (''|> limit('' @ params @ '')'') q"

definition flux_Count :: "string \<Rightarrow> flux_query \<Rightarrow> flux_query" where
  "flux_Count params q =
     (if params = [] then add_stage ''|> count()'' q else add_stage (''|> count('' @ params @ '')'') q)"

definition flux_Different :: "flux_query \<Rightarrow> flux_query" where
  "flux_Different q = add_stage ''|> difference()'' q"

definition flux_AggregateWindow :: "string \<Rightarrow> flux_query \<Rightarrow> flux_query" where
  "flux_AggregateWindow params q = add_stage (''|> aggregateWindow('' @ params @ '')'') q"

definition flux_Map :: "string \<Rightarrow> flux_query \<Rightarrow> flux_query" where
  "flux_Map params q = add_stage (''|> map('' @ params @ '')'') q"

definition flux_Last :: "flux_query \<Rightarrow> flux_query" where
  "flux_Last q = add_stage ''|> last()'' q"

definition flux_Derivative :: "string \<Rightarrow> flux_query \<Rightarrow> flux_query" where
  "flux_Derivative params q = add_stage (''|> derivative('' @ params @ '')'') q"

definition flux_Max :: "string \<Rightarrow> flux_query \<Rightarrow> flux_query" where
  "flux_Max params q = add_stage (''|> max('' @ params @ '')'') q"

definition flux_Rename :: "string \<Rightarrow> flux_query \<Rightarrow> flux_query" where
  "flux_Rename params q = add_stage (''|> rename('' @ params @ '')'') q"

definition flux_Keep :: "string \<Rightarrow> flux_query \<Rightarrow> flux_query" where
  "flux_Keep params q = add_stage (''|> keep('' @ params @ '')'') q"

definition flux_Distinct :: "string \<Rightarrow> flux_query \<Rightarrow> flux_query" where
  "flux_Distinct params q = add_stage (''|> distinct('' @ params @ '')'') q"

definition flux_Top :: "string \<Rightarrow> flux_query \<Rightarrow> flux_query" where
  "flux_Top params q = add_stage (''|> top('' @ params @ '')'') q"

definition flux_Sum :: "string \<Rightarrow> flux_query \<Rightarrow> flux_query" where
  "flux_Sum params q = add_stage (''|> sum('' @ params @ '')'') q"

definition flux_String :: "flux_query \<Rightarrow> string" where
  "flux_String q = Join (stages q) '' ''"

section \<open>Properties\<close>

text \<open>A query as the calls that built it, and the stage each call stands for.\<close>

datatype flux_call =
    Call string string
  | Bucket string
  | Measurement string
  | Bare string

fun run_call :: "flux_call \<Rightarrow> flux_query \<Rightarrow> flux_query" where
  "run_call (Bucket b) = flux_Bucket b"
| "run_call (Measurement m) = flux_Measurement m"
| "run_call (Bare f) = (if f = ''difference'' then flux_Different
     else if f = ''last'' then flux_Last else if f = ''group'' then flux_Group []
     else if f = ''count'' then flux_Count [] else id)"
| "run_call (Call f p) =
     (if f = ''range'' then flux_Range p else if f = ''filter'' then flux_Filter p
      else if f = ''pivot'' then flux_Pivot p else if f = ''group'' then flux_Group p
      else if f = ''sort'' then flux_Sort p else if f = ''limit'' then flux_Limit p
      else if f = ''count'' then flux_Count p else if f = ''aggregateWindow'' then flux_AggregateWindow p
      else if f = ''map'' then flux_Map p else if f = ''derivative'' then flux_Derivative p
      else if f = ''max'' then flux_Max p else if f = ''rename'' then flux_Rename p
      else if f = ''keep'' then flux_Keep p else if f = ''distinct'' then flux_Distinct p
      else if f = ''top'' then flux_Top p else if f = ''sum'' then flux_Sum p else id)"

definition flux_functions :: "string list" where
  "flux_functions = [''range'', ''filter'', ''pivot'', ''group'', ''sort'', ''limit'', ''count'',
     ''aggregateWindow'', ''map'', ''derivative'', ''max'', ''rename'', ''keep'', ''distinct'', ''top'', ''sum'']"

definition flux_bare :: "string list" where
  "flux_bare = [''difference'', ''last'', ''group'', ''count'']"

fun well_formed_call :: "flux_call \<Rightarrow> bool" where
  "well_formed_call (Call f p) = (f \<in> set flux_functions)"
| "well_formed_call (Bare f) = (f \<in> set flux_bare)"
| "well_formed_call _ = True"

fun call_text :: "flux_call \<Rightarrow> string" where
  "call_text (Bucket b) = ''from(bucket: '' @ [CHR 0x22] @ b @ [CHR 0x22] @ '')''"
| "call_text (Measurement m) = ''|> filter(fn: (r) => r._measurement == '' @ [CHR 0x22] @ m @ [CHR 0x22] @ '')''"
| "call_text (Bare f) = ''|> '' @ f @ ''()''"
| "call_text (Call f p) = ''|> '' @ f @ ''('' @ p @ '')''"

lemma stages_run_call:
  assumes "well_formed_call c"
  shows "stages (run_call c q) = stages q @ [call_text c]"
proof (cases c)
  case (Call f p)
  with assms show ?thesis
    by (auto simp: flux_functions_def add_stage_def flux_Range_def flux_Filter_def flux_Pivot_def flux_Group_def flux_Sort_def flux_Limit_def flux_Count_def flux_AggregateWindow_def flux_Map_def flux_Derivative_def flux_Max_def flux_Rename_def flux_Keep_def flux_Distinct_def flux_Top_def flux_Sum_def)
next
  case (Bare f)
  with assms show ?thesis
    by (auto simp: flux_bare_def add_stage_def flux_Different_def flux_Last_def flux_Group_def flux_Count_def)
qed (simp_all add: add_stage_def flux_Bucket_def flux_Measurement_def)

lemma stages_fold_run_call:
  "list_all well_formed_call cs \<Longrightarrow> stages (fold run_call cs q) = stages q @ map call_text cs"
  by (induction cs arbitrary: q) (simp_all add: stages_run_call)

text \<open>
  C29. The text of a query built by any sequence of calls is the texts of the calls in that order,
  one space between two of them.
\<close>

theorem flux_String_of_calls:
  assumes "list_all well_formed_call cs"
  shows "flux_String (fold run_call cs \<lparr>stages = []\<rparr>) = Join (map call_text cs) '' ''"
  by (simp add: flux_String_def stages_fold_run_call [OF assms])

lemma flux_String_of_calls_witness:
  "flux_String (fold run_call [Bucket ''cpu'', Call ''range'' ''start: -1h'', Bare ''last''] \<lparr>stages = []\<rparr>)
    = ''from(bucket: '' @ [CHR 0x22] @ ''cpu'' @ [CHR 0x22] @ '') |> range(start: -1h) |> last()''"
  using flux_String_of_calls [of "[Bucket ''cpu'', Call ''range'' ''start: -1h'', Bare ''last'']"]
  by (simp add: flux_functions_def flux_bare_def)

lemma Join_split: "Join (xs @ (a @ sep @ b) # ys) sep = Join (xs @ a # b # ys) sep"
proof (induction xs)
  case Nil
  show ?case by (cases ys) simp_all
next
  case (Cons x xs)
  then show ?case by (simp add: Join_Cons)
qed

text \<open>
  Parameters are not escaped: a range whose bounds come from outside can hold a further stage, and
  a bucket name with a quotation mark can hold the whole rest of a query.
\<close>

theorem flux_parameters_inject:
  "flux_String (flux_Range (bounds @ '') |> limit('' @ n) q) = flux_String (flux_Limit n (flux_Range bounds q))"
  "flux_String (flux_Bucket (b @ [CHR 0x22] @ '') |> filter(fn: (r) => r._measurement == '' @ [CHR 0x22] @ m) q)
    = flux_String (flux_Measurement m (flux_Bucket b q))"
  using Join_split [where sep = "'' ''" and xs = "stages q" and ys = "[]"
      and a = "''|> range('' @ bounds @ '')''" and b = "''|> limit('' @ n @ '')''"]
    Join_split [where sep = "'' ''" and xs = "stages q" and ys = "[]"
      and a = "''from(bucket: '' @ [CHR 0x22] @ b @ [CHR 0x22] @ '')''"
      and b = "''|> filter(fn: (r) => r._measurement == '' @ [CHR 0x22] @ m @ [CHR 0x22] @ '')''"]
  by (simp_all add: flux_String_def flux_Range_def flux_Limit_def flux_Bucket_def flux_Measurement_def add_stage_def)

text \<open>A sequence of calls of \<open>NewGlobalHelper\<close>.\<close>

fun new_globals :: "'w influx_NewClient \<Rightarrow> influx_option list list \<Rightarrow> 'w InfluxHelper globals \<times> 'w
    \<Rightarrow> 'w InfluxHelper globals \<times> 'w" where
  "new_globals NewClient [] gw = gw"
| "new_globals NewClient (opts # calls) gw =
     new_globals NewClient calls (snd (run_state (influx_NewGlobalHelper NewClient opts) gw))"

lemma new_globals_done:
  "once_done g \<Longrightarrow> new_globals NewClient calls (g, w) = (g, w)"
  by (induction calls) (simp_all add: influx_NewGlobalHelper_def)

text \<open>
  From the fresh package state, after any number of calls of \<open>NewGlobalHelper\<close>, the query of the
  package panics exactly when there was no call; otherwise it is sent with the client of the first
  call's options within sixty seconds, whatever the later options.
\<close>

theorem influx_query_uses_first_helper:
  "run_state (influx_GetQueryCursor (fst (new_globals NewClient calls (once_init, w))) stmt) w =
    (case calls of [] \<Rightarrow> (Panic NilDereference, w)
     | opts # _ \<Rightarrow> (let o1 = influx_initOptions opts;
         q = cc_QueryAPI (NewClient (io_Url o1) (ia_Token (io_Auth o1))) (io_Org o1)
       in (case run_state (qa_Query q (ctx_seconds 60) stmt) w of
             ((c, err), w') \<Rightarrow> (Return (c, ctx_seconds 60, err), w'))))"
  by (cases calls) (simp_all add: influx_GetQueryCursor_def once_init_def influx_NewGlobalHelper_def
      influx_NewHelper_def new_globals_done Let_def split: prod.splits)

end
