(* ===== verification/Terraform.thy ===== *)
theory Terraform
  imports Prelude Wait
begin

text \<open>
  Package terraform: the helper over the terraform command, which is a parameter, and the search of
  a shown state for the values of a resource. Pointers of the state may be nil; the code follows
  them without a test.
\<close>

section \<open>Options\<close>

record terraform_options =
  to_Version :: string
  to_WoringDir :: string
  to_ExecPath :: string

type_synonym terraform_option = "terraform_options \<Rightarrow> terraform_options"

definition terraform_zero :: terraform_options where
  "terraform_zero = \<lparr>to_Version = [], to_WoringDir = [], to_ExecPath = []\<rparr>"

definition terraform_Version :: "string \<Rightarrow> terraform_option" where
  "terraform_Version version = (\<lambda>o1. o1\<lparr>to_Version := version\<rparr>)"

definition terraform_WorkingDir :: "string \<Rightarrow> terraform_option" where
  "terraform_WorkingDir dir = (\<lambda>o1. o1\<lparr>to_WoringDir := dir\<rparr>)"

definition terraform_ExecPath :: "string \<Rightarrow> terraform_option" where
  "terraform_ExecPath path = (\<lambda>o1. o1\<lparr>to_ExecPath := path\<rparr>)"

fun terraform_init_loop :: "terraform_options \<Rightarrow> terraform_option list \<Rightarrow> terraform_options" where
  "terraform_init_loop options [] = options"
| "terraform_init_loop options (o1 # opts) = terraform_init_loop (o1 options) opts"

definition terraform_initOptions :: "terraform_option list \<Rightarrow> terraform_options" where
  "terraform_initOptions opts = terraform_init_loop terraform_zero opts"

lemma terraform_init_loop_eq: "terraform_init_loop o0 opts = apply_options opts o0"
  by (induction opts arbitrary: o0) simp_all

interpretation terraform_opts: func_options terraform_initOptions terraform_zero
  by unfold_locales (simp_all add: terraform_initOptions_def terraform_init_loop_eq)

section \<open>The helper\<close>

text \<open>A shown state (package tfjson), with its nil-able pointers.\<close>

record StateResource =
  sr_Type :: string
  sr_AttributeValues :: json

datatype StateModule = StateModule
  (sm_Resources: "StateResource option list") (sm_ChildModules: "StateModule option list")

record StateValues =
  sv_RootModule :: "StateModule option"

record TfState =
  ts_Values :: "StateValues option"

record 'w TerraformClient =
  tc_Show :: "ctx \<Rightarrow> ('w, TfState option res) state"

record 'w TerraformHelper =
  th_Client :: "'w TerraformClient option"
  th_Options :: terraform_options

type_synonym 'w NewTerraform = "string \<Rightarrow> string \<Rightarrow> ('w, 'w TerraformClient option res) state"

definition SetTerraformClient ::
  "'w NewTerraform \<Rightarrow> 'w TerraformHelper \<Rightarrow> string \<Rightarrow> ('w, go_error option \<times> 'w TerraformHelper) state" where
  "SetTerraformClient NewTerraform h execPath =
     (let execPath = (if execPath = [] then ''/usr/local/bin/terraform'' else execPath) in do {
        (client, err) \<leftarrow> NewTerraform (to_WoringDir (th_Options h)) execPath;
        let h = h\<lparr>th_Client := client\<rparr>;
        on_err err (State_Monad.return (None, h)) (\<lambda>e. (Some e, h))
      })"

definition terraform_NewHelper ::
  "'w NewTerraform \<Rightarrow> terraform_option list \<Rightarrow> ('w, 'w TerraformHelper option res) state" where
  "terraform_NewHelper NewTerraform opts =
     (let initedOpts = terraform_initOptions opts;
          h = \<lparr>th_Client = None, th_Options = initedOpts\<rparr>
      in do {
        (err, h) \<leftarrow> SetTerraformClient NewTerraform h (to_ExecPath (th_Options h));
        on_err err (State_Monad.return (Some h, None)) (\<lambda>e. (None, Some e))
      })"

definition terraform_NewGlobalHelper ::
  "'w NewTerraform \<Rightarrow> terraform_option list \<Rightarrow> ('w TerraformHelper globals \<times> 'w, go_error option) state" where
  "terraform_NewGlobalHelper NewTerraform opts = do {
     err \<leftarrow> once_Do (terraform_NewHelper NewTerraform opts);
     on_err err (State_Monad.return None) Some
   }"

definition terraform_GetGlobalHelper :: "'w TerraformHelper globals \<Rightarrow> 'w TerraformHelper option" where
  "terraform_GetGlobalHelper g = helper g"

interpretation terraform_global: global_helper
  "terraform_NewGlobalHelper NewTerraform " "\<lambda>opts. terraform_NewHelper NewTerraform opts" terraform_GetGlobalHelper
  by unfold_locales
    (auto simp: terraform_NewGlobalHelper_def terraform_GetGlobalHelper_def on_err_def split: option.splits)

section \<open>Values of a resource\<close>

text \<open>The two nested loops: the first resource of the type ends both.\<close>

fun find_resource :: "string \<Rightarrow> StateResource option list \<Rightarrow> json option outcome" where
  "find_resource resourceType [] = Return None"
| "find_resource resourceType (None # rs) = Panic NilDereference"
| "find_resource resourceType (Some r # rs) =
     (if sr_Type r = resourceType then Return (Some (sr_AttributeValues r)) else find_resource resourceType rs)"

fun find_in_modules :: "string \<Rightarrow> StateModule option list \<Rightarrow> json option outcome" where
  "find_in_modules resourceType [] = Return None"
| "find_in_modules resourceType (None # ms) = Panic NilDereference"
| "find_in_modules resourceType (Some m # ms) =
     (case find_resource resourceType (sm_Resources m) of
        Panic p \<Rightarrow> Panic p
      | Return (Some v) \<Rightarrow> Return (Some v)
      | Return None \<Rightarrow> find_in_modules resourceType ms)"

definition ShowResourceValues ::
  "'w TerraformHelper \<Rightarrow> string \<Rightarrow> ('w, json option res outcome) state" where
  "ShowResourceValues h resourceType = do {
     r \<leftarrow> on_client (th_Client h) (\<lambda>c. tc_Show c (ctx_seconds 120));
     proceed r (\<lambda>(st, err). on_err err
       (deref st (\<lambda>st. deref (ts_Values st) (\<lambda>vs. deref (sv_RootModule vs) (\<lambda>root.
          State_Monad.return (case find_in_modules resourceType (sm_ChildModules root) of
            Panic p \<Rightarrow> Panic p
          | Return (Some v) \<Rightarrow> Return (Some v, None)
          | Return None \<Rightarrow> Return (None, Some (ErrText (''resource type '' @ resourceType @ '' not found in state''))))))))
       (\<lambda>e. Return (None, Some e)))
   }"

section \<open>Properties\<close>

text \<open>The resources of the child modules, in the order the loops visit them.\<close>

definition child_resources :: "StateModule \<Rightarrow> StateResource list" where
  "child_resources root = concat (map (\<lambda>m. case m of None \<Rightarrow> []
     | Some m \<Rightarrow> concat (map (\<lambda>r. case r of None \<Rightarrow> [] | Some r \<Rightarrow> [r]) (sm_Resources m))) (sm_ChildModules root))"

lemma find_resource_eq:
  "None \<notin> set rs \<Longrightarrow> find_resource ty rs =
    Return (map_option sr_AttributeValues
      (List.find (\<lambda>r. sr_Type r = ty) (concat (map (\<lambda>r. case r of None \<Rightarrow> [] | Some r \<Rightarrow> [r]) rs))))"
  by (induction ty rs rule: find_resource.induct) auto

lemma find_in_modules_eq:
  "None \<notin> set ms \<Longrightarrow> (\<And>m. Some m \<in> set ms \<Longrightarrow> None \<notin> set (sm_Resources m)) \<Longrightarrow> find_in_modules ty ms =
    Return (map_option sr_AttributeValues (List.find (\<lambda>r. sr_Type r = ty)
      (concat (map (\<lambda>m. case m of None \<Rightarrow> []
        | Some m \<Rightarrow> concat (map (\<lambda>r. case r of None \<Rightarrow> [] | Some r \<Rightarrow> [r]) (sm_Resources m))) ms))))"
proof (induction ty ms rule: find_in_modules.induct)
  case (3 ty m ms)
  have "None \<notin> set (sm_Resources m)" using 3(3) by simp
  moreover have "find_in_modules ty ms = Return (map_option sr_AttributeValues (List.find (\<lambda>r. sr_Type r = ty)
      (concat (map (\<lambda>m. case m of None \<Rightarrow> []
        | Some m \<Rightarrow> concat (map (\<lambda>r. case r of None \<Rightarrow> [] | Some r \<Rightarrow> [r]) (sm_Resources m))) ms))))"
    if "find_resource ty (sm_Resources m) = Return None"
    using 3(1) [OF that refl] 3(2,3) by simp
  ultimately show ?case
    by (auto simp: find_resource_eq find_append split: option.splits)
qed auto

text \<open>
  C27. Without nil pointers, \<open>ShowResourceValues\<close> returns the values of the first resource of the type
  among those of the modules directly under the root, in state order, and the error that names the
  type when there is none: resources of the root module itself and of modules further down are never
  found.
\<close>

theorem ShowResourceValues_first_of_children:
  assumes "th_Client h = Some c"
    and "run_state (tc_Show c (ctx_seconds 120)) w = ((Some \<lparr>ts_Values = Some \<lparr>sv_RootModule = Some root\<rparr>\<rparr>, None), w')"
    and "None \<notin> set (sm_ChildModules root)"
    and "\<And>m. Some m \<in> set (sm_ChildModules root) \<Longrightarrow> None \<notin> set (sm_Resources m)"
  shows "run_state (ShowResourceValues h ty) w =
    (case List.find (\<lambda>r. sr_Type r = ty) (child_resources root) of
       Some r \<Rightarrow> (Return (Some (sr_AttributeValues r), None), w')
     | None \<Rightarrow> (Return (None, Some (ErrText (''resource type '' @ ty @ '' not found in state''))), w'))"
  using assms(1,2) find_in_modules_eq [OF assms(3,4), of ty]
  by (auto simp: ShowResourceValues_def child_resources_def split: option.splits)

definition demo_state :: StateModule where
  "demo_state = StateModule [Some \<lparr>sr_Type = ''openstack_vm'', sr_AttributeValues = JNull\<rparr>]
     [Some (StateModule [Some \<lparr>sr_Type = ''rancher_node'', sr_AttributeValues = JNum 1\<rparr>] []),
      Some (StateModule [Some \<lparr>sr_Type = ''rancher_node'', sr_AttributeValues = JNum 2\<rparr>]
        [Some (StateModule [Some \<lparr>sr_Type = ''deep'', sr_AttributeValues = JNum 3\<rparr>] [])])]"

lemma ShowResourceValues_first_of_children_witness:
  "run_state (ShowResourceValues \<lparr>th_Client = Some \<lparr>tc_Show = \<lambda>_. State_Monad.return
      (Some \<lparr>ts_Values = Some \<lparr>sv_RootModule = Some demo_state\<rparr>\<rparr>, None)\<rparr>, th_Options = terraform_zero\<rparr> ''openstack_vm'') (0::nat) =
    (Return (None, Some (ErrText ''resource type openstack_vm not found in state'')), 0)"
  by (subst ShowResourceValues_first_of_children [where root = demo_state and w' = 0])
    (auto simp: demo_state_def child_resources_def)

end
