(* ===== verification/Slack.thy ===== *)
theory Slack
  imports Prelude
begin

text \<open>
  Package slack: the helper over the Slack client and the webhook call of the SDK, both parameters.
\<close>

section \<open>Options\<close>

record slack_options =
  so_Token :: string

type_synonym slack_option = "slack_options \<Rightarrow> slack_options"

definition slack_zero :: slack_options where
  "slack_zero = \<lparr>so_Token = []\<rparr>"

definition slack_Token :: "string \<Rightarrow> slack_option" where
  "slack_Token token = (\<lambda>o1. o1\<lparr>so_Token := token\<rparr>)"

fun slack_init_loop :: "slack_options \<Rightarrow> slack_option list \<Rightarrow> slack_options" where
  "slack_init_loop options [] = options"
| "slack_init_loop options (o1 # opts) = slack_init_loop (o1 options) opts"

definition slack_initOptions :: "slack_option list \<Rightarrow> slack_options" where
  "slack_initOptions opts = slack_init_loop slack_zero opts"

lemma slack_init_loop_eq: "slack_init_loop o0 opts = apply_options opts o0"
  by (induction opts arbitrary: o0) simp_all

interpretation slack_opts: func_options slack_initOptions slack_zero
  by unfold_locales (simp_all add: slack_initOptions_def slack_init_loop_eq)

section \<open>The helper\<close>

datatype MsgOption = MsgOptionText string bool

record WebhookMessage =
  wm_Text :: string

record 'w SlackClient =
  sc_PostMessage :: "string \<Rightarrow> MsgOption list \<Rightarrow> ('w, (string \<times> string) res) state"

record 'w SlackHelper =
  sh_Client :: "'w SlackClient option"
  sh_PostWebhook :: "(string \<Rightarrow> WebhookMessage \<Rightarrow> ('w, go_error option) state) option"
  sh_Options :: slack_options

text \<open>What the code uses of the SDK: \<open>slack.New\<close>, which makes no request, and \<open>slack.PostWebhook\<close>.\<close>

record 'w slack_sdk =
  slack_New :: "string \<Rightarrow> 'w SlackClient"
  slack_PostWebhook :: "string \<Rightarrow> WebhookMessage \<Rightarrow> ('w, go_error option) state"

definition slack_SetClients :: "'w slack_sdk \<Rightarrow> 'w SlackHelper \<Rightarrow> go_error option \<times> 'w SlackHelper" where
  "slack_SetClients sdk h =
     (None, h\<lparr>sh_Client := Some (slack_New sdk (so_Token (sh_Options h))),
              sh_PostWebhook := Some (slack_PostWebhook sdk)\<rparr>)"

definition slack_NewHelper :: "'w slack_sdk \<Rightarrow> slack_option list \<Rightarrow> ('w, 'w SlackHelper option res) state" where
  "slack_NewHelper sdk opts =
     (let initedOpts = slack_initOptions opts;
          h = \<lparr>sh_Client = None, sh_PostWebhook = None, sh_Options = initedOpts\<rparr>;
          (err, h) = slack_SetClients sdk h
      in on_err err (State_Monad.return (Some h, None)) (\<lambda>e. (None, Some e)))"

definition slack_NewGlobalHelper ::
  "'w slack_sdk \<Rightarrow> slack_option list \<Rightarrow> ('w SlackHelper globals \<times> 'w, go_error option) state" where
  "slack_NewGlobalHelper sdk opts = do {
     err \<leftarrow> once_Do (slack_NewHelper sdk opts);
     on_err err (State_Monad.return None) Some
   }"

definition slack_GetGlobalHelper :: "'w SlackHelper globals \<Rightarrow> 'w SlackHelper option" where
  "slack_GetGlobalHelper g = helper g"

interpretation slack_global: global_helper
  "slack_NewGlobalHelper sdk" "\<lambda>opts. slack_NewHelper sdk opts" slack_GetGlobalHelper
  by unfold_locales
    (auto simp: slack_NewGlobalHelper_def slack_GetGlobalHelper_def on_err_def split: option.splits)

definition SendTextMsg :: "'w SlackHelper \<Rightarrow> string \<Rightarrow> string \<Rightarrow> ('w, go_error option outcome) state" where
  "SendTextMsg h channel msg = on_client (sh_Client h) (\<lambda>c. do {
     (_, err) \<leftarrow> sc_PostMessage c channel [MsgOptionText msg False];
     State_Monad.return err
   })"

definition SendWebhookMsg :: "'w SlackHelper \<Rightarrow> string \<Rightarrow> string \<Rightarrow> ('w, go_error option outcome) state" where
  "SendWebhookMsg h url msg = on_client (sh_PostWebhook h) (\<lambda>post. post url \<lparr>wm_Text = msg\<rparr>)"

section \<open>Properties\<close>

text \<open>
  A helper is always made, without a request, and sends every message in one call with the token
  of its options: the text goes to the channel unescaped, the webhook gets the text alone, and the
  error of the call is the result. It never panics.
\<close>

theorem slack_helper_sends:
  "\<exists>h. run_state (slack_NewHelper sdk opts) w = ((Some h, None), w)
    \<and> run_state (SendTextMsg h channel msg) w =
        (case run_state (sc_PostMessage (slack_New sdk (so_Token (slack_initOptions opts))) channel [MsgOptionText msg False]) w of
           ((_, err), w') \<Rightarrow> (Return err, w'))
    \<and> run_state (SendWebhookMsg h url msg) w =
        (case run_state (slack_PostWebhook sdk url \<lparr>wm_Text = msg\<rparr>) w of (err, w') \<Rightarrow> (Return err, w'))"
  by (simp add: slack_NewHelper_def slack_SetClients_def SendTextMsg_def SendWebhookMsg_def Let_def
      split: prod.splits)

end
