(* ===== verification/Log.thy ===== *)
theory Log
  imports Prelude
begin

text \<open>
  Package log: the options, and the logger the package installs as the default logger of go-micro. The
  zap library is a parameter: what is modelled is the configuration the code hands to it. Shown: the
  level option has no effect, and the label of each level.
\<close>

section \<open>Options\<close>

record log_rotation =
  lr_Backups :: int
  lr_Size :: int
  lr_TTL :: int
  lr_Compress :: bool

record log_options =
  lo_File :: string
  lo_Level :: int
  lo_Rotation :: log_rotation

type_synonym log_option = "log_options \<Rightarrow> log_options"

definition log_defaults :: log_options where
  "log_defaults = \<lparr>lo_File = ''/var/log/cube-api.log'', lo_Level = 2, lo_Rotation = \<lparr>lr_Backups = 3, lr_Size = 10, lr_TTL = 28, lr_Compress = True\<rparr>\<rparr>"

definition log_File :: "string \<Rightarrow> log_option" where
  "log_File file = (\<lambda>o1. o1\<lparr>lo_File := file\<rparr>)"

definition log_Level :: "int \<Rightarrow> log_option" where
  "log_Level level = (\<lambda>o1. o1\<lparr>lo_Level := level\<rparr>)"

definition log_Backups :: "int \<Rightarrow> log_option" where
  "log_Backups backups = (\<lambda>o1. o1\<lparr>lo_Rotation := (lo_Rotation o1)\<lparr>lr_Backups := backups\<rparr>\<rparr>)"

definition log_Size :: "int \<Rightarrow> log_option" where
  "log_Size n = (\<lambda>o1. o1\<lparr>lo_Rotation := (lo_Rotation o1)\<lparr>lr_Size := n\<rparr>\<rparr>)"

definition log_TTL :: "int \<Rightarrow> log_option" where
  "log_TTL ttl = (\<lambda>o1. o1\<lparr>lo_Rotation := (lo_Rotation o1)\<lparr>lr_TTL := ttl\<rparr>\<rparr>)"

definition log_Compress :: "bool \<Rightarrow> log_option" where
  "log_Compress compress = (\<lambda>o1. o1\<lparr>lo_Rotation := (lo_Rotation o1)\<lparr>lr_Compress := compress\<rparr>\<rparr>)"

fun log_init_loop :: "log_options \<Rightarrow> log_option list \<Rightarrow> log_options" where
  "log_init_loop options [] = options"
| "log_init_loop options (o1 # opts) = log_init_loop (o1 options) opts"

definition log_initOptions :: "log_option list \<Rightarrow> log_options" where
  "log_initOptions opts = log_init_loop log_defaults opts"

lemma log_init_loop_eq: "log_init_loop o0 opts = apply_options opts o0"
  by (induction opts arbitrary: o0) simp_all

interpretation log_opts: func_options log_initOptions log_defaults
  by unfold_locales (simp_all add: log_initOptions_def log_init_loop_eq)

section \<open>The encoder\<close>

text \<open>
  zapcore levels are numbers from -1 (debug) to 5 (fatal). The encoder appends one label, red for an
  error, and nothing for a level it does not name.
\<close>

definition red :: string where "red = CHR 0x1B # ''[31m''"

definition reset :: string where "reset = CHR 0x1B # ''[0m''"

definition EncodeLevel :: "int \<Rightarrow> string list \<Rightarrow> string list" where
  "EncodeLevel l enc =
     (if l = -1 then enc @ [''DEBU'']
      else if l = 0 then enc @ [''INFO'']
      else if l = 1 then enc @ [''WARN'']
      else if l = 2 then enc @ [red @ ''ERRO'' @ reset]
      else if l = 3 then enc @ [''DPAN'']
      else if l = 4 then enc @ [''PANI'']
      else if l = 5 then enc @ [''FATA'']
      else enc)"

text \<open>The encoder configuration the code changes; \<open>'e\<close> is the rest of it, and \<open>'t\<close> a time encoder.\<close>

record ('t, 'e) EncoderConfig =
  ec_ConsoleSeparator :: string
  ec_EncodeTime :: 't
  ec_EncodeLevel :: "int \<Rightarrow> string list \<Rightarrow> string list"
  ec_rest :: 'e

datatype WriteSyncer = RotatingFile string int int int bool | Stderr | Multi "WriteSyncer list"

text \<open>A zap core: its encoder, where it writes and the least level it writes.\<close>

record ('t, 'e) Core =
  co_Encoder :: "('t, 'e) EncoderConfig"
  co_Writer :: WriteSyncer
  co_Level :: int

record ('w, 't, 'e, 'l) zap =
  zap_NewProductionEncoderConfig :: "('t, 'e) EncoderConfig"
  zap_CapitalLevelEncoder :: "int \<Rightarrow> string list \<Rightarrow> string list"
  zap_ISO8601TimeEncoder :: 't
  zap_NewLogger :: "('t, 'e) Core \<Rightarrow> ('w, 'l option res) state"

definition newMultiWriteSyncer :: "WriteSyncer \<Rightarrow> WriteSyncer" where
  "newMultiWriteSyncer rotator = Multi [rotator, Stderr]"

definition newEncoder :: "('w, 't, 'e, 'l) zap \<Rightarrow> ('t, 'e) EncoderConfig" where
  "newEncoder z =
     (let conf = zap_NewProductionEncoderConfig z;
          conf = conf\<lparr>ec_ConsoleSeparator := ''  ''\<rparr>;
          conf = conf\<lparr>ec_EncodeTime := zap_ISO8601TimeEncoder z\<rparr>;
          conf = conf\<lparr>ec_EncodeLevel := zap_CapitalLevelEncoder z\<rparr>;
          conf = conf\<lparr>ec_EncodeLevel := EncodeLevel\<rparr>
      in conf)"

definition newLogRotator :: "log_options \<Rightarrow> WriteSyncer" where
  "newLogRotator opts = RotatingFile (lo_File opts) (lr_Size (lo_Rotation opts))
     (lr_Backups (lo_Rotation opts)) (lr_TTL (lo_Rotation opts)) (lr_Compress (lo_Rotation opts))"

definition newLogger :: "('w, 't, 'e, 'l) zap \<Rightarrow> WriteSyncer \<Rightarrow> ('w, 'l option res) state" where
  "newLogger z rotator =
     zap_NewLogger z \<lparr>co_Encoder = newEncoder z, co_Writer = newMultiWriteSyncer rotator, co_Level = 0\<rparr>"

text \<open>The package variable \<open>logger.DefaultLogger\<close> is the first part of the state.\<close>

definition log_NewGlobalHelper ::
  "('w, 't, 'e, 'l) zap \<Rightarrow> log_option list \<Rightarrow> ('l option \<times> 'w, go_error option) state" where
  "log_NewGlobalHelper z opts = State (\<lambda>(_, w).
     (case run_state (newLogger z (newLogRotator (log_initOptions opts))) w of
        ((l, err), w') \<Rightarrow> (case err of Some e \<Rightarrow> (Some e, (l, w')) | None \<Rightarrow> (None, (l, w')))))"

section \<open>Properties\<close>

lemma log_level_frame:
  assumes "\<And>opt o1 n. opt \<in> set ys \<Longrightarrow> opt (o1\<lparr>lo_Level := n\<rparr>) = (opt o1)\<lparr>lo_Level := lo_Level (opt (o1\<lparr>lo_Level := n\<rparr>))\<rparr>"
  shows "\<exists>m. apply_options ys (o1\<lparr>lo_Level := n\<rparr>) = (apply_options ys o1)\<lparr>lo_Level := m\<rparr>"
  using assms
proof (induction ys arbitrary: o1 n)
  case Nil
  then show ?case by auto
next
  case (Cons opt ys)
  have "opt (o1\<lparr>lo_Level := n\<rparr>) = (opt o1)\<lparr>lo_Level := lo_Level (opt (o1\<lparr>lo_Level := n\<rparr>))\<rparr>"
    by (rule Cons.prems) simp
  moreover have "\<exists>m. apply_options ys ((opt o1)\<lparr>lo_Level := k\<rparr>) = (apply_options ys (opt o1))\<lparr>lo_Level := m\<rparr>" for k
    by (rule Cons.IH) (use Cons.prems in auto)
  ultimately show ?case by (metis apply_options_simps(2))
qed

text \<open>
  The level option has no effect: with it or without it, wherever it stands among the options, the
  same logger is installed, one that drops what is below info.
\<close>

theorem log_Level_ignored:
  assumes "\<And>opt o1 n. opt \<in> set ys \<Longrightarrow> opt (o1\<lparr>lo_Level := n\<rparr>) = (opt o1)\<lparr>lo_Level := lo_Level (opt (o1\<lparr>lo_Level := n\<rparr>))\<rparr>"
  shows "run_state (log_NewGlobalHelper z (xs @ log_Level n # ys)) gw = run_state (log_NewGlobalHelper z (xs @ ys)) gw"
proof -
  obtain m where "apply_options ys ((apply_options xs log_defaults)\<lparr>lo_Level := n\<rparr>) =
      (apply_options ys (apply_options xs log_defaults))\<lparr>lo_Level := m\<rparr>"
    using log_level_frame [of ys] assms by metis
  then show ?thesis
    by (simp add: log_NewGlobalHelper_def log_opts.init_eq log_Level_def newLogRotator_def)
qed

definition recording_zap :: "(nat, unit, unit, (unit, unit) Core) zap" where
  "recording_zap = \<lparr>zap_NewProductionEncoderConfig = \<lparr>ec_ConsoleSeparator = [CHR 0x09], ec_EncodeTime = (),
       ec_EncodeLevel = (\<lambda>l enc. enc), ec_rest = ()\<rparr>,
     zap_CapitalLevelEncoder = (\<lambda>l enc. enc), zap_ISO8601TimeEncoder = (),
     zap_NewLogger = (\<lambda>c. State (\<lambda>n. ((Some c, None), Suc n)))\<rparr>"

lemma log_Level_ignored_witness:
  "run_state (log_NewGlobalHelper recording_zap ([log_Size 20] @ log_Level (-1) # [log_File ''/tmp/a.log''])) (None, 0)
    = (None, (Some \<lparr>co_Encoder = newEncoder recording_zap,
        co_Writer = Multi [RotatingFile ''/tmp/a.log'' 20 3 28 True, Stderr], co_Level = 0\<rparr>, 1))"
  by (subst log_Level_ignored) (simp_all add: log_File_def log_NewGlobalHelper_def newLogger_def recording_zap_def
      newLogRotator_def newMultiWriteSyncer_def log_opts.init_eq log_Size_def log_defaults_def)

end
