(* ===== verification/FloatMath.thy ===== *)
theory FloatMath
  imports Complex_Main "HOL-Library.Log_Nat" GoStrings
begin

text \<open>
  Package math: rounding down to a number of decimals, and the test for more than two decimals. A
  \<open>float64\<close> is its rational value, an infinity or NaN (the two zeros are one value: no result here
  depends on the sign of zero). The operations round the exact result to 53 bits, ties to even,
  with gradual underflow and overflow, as IEEE 754 says. Shown: \<open>RoundDown\<close> is the decimal below or,
  when the product is rounded up, the one above, and the test for decimals agrees with its
  mathematical meaning.
\<close>

section \<open>Numbers of 64 bits\<close>

datatype float64 = Fin rat | Inf bool | NaN

text \<open>The nearest integer, the even one of two.\<close>

definition half_even :: "rat \<Rightarrow> int" where
  "half_even x = (let f = \<lfloor>x\<rfloor>; d = x - of_int f in
     if d < 1 / 2 then f else if 1 / 2 < d then f + 1 else if even f then f else f + 1)"

text \<open>The exponent \<open>e\<close> of \<open>b\<close> with \<open>b ^ e \<le> q < b ^ (e + 1)\<close>, for a positive \<open>q\<close>.\<close>

definition magnitude :: "nat \<Rightarrow> rat \<Rightarrow> int" where
  "magnitude b q = (if 1 \<le> q then int (floorlog b (nat \<lfloor>q\<rfloor>)) - 1
     else - int (floorlog b (nat (\<lceil>1 / q\<rceil> - 1))))"

definition ulp_exponent :: "rat \<Rightarrow> int" where
  "ulp_exponent q = max (magnitude 2 q - 52) (- 1074)"

text \<open>Rounding to 53 bits; the boolean of an infinity says that it is negative.\<close>

definition round_pos :: "rat \<Rightarrow> rat" where
  "round_pos q = (let e = ulp_exponent q in of_int (half_even (q / 2 powi e)) * 2 powi e)"

definition rnd :: "rat \<Rightarrow> float64" where
  "rnd q =
     (if q = 0 then Fin 0
      else let v = round_pos \<bar>q\<bar> in if 2 ^ 1024 \<le> v then Inf (q < 0) else Fin (if q < 0 then - v else v))"





section \<open>Shortest decimal form\<close>

text \<open>
  \<open>strconv.FormatFloat(value, 'f', -1, 64)\<close>: the fewest digits that are read back as the same number,
  and the closest of them. \<open>candidate n q\<close> looks for one of \<open>n\<close> digits: the two multiples of the unit
  around \<open>q\<close> are tried. Seventeen digits always suffice.
\<close>

definition candidate :: "nat \<Rightarrow> rat \<Rightarrow> (int \<times> int) option" where
  "candidate n q =
     (let k = magnitude 10 q + 1 - int n; lo = \<lfloor>q / 10 powi k\<rfloor>;
          good = (\<lambda>d. rnd (of_int d * 10 powi k) = Fin q)
      in if good lo \<and> good (lo + 1)
         then Some (if q / 10 powi k - of_int lo \<le> 1 / 2 then lo else lo + 1, k)
         else if good lo then Some (lo, k) else if good (lo + 1) then Some (lo + 1, k) else None)"

fun first_candidate :: "nat \<Rightarrow> nat \<Rightarrow> rat \<Rightarrow> int \<times> int" where
  "first_candidate n 0 q = (\<lfloor>q / 10 powi (magnitude 10 q - 16)\<rfloor>, magnitude 10 q - 16)"
| "first_candidate n (Suc m) q =
     (case candidate n q of Some dk \<Rightarrow> dk | None \<Rightarrow> first_candidate (Suc n) m q)"

function strip_zeros :: "int \<Rightarrow> int \<Rightarrow> int \<times> int" where
  "strip_zeros d k = (if d \<noteq> 0 \<and> d mod 10 = 0 then strip_zeros (d div 10) (k + 1) else (d, k))"
  by auto
termination
  by (relation "measure (\<lambda>(d, k). nat \<bar>d\<bar>)") auto

declare strip_zeros.simps [simp del]

definition shortest :: "rat \<Rightarrow> int \<times> int" where
  "shortest q = (let (d, k) = first_candidate 1 17 q in strip_zeros d k)"

text \<open>The digits \<open>d\<close> with the decimal exponent \<open>k\<close>, without an exponent in the text.\<close>

definition format_f :: "int \<Rightarrow> int \<Rightarrow> string" where
  "format_f d k =
     (if 0 \<le> k then Itoa d @ replicate (nat k) (CHR ''0'')
      else let f = nat (- k); s = Itoa d; s = replicate (Suc f - length s) (CHR ''0'') @ s
           in take (length s - f) s @ ''.'' @ drop (length s - f) s)"

definition FormatFloat :: "float64 \<Rightarrow> string" where
  "FormatFloat v = (case v of
       NaN \<Rightarrow> ''NaN''
     | Inf s \<Rightarrow> if s then ''-Inf'' else ''+Inf''
     | Fin q \<Rightarrow> if q = 0 then ''0''
         else let (d, k) = shortest \<bar>q\<bar> in (if q < 0 then ''-'' else []) @ format_f d k)"

definition HasMoreThanTwoDecimalPlaces :: "float64 \<Rightarrow> bool" where
  "HasMoreThanTwoDecimalPlaces value =
     (let s = FormatFloat value; parts = Split s (CHR ''.'')
      in length parts = 2 \<and> 2 < length (parts ! 1))"

section \<open>Rounding\<close>

lemma half_even_near: "\<bar>of_int (half_even x) - x\<bar> \<le> 1 / 2"
proof -
  have "of_int \<lfloor>x\<rfloor> \<le> x" and "x < of_int \<lfloor>x\<rfloor> + 1" by linarith+
  then show ?thesis by (auto simp: half_even_def Let_def)
qed

lemma half_even_int [simp]: "half_even (of_int n) = n"
  by (simp add: half_even_def)

lemma half_even_floor: "\<lfloor>x\<rfloor> \<le> half_even x"
  by (simp add: half_even_def Let_def)

lemma half_even_ceiling: "half_even x \<le> \<lceil>x\<rceil>"
proof (cases "x = of_int \<lfloor>x\<rfloor>")
  case True
  then show ?thesis by (metis ceiling_of_int half_even_int order_refl)
next
  case False
  then have "\<lceil>x\<rceil> = \<lfloor>x\<rfloor> + 1" by (simp add: ceiling_altdef)
  then show ?thesis by (simp add: half_even_def Let_def)
qed

lemma half_even_unique: "\<bar>x - of_int m\<bar> < 1 / 2 \<Longrightarrow> half_even x = m"
  using half_even_near [of x] by linarith

lemma magnitude_bounds:
  assumes "0 < q" and "2 \<le> b"
  shows "of_nat b powi magnitude b q \<le> q \<and> q < of_nat b powi (magnitude b q + 1)"
proof (cases "1 \<le> q")
  case True
  define n where "n = nat \<lfloor>q\<rfloor>"
  have n: "0 < n" "of_nat n \<le> q" "q < of_nat n + 1"
    using True by (simp_all add: n_def) linarith
  define l where "l = floorlog b n"
  have l: "b ^ (l - 1) \<le> n" "n + 1 \<le> b ^ l" "0 < l"
    using floorlog_bounds [of n b] floorlog_eq_zero_iff [of b n] n(1) assms(2)
    by (auto simp: l_def intro: Suc_leI gr0I)
  have "of_nat (b ^ (l - 1)) \<le> q" using l(1) n(2) by (meson of_nat_le_iff order_trans)
  moreover have "q < of_nat (b ^ l)" using l(2) n(3) by (metis of_nat_1 of_nat_add of_nat_le_iff order_less_le_trans)
  moreover have "magnitude b q = int (l - 1)" using True l(3) by (simp add: magnitude_def l_def n_def)
  moreover have "int (l - 1) + 1 = int l" using l(3) by simp
  ultimately show ?thesis by (simp flip: power_int_of_nat)
next
  case False
  define c where "c = nat (\<lceil>1 / q\<rceil> - 1)"
  have "1 < 1 / q" using False assms(1) by simp
  then have c: "0 < c" "of_nat c < 1 / q" "1 / q \<le> of_nat c + 1"
    by (simp_all add: c_def) linarith+
  define l where "l = floorlog b c"
  have l: "b ^ (l - 1) \<le> c" "c + 1 \<le> b ^ l" "0 < l"
    using floorlog_bounds [of c b] floorlog_eq_zero_iff [of b c] c(1) assms(2)
    by (auto simp: l_def intro: Suc_leI gr0I)
  have "1 / q \<le> of_nat (b ^ l)" using l(2) c(3) by (metis of_nat_1 of_nat_add of_nat_le_iff order_trans)
  then have "1 / of_nat (b ^ l) \<le> q" using assms by (simp add: field_simps)
  moreover have "of_nat (b ^ (l - 1)) < 1 / q" using l(1) c(2) by (meson of_nat_le_iff order_le_less_trans)
  then have "q < 1 / of_nat (b ^ (l - 1))" using assms by (simp add: field_simps)
  moreover have "(of_nat b :: rat) powi (- int k) = 1 / of_nat (b ^ k)" for k
    by (simp add: power_int_minus divide_inverse)
  moreover have "magnitude b q = - int l" using False by (simp add: magnitude_def l_def c_def)
  moreover have "- int l + 1 = - int (l - 1)" using l(3) by simp
  ultimately show ?thesis by metis
qed

lemma magnitude_unique:
  assumes "of_nat b powi e \<le> q" and "q < of_nat b powi (e + 1)" and "2 \<le> b"
  shows "magnitude b q = e"
proof -
  have b: "1 < (of_nat b :: rat)" using assms(3) by simp
  then have "0 < (of_nat b :: rat) powi e" by simp
  then have q: "0 < q" using assms(1) by linarith
  from magnitude_bounds [OF q assms(3)] assms(1,2)
  have "(of_nat b :: rat) powi e < of_nat b powi (magnitude b q + 1)"
    "(of_nat b :: rat) powi magnitude b q < of_nat b powi (e + 1)" by linarith+
  then have "e < magnitude b q + 1 \<and> magnitude b q < e + 1"
    by (meson b linorder_not_less order_less_imp_le power_int_increasing)
  then show ?thesis by linarith
qed

lemma round_pos_error:
  shows "\<bar>round_pos q - q\<bar> \<le> 2 powi ulp_exponent q / 2"
proof -
  let ?u = "(2 :: rat) powi ulp_exponent q"
  have "round_pos q - q = (of_int (half_even (q / ?u)) - q / ?u) * ?u"
    by (simp add: round_pos_def Let_def left_diff_distrib)
  then have "\<bar>round_pos q - q\<bar> = \<bar>of_int (half_even (q / ?u)) - q / ?u\<bar> * ?u"
    by (simp add: abs_mult)
  also have "\<dots> \<le> 1 / 2 * ?u"
    by (rule mult_right_mono [OF half_even_near]) simp
  finally show ?thesis by simp
qed

lemma magnitude_less:
  assumes "0 < q" and "q < of_nat b powi k" and "2 \<le> b"
  shows "magnitude b q < k"
proof -
  from magnitude_bounds [OF assms(1,3)] assms(2) have "(of_nat b :: rat) powi magnitude b q < of_nat b powi k"
    by linarith
  moreover have "1 < (of_nat b :: rat)" using assms(3) by simp
  ultimately show ?thesis by (meson linorder_not_less power_int_increasing order_less_imp_le)
qed

lemma magnitude_ge:
  assumes "of_nat b powi k \<le> q" and "2 \<le> b"
  shows "k \<le> magnitude b q"
proof -
  have b: "1 < (of_nat b :: rat)" using assms(2) by simp
  then have "0 < (of_nat b :: rat) powi k" by simp
  then have q: "0 < q" using assms(1) by linarith
  from magnitude_bounds [OF q assms(2)] assms(1) have "(of_nat b :: rat) powi k < of_nat b powi (magnitude b q + 1)"
    by linarith
  then have "k < magnitude b q + 1"
    by (meson b linorder_not_less power_int_increasing order_less_imp_le)
  then show ?thesis by linarith
qed

lemma round_pos_between:
  assumes "0 < q" and "q < 2 ^ 53"
  shows "of_int \<lfloor>q\<rfloor> \<le> round_pos q" and "round_pos q \<le> of_int \<lceil>q\<rceil>"
proof -
  have "magnitude 2 q < 53"
    using magnitude_less [of q 2 53] assms by (simp add: power_int_numeral)
  then have "ulp_exponent q \<le> 0" by (simp add: ulp_exponent_def)
  then obtain n where e: "ulp_exponent q = - int n" by (metis nonpos_int_cases)
  define N :: int where "N = 2 ^ n"
  have u: "(2 :: rat) powi ulp_exponent q = 1 / of_int N" and N: "0 < N"
    by (simp_all add: e N_def power_int_minus divide_inverse)
  define x where "x = q * of_int N"
  have rp: "round_pos q = of_int (half_even x) / of_int N"
    using N by (simp add: round_pos_def u x_def Let_def)
  have "\<lfloor>q\<rfloor> * N \<le> \<lfloor>x\<rfloor>" using N by (simp add: x_def le_floor_iff mult_right_mono)
  then have "\<lfloor>q\<rfloor> * N \<le> half_even x" using half_even_floor [of x] by linarith
  then have "of_int \<lfloor>q\<rfloor> * of_int N \<le> (of_int (half_even x) :: rat)" by (metis of_int_le_iff of_int_mult)
  then show "of_int \<lfloor>q\<rfloor> \<le> round_pos q" using N by (simp add: rp le_divide_eq)
  have "\<lceil>x\<rceil> \<le> \<lceil>q\<rceil> * N" using N by (simp add: x_def ceiling_le_iff mult_right_mono)
  then have "half_even x \<le> \<lceil>q\<rceil> * N" using half_even_ceiling [of x] by linarith
  then have "(of_int (half_even x) :: rat) \<le> of_int \<lceil>q\<rceil> * of_int N" by (metis of_int_le_iff of_int_mult)
  then show "round_pos q \<le> of_int \<lceil>q\<rceil>" using N by (simp add: rp divide_le_eq)
qed

lemma rnd_pos: "0 < q \<Longrightarrow> round_pos q < 2 ^ 1024 \<Longrightarrow> rnd q = Fin (round_pos q)"
  by (simp add: rnd_def Let_def del: power_numeral)

lemma rnd_small:
  assumes "0 < q" and "q < 2 ^ 53"
  shows "rnd q = Fin (round_pos q)"
proof (rule rnd_pos [OF assms(1)])
  have "\<lceil>q\<rceil> \<le> 2 ^ 53" using assms(2) by (simp add: ceiling_le_iff)
  then have "(of_int \<lceil>q\<rceil> :: rat) \<le> of_int (2 ^ 53)" by (simp only: of_int_le_iff)
  with round_pos_between(2) [OF assms] have "round_pos q \<le> of_int (2 ^ 53)" by (rule order_trans)
  then have "round_pos q \<le> 2 ^ 53" by simp
  also have "(2 :: rat) ^ 53 < 2 ^ 1024" by (rule power_strict_increasing) simp_all
  finally show "round_pos q < 2 ^ 1024" .
qed


text \<open>Rounding by the position of the number: its exponent and the nearest multiple of the unit.\<close>

lemma round_pos_eq:
  assumes "2 powi e \<le> q" and "q < 2 powi (e + 1)" and "- 1022 \<le> e"
    and "\<bar>q / 2 powi (e - 52) - of_int m\<bar> < 1 / 2"
  shows "round_pos q = of_int m * 2 powi (e - 52)"
proof -
  have "magnitude 2 q = e" by (rule magnitude_unique) (use assms in simp_all)
  then have "ulp_exponent q = e - 52" using assms(3) by (simp add: ulp_exponent_def)
  then show ?thesis using half_even_unique [OF assms(4)] by (simp add: round_pos_def)
qed

section \<open>Decimals\<close>

lemma candidate_SomeD:
  "candidate n q = Some (d, k) \<Longrightarrow> k = magnitude 10 q + 1 - int n \<and> rnd (of_int d * 10 powi k) = Fin q"
  by (auto simp: candidate_def Let_def split: if_splits)

lemma candidate_found:
  assumes "rnd (of_int d * 10 powi (magnitude 10 q + 1 - int n)) = Fin q"
    and "\<bar>q / 10 powi (magnitude 10 q + 1 - int n) - of_int d\<bar> < 1"
  shows "candidate n q \<noteq> None"
proof -
  let ?x = "q / 10 powi (magnitude 10 q + 1 - int n)"
  have "d = \<lfloor>?x\<rfloor> \<or> d = \<lfloor>?x\<rfloor> + 1" using assms(2) by linarith
  with assms(1) show ?thesis by (auto simp: candidate_def Let_def)
qed

lemma first_candidate_least:
  "n \<le> i \<Longrightarrow> i < n + m \<Longrightarrow> candidate i q \<noteq> None \<Longrightarrow>
    \<exists>j. n \<le> j \<and> j \<le> i \<and> candidate j q = Some (first_candidate n m q)"
proof (induction n m q rule: first_candidate.induct)
  case (2 n m q)
  show ?case
  proof (cases "candidate n q")
    case None
    with 2 have "Suc n \<le> i" by (metis le_antisym not_less_eq_eq option.simps(3))
    with 2 None show ?thesis by (auto simp del: first_candidate.simps simp: first_candidate.simps(2) dest: Suc_leD)
  next
    case (Some dk)
    with 2 show ?thesis by auto
  qed
qed simp

lemma strip_zeros_keeps:
  "strip_zeros d k = (d', k') \<Longrightarrow>
    k \<le> k' \<and> of_int d' * 10 powi k' = (of_int d * 10 powi k :: rat) \<and> (0 \<le> d \<longrightarrow> 0 \<le> d')"
proof (induction d k rule: strip_zeros.induct)
  case (1 d k)
  show ?case
  proof (cases "d \<noteq> 0 \<and> d mod 10 = 0")
    case True
    then have "d = d div 10 * 10" by auto
    then have "(of_int d :: rat) = of_int (d div 10) * 10" by (metis of_int_mult of_int_numeral)
    moreover have "strip_zeros (d div 10) (k + 1) = (d', k')"
      using 1(2) True strip_zeros.simps [of d k] by simp
    ultimately show ?thesis using 1(1) [OF True] by (auto simp: power_int_add)
  next
    case False
    then show ?thesis using 1(2) strip_zeros.simps [of d k] by auto
  qed
qed

lemma format_f_parts:
  assumes "0 \<le> d"
  shows "(let parts = Split (format_f d k) (CHR ''.'') in length parts = 2 \<and> 2 < length (parts ! 1)) \<longleftrightarrow> k < - 2"
proof (cases "0 \<le> k")
  case True
  have "CHR ''.'' \<notin> set (format_f d k)"
    using True assms by (simp add: format_f_def Itoa_def nat_digits_free)
  with True show ?thesis by (simp add: Split_free)
next
  case False
  define f where "f = nat (- k)"
  define s where "s = replicate (Suc f - length (Itoa d)) (CHR ''0'') @ Itoa d"
  have "format_f d k = take (length s - f) s @ CHR ''.'' # drop (length s - f) s"
    using False by (simp add: format_f_def f_def s_def Let_def)
  moreover have dot: "CHR ''.'' \<notin> set s"
    using assms by (simp add: s_def Itoa_def nat_digits_free)
  then have "CHR ''.'' \<notin> set (take n s)" and "CHR ''.'' \<notin> set (drop n s)" for n
    by (meson in_set_takeD in_set_dropD)+
  moreover have "f \<le> length s" by (simp add: s_def)
  ultimately show ?thesis using False by (simp add: Split_append_sep Split_free f_def) linarith
qed

lemma HasMore_iff:
  assumes "0 < q" and "shortest q = (d, k)" and "0 \<le> d"
  shows "HasMoreThanTwoDecimalPlaces (Fin q) \<longleftrightarrow> k < - 2"
  using assms format_f_parts [of d k]
  by (simp add: HasMoreThanTwoDecimalPlaces_def FormatFloat_def Let_def)

section \<open>Seventeen digits suffice\<close>

text \<open>A number of 53 bits as a multiple of its unit \<open>u\<close>.\<close>

lemma representable:
  assumes "rnd q = Fin q" and "2 powi (- 1022) \<le> q"
  obtains m :: int and u :: rat where "u = 2 powi (magnitude 2 q - 52)" "0 < u" "q = of_int m * u"
    "2 ^ 52 * u \<le> q" "q < 2 ^ 53 * u" "m \<le> 2 ^ 53 - 1"
proof -
  let ?e = "magnitude 2 q - 52"
  define u :: rat where "u = 2 powi ?e"
  have u: "0 < u" by (simp add: u_def)
  have "0 < (2 :: rat) powi (- 1022)" by simp
  then have q: "0 < q" using assms(2) by linarith
  have "- 1022 \<le> magnitude 2 q" using magnitude_ge [of 2 "- 1022" q] assms(2) by simp
  then have "ulp_exponent q = ?e" by (simp add: ulp_exponent_def)
  moreover have "round_pos q = q"
    using assms(1) q by (auto simp: rnd_def Let_def split: if_splits)
  ultimately have m: "q = of_int (half_even (q / u)) * u"
    by (simp add: round_pos_def u_def Let_def)
  have eq: "(2 :: rat) powi magnitude 2 q = 2 ^ 52 * u" "(2 :: rat) powi (magnitude 2 q + 1) = 2 ^ 53 * u"
    by (simp_all add: u_def power_int_diff power_int_add)
  have b: "2 ^ 52 * u \<le> q" "q < 2 ^ 53 * u"
    using magnitude_bounds [OF q, of 2] by (simp_all only: of_nat_numeral eq order_refl)
  have "of_int (half_even (q / u)) * u < 2 ^ 53 * u" using b(2) m by linarith
  then have "(of_int (half_even (q / u)) :: rat) < of_int (2 ^ 53)"
    using u by (simp only: mult_less_cancel_right_pos of_int_power of_int_numeral)
  then have "half_even (q / u) \<le> 2 ^ 53 - 1" by (simp only: of_int_less_iff)
  with that u_def u m b show ?thesis by blast
qed

text \<open>A number less than half a unit away, a quarter below a power of two, is rounded to it.\<close>

lemma rnd_close:
  assumes q: "rnd q = Fin q" "2 powi (- 1000) \<le> q" "q < 2 ^ 53"
    and u: "u = 2 powi (magnitude 2 q - 52)"
    and x: "\<bar>x - q\<bar> < u / 2" "x < 2 ^ 52 * u \<Longrightarrow> \<bar>x - q\<bar> < u / 4"
  shows "rnd x = Fin q"
proof -
  have "(2 :: rat) powi (- 1022) \<le> 2 powi (- 1000)" by (rule power_int_increasing) simp_all
  then have "2 powi (- 1022) \<le> q" using q(2) by linarith
  from representable [OF q(1) this] obtain m where m: "0 < u" "q = of_int m * u"
    "2 ^ 52 * u \<le> q" "q < 2 ^ 53 * u" "m \<le> 2 ^ 53 - 1" unfolding u by metis
  let ?e = "magnitude 2 q - 52"
  have "- 1000 \<le> magnitude 2 q" using magnitude_ge [of 2 "- 1000" q] q(2) by simp
  then have e: "- 1052 \<le> ?e" by linarith
  have x1: "x < q + u / 2" "q < x + u / 2" using x(1) [unfolded abs_less_iff] by linarith+
  have xpos: "0 < x" using x1(2) m(1,3) by simp
  have "q < 2 ^ 1024"
    using q(3) power_strict_increasing [of 53 1024 "2 :: rat"] by linarith
  have finish: "rnd x = Fin q" if "round_pos x = q"
    using rnd_pos [OF xpos] that \<open>q < 2 ^ 1024\<close> by simp
  have p: "(2 :: rat) powi (?e + 51) = 2 ^ 51 * u" "(2 :: rat) powi (?e + 51 + 1) = 2 ^ 52 * u"
    "(2 :: rat) powi (?e + 52) = 2 ^ 52 * u" "(2 :: rat) powi (?e + 52 + 1) = 2 ^ 53 * u"
    "(2 :: rat) powi (?e - 1) = u / 2"
    by (simp_all add: u power_int_add power_int_diff)
  show ?thesis
  proof (cases "2 ^ 52 * u \<le> x")
    case True
    have "(of_int m :: rat) \<le> of_int (2 ^ 53 - 1)" using m(5) by (simp only: of_int_le_iff)
    then have "q \<le> (2 ^ 53 - 1) * u" using m(1) unfolding m(2) by (intro mult_right_mono) simp_all
    then have "x < 2 ^ 53 * u" using x1(1) m(1) by (simp add: left_diff_distrib)
    with True have "magnitude 2 x = ?e + 52" by (intro magnitude_unique) (simp_all only: of_nat_numeral p order_refl)
    then have ue: "ulp_exponent x = ?e" using e by (simp add: ulp_exponent_def)
    have "x / u - of_int m = (x - q) / u" using m(1) by (simp add: m(2) diff_divide_distrib)
    then have "\<bar>x / u - of_int m\<bar> = \<bar>x - q\<bar> / u" using m(1) by (simp add: abs_divide)
    also have "\<dots> < 1 / 2" using x(1) m(1) by (simp add: divide_less_eq)
    finally have "half_even (x / u) = m" by (rule half_even_unique)
    moreover have "round_pos x = of_int (half_even (x / u)) * u" by (simp only: round_pos_def ue Let_def u)
    ultimately have "round_pos x = q" by (simp only: m(2))
    then show ?thesis by (rule finish)
  next
    case False
    then have x4: "\<bar>x - q\<bar> < u / 4" using x(2) by linarith
    from x4 [unfolded abs_less_iff] have "q < x + u / 4" by linarith
    then have "2 ^ 51 * u \<le> x" using m(1,3) by simp
    with False have "magnitude 2 x = ?e + 51" by (intro magnitude_unique) (simp_all only: of_nat_numeral p order_refl)
    then have ue: "ulp_exponent x = ?e - 1" using e by (simp add: ulp_exponent_def)
    have "x / (u / 2) - of_int (2 * m) = (x - q) / (u / 2)" using m(1) by (simp add: m(2) diff_divide_distrib)
    then have "\<bar>x / (u / 2) - of_int (2 * m)\<bar> = \<bar>x - q\<bar> / (u / 2)"
      using m(1) by (simp only: abs_divide)
    also have "\<dots> < 1 / 2" using x4 m(1) by (simp add: divide_less_eq)
    finally have "half_even (x / (u / 2)) = 2 * m" by (rule half_even_unique)
    moreover have "round_pos x = of_int (half_even (x / (u / 2))) * (u / 2)" by (simp only: round_pos_def ue Let_def p(5))
    ultimately have "round_pos x = q" by (simp add: m(2))
    then show ?thesis by (rule finish)
  qed
qed

lemma candidate_17:
  assumes "rnd q = Fin q" and "2 powi (- 1000) \<le> q" and "q < 2 ^ 53"
  shows "candidate 17 q \<noteq> None"
proof -
  have "(2 :: rat) powi (- 1022) \<le> 2 powi (- 1000)" by (rule power_int_increasing) simp_all
  then have "2 powi (- 1022) \<le> q" using assms(2) by linarith
  from representable [OF assms(1) this] obtain m and u :: rat where u: "u = 2 powi (magnitude 2 q - 52)" "0 < u"
    and m: "q = of_int m * u" "2 ^ 52 * u \<le> q" "q < 2 ^ 53 * u" by metis
  have q: "0 < q" using u(2) m(2) by simp
  define U :: rat where "U = 10 powi (magnitude 10 q - 16)"
  have U: "0 < U" by (simp add: U_def)
  have "10 ^ 16 * U = 10 powi magnitude 10 q" by (simp add: U_def power_int_diff)
  then have Uq: "10 ^ 16 * U \<le> q" using magnitude_bounds [OF q, of 10] by simp
  define d where "d = \<lfloor>q / U + 1 / 2\<rfloor>"
  have "of_int d \<le> q / U + 1 / 2" and "q / U + 1 / 2 < of_int d + 1"
    unfolding d_def by linarith+
  then have d: "\<bar>q / U - of_int d\<bar> \<le> 1 / 2" unfolding abs_le_iff by linarith
  have "of_int d * U - q = (of_int d - q / U) * U" using U by (simp add: left_diff_distrib)
  then have "\<bar>of_int d * U - q\<bar> = \<bar>q / U - of_int d\<bar> * U" using U by (simp add: abs_mult abs_minus_commute)
  also have "\<dots> \<le> 1 / 2 * U" using d U by (intro mult_right_mono) simp_all
  finally have err: "\<bar>of_int d * U - q\<bar> \<le> U / 2" by simp
  have "rnd (of_int d * U) = Fin q"
  proof (rule rnd_close [OF assms u(1)])
    show "\<bar>of_int d * U - q\<bar> < u / 2" using err Uq m(3) U by simp
    assume low: "of_int d * U < 2 ^ 52 * u"
    have "q \<le> of_int d * U + U / 2" using err [unfolded abs_le_iff] by linarith
    then have "q < (2 ^ 52 + 1) * u" using low Uq m(3) U by (simp add: algebra_simps)
    then have "(of_int m :: rat) < of_int (2 ^ 52 + 1)"
      using u(2) unfolding m(1) by (simp only: mult_less_cancel_right_pos of_int_add of_int_power of_int_numeral of_int_1)
    then have "m \<le> 2 ^ 52" by (simp only: of_int_less_iff)
    then have "(of_int m :: rat) \<le> of_int (2 ^ 52)" by (simp only: of_int_le_iff)
    then have "q \<le> 2 ^ 52 * u" using u(2) unfolding m(1) by (intro mult_right_mono) simp_all
    then show "\<bar>of_int d * U - q\<bar> < u / 4" using err Uq U by simp
  qed
  moreover have "U = 10 powi (magnitude 10 q + 1 - int 17)" by (simp add: U_def)
  ultimately show ?thesis using d by (intro candidate_found [where d = d]) simp_all
qed

lemma rnd_Fin_pos:
  assumes "rnd x = Fin q" and "0 < q"
  shows "0 < x \<and> round_pos x = q"
proof -
  have "0 \<le> round_pos \<bar>x\<bar>" if "x \<noteq> 0"
  proof -
    have "0 \<le> \<lfloor>\<bar>x\<bar> / 2 powi ulp_exponent \<bar>x\<bar>\<rfloor>" by simp
    then have "0 \<le> half_even (\<bar>x\<bar> / 2 powi ulp_exponent \<bar>x\<bar>)" using half_even_floor order_trans by blast
    then show ?thesis by (simp add: round_pos_def Let_def)
  qed
  with assms show ?thesis by (auto simp: rnd_def Let_def split: if_splits)
qed

text \<open>A decimal that is rounded to a number of moderate size is within a hundredth of it.\<close>

lemma hundredth_near:
  assumes "rnd x = Fin q" and "0 < q" and "q < 2 ^ 46"
  shows "\<bar>100 * q - 100 * x\<bar> < 1"
proof -
  from rnd_Fin_pos [OF assms(1,2)] have x: "0 < x" "round_pos x = q" by simp_all
  have "x < 2 ^ 47"
  proof (cases "x < 2 ^ 53")
    case True
    from round_pos_between(1) [OF x(1) True] have "of_int \<lfloor>x\<rfloor> \<le> q" by (simp add: x(2))
    moreover have "x < of_int \<lfloor>x\<rfloor> + 1" by linarith
    ultimately show ?thesis using assms(3) by simp
  next
    case False
    then have "53 \<le> magnitude 2 x" using magnitude_ge [of 2 53 x] by simp
    then have "ulp_exponent x = magnitude 2 x - 52" by (simp add: ulp_exponent_def)
    define w :: rat where "w = 2 powi ulp_exponent x"
    have "w * 2 ^ 52 = 2 powi magnitude 2 x" by (simp add: w_def \<open>ulp_exponent x = _\<close> power_int_diff)
    then have "w * 2 ^ 52 \<le> x" using magnitude_bounds [OF x(1), of 2] by simp
    moreover have "x - q \<le> w / 2" using round_pos_error [of x] unfolding x(2) abs_le_iff w_def by linarith
    moreover have "0 < w" by (simp add: w_def)
    ultimately have "x / 2 \<le> q" by simp
    then show ?thesis using False assms(3) by simp
  qed
  then have "magnitude 2 x < 47" using magnitude_less [OF x(1), of 2 47] by simp
  then have "ulp_exponent x \<le> - 6" by (simp add: ulp_exponent_def)
  then have "(2 :: rat) powi ulp_exponent x \<le> 2 powi (- 6)" by (intro power_int_increasing) simp_all
  also have "(2 :: rat) powi (- 6) = 1 / 64" by (simp add: power_int_minus)
  finally have "\<bar>q - x\<bar> \<le> 1 / 128" using round_pos_error [of x] by (simp add: x(2))
  then show ?thesis unfolding abs_le_iff abs_less_iff by linarith
qed

lemma candidate_nonneg: "0 < q \<Longrightarrow> candidate n q = Some (d, k) \<Longrightarrow> 0 \<le> d"
  by (auto simp: candidate_def Let_def split: if_splits intro!: add_nonneg_nonneg)


section \<open>Properties\<close>


text \<open>
  C37. For a number of 53 bits between 1/50 and 2 ^ 46, \<open>HasMoreThanTwoDecimalPlaces\<close> is false exactly when
  the number is the nearest to some \<open>j / 100\<close>: a number that was read from a text with at most two
  decimals never counts as having more, and every other number does.
\<close>

theorem HasMoreThanTwoDecimalPlaces_iff:
  assumes "rnd q = Fin q" and "1 / 50 \<le> q" and "q < 2 ^ 46"
  shows "HasMoreThanTwoDecimalPlaces (Fin q) \<longleftrightarrow> \<not> (\<exists>j. rnd (of_int j / 100) = Fin q)"
proof -
  have q: "0 < q" using assms(2) by simp
  have "(2 :: rat) powi (- 1000) \<le> 2 powi (- 6)" by (rule power_int_increasing) simp_all
  also have "(2 :: rat) powi (- 6) = 1 / 64" by (simp add: power_int_minus)
  finally have "candidate 17 q \<noteq> None"
    using assms by (intro candidate_17) simp_all
  from first_candidate_least [OF _ _ this, of 1 17] obtain j0 d k where
    f: "first_candidate 1 17 q = (d, k)" "candidate j0 q = Some (d, k)"
    by (metis One_nat_def Suc_leI add.commute lessI less_add_same_cancel2 numeral_eq_Suc prod.exhaust zero_less_Suc)
  obtain d' k' where s: "strip_zeros d k = (d', k')" by (metis prod.exhaust)
  from strip_zeros_keeps [OF s] candidate_nonneg [OF q f(2)] have d': "k \<le> k'" "0 \<le> d'"
    "of_int d' * 10 powi k' = (of_int d * 10 powi k :: rat)" by simp_all
  have more: "HasMoreThanTwoDecimalPlaces (Fin q) \<longleftrightarrow> k' < - 2"
    using HasMore_iff [OF q _ d'(2)] f(1) s by (simp add: shortest_def)
  have "\<exists>j. rnd (of_int j / 100) = Fin q" if "- 2 \<le> k'"
  proof -
    define m where "m = nat (k' + 2)"
    have k': "k' = int m - 2" using that by (simp add: m_def)
    have "of_int (d' * 10 ^ m) / 100 = (of_int d' * 10 powi k' :: rat)"
      by (simp add: k' power_int_diff)
    then have "of_int (d' * 10 ^ m) / 100 = (of_int d * 10 powi k :: rat)"
      using d'(3) by (rule trans)
    moreover have "rnd (of_int d * 10 powi k) = Fin q"
      using candidate_SomeD [OF f(2)] by (rule conjunct2)
    ultimately have "rnd (of_int (d' * 10 ^ m) / 100) = Fin q" by (rule ssubst)
    then show ?thesis by blast
  qed
  moreover have "- 2 \<le> k'" if j: "rnd (of_int j / 100) = Fin q" for j
  proof -
    define n where "n = nat (magnitude 10 q + 3)"
    have "(10 :: rat) powi (- 2) \<le> q" using assms(2) by (simp add: power_int_minus)
    then have lo: "- 2 \<le> magnitude 10 q" using magnitude_ge [of 10 "- 2" q] by simp
    have "magnitude 10 q < 14" using magnitude_less [OF q, of 10 14] assms(3) by simp
    with lo have n: "1 \<le> n" "n < 1 + 17" "magnitude 10 q + 1 - int n = - 2" by (simp_all add: n_def)
    have "q / 10 powi (- 2) = 100 * q" "(of_int j :: rat) * 10 powi (- 2) = of_int j / 100"
      by (simp_all add: power_int_minus)
    with hundredth_near [OF j q assms(3)] j
    have "rnd (of_int j * 10 powi (- 2)) = Fin q" "\<bar>q / 10 powi (- 2) - of_int j\<bar> < 1" by simp_all
    then have "candidate n q \<noteq> None" unfolding n(3) [symmetric] by (rule candidate_found)
    from first_candidate_least [OF n(1,2) this] f(1) obtain i where "i \<le> n" "candidate i q = Some (d, k)"
      by auto
    with candidate_SomeD [of i q d k] n(3) have "- 2 \<le> k" by linarith
    with d'(1) show ?thesis by linarith
  qed
  ultimately show ?thesis using more by (meson linorder_not_less)
qed


theorem HasMoreThanTwoDecimalPlaces_iff_witness:
  "\<not> HasMoreThanTwoDecimalPlaces (Fin (1 / 2)) \<and> rnd (1 / 2) = Fin (1 / 2)"
proof -
  have "round_pos (1 / 2) = 1 / 2"
    by (subst round_pos_eq [of "- 1" _ "2 ^ 52"]) (simp_all add: power_int_minus)
  then have r: "rnd (1 / 2) = Fin (1 / 2)" using rnd_small [of "1 / 2"] by simp
  then have "rnd (of_int 50 / 100) = Fin (1 / 2)" by simp
  then have "\<exists>j. rnd (of_int j / 100) = Fin (1 / 2)" by (rule exI)
  then show ?thesis using HasMoreThanTwoDecimalPlaces_iff [OF r] r by simp
qed

end
