(* ===== verification/Spec2Isabelle.thy ===== *)
theory Spec2Isabelle
  imports GroupTree KubernetesLaws OpenstackVersions Devices Zip Password Email Aws Ipmi RancherLaws Helm
    SshLaws Mongo Harbor Influx Terraform Slack Log FloatMath
begin

text \<open>
  A model of bigstack-dependency-go, the Go module of helpers through which the other programs of its
  owner reach the services of a cloud. Every package under \<^verbatim>\<open>src/pkg\<close> wraps one client library: it has an
  \<open>Options\<close> struct with functional options, a \<open>Helper\<close> that embeds the client, \<open>NewHelper\<close>, a
  once-only global helper, and the operations. The packages share no state; rancher uses http, and
  most use wait for their deadlines.

  What is a model and what is a parameter. The code of the module is translated definition by
  definition, with every branch, error and panic. A client library (gocloak, client-go, gophercloud, the
  AWS, Helm, Mongo, Harbor and Slack SDKs, go-mail, crypto/ssh, resty, terraform-exec, zap), a
  command that is run and the file system are parameters: records of functions of type
  \<open>('w, 'a) state\<close> over an arbitrary world \<open>'w\<close>, so that the properties hold for every behaviour of
  theirs that the hypotheses allow. What the code uses of Go's standard library is defined.

  \<^item> \<open>Prelude\<close>: values, errors with their chains, panics as \<open>outcome\<close>, nil pointers as \<open>option\<close>; the
    locales \<open>func_options\<close> (options are applied in order over the defaults, the last writer of a field
    decides) and \<open>global_helper\<close> (\<open>sync.Once\<close>), interpreted in each package on its own definitions.
  \<^item> \<open>Loops\<close>: the locales of the loop idioms, \<open>bounded_retry\<close>, \<open>stop_at_error\<close>, \<open>first_match\<close> and
    \<open>page_loop\<close>, with their laws proved once; the retries of kubernetes, email and rancher, the
    loops over bindings, classes, documents and inline parts, the searches of openstack and the
    listings of keycloak are interpretations.
  \<^item> \<open>GoStrings\<close>, \<open>GoUrl\<close>, \<open>Wait\<close>: packages strings, strconv, bufio (with the 64 KiB limit of a line),
    encoding/json and net/url as far as they are used; durations as 64-bit words that wrap around, and
    contexts by their deadlines (\<^verbatim>\<open>wait/wait.go\<close>).
  \<^item> \<open>Keycloak\<close>, \<open>KeycloakGroups\<close>, \<open>GroupTree\<close>: package keycloak. \<open>Keycloak\<close> has the two helpers, the
    logins and the calls on users, clients and roles; \<open>KeycloakGroups\<close> the paginated listings and
    the walks along a path of groups; \<open>GroupTree\<close> states what the walks promise against a server that
    keeps a tree of groups (the abstract specification: \<open>locate\<close>, \<open>grows\<close>).
  \<^item> \<open>Kubernetes\<close>, \<open>KubernetesOps\<close>, \<open>KubernetesLaws\<close>: package kubernetes, its connection, its operations
    and what they promise: budgets of retries, the uniqueness of the default storage class, exactly
    which bindings are deleted, the order in which documents are applied.
  \<^item> \<open>OpenstackConf\<close>, \<open>OpenstackApi\<close>, \<open>OpenstackLaws\<close>, \<open>OpenstackVersions\<close>, \<open>Devices\<close>: packages
    openstack v1 and v2. \<open>OpenstackConf\<close> reads options, the environment and openrc files,
    \<open>OpenstackApi\<close> has the nine service clients and the operations; the other theories hold the laws,
    the agreement of the two versions on openrc files, and the accelerator devices.
  \<^item> \<open>Aws\<close>: package aws, with the deletion of a network against a service that refuses to delete what
    others depend on: exactly which networks it deletes, and that it fails on the others.
  \<^item> \<open>Zip\<close>, \<open>Password\<close>, \<open>Email\<close>, \<open>Ipmi\<close>, \<open>Helm\<close>: extraction with its path check over path/filepath; key
    derivation, base64 and encryption; both versions of email; the output of ipmitool; releases.
  \<^item> \<open>Http\<close>, \<open>RancherTypes\<close>, \<open>Rancher\<close>, \<open>RancherLaws\<close>: the REST client and its status code classes,
    the structs of Rancher's requests and answers with their JSON encoding, the requests and the
    three polls, and what both packages together put into every request.
  \<^item> \<open>Ssh\<close>, \<open>SshLaws\<close>: connecting, running, copying and closing; a sequence of operations is the
    inductive relation \<open>ssh_trace\<close>, over which the laws are proved by rule induction. Interfaces that
    hold a nil pointer are told apart from nil interfaces.
  \<^item> \<open>Mongo\<close>, \<open>Harbor\<close>, \<open>Influx\<close>, \<open>Terraform\<close>, \<open>Slack\<close>, \<open>Log\<close>: the packages of these names.
  \<^item> \<open>FloatMath\<close>: package math. A \<open>float64\<close> is a rational number, an infinity or NaN, and every
    operation rounds its exact result to 53 bits, ties to even; \<^verbatim>\<open>math.Pow\<close> is a parameter and
    \<^verbatim>\<open>strconv.FormatFloat\<close> is the shortest decimal that is read back as the same number. Seventeen
    digits are enough for it in the range of the property (\<open>candidate_17\<close>), so the search is not cut short.

  Bounds and fuel. Loops over a slice and retries with a budget are structural recursions. The
  listings of keycloak have no bound in the code: they are \<open>partial_function (option)\<close>, with \<open>None\<close> for
  a call that does not return; that they return is proved for a server that respects the window, and
  when the listing of groups returns, for any server, is \<open>GetGroups_returns_iff\<close>. No definition has fuel. The retry and page
  counters are mathematical integers: they start at zero and the budgets that bound them are far
  below the range of Go's \<open>int\<close>. Durations are 64-bit words.

  Conventions. Strings are sequences of bytes; byte-wise functions are exact for every text, case
  folding and quoting for ASCII texts. The zero value stands for the results a caller may not use
  beside an error. Structs of an SDK that the code only passes on are JSON trees. A cancelled context
  has no effect on calls that have returned, so \<open>cancel\<close> is left out, except where it is returned.

  Limits of the models. The properties of the walks along groups are about a legacy Keycloak, whose
  groups are shown with their subgroups; the comment of \<^verbatim>\<open>findChildGroup\<close> says what happens since version
  23. The calls of gophercloud take the service client as a value that may be nil and answer for
  themselves: a panic of theirs on a nil client, such as a DNS call on a helper made without DNS, is
  not modelled. An action of Helm is given the settings at the time it runs, which it shares with the helper.
  \<^verbatim>\<open>math.Pow\<close> is assumed exact where \<open>RoundDown\<close> uses it.

  Not modelled. What is written to the log, which no caller can observe. Concurrency: \<open>sync.Once\<close> is modelled for calls one after the other; the module starts no
  goroutine, and the leader election of kubernetes is a call into its library. Tests and the generated
  mock of keycloak.
\<close>

end
